(* ===== verification/Prelude.thy ===== *)
theory Prelude
  imports "HOL-Library.State_Monad"
begin

text \<open>
  Shared vocabulary of the development. Go code that reads or writes the outside world
  is a program of the state monad of HOL-Library; a Go result \<open>(x, err)\<close> is a value of a
  sum type with \<open>Inl\<close> for a non-nil \<open>err\<close>. This theory holds the generic lemmas about
  such programs and about the row lists that stand for tables:
  \<^item> \<open>step_order\<close>: two-state properties (preorders on states) are inherited by
    sequencing and branching, so a property of every primitive step is a property of a
    whole handler;
  \<^item> \<open>rowid_table\<close>: a table whose rows carry ascending row ids, as SQLite assigns them.
\<close>

named_theorems decode_simps "definitions unfolded when a handler is evaluated"
named_theorems step_intros "rules that follow the shape of a program"

abbreviation ret :: "'a \<Rightarrow> ('w, 'a) state" where
  "ret \<equiv> State_Monad.return"

abbreviation modify :: "('w \<Rightarrow> 'w) \<Rightarrow> ('w, unit) state" where
  "modify f \<equiv> State (\<lambda>w. ((), f w))"

section \<open>Two-state properties of programs\<close>

text \<open>
  A preorder on states read as "every step moves along it". The rules below mirror the
  constructs the handlers are written with.
\<close>

locale step_order =
  fixes R :: "'w \<Rightarrow> 'w \<Rightarrow> bool"
  assumes step_refl: "R w w"
    and step_trans: "R u v \<Longrightarrow> R v w \<Longrightarrow> R u w"
begin

lemma io_ret [step_intros, intro]: "state_io_rel R (ret x)"
  by (simp add: state_io_rel_def step_refl)

lemma io_bind [step_intros, intro]:
  assumes "state_io_rel R m" and "\<And>x. state_io_rel R (f x)"
  shows "state_io_rel R (State_Monad.bind m f)"
  using assms unfolding state_io_rel_def
  by (auto split: prod.splits) (metis snd_conv step_trans)

lemma io_bind_result:
  assumes "state_io_rel R m" and "\<And>x w w'. run_state m w = (x, w') \<Longrightarrow> state_io_rel R (f x)"
  shows "state_io_rel R (State_Monad.bind m f)"
  unfolding state_io_rel_def
proof
  fix w
  obtain x w' where m: "run_state m w = (x, w')" by fastforce
  from assms(1) m have "R w w'" by (metis snd_conv state_io_rel_def)
  moreover have "R w' (snd (run_state (f x) w'))"
    using assms(2) [OF m] by (simp add: state_io_rel_def)
  ultimately show "R w (snd (run_state (State_Monad.bind m f) w))"
    using m by (auto intro: step_trans)
qed

lemma io_if [step_intros, intro]:
  assumes "b \<Longrightarrow> state_io_rel R m" and "\<not> b \<Longrightarrow> state_io_rel R n"
  shows "state_io_rel R (if b then m else n)"
  using assms by simp

lemma io_sum [step_intros, intro]:
  assumes "\<And>x. v = Inl x \<Longrightarrow> state_io_rel R (f x)" and "\<And>y. v = Inr y \<Longrightarrow> state_io_rel R (g y)"
  shows "state_io_rel R (case v of Inl x \<Rightarrow> f x | Inr y \<Rightarrow> g y)"
  using assms by (cases v) auto

lemma io_option [step_intros, intro]:
  assumes "v = None \<Longrightarrow> state_io_rel R f" and "\<And>y. v = Some y \<Longrightarrow> state_io_rel R (g y)"
  shows "state_io_rel R (case v of None \<Rightarrow> f | Some y \<Rightarrow> g y)"
  using assms by (cases v) auto

lemma io_prod [step_intros, intro]:
  assumes "\<And>x y. v = (x, y) \<Longrightarrow> state_io_rel R (f x y)"
  shows "state_io_rel R (case v of (x, y) \<Rightarrow> f x y)"
  using assms by (cases v) auto

lemma io_let [step_intros, intro]:
  assumes "state_io_rel R (f x)"
  shows "state_io_rel R (let y = x in f y)"
  using assms by simp

lemma io_modify: "(\<And>w. R w (f w)) \<Longrightarrow> state_io_rel R (modify f)"
  by (simp add: state_io_rel_def)

end

section \<open>Tables with ascending row ids\<close>

text \<open>
  SQLite gives a new row of a table with an INTEGER PRIMARY KEY the id one past the
  greatest id in use (1 in an empty table). Rows are kept in the order of insertion.
\<close>

definition next_rowid :: "('r \<Rightarrow> int) \<Rightarrow> 'r list \<Rightarrow> int" where
  "next_rowid rid rows = foldr (\<lambda>r m. max (rid r) m) rows 0 + 1"

definition rowids_ok :: "('r \<Rightarrow> int) \<Rightarrow> 'r list \<Rightarrow> bool" where
  "rowids_ok rid rows \<longleftrightarrow> sorted_wrt (<) (map rid rows) \<and> (\<forall>r \<in> set rows. 0 < rid r)"

locale rowid_table =
  fixes rid :: "'r \<Rightarrow> int"
begin

lemma next_rowid_gt: "r \<in> set rows \<Longrightarrow> rid r < next_rowid rid rows"
  by (induction rows) (auto simp: next_rowid_def)

lemma next_rowid_pos: "0 < next_rowid rid rows"
  by (induction rows) (auto simp: next_rowid_def)

lemma next_rowid_fresh: "next_rowid rid rows \<notin> rid ` set rows"
  using next_rowid_gt by fastforce

lemma rowids_ok_Nil: "rowids_ok rid []"
  by (simp add: rowids_ok_def)

lemma rowids_ok_append:
  assumes "rowids_ok rid rows" and "rid r = next_rowid rid rows"
  shows "rowids_ok rid (rows @ [r])"
  using assms next_rowid_gt [of _ rows] next_rowid_pos [of rows]
  by (auto simp: rowids_ok_def sorted_wrt_append)

lemma rowids_ok_map:
  assumes "rowids_ok rid rows" and "\<And>r. rid (f r) = rid r"
  shows "rowids_ok rid (map f rows)"
  using assms by (simp add: rowids_ok_def o_def)

lemma rowids_ok_filter: "rowids_ok rid rows \<Longrightarrow> rowids_ok rid (filter P rows)"
  by (induction rows) (auto simp: rowids_ok_def)

lemma rowids_ok_inj: "rowids_ok rid rows \<Longrightarrow> distinct (map rid rows)"
  by (auto simp: rowids_ok_def strict_sorted_iff)

lemma rowids_ok_unique:
  assumes "rowids_ok rid rows" and "r \<in> set rows" and "q \<in> set rows" and "rid r = rid q"
  shows "r = q"
  using rowids_ok_inj [OF assms(1)] assms(2-4) by (metis distinct_map inj_onD)

text \<open>\<open>ORDER BY id\<close> is the order of insertion.\<close>

lemma sort_rowid: "rowids_ok rid rows \<Longrightarrow> sort_key rid rows = rows"
  by (rule sort_key_id_if_sorted)
    (auto simp: rowids_ok_def intro: sorted_wrt_mono_rel [of _ "(<)"])

lemma sort_rowid_filter: "rowids_ok rid rows \<Longrightarrow> sort_key rid (filter P rows) = filter P rows"
  by (intro sort_rowid rowids_ok_filter)

end

section \<open>Lists and options\<close>

lemma find_Some_mem: "find P xs = Some x \<Longrightarrow> x \<in> set xs \<and> P x"
  by (auto simp: find_Some_iff)

lemma find_append: "find P (xs @ ys) = (case find P xs of None \<Rightarrow> find P ys | Some x \<Rightarrow> Some x)"
  by (induction xs) auto

lemma find_map_fun: "find P (map f xs) = map_option f (find (P \<circ> f) xs)"
  by (induction xs) auto

lemma distinct_map_unique:
  assumes "distinct (map k xs)" and "x \<in> set xs" and "y \<in> set xs" and "k x = k y"
  shows "x = y"
  using assms by (metis distinct_map inj_onD)

lemma find_key:
  assumes "distinct (map k xs)" and "x \<in> set xs"
  shows "find (\<lambda>y. k y = k x) xs = Some x"
  using assms by (induction xs) auto

end
