(* ===== verification/GoStrings.thy ===== *)
theory GoStrings
  imports Prelude "HOL-Library.Char_ord" "HOL-Library.List_Lexorder" "HOL-Library.Sublist"
begin

text \<open>
  The parts of Go's strings, strconv and encoding/hex packages the program uses. A Go
  string is a sequence of bytes, so it is a list of characters (each one byte) here, and
  text outside ASCII appears as its UTF-8 bytes.
\<close>

abbreviation ord :: "char \<Rightarrow> nat" where
  "ord c \<equiv> of_char c"

definition byte :: "nat \<Rightarrow> char" where
  "byte n = char_of n"

section \<open>strings.TrimSpace\<close>

text \<open>The UTF-8 encodings of the runes for which \<open>unicode.IsSpace\<close> holds.\<close>

definition space_runes :: "string list" where
  "space_runes = map (map byte)
     ([[9], [10], [11], [12], [13], [32], [194, 133], [194, 160], [225, 154, 128]] @
      map (\<lambda>n. [226, 128, n]) [128, 129, 130, 131, 132, 133, 134, 135, 136, 137, 138, 168, 169, 175] @
      [[226, 129, 159], [227, 128, 128]])"

function strip :: "string list \<Rightarrow> string \<Rightarrow> string" where
  "strip pats s =
     (case find (\<lambda>p. p \<noteq> [] \<and> take (length p) s = p) pats of
        None \<Rightarrow> s
      | Some p \<Rightarrow> strip pats (drop (length p) s))"
  by pat_completeness auto
termination
proof (relation "measure (length \<circ> snd)", goal_cases)
  case (2 pats s p)
  then have "p \<noteq> []" and "take (length p) s = p"
    by (auto dest: find_Some_mem)
  then show ?case by (cases s) auto
qed simp

declare strip.simps [simp del]

definition TrimSpace :: "string \<Rightarrow> string" where
  "TrimSpace s = rev (strip (map rev space_runes) (rev (strip space_runes s)))"

lemma strip_suffix: "suffix (strip pats s) s"
proof (induction pats s rule: strip.induct)
  case (1 pats s)
  show ?case
  proof (cases "find (\<lambda>p. p \<noteq> [] \<and> take (length p) s = p) pats")
    case None
    then show ?thesis by (simp add: strip.simps)
  next
    case (Some p)
    then have "suffix (strip pats (drop (length p) s)) (drop (length p) s)"
      by (rule "1.IH")
    with Some show ?thesis
      by (simp add: strip.simps [of pats s]) (meson suffix_drop suffix_order.trans)
  qed
qed

definition stripped :: "string list \<Rightarrow> string \<Rightarrow> bool" where
  "stripped pats s \<longleftrightarrow> find (\<lambda>p. p \<noteq> [] \<and> take (length p) s = p) pats = None"

lemma strip_stripped: "stripped pats (strip pats s)"
proof (induction pats s rule: strip.induct)
  case (1 pats s)
  then show ?case
    by (cases "find (\<lambda>p. p \<noteq> [] \<and> take (length p) s = p) pats")
      (simp_all add: stripped_def strip.simps [of pats s])
qed

lemma strip_id: "stripped pats s \<Longrightarrow> strip pats s = s"
  by (simp add: stripped_def strip.simps)

lemma stripped_prefix:
  assumes "stripped pats s" and "prefix t s"
  shows "stripped pats t"
proof -
  have "take (length p) s = p" if "take (length p) t = p" for p
  proof -
    from that have "length p \<le> length t" by (metis length_take min.cobounded1)
    with that assms(2) show ?thesis by (auto simp: prefix_def)
  qed
  then show ?thesis
    using assms(1) by (auto simp: stripped_def find_None_iff)
qed

text \<open>Trimming twice is trimming once.\<close>

lemma TrimSpace_idem: "TrimSpace (TrimSpace s) = TrimSpace s"
proof -
  let ?l = "strip space_runes s"
  let ?t = "TrimSpace s"
  have "suffix (rev ?t) (rev ?l)"
    by (simp add: TrimSpace_def strip_suffix)
  then have "prefix ?t ?l"
    by (simp add: suffix_to_prefix)
  then have left: "strip space_runes ?t = ?t"
    by (meson strip_id strip_stripped stripped_prefix)
  have "strip (map rev space_runes) (rev ?t) = rev ?t"
    by (simp add: TrimSpace_def strip_id strip_stripped)
  with left show ?thesis by (simp add: TrimSpace_def)
qed

text \<open>Visible ASCII text has nothing to trim.\<close>

definition plain_text :: "string \<Rightarrow> bool" where
  "plain_text s \<longleftrightarrow> list_all (\<lambda>c. 32 < ord c \<and> ord c < 127) s"

lemma space_runes_invisible: "p \<in> set space_runes \<Longrightarrow> c \<in> set p \<Longrightarrow> \<not> (32 < ord c \<and> ord c < 127)"
proof -
  have "list_all (list_all (\<lambda>c. \<not> (32 < ord c \<and> ord c < 127))) space_runes" by code_simp
  then show "p \<in> set space_runes \<Longrightarrow> c \<in> set p \<Longrightarrow> \<not> (32 < ord c \<and> ord c < 127)"
    by (auto simp: list_all_iff)
qed

lemma plain_stripped:
  assumes "list_all (\<lambda>c. 32 < ord c \<and> ord c < 127) s" and "set ` set pats = set ` set space_runes"
  shows "stripped pats s"
proof -
  have "take (length p) s \<noteq> p" if p: "p \<in> set pats" "p \<noteq> []" for p
  proof
    assume "take (length p) s = p"
    with p(2) obtain c where c: "c \<in> set p" "c \<in> set s" by (metis in_set_takeD last_in_set)
    from p(1) assms(2) obtain q where "q \<in> set space_runes" "set q = set p" by (metis image_eqI image_iff)
    with c assms(1) space_runes_invisible show False by (auto simp: list_all_iff)
  qed
  then show ?thesis by (auto simp: stripped_def find_None_iff)
qed

lemma TrimSpace_plain: "plain_text s \<Longrightarrow> TrimSpace s = s"
proof -
  assume "plain_text s"
  then have "stripped space_runes s" and "stripped (map rev space_runes) (rev s)"
    by (auto intro!: plain_stripped simp: plain_text_def image_image)
  then show ?thesis by (simp add: TrimSpace_def strip_id)
qed

section \<open>strings.ToLower\<close>

text \<open>
  \<open>ToLower\<close> has an ASCII case, modelled in full; text with a byte outside ASCII goes
  through Go's Unicode tables, the parameter \<open>uni\<close>.
\<close>

definition lower_byte :: "char \<Rightarrow> char" where
  "lower_byte c = (if 65 \<le> ord c \<and> ord c \<le> 90 then byte (ord c + 32) else c)"

definition is_ascii :: "string \<Rightarrow> bool" where
  "is_ascii s \<longleftrightarrow> list_all (\<lambda>c. ord c < 128) s"

definition ToLower :: "(string \<Rightarrow> string) \<Rightarrow> string \<Rightarrow> string" where
  "ToLower uni s = (if is_ascii s then map lower_byte s else uni s)"

lemma lower_byte_idem [simp]: "lower_byte (lower_byte c) = lower_byte c"
  by (simp add: lower_byte_def byte_def)

lemma lower_byte_ascii: "ord c < 128 \<Longrightarrow> ord (lower_byte c) < 128"
  by (simp add: lower_byte_def byte_def)

lemma ToLower_ascii_idem: "is_ascii s \<Longrightarrow> ToLower uni (ToLower uni s) = ToLower uni s"
  by (auto simp: ToLower_def is_ascii_def list_all_iff lower_byte_ascii)

section \<open>strings.HasPrefix, TrimPrefix, TrimLeft, TrimRight\<close>

definition HasPrefix :: "string \<Rightarrow> string \<Rightarrow> bool" where
  "HasPrefix s p \<longleftrightarrow> take (length p) s = p"

definition TrimPrefix :: "string \<Rightarrow> string \<Rightarrow> string" where
  "TrimPrefix s p = (if HasPrefix s p then drop (length p) s else s)"

lemma HasPrefix_append [simp]: "HasPrefix (p @ s) p"
  by (simp add: HasPrefix_def)

lemma TrimPrefix_append [simp]: "TrimPrefix (p @ s) p = s"
  by (simp add: TrimPrefix_def)

section \<open>strconv.FormatInt and ParseInt, base 10\<close>

definition digit :: "nat \<Rightarrow> char" where
  "digit d = byte (48 + d)"

fun digits :: "nat \<Rightarrow> string" where
  "digits n = (if n < 10 then [digit n] else digits (n div 10) @ [digit (n mod 10)])"

declare digits.simps [simp del]

definition FormatInt :: "int \<Rightarrow> string" where
  "FormatInt i = (if i < 0 then CHR ''-'' # digits (nat (- i)) else digits (nat i))"

definition is_digit :: "char \<Rightarrow> bool" where
  "is_digit c \<longleftrightarrow> 48 \<le> ord c \<and> ord c \<le> 57"

definition digits_value :: "string \<Rightarrow> nat" where
  "digits_value s = foldl (\<lambda>v c. 10 * v + (ord c - 48)) 0 s"

text \<open>\<open>strconv.ParseInt(s, 10, 64)\<close>: \<open>None\<close> is a syntax or range error.\<close>

definition ParseInt :: "string \<Rightarrow> int option" where
  "ParseInt s =
     (let neg = (s \<noteq> [] \<and> hd s = CHR ''-'');
          body = (if s \<noteq> [] \<and> (hd s = CHR ''-'' \<or> hd s = CHR ''+'') then tl s else s)
      in if body = [] \<or> \<not> list_all is_digit body then None
         else let v = int (digits_value body) in
           if neg then (if v \<le> 2 ^ 63 then Some (- v) else None)
           else (if v < 2 ^ 63 then Some v else None))"

lemma is_digit_digit: "d < 10 \<Longrightarrow> is_digit (digit d)"
  by (simp add: is_digit_def digit_def byte_def)

lemma ord_digit: "d < 10 \<Longrightarrow> ord (digit d) - 48 = d"
  by (simp add: digit_def byte_def)

lemma digits_all: "list_all is_digit (digits n)"
proof (induction n rule: digits.induct)
  case (1 n)
  then show ?case by (cases "n < 10") (simp_all add: digits.simps [of n] is_digit_digit)
qed

lemma digits_nonempty [simp]: "digits n \<noteq> []"
  by (subst digits.simps) simp

lemma digits_value_digits: "digits_value (digits n) = n"
proof (induction n rule: digits.induct)
  case (1 n)
  show ?case
  proof (cases "n < 10")
    case True
    then show ?thesis by (simp add: digits.simps [of n] digits_value_def ord_digit)
  next
    case False
    with 1 show ?thesis
      by (simp add: digits.simps [of n] digits_value_def ord_digit)
  qed
qed

lemma hd_digits: "is_digit (hd (digits n))"
  using digits_all [of n] by (cases "digits n") (auto simp: list_all_iff)

definition int64 :: "int \<Rightarrow> bool" where
  "int64 i \<longleftrightarrow> - (2 ^ 63) \<le> i \<and> i < 2 ^ 63"

lemma digits_sign: "hd (digits n) \<noteq> CHR ''-''" "hd (digits n) \<noteq> CHR ''+''"
  using hd_digits [of n] by (auto simp: is_digit_def)

lemma ParseInt_FormatInt:
  assumes "int64 i"
  shows "ParseInt (FormatInt i) = Some i"
proof (cases "i < 0")
  case True
  then have "FormatInt i = CHR ''-'' # digits (nat (- i))" by (simp add: FormatInt_def)
  with True assms show ?thesis
    by (simp add: ParseInt_def digits_all digits_value_digits int64_def)
next
  case False
  then have "FormatInt i = digits (nat i)" by (simp add: FormatInt_def)
  with False assms show ?thesis
    by (simp add: ParseInt_def digits_all digits_value_digits int64_def digits_sign)
qed

lemma ParseInt_int64: "ParseInt s = Some i \<Longrightarrow> int64 i"
  by (auto simp: ParseInt_def int64_def Let_def split: if_splits)

section \<open>hex.EncodeToString\<close>

definition hex_digit :: "nat \<Rightarrow> char" where
  "hex_digit d = (if d < 10 then byte (48 + d) else byte (87 + d))"

definition EncodeToString :: "string \<Rightarrow> string" where
  "EncodeToString bs = concat (map (\<lambda>b. [hex_digit (ord b div 16), hex_digit (ord b mod 16)]) bs)"

lemma length_EncodeToString: "length (EncodeToString bs) = 2 * length bs"
  by (induction bs) (auto simp: EncodeToString_def)

lemma hex_digit_inj: "d < 16 \<Longrightarrow> e < 16 \<Longrightarrow> hex_digit d = hex_digit e \<Longrightarrow> d = e"
  by (auto simp: hex_digit_def byte_def dest!: arg_cong [where f = ord] split: if_splits)

lemma ord_less: "ord c < 256"
  by simp

lemma EncodeToString_inj: "EncodeToString bs = EncodeToString cs \<Longrightarrow> bs = cs"
proof (induction bs arbitrary: cs)
  case Nil
  then show ?case by (cases cs) (auto simp: EncodeToString_def)
next
  case (Cons b bs)
  then obtain c cs' where cs: "cs = c # cs'"
    by (cases cs) (auto simp: EncodeToString_def)
  from Cons.prems cs have "ord b div 16 = ord c div 16" "ord b mod 16 = ord c mod 16"
    using ord_less [of b] ord_less [of c] hex_digit_inj
    by (auto simp: EncodeToString_def intro!: hex_digit_inj less_mult_imp_div_less)
  then have "ord b = ord c" by (metis div_mult_mod_eq)
  with Cons cs show ?case by (simp add: EncodeToString_def)
qed

end
