(* ===== verification/GameRules.thy ===== *)
theory GameRules
  imports GoStrings
begin

text \<open>
  internal/gamerules: the two identifier rules, each an anchored regular expression. The
  patterns are kept as expressions and matched by a small executable matcher; the lemmas
  \<open>ValidCode_iff\<close> and \<open>ValidHandle_iff\<close> read off what they accept.
\<close>

section \<open>The regular expressions of the package regexp that the patterns use\<close>

text \<open>A character class is a list of inclusive byte ranges.\<close>

datatype regex =
  Class "(nat \<times> nat) list"
| Cat regex regex
| Plus regex

definition in_class :: "(nat \<times> nat) list \<Rightarrow> char \<Rightarrow> bool" where
  "in_class rs c \<longleftrightarrow> list_ex (\<lambda>(lo, hi). lo \<le> ord c \<and> ord c \<le> hi) rs"

text \<open>One or more pieces, each accepted by \<open>P\<close>.\<close>

function plus_match :: "(string \<Rightarrow> bool) \<Rightarrow> string \<Rightarrow> bool" where
  "plus_match P w \<longleftrightarrow>
     P w \<or> list_ex (\<lambda>i. P (take i w) \<and> plus_match P (drop i w)) [1..<length w]"
  by pat_completeness auto
termination
  by (relation "measure (length \<circ> snd)") auto

declare plus_match.simps [simp del]

text \<open>\<open>^r$\<close> matches a string exactly when the whole string is accepted by \<open>r\<close>.\<close>

fun full_match :: "regex \<Rightarrow> string \<Rightarrow> bool" where
  "full_match (Class rs) w \<longleftrightarrow> length w = 1 \<and> in_class rs (hd w)"
| "full_match (Cat r s) w \<longleftrightarrow>
     list_ex (\<lambda>i. full_match r (take i w) \<and> full_match s (drop i w)) [0..<Suc (length w)]"
| "full_match (Plus r) w \<longleftrightarrow> plus_match (full_match r) w"

definition codePattern :: regex where
  "codePattern = Cat (Class [(65, 90)]) (Plus (Class [(65, 90)]))"

definition handlePattern :: regex where
  "handlePattern = Cat (Class [(65, 90), (97, 122)])
     (Plus (Class [(65, 90), (97, 122), (48, 57), (46, 46), (95, 95), (45, 45)]))"

definition ErrInvalidCode :: string where
  "ErrInvalidCode = ''code must be two or more uppercase ASCII letters (A-Z)''"

definition ErrInvalidHandle :: string where
  "ErrInvalidHandle =
     ''handle must be two or more characters, start with a letter, and use only letters, digits, '' @
     [CHR 0x27, CHR ''.'', CHR 0x27] @ '', '' @ [CHR 0x27, CHR ''_'', CHR 0x27] @ '' or '' @
     [CHR 0x27, CHR ''-'', CHR 0x27]"

definition ValidCode :: "string \<Rightarrow> bool" where
  "ValidCode code = full_match codePattern code"

definition ValidHandle :: "string \<Rightarrow> bool" where
  "ValidHandle handle = full_match handlePattern handle"

section \<open>What the patterns accept\<close>

declare full_match.simps(2,3) [simp del]

lemma split_at_one:
  assumes "b \<le> Suc (length w)"
  shows "(\<exists>i \<in> {a..<b}. length (take i w) = 1 \<and> Q i) \<longleftrightarrow> a \<le> 1 \<and> 1 < b \<and> Q 1"
proof -
  have "length (take i w) = 1 \<longleftrightarrow> i = 1" if "i < b" for i
    using that assms by auto
  moreover have "length (take 1 w) = 1" if "1 < b"
    using that assms by auto
  ultimately show ?thesis by auto
qed

lemma plus_match_chars:
  "plus_match (\<lambda>w. length w = 1 \<and> P (hd w)) w \<longleftrightarrow> w \<noteq> [] \<and> list_all P w"
proof (induction w)
  case Nil
  then show ?case by (subst plus_match.simps) simp
next
  case (Cons c w)
  let ?Q = "\<lambda>w. length w = 1 \<and> P (hd w)"
  have "plus_match ?Q (c # w) \<longleftrightarrow> ?Q (c # w) \<or>
      (\<exists>i \<in> {1..<length (c # w)}. length (take i (c # w)) = 1 \<and>
         (P (hd (take i (c # w))) \<and> plus_match ?Q (drop i (c # w))))"
    by (subst plus_match.simps) (simp only: list_ex_iff set_upt conj_assoc)
  also have "\<dots> \<longleftrightarrow> ?Q (c # w) \<or> (w \<noteq> [] \<and> P c \<and> plus_match ?Q w)"
    by (subst split_at_one) auto
  also have "\<dots> \<longleftrightarrow> list_all P (c # w)"
    using Cons.IH by (cases w) auto
  finally show ?case by simp
qed

lemma full_match_Class: "full_match (Class rs) = (\<lambda>w. length w = 1 \<and> in_class rs (hd w))"
  by (simp add: fun_eq_iff)

lemma full_match_head_plus:
  "full_match (Cat (Class rs) (Plus (Class qs))) w \<longleftrightarrow>
     2 \<le> length w \<and> in_class rs (hd w) \<and> list_all (in_class qs) (tl w)"
proof -
  have "full_match (Cat (Class rs) (Plus (Class qs))) w \<longleftrightarrow>
      (\<exists>i \<in> {0..<Suc (length w)}. length (take i w) = 1 \<and>
         (in_class rs (hd (take i w)) \<and> drop i w \<noteq> [] \<and> list_all (in_class qs) (drop i w)))"
    by (simp only: full_match.simps(2,3) full_match_Class plus_match_chars list_ex_iff set_upt conj_assoc)
  also have "\<dots> \<longleftrightarrow> 2 \<le> length w \<and> in_class rs (hd w) \<and> list_all (in_class qs) (tl w)"
    by (subst split_at_one) (cases w; auto simp: Suc_le_eq)+
  finally show ?thesis .
qed

definition upper_letter :: "char \<Rightarrow> bool" where
  "upper_letter c \<longleftrightarrow> 65 \<le> ord c \<and> ord c \<le> 90"

definition letter :: "char \<Rightarrow> bool" where
  "letter c \<longleftrightarrow> upper_letter c \<or> 97 \<le> ord c \<and> ord c \<le> 122"

definition handle_char :: "char \<Rightarrow> bool" where
  "handle_char c \<longleftrightarrow> letter c \<or> is_digit c \<or> c = CHR ''.'' \<or> c = CHR ''_'' \<or> c = CHR ''-''"

lemma ValidCode_iff: "ValidCode s \<longleftrightarrow> 2 \<le> length s \<and> list_all upper_letter s"
proof -
  have "in_class [(65, 90)] = upper_letter"
    by (auto simp: fun_eq_iff in_class_def upper_letter_def)
  then show ?thesis
    by (cases s) (auto simp: ValidCode_def codePattern_def full_match_head_plus)
qed

lemma ValidHandle_iff:
  "ValidHandle s \<longleftrightarrow> 2 \<le> length s \<and> letter (hd s) \<and> list_all handle_char s"
proof -
  have letters: "in_class [(65, 90), (97, 122)] = letter"
    by (auto simp: fun_eq_iff in_class_def letter_def upper_letter_def)
  have "in_class [(65, 90), (97, 122), (48, 57), (46, 46), (95, 95), (45, 45)] c = handle_char c" for c
  proof -
    have one: "ord d \<le> ord c \<and> ord c \<le> ord d \<longleftrightarrow> c = d" for d
      by (metis antisym of_char_eq_iff order_refl)
    show ?thesis
      using one [of "CHR ''.''"] one [of "CHR ''_''"] one [of "CHR ''-''"]
      by (simp add: in_class_def handle_char_def letter_def upper_letter_def is_digit_def disj_assoc)
  qed
  then have chars:
    "in_class [(65, 90), (97, 122), (48, 57), (46, 46), (95, 95), (45, 45)] = handle_char"
    by blast
  show ?thesis
    by (cases s)
      (auto simp: ValidHandle_def handlePattern_def full_match_head_plus letters chars handle_char_def)
qed

end
