(* ===== verification/Schema.thy ===== *)
theory Schema
  imports GameRules
begin

text \<open>
  internal/database/migrations.go: the five tables as the migrations leave them, their
  CHECK, UNIQUE and REFERENCES constraints, and the invariant \<open>db_ok\<close> that these
  constraints make of the whole database. The SQL of the migrations and of the store is
  source text of the program; its statements are translated to functions on the tables,
  with SQL's documented meaning. Booleans are the integers 0 and 1 they are stored as,
  and a TEXT value is a byte string.
\<close>

section \<open>SQL text functions\<close>

text \<open>\<open>length\<close> and \<open>GLOB\<close> read a TEXT value up to its first NUL; \<open>length\<close> counts
  characters, that is the bytes that do not continue a UTF-8 sequence.\<close>

definition c_text :: "string \<Rightarrow> string" where
  "c_text s = takeWhile (\<lambda>c. ord c \<noteq> 0) s"

definition sql_length :: "string \<Rightarrow> nat" where
  "sql_length s = length (filter (\<lambda>c. \<not> (128 \<le> ord c \<and> ord c < 192)) (c_text s))"

definition sql_lower :: "string \<Rightarrow> string" where
  "sql_lower s = map lower_byte s"

datatype glob = Star | OneOf "(nat \<times> nat) list" | NoneOf "(nat \<times> nat) list"

fun glob_match :: "glob list \<Rightarrow> string \<Rightarrow> bool" where
  "glob_match [] s \<longleftrightarrow> s = []"
| "glob_match (Star # ps) s \<longleftrightarrow> list_ex (\<lambda>i. glob_match ps (drop i s)) [0..<Suc (length s)]"
| "glob_match (OneOf rs # ps) s \<longleftrightarrow>
     (case s of [] \<Rightarrow> False | c # cs \<Rightarrow> in_class rs c \<and> glob_match ps cs)"
| "glob_match (NoneOf rs # ps) s \<longleftrightarrow>
     (case s of [] \<Rightarrow> False | c # cs \<Rightarrow> \<not> in_class rs c \<and> glob_match ps cs)"

definition sql_glob :: "string \<Rightarrow> glob list \<Rightarrow> bool" where
  "sql_glob s p = glob_match p (c_text s)"

lemma glob_any: "glob_match [Star] s"
  by (auto simp: list_ex_iff intro: bexI [of _ "length s"])

lemma glob_first: "glob_match [OneOf rs, Star] s \<longleftrightarrow> s \<noteq> [] \<and> in_class rs (hd s)"
  using glob_any by (auto split: list.splits)

lemma glob_contains: "glob_match [Star, NoneOf rs, Star] s \<longleftrightarrow> \<not> list_all (in_class rs) s"
proof -
  have "glob_match [NoneOf rs, Star] t \<longleftrightarrow> t \<noteq> [] \<and> \<not> in_class rs (hd t)" for t
    using glob_any by (auto split: list.splits)
  then have "glob_match [Star, NoneOf rs, Star] s \<longleftrightarrow>
      (\<exists>i \<in> {0..<Suc (length s)}. drop i s \<noteq> [] \<and> \<not> in_class rs (hd (drop i s)))"
    by (subst glob_match.simps(2)) (simp only: list_ex_iff set_upt)
  also have "\<dots> \<longleftrightarrow> (\<exists>i < length s. \<not> in_class rs (s ! i))"
  proof safe
    fix i assume "i \<in> {0..<Suc (length s)}" "drop i s \<noteq> []" "\<not> in_class rs (hd (drop i s))"
    then show "\<exists>i < length s. \<not> in_class rs (s ! i)"
      by (intro exI [of _ i]) (auto simp: hd_drop_conv_nth)
  next
    fix i assume "i < length s" "\<not> in_class rs (s ! i)"
    then show "\<exists>i \<in> {0..<Suc (length s)}. drop i s \<noteq> [] \<and> \<not> in_class rs (hd (drop i s))"
      by (intro bexI [of _ i]) (auto simp: hd_drop_conv_nth)
  qed
  finally show ?thesis by (auto simp: list_all_length)
qed

section \<open>Rows\<close>

record AccountRow =
  ar_id :: int
  ar_email :: string
  ar_is_admin :: int
  ar_is_active :: int
  ar_hashed_secret :: string

record GameRow =
  gr_id :: int
  gr_code :: string
  gr_is_active :: int
  gr_name :: string
  gr_status :: string
  gr_description :: "string option"

record RoleRow =
  rr_id :: int
  rr_game_id :: int
  rr_account_id :: int
  rr_handle :: string
  rr_is_gm :: int
  rr_is_active :: int

record TokenRow =
  tr_id :: int
  tr_jti :: string
  tr_family_id :: string
  tr_account_id :: int
  tr_issued_at :: int
  tr_expires_at :: int
  tr_revoked :: int

record database =
  accounts :: "AccountRow list"
  games :: "GameRow list"
  game_account_role :: "RoleRow list"
  refresh_tokens :: "TokenRow list"
  user_version :: int

section \<open>CHECK constraints\<close>

definition sql_bool :: "int \<Rightarrow> bool" where
  "sql_bool i \<longleftrightarrow> i = 0 \<or> i = 1"

definition accounts_check :: "AccountRow \<Rightarrow> bool" where
  "accounts_check r \<longleftrightarrow> sql_bool (ar_is_admin r) \<and> sql_bool (ar_is_active r)"

definition game_code_check :: "string \<Rightarrow> bool" where
  "game_code_check code \<longleftrightarrow>
     2 \<le> sql_length code \<and>
     sql_glob code [OneOf [(65, 90)], Star] \<and>
     \<not> sql_glob code [Star, NoneOf [(65, 90)], Star]"

definition game_statuses :: "string list" where
  "game_statuses = [''draft'', ''recruiting'', ''active'', ''paused'', ''complete'', ''archived'']"

definition games_check :: "GameRow \<Rightarrow> bool" where
  "games_check r \<longleftrightarrow>
     game_code_check (gr_code r) \<and> sql_bool (gr_is_active r) \<and> gr_status r \<in> set game_statuses"

definition handle_check :: "string \<Rightarrow> bool" where
  "handle_check handle \<longleftrightarrow>
     2 \<le> sql_length handle \<and>
     sql_glob (sql_lower handle) [OneOf [(97, 122)], Star] \<and>
     \<not> sql_glob (sql_lower handle)
         [Star, NoneOf [(97, 122), (48, 57), (46, 46), (95, 95), (45, 45)], Star]"

definition roles_check :: "RoleRow \<Rightarrow> bool" where
  "roles_check r \<longleftrightarrow>
     handle_check (rr_handle r) \<and> sql_bool (rr_is_gm r) \<and> sql_bool (rr_is_active r)"

definition tokens_check :: "TokenRow \<Rightarrow> bool" where
  "tokens_check r \<longleftrightarrow> sql_bool (tr_revoked r)"

lemma sql_bool_cases [simp]: "sql_bool 0" "sql_bool 1"
  by (simp_all add: sql_bool_def)

section \<open>The Go rules and the CHECK constraints agree\<close>

text \<open>
  For text without a NUL byte the Go validation accepts exactly what the CHECK accepts;
  with one, the CHECK reads only the part before it.
\<close>

lemma c_text_id: "CHR 0x00 \<notin> set s \<Longrightarrow> c_text s = s"
proof -
  assume "CHR 0x00 \<notin> set s"
  moreover have "ord c = 0 \<longleftrightarrow> c = CHR 0x00" for c
    using of_char_eq_iff [of c "CHR 0x00", where ?'a = nat] by simp
  ultimately show ?thesis by (auto simp: c_text_def takeWhile_eq_all_conv)
qed

lemma c_text_take: "\<exists>n. c_text s = take n s"
  by (metis c_text_def takeWhile_eq_take)

lemma ascii_sql_length:
  assumes "list_all (\<lambda>c. ord c < 128) (c_text s)"
  shows "sql_length s = length (c_text s)"
proof -
  have "filter (\<lambda>c. \<not> (128 \<le> ord c \<and> ord c < 192)) (c_text s) = c_text s"
    using assms by (auto simp: filter_id_conv list_all_iff)
  then show ?thesis by (simp add: sql_length_def)
qed

lemma in_class_upper: "in_class [(65, 90)] = upper_letter"
  by (auto simp: fun_eq_iff in_class_def upper_letter_def)

lemma game_code_check_iff: "game_code_check s \<longleftrightarrow> ValidCode (c_text s)"
proof (cases "list_all upper_letter (c_text s)")
  case True
  then have "list_all (\<lambda>c. ord c < 128) (c_text s)"
    by (auto simp: list_all_iff upper_letter_def)
  with True show ?thesis
    unfolding game_code_check_def sql_glob_def glob_first glob_contains in_class_upper ValidCode_iff
    by (cases "c_text s") (auto simp: ascii_sql_length)
next
  case False
  then show ?thesis
    unfolding game_code_check_def sql_glob_def glob_contains in_class_upper ValidCode_iff by simp
qed

lemma one_char_class: "ord d \<le> ord c \<and> ord c \<le> ord d \<longleftrightarrow> c = d"
  by (metis antisym of_char_eq_iff order_refl)

lemma in_class_lower_letter: "in_class [(97, 122)] (lower_byte c) \<longleftrightarrow> letter c"
  by (auto simp: in_class_def lower_byte_def letter_def upper_letter_def byte_def)

lemma in_class_lower_handle:
  "in_class [(97, 122), (48, 57), (46, 46), (95, 95), (45, 45)] (lower_byte c) \<longleftrightarrow> handle_char c"
proof (cases "upper_letter c")
  case True
  then show ?thesis
    by (auto simp: in_class_def lower_byte_def handle_char_def letter_def upper_letter_def byte_def)
next
  case False
  then have "lower_byte c = c" by (auto simp: lower_byte_def upper_letter_def)
  with False show ?thesis
    using one_char_class [of "CHR ''.''" c] one_char_class [of "CHR ''_''" c]
      one_char_class [of "CHR ''-''" c]
    by (simp add: in_class_def handle_char_def letter_def is_digit_def disj_assoc)
qed

lemma c_text_lower: "c_text (sql_lower s) = sql_lower (c_text s)"
proof -
  have "ord (lower_byte c) \<noteq> 0 \<longleftrightarrow> ord c \<noteq> 0" for c
    by (auto simp: lower_byte_def byte_def)
  then show ?thesis by (simp add: c_text_def sql_lower_def takeWhile_map o_def)
qed

lemma handle_char_ascii: "handle_char c \<Longrightarrow> ord c < 128"
  by (auto simp: handle_char_def letter_def upper_letter_def is_digit_def)

lemma handle_check_iff: "handle_check s \<longleftrightarrow> ValidHandle (c_text s)"
proof (cases "list_all handle_char (c_text s)")
  case True
  then have "sql_length s = length (c_text s)"
    by (intro ascii_sql_length) (auto simp: list_all_iff handle_char_ascii)
  with True show ?thesis
    unfolding handle_check_def sql_glob_def glob_first glob_contains c_text_lower ValidHandle_iff
    by (cases "c_text s")
      (auto simp: sql_lower_def list_all_iff in_class_lower_letter in_class_lower_handle)
next
  case False
  then show ?thesis
    unfolding handle_check_def sql_glob_def glob_contains c_text_lower ValidHandle_iff
    by (simp add: sql_lower_def list.pred_map o_def in_class_lower_handle)
qed

section \<open>The invariant of the database\<close>

definition accounts_ok :: "database \<Rightarrow> bool" where
  "accounts_ok d \<longleftrightarrow> rowids_ok ar_id (accounts d) \<and> list_all accounts_check (accounts d) \<and>
     distinct (map ar_email (accounts d))"

definition games_ok :: "database \<Rightarrow> bool" where
  "games_ok d \<longleftrightarrow> rowids_ok gr_id (games d) \<and> list_all games_check (games d) \<and>
     distinct (map gr_code (games d))"

definition roles_ok :: "database \<Rightarrow> bool" where
  "roles_ok d \<longleftrightarrow> rowids_ok rr_id (game_account_role d) \<and>
     list_all roles_check (game_account_role d) \<and>
     distinct (map (\<lambda>r. (rr_game_id r, rr_account_id r)) (game_account_role d)) \<and>
     distinct (map (\<lambda>r. (rr_game_id r, rr_handle r)) (game_account_role d)) \<and>
     rr_game_id ` set (game_account_role d) \<subseteq> gr_id ` set (games d) \<and>
     rr_account_id ` set (game_account_role d) \<subseteq> ar_id ` set (accounts d)"

definition tokens_ok :: "database \<Rightarrow> bool" where
  "tokens_ok d \<longleftrightarrow> rowids_ok tr_id (refresh_tokens d) \<and> list_all tokens_check (refresh_tokens d) \<and>
     distinct (map tr_jti (refresh_tokens d)) \<and>
     tr_account_id ` set (refresh_tokens d) \<subseteq> ar_id ` set (accounts d)"

definition db_ok :: "database \<Rightarrow> bool" where
  "db_ok d \<longleftrightarrow> accounts_ok d \<and> games_ok d \<and> roles_ok d \<and> tokens_ok d"

definition empty_db :: database where
  "empty_db = \<lparr>accounts = [], games = [], game_account_role = [], refresh_tokens = [],
     user_version = 7\<rparr>"

interpretation acct_rows: rowid_table ar_id .
interpretation game_rows: rowid_table gr_id .
interpretation role_rows: rowid_table rr_id .
interpretation token_rows: rowid_table tr_id .

lemma db_ok_empty: "db_ok empty_db"
  by (simp add: db_ok_def accounts_ok_def games_ok_def roles_ok_def tokens_ok_def empty_db_def
      rowids_ok_def)

end
