(* ===== verification/World.thy ===== *)
theory World
  imports Schema
begin

text \<open>
  What the Go code runs in: the database, the clock, the random source and the few other
  effects the handlers have. Two things the code cannot control are inputs of the model:
  \<^item> any database call can fail (a cancelled context, a busy or broken file);
  \<^item> between two acquisitions of a connection other requests run their own statements.
  Both are told by the schedule \<open>w_sched\<close>: \<open>Fault\<close> makes the next call fail, \<open>Interfere f\<close>
  lets the rest of the server turn the database \<open>d\<close> into \<open>f d\<close>, \<open>Fine\<close> and the empty
  schedule let it succeed undisturbed. A theorem for every schedule therefore holds under
  every failure and every interleaving at that granularity.
\<close>

section \<open>Errors\<close>

text \<open>SQLite's extended result codes, as far as the store tells them apart.\<close>

datatype sql_error =
  ResultConstraintUnique
| ResultConstraintCheck
| ResultConstraintForeignKey
| ResultError

text \<open>
  The errors the packages return. A wrapped error (\<open>%w\<close>) is its sentinel, which is what
  \<open>errors.Is\<close> finds; message texts of unclassified errors are not modelled.
  \<open>ErrNoReturn\<close> stands for a call that never returns.
\<close>

datatype go_error =
  ErrNotFound
| ErrConflict
| ErrMemberExists
| ErrHandleTaken
| ErrNoChanges
| ErrSQL sql_error
| ErrSecretTooShort
| ErrHash
| ErrRandom
| ErrSign
| ErrToken
| ErrNotImplemented
| ErrNoReturn

section \<open>The world\<close>

datatype turn = Fine | Fault | Interfere "database \<Rightarrow> database"

record world =
  w_db :: database
  w_sched :: "turn list"
  w_now :: int
  w_later :: "int list"
  w_entropy :: "string option list"
  w_compares :: nat
  w_shutdowns :: nat

text \<open>Acquiring a connection: everybody else's turns come first.\<close>

fun await_turn :: "database \<Rightarrow> turn list \<Rightarrow> bool \<times> database \<times> turn list" where
  "await_turn d [] = (False, d, [])"
| "await_turn d (Fine # s) = (False, d, s)"
| "await_turn d (Fault # s) = (True, d, s)"
| "await_turn d (Interfere f # s) = await_turn (f d) s"

definition pool_Get :: "(world, sql_error option) state" where
  "pool_Get = State (\<lambda>w. case await_turn (w_db w) (w_sched w) of
     (failed, d, s) \<Rightarrow> (if failed then Some ResultError else None, w\<lparr>w_db := d, w_sched := s\<rparr>))"

text \<open>Running a statement on a held connection; it fails without effect or has its effect.\<close>

fun statement_turn :: "turn list \<Rightarrow> bool \<times> turn list" where
  "statement_turn (Fine # s) = (False, s)"
| "statement_turn (Fault # s) = (True, s)"
| "statement_turn s = (False, s)"

definition Execute :: "(database \<Rightarrow> sql_error + ('a \<times> database)) \<Rightarrow> (world, sql_error + 'a) state" where
  "Execute stmt = State (\<lambda>w. case statement_turn (w_sched w) of (failed, s) \<Rightarrow>
     let w1 = w\<lparr>w_sched := s\<rparr> in
     if failed then (Inl ResultError, w1)
     else case stmt (w_db w) of
        Inl e \<Rightarrow> (Inl e, w1)
      | Inr (x, d) \<Rightarrow> (Inr x, w1\<lparr>w_db := d\<rparr>))"

definition select :: "(database \<Rightarrow> 'a) \<Rightarrow> database \<Rightarrow> sql_error + ('a \<times> database)" where
  "select q d = Inr (q d, d)"

text \<open>
  \<open>conn, err := s.pool.Get(ctx)\<close>, its error return and the deferred \<open>Put\<close>: the frame of
  every store method.
\<close>

definition with_conn :: "(world, go_error + 'a) state \<Rightarrow> (world, go_error + 'a) state" where
  "with_conn body = do {
     err \<leftarrow> pool_Get;
     case err of Some e \<Rightarrow> ret (Inl (ErrSQL e)) | None \<Rightarrow> body
   }"

text \<open>
  \<open>sqlitex.ImmediateTransaction\<close> with the deferred \<open>endTx(&err)\<close>: an error of the body
  rolls back, otherwise the commit may itself fail, which rolls back and sets the error.
\<close>

definition ImmediateTransaction :: "(world, go_error + 'a) state \<Rightarrow> (world, go_error + 'a) state" where
  "ImmediateTransaction body = State (\<lambda>w.
     case run_state (Execute (select (\<lambda>_. ()))) w of
       (Inl e, w1) \<Rightarrow> (Inl (ErrSQL e), w1)
     | (Inr _, w1) \<Rightarrow>
         (case run_state body w1 of
            (Inl e, w2) \<Rightarrow> (Inl e, w2\<lparr>w_db := w_db w1\<rparr>)
          | (Inr x, w2) \<Rightarrow>
              (case run_state (Execute (select (\<lambda>_. ()))) w2 of
                 (Inl e, w3) \<Rightarrow> (Inl (ErrSQL e), w3\<lparr>w_db := w_db w1\<rparr>)
               | (Inr _, w3) \<Rightarrow> (Inr x, w3))))"

text \<open>The clock, in nanoseconds since 1970; \<open>w_later\<close> holds the readings to come.\<close>

definition clock_now :: "(world, int) state" where
  "clock_now = State (\<lambda>w. (w_now w,
     case w_later w of [] \<Rightarrow> w | t # ts \<Rightarrow> w\<lparr>w_now := t, w_later := ts\<rparr>))"

text \<open>\<open>crypto/rand\<close>: the next bytes of the supply, an error when it is exhausted.\<close>

definition rand_Read :: "(world, string option) state" where
  "rand_Read = State (\<lambda>w. case w_entropy w of
     [] \<Rightarrow> (None, w) | e # es \<Rightarrow> (e, w\<lparr>w_entropy := es\<rparr>))"

section \<open>Undisturbed runs\<close>

definition quiet :: "world \<Rightarrow> bool" where
  "quiet w \<longleftrightarrow> w_sched w = []"

lemma quiet_update [simp]:
  "quiet (w\<lparr>w_db := d\<rparr>) = quiet w"
  "quiet (w\<lparr>w_now := t\<rparr>) = quiet w"
  "quiet (w\<lparr>w_later := ts\<rparr>) = quiet w"
  "quiet (w\<lparr>w_entropy := es\<rparr>) = quiet w"
  "quiet (w\<lparr>w_compares := n\<rparr>) = quiet w"
  "quiet (w\<lparr>w_shutdowns := n\<rparr>) = quiet w"
  by (simp_all add: quiet_def)

lemma quiet_sched [simp]: "quiet w \<Longrightarrow> w_sched w = []"
  by (simp add: quiet_def)

lemma sched_same [simp]: "w_sched w = s \<Longrightarrow> w\<lparr>w_sched := s\<rparr> = w"
  by auto

lemma db_same [simp]: "w\<lparr>w_db := w_db w\<rparr> = w"
  by simp

lemma run_pool_Get [simp]: "quiet w \<Longrightarrow> run_state pool_Get w = (None, w)"
  by (simp add: pool_Get_def)

lemma run_Execute [simp]:
  "quiet w \<Longrightarrow> run_state (Execute stmt) w =
     (case stmt (w_db w) of Inl e \<Rightarrow> (Inl e, w) | Inr (x, d) \<Rightarrow> (Inr x, w\<lparr>w_db := d\<rparr>))"
  by (simp add: Execute_def Let_def split: sum.splits)

lemma run_with_conn [simp]: "quiet w \<Longrightarrow> run_state (with_conn body) w = run_state body w"
  by (simp add: with_conn_def)

declare select_def [simp]

lemma run_transaction [simp]:
  assumes "quiet w" and "quiet (snd (run_state body w))"
  shows "run_state (ImmediateTransaction body) w =
     (case run_state body w of (Inl e, w') \<Rightarrow> (Inl e, w'\<lparr>w_db := w_db w\<rparr>) | (Inr x, w') \<Rightarrow> (Inr x, w'))"
proof -
  obtain y w' where y: "run_state body w = (y, w')" by fastforce
  with assms have "quiet w'" by simp
  with assms(1) y show ?thesis
    by (cases y) (simp_all add: ImmediateTransaction_def)
qed

section \<open>Rely and guarantee\<close>

text \<open>
  For a preorder \<open>r\<close> on databases, \<open>guar r\<close> says of one run: if every interference of the
  schedule moves along \<open>r\<close>, so does the run. A program all of whose statements move
  along \<open>r\<close> has this property whatever fails and whoever interferes, and so has any
  number of such programs running interleaved.
\<close>

definition guar :: "(database \<Rightarrow> database \<Rightarrow> bool) \<Rightarrow> world \<Rightarrow> world \<Rightarrow> bool" where
  "guar r w w' \<longleftrightarrow> set (w_sched w') \<subseteq> set (w_sched w) \<and>
     ((\<forall>f. Interfere f \<in> set (w_sched w) \<longrightarrow> (\<forall>d. r d (f d))) \<longrightarrow> r (w_db w) (w_db w'))"

definition obeys :: "(database \<Rightarrow> database \<Rightarrow> bool) \<Rightarrow> (world, 'a) state \<Rightarrow> bool" where
  "obeys r m \<longleftrightarrow> state_io_rel (guar r) m"

definition stmt_ok ::
  "(database \<Rightarrow> database \<Rightarrow> bool) \<Rightarrow> (database \<Rightarrow> sql_error + ('a \<times> database)) \<Rightarrow> bool" where
  "stmt_ok r stmt \<longleftrightarrow> (\<forall>d x d'. stmt d = Inr (x, d') \<longrightarrow> r d d')"

definition rely :: "(database \<Rightarrow> database \<Rightarrow> bool) \<Rightarrow> world \<Rightarrow> bool" where
  "rely r w \<longleftrightarrow> (\<forall>f. Interfere f \<in> set (w_sched w) \<longrightarrow> (\<forall>d. r d (f d)))"

lemma quiet_rely [simp]: "quiet w \<Longrightarrow> rely r w"
  by (simp add: rely_def)

lemma obeysD: "obeys r m \<Longrightarrow> rely r w \<Longrightarrow> run_state m w = (x, w') \<Longrightarrow> r (w_db w) (w_db w')"
  by (auto simp: obeys_def state_io_rel_def guar_def rely_def dest: spec [of _ w])

locale db_order =
  fixes r :: "database \<Rightarrow> database \<Rightarrow> bool"
  assumes db_refl [simp, intro]: "r d d"
    and db_trans: "r d e \<Longrightarrow> r e f \<Longrightarrow> r d f"

sublocale db_order \<subseteq> step_order "guar r"
proof
  show "guar r w w" for w by (simp add: guar_def)
  show "guar r u w" if uv: "guar r u v" and vw: "guar r v w" for u v w
  proof -
    have sub: "set (w_sched w) \<subseteq> set (w_sched u)"
      using uv vw by (auto simp: guar_def)
    have "r (w_db u) (w_db w)" if rel: "\<forall>f. Interfere f \<in> set (w_sched u) \<longrightarrow> (\<forall>d. r d (f d))"
    proof (rule db_trans)
      show "r (w_db u) (w_db v)" using uv rel by (simp add: guar_def)
      show "r (w_db v) (w_db w)" using uv vw rel by (auto simp: guar_def)
    qed
    with sub show ?thesis by (simp add: guar_def)
  qed
qed

context db_order
begin

lemma res_ret [step_intros]: "obeys r (ret x)"
  by (simp add: obeys_def io_ret)

lemma res_bind [step_intros]:
  "obeys r m \<Longrightarrow> (\<And>x. obeys r (f x)) \<Longrightarrow> obeys r (State_Monad.bind m f)"
  by (simp add: obeys_def io_bind)

lemma res_if [step_intros]:
  "(b \<Longrightarrow> obeys r m) \<Longrightarrow> (\<not> b \<Longrightarrow> obeys r n) \<Longrightarrow> obeys r (if b then m else n)"
  by simp

lemma res_sum [step_intros]:
  "(\<And>x. v = Inl x \<Longrightarrow> obeys r (f x)) \<Longrightarrow> (\<And>y. v = Inr y \<Longrightarrow> obeys r (g y)) \<Longrightarrow>
   obeys r (case v of Inl x \<Rightarrow> f x | Inr y \<Rightarrow> g y)"
  by (cases v) auto

lemma res_option [step_intros]:
  "(v = None \<Longrightarrow> obeys r f) \<Longrightarrow> (\<And>y. v = Some y \<Longrightarrow> obeys r (g y)) \<Longrightarrow>
   obeys r (case v of None \<Rightarrow> f | Some y \<Rightarrow> g y)"
  by (cases v) auto

lemma res_error [step_intros]:
  "(e = ErrNotFound \<Longrightarrow> obeys r f) \<Longrightarrow> (e \<noteq> ErrNotFound \<Longrightarrow> obeys r g) \<Longrightarrow>
   obeys r (if e = ErrNotFound then f else g)"
  by simp

lemma res_prod [step_intros]:
  "(\<And>x y. v = (x, y) \<Longrightarrow> obeys r (f x y)) \<Longrightarrow> obeys r (case v of (x, y) \<Rightarrow> f x y)"
  by (cases v) auto

lemma res_let [step_intros]: "obeys r (f x) \<Longrightarrow> obeys r (let y = x in f y)"
  by simp

lemma res_pool_Get [step_intros]: "obeys r pool_Get"
proof -
  have "set s' \<subseteq> set s \<and> ((\<forall>f. Interfere f \<in> set s \<longrightarrow> (\<forall>d. r d (f d))) \<longrightarrow> r d d')"
    if "await_turn d s = (b, d', s')" for b d d' s s'
    using that
  proof (induction d s rule: await_turn.induct)
    case (4 d f s)
    then show ?case by (auto intro: db_trans [of d "f d" d'])
  qed auto
  then show ?thesis
    by (auto simp: obeys_def pool_Get_def guar_def state_io_rel_def split: prod.splits)
qed

lemma statement_turn_subset: "set (snd (statement_turn s)) \<subseteq> set s"
  by (induction s rule: statement_turn.induct) auto

lemma res_Execute: "stmt_ok r stmt \<Longrightarrow> obeys r (Execute stmt)"
  using statement_turn_subset
  by (auto simp: obeys_def Execute_def guar_def state_io_rel_def stmt_ok_def Let_def
      split: prod.splits sum.splits) (metis snd_conv subsetD)+

lemma res_select [step_intros]: "obeys r (Execute (select q))"
  by (rule res_Execute) (simp add: stmt_ok_def select_def)

lemma res_with_conn [step_intros]: "obeys r body \<Longrightarrow> obeys r (with_conn body)"
  by (auto simp: with_conn_def intro!: step_intros)

lemma res_clock [step_intros]: "obeys r clock_now"
  by (auto simp: obeys_def clock_now_def guar_def state_io_rel_def split: list.splits)

lemma res_rand [step_intros]: "obeys r rand_Read"
  by (auto simp: obeys_def rand_Read_def guar_def state_io_rel_def split: list.splits)

lemma guar_rollback: "guar r u v \<Longrightarrow> guar r u (v\<lparr>w_db := w_db u\<rparr>)"
  by (simp add: guar_def)

lemma res_transaction [step_intros]:
  assumes "obeys r body"
  shows "obeys r (ImmediateTransaction body)"
proof -
  let ?e = "Execute (select (\<lambda>_. ()))"
  have e: "guar r u v" if "run_state ?e u = (x, v)" for u v x
    using that res_select [of "\<lambda>_. ()"] unfolding obeys_def state_io_rel_def by (metis snd_conv)
  have body: "guar r u v" if "run_state body u = (x, v)" for u v x
    using that assms unfolding obeys_def state_io_rel_def by (metis snd_conv)
  have same: "w_db v = w_db u" if "run_state ?e u = (x, v)" for u v x
    using that by (auto simp: Execute_def select_def Let_def split: prod.splits if_splits)
  show ?thesis
    unfolding obeys_def state_io_rel_def
  proof
    fix w
    obtain x w1 where 1: "run_state ?e w = (x, w1)" by fastforce
    obtain y w2 where 2: "run_state body w1 = (y, w2)" by fastforce
    obtain z w3 where 3: "run_state ?e w2 = (z, w3)" by fastforce
    have g1: "guar r w w1" and g2: "guar r w1 w2" and g3: "guar r w2 w3"
      using 1 2 3 e body by (metis surj_pair)+
    have g2r: "guar r w (w2\<lparr>w_db := w_db w1\<rparr>)"
      using step_trans [OF g1 g2] same [OF 1] guar_rollback by metis
    have g3r: "guar r w (w3\<lparr>w_db := w_db w1\<rparr>)"
      using step_trans [OF step_trans [OF g1 g2] g3] same [OF 1] guar_rollback by metis
    show "guar r w (snd (run_state (ImmediateTransaction body) w))"
      using 1 2 3 g1 g2 g3 g2r g3r
      by (auto simp: ImmediateTransaction_def intro: step_trans split: sum.splits)
  qed
qed

end

end
