(* ===== verification/StoreAccounts.thy ===== *)
theory StoreAccounts
  imports World
begin

text \<open>
  internal/store/store.go, the accounts and refresh_tokens part. Each store method is the
  frame \<open>with_conn\<close> around its statements; a statement is a function on the database named
  \<open>sql_...\<close>, the translation of the SQL text in the method.
\<close>

section \<open>Statement arguments and dynamic SET clauses\<close>

datatype sqlval = SInt int | SText string | SNull

definition boolToInt :: "bool \<Rightarrow> int" where
  "boolToInt b = (if b then 1 else 0)"

definition nullableText :: "string option \<Rightarrow> sqlval" where
  "nullableText s = (case s of None \<Rightarrow> SNull | Some t \<Rightarrow> SText t)"

text \<open>The repeated step of the \<open>build...Update\<close> functions: a nil field adds nothing.\<close>

definition add_set ::
  "'v option \<Rightarrow> string \<Rightarrow> ('v \<Rightarrow> sqlval) \<Rightarrow> string list \<times> sqlval list \<Rightarrow> string list \<times> sqlval list" where
  "add_set v frag enc sa =
     (case v of None \<Rightarrow> sa | Some x \<Rightarrow> (fst sa @ [frag], snd sa @ [enc x]))"

text \<open>\<open>UPDATE t SET s1, s2, ...\<close> on one row: the fragments in order, each with its argument.\<close>

definition update_columns ::
  "(string \<Rightarrow> sqlval \<Rightarrow> 'r \<Rightarrow> 'r) \<Rightarrow> string list \<Rightarrow> sqlval list \<Rightarrow> 'r \<Rightarrow> 'r" where
  "update_columns setcol sets args r = fold (\<lambda>(c, v). setcol c v) (zip sets args) r"

text \<open>A row callback runs once per row and keeps the last; \<open>!found\<close> is \<open>ErrNotFound\<close>.\<close>

definition found_row :: "('r \<Rightarrow> 'a) \<Rightarrow> 'r list \<Rightarrow> go_error + 'a" where
  "found_row scan rows = (if rows = [] then Inl ErrNotFound else Inr (scan (last rows)))"

lemma boolToInt_simps [simp]: "boolToInt b \<noteq> 0 \<longleftrightarrow> b" "boolToInt b = 0 \<longleftrightarrow> \<not> b" "boolToInt b = 1 \<longleftrightarrow> b"
  "sql_bool (boolToInt b)"
  by (simp_all add: boolToInt_def)

section \<open>Accounts\<close>

record Account =
  acc_ID :: int
  acc_Email :: string
  acc_IsAdmin :: bool
  acc_IsActive :: bool

record AccountUpdate =
  au_IsAdmin :: "bool option"
  au_IsActive :: "bool option"
  au_HashedSecret :: "string option"

definition sql_insert_account ::
  "string \<Rightarrow> int \<Rightarrow> int \<Rightarrow> string \<Rightarrow> database \<Rightarrow> sql_error + (int \<times> database)" where
  "sql_insert_account email is_admin is_active hashed_secret d =
     (let row = \<lparr>ar_id = next_rowid ar_id (accounts d), ar_email = email, ar_is_admin = is_admin,
                 ar_is_active = is_active, ar_hashed_secret = hashed_secret\<rparr>
      in if \<not> accounts_check row then Inl ResultConstraintCheck
         else if email \<in> set (map ar_email (accounts d)) then Inl ResultConstraintUnique
         else Inr (ar_id row, d\<lparr>accounts := accounts d @ [row]\<rparr>))"

definition store_CreateAccount ::
  "string \<Rightarrow> bool \<Rightarrow> bool \<Rightarrow> string \<Rightarrow> (world, go_error + int) state" where
  "store_CreateAccount email isAdmin isActive hashedSecret = with_conn (do {
     r \<leftarrow> Execute (sql_insert_account email (boolToInt isAdmin) (boolToInt isActive) hashedSecret);
     ret (case r of
        Inl e \<Rightarrow> Inl (if e = ResultConstraintUnique then ErrConflict else ErrSQL e)
      | Inr rowid \<Rightarrow> Inr rowid)
   })"

definition account_update_empty :: "AccountUpdate \<Rightarrow> bool" where
  "account_update_empty u \<longleftrightarrow>
     au_IsAdmin u = None \<and> au_IsActive u = None \<and> au_HashedSecret u = None"

definition buildAccountUpdate :: "AccountUpdate \<Rightarrow> string list \<times> sqlval list" where
  "buildAccountUpdate upd =
     add_set (au_HashedSecret upd) ''hashed_secret = ?'' SText
    (add_set (au_IsActive upd) ''is_active = ?'' (\<lambda>b. SInt (boolToInt b))
    (add_set (au_IsAdmin upd) ''is_admin = ?'' (\<lambda>b. SInt (boolToInt b)) ([], [])))"

definition set_account_column :: "string \<Rightarrow> sqlval \<Rightarrow> AccountRow \<Rightarrow> AccountRow" where
  "set_account_column frag v r =
     (case v of
        SInt i \<Rightarrow> if frag = ''is_admin = ?'' then r\<lparr>ar_is_admin := i\<rparr>
                  else if frag = ''is_active = ?'' then r\<lparr>ar_is_active := i\<rparr> else r
      | SText s \<Rightarrow> if frag = ''hashed_secret = ?'' then r\<lparr>ar_hashed_secret := s\<rparr> else r
      | SNull \<Rightarrow> r)"

definition account_where :: "string \<Rightarrow> sqlval \<Rightarrow> AccountRow \<Rightarrow> bool" where
  "account_where col arg r \<longleftrightarrow>
     (col = ''email'' \<and> arg = SText (ar_email r)) \<or> (col = ''id'' \<and> arg = SInt (ar_id r))"

text \<open>The value of an UPDATE is the number of rows it matched, which \<open>conn.Changes\<close> reports.\<close>

definition sql_update_accounts ::
  "string list \<Rightarrow> sqlval list \<Rightarrow> (AccountRow \<Rightarrow> bool) \<Rightarrow> database \<Rightarrow> sql_error + (nat \<times> database)" where
  "sql_update_accounts sets args P d =
     (let rows = map (\<lambda>r. if P r then update_columns set_account_column sets args r else r) (accounts d)
      in if sets = [] then Inl ResultError
         else if \<not> list_all accounts_check rows then Inl ResultConstraintCheck
         else Inr (length (filter P (accounts d)), d\<lparr>accounts := rows\<rparr>))"

definition updateAccountWhere ::
  "string \<Rightarrow> sqlval \<Rightarrow> AccountUpdate \<Rightarrow> (world, go_error + unit) state" where
  "updateAccountWhere whereCol arg upd = (case buildAccountUpdate upd of (sets, args) \<Rightarrow>
     with_conn (do {
       r \<leftarrow> Execute (sql_update_accounts sets args (account_where whereCol arg));
       ret (case r of
          Inl e \<Rightarrow> Inl (ErrSQL e)
        | Inr changes \<Rightarrow> if changes = 0 then Inl ErrNotFound else Inr ())
     }))"

definition store_UpdateAccountByEmail :: "string \<Rightarrow> AccountUpdate \<Rightarrow> (world, go_error + unit) state" where
  "store_UpdateAccountByEmail email upd =
     (if account_update_empty upd then ret (Inl ErrNoChanges)
      else updateAccountWhere ''email'' (SText email) upd)"

definition store_UpdateAccountByID :: "int \<Rightarrow> AccountUpdate \<Rightarrow> (world, go_error + unit) state" where
  "store_UpdateAccountByID i upd =
     (if account_update_empty upd then ret (Inl ErrNoChanges)
      else updateAccountWhere ''id'' (SInt i) upd)"

definition store_AccountByID :: "int \<Rightarrow> (world, go_error + Account) state" where
  "store_AccountByID i = with_conn (do {
     r \<leftarrow> Execute (select (\<lambda>d. filter (\<lambda>r. ar_id r = i) (accounts d)));
     ret (case r of
        Inl e \<Rightarrow> Inl (ErrSQL e)
      | Inr rows \<Rightarrow> found_row (\<lambda>r. \<lparr>acc_ID = i, acc_Email = ar_email r,
            acc_IsAdmin = (ar_is_admin r \<noteq> 0), acc_IsActive = (ar_is_active r \<noteq> 0)\<rparr>) rows)
   })"

definition store_AccountByEmail :: "string \<Rightarrow> (world, go_error + Account) state" where
  "store_AccountByEmail email = with_conn (do {
     r \<leftarrow> Execute (select (\<lambda>d. filter (\<lambda>r. ar_email r = email) (accounts d)));
     ret (case r of
        Inl e \<Rightarrow> Inl (ErrSQL e)
      | Inr rows \<Rightarrow> found_row (\<lambda>r. \<lparr>acc_ID = ar_id r, acc_Email = email,
            acc_IsAdmin = (ar_is_admin r \<noteq> 0), acc_IsActive = (ar_is_active r \<noteq> 0)\<rparr>) rows)
   })"

definition account_of_row :: "AccountRow \<Rightarrow> Account" where
  "account_of_row r = \<lparr>acc_ID = ar_id r, acc_Email = ar_email r,
     acc_IsAdmin = (ar_is_admin r \<noteq> 0), acc_IsActive = (ar_is_active r \<noteq> 0)\<rparr>"

definition store_ListAccounts :: "(world, go_error + Account list) state" where
  "store_ListAccounts = with_conn (do {
     r \<leftarrow> Execute (select (\<lambda>d. sort_key ar_id (accounts d)));
     ret (case r of Inl e \<Rightarrow> Inl (ErrSQL e) | Inr rows \<Rightarrow> Inr (map account_of_row rows))
   })"

definition store_Credentials :: "string \<Rightarrow> (world, go_error + (Account \<times> string)) state" where
  "store_Credentials email = with_conn (do {
     r \<leftarrow> Execute (select (\<lambda>d. filter (\<lambda>r. ar_email r = email) (accounts d)));
     ret (case r of
        Inl e \<Rightarrow> Inl (ErrSQL e)
      | Inr rows \<Rightarrow> found_row (\<lambda>r. (account_of_row r, ar_hashed_secret r)) rows)
   })"

definition store_SchemaVersion :: "(world, go_error + int) state" where
  "store_SchemaVersion = with_conn (do {
     r \<leftarrow> Execute (select user_version);
     ret (case r of Inl e \<Rightarrow> Inl (ErrSQL e) | Inr v \<Rightarrow> Inr v)
   })"

section \<open>Refresh tokens\<close>

record RefreshToken =
  rt_JTI :: string
  rt_FamilyID :: string
  rt_AccountID :: int
  rt_IssuedAt :: int
  rt_ExpiresAt :: int
  rt_Revoked :: bool

record Session =
  ses_FamilyID :: string
  ses_IssuedAt :: int
  ses_ExpiresAt :: int

definition sql_insert_refresh_token ::
  "string \<Rightarrow> string \<Rightarrow> int \<Rightarrow> int \<Rightarrow> int \<Rightarrow> database \<Rightarrow> sql_error + (unit \<times> database)" where
  "sql_insert_refresh_token jti familyID accountID issuedAt expiresAt d =
     (let row = \<lparr>tr_id = next_rowid tr_id (refresh_tokens d), tr_jti = jti, tr_family_id = familyID,
                 tr_account_id = accountID, tr_issued_at = issuedAt, tr_expires_at = expiresAt,
                 tr_revoked = 0\<rparr>
      in if jti \<in> set (map tr_jti (refresh_tokens d)) then Inl ResultConstraintUnique
         else if accountID \<notin> set (map ar_id (accounts d)) then Inl ResultConstraintForeignKey
         else Inr ((), d\<lparr>refresh_tokens := refresh_tokens d @ [row]\<rparr>))"

definition store_CreateRefreshToken ::
  "string \<Rightarrow> string \<Rightarrow> int \<Rightarrow> int \<Rightarrow> int \<Rightarrow> (world, go_error + unit) state" where
  "store_CreateRefreshToken jti familyID accountID issuedAt expiresAt = with_conn (do {
     r \<leftarrow> Execute (sql_insert_refresh_token jti familyID accountID issuedAt expiresAt);
     ret (case r of
        Inl e \<Rightarrow> Inl (if e = ResultConstraintUnique then ErrConflict else ErrSQL e)
      | Inr _ \<Rightarrow> Inr ())
   })"

definition store_RefreshTokenByJTI :: "string \<Rightarrow> (world, go_error + RefreshToken) state" where
  "store_RefreshTokenByJTI jti = with_conn (do {
     r \<leftarrow> Execute (select (\<lambda>d. filter (\<lambda>t. tr_jti t = jti) (refresh_tokens d)));
     ret (case r of
        Inl e \<Rightarrow> Inl (ErrSQL e)
      | Inr rows \<Rightarrow> found_row (\<lambda>t. \<lparr>rt_JTI = jti, rt_FamilyID = tr_family_id t,
            rt_AccountID = tr_account_id t, rt_IssuedAt = tr_issued_at t,
            rt_ExpiresAt = tr_expires_at t, rt_Revoked = (tr_revoked t \<noteq> 0)\<rparr>) rows)
   })"

definition token_where :: "string \<Rightarrow> sqlval \<Rightarrow> TokenRow \<Rightarrow> bool" where
  "token_where cond arg t \<longleftrightarrow>
     (cond = ''jti = ?'' \<and> arg = SText (tr_jti t)) \<or>
     (cond = ''family_id = ?'' \<and> arg = SText (tr_family_id t)) \<or>
     (cond = ''account_id = ?'' \<and> arg = SInt (tr_account_id t))"

definition revoke_row :: "(TokenRow \<Rightarrow> bool) \<Rightarrow> TokenRow \<Rightarrow> TokenRow" where
  "revoke_row P t = (if P t then t\<lparr>tr_revoked := 1\<rparr> else t)"

definition sql_revoke :: "(TokenRow \<Rightarrow> bool) \<Rightarrow> database \<Rightarrow> sql_error + (nat \<times> database)" where
  "sql_revoke P d = Inr (length (filter P (refresh_tokens d)),
     d\<lparr>refresh_tokens := map (revoke_row P) (refresh_tokens d)\<rparr>)"

definition revoke :: "string \<Rightarrow> sqlval \<Rightarrow> (world, go_error + unit) state" where
  "revoke whereCol arg = with_conn (do {
     r \<leftarrow> Execute (sql_revoke (token_where whereCol arg));
     ret (case r of Inl e \<Rightarrow> Inl (ErrSQL e) | Inr _ \<Rightarrow> Inr ())
   })"

definition store_RevokeRefreshToken :: "string \<Rightarrow> (world, go_error + unit) state" where
  "store_RevokeRefreshToken jti = revoke ''jti = ?'' (SText jti)"

definition store_RevokeFamily :: "string \<Rightarrow> (world, go_error + unit) state" where
  "store_RevokeFamily familyID = revoke ''family_id = ?'' (SText familyID)"

definition store_RevokeAllForAccount :: "int \<Rightarrow> (world, go_error + unit) state" where
  "store_RevokeAllForAccount accountID = revoke ''account_id = ?'' (SInt accountID)"

definition store_RevokeFamilyForAccount :: "string \<Rightarrow> int \<Rightarrow> (world, go_error + unit) state" where
  "store_RevokeFamilyForAccount familyID accountID = with_conn (do {
     r \<leftarrow> Execute (sql_revoke (\<lambda>t. tr_family_id t = familyID \<and> tr_account_id t = accountID));
     ret (case r of
        Inl e \<Rightarrow> Inl (ErrSQL e)
      | Inr changes \<Rightarrow> if changes = 0 then Inl ErrNotFound else Inr ())
   })"

text \<open>
  \<open>GROUP BY family_id\<close> with \<open>MAX\<close>, then \<open>ORDER BY MAX(issued_at) DESC, family_id\<close>: one
  group per family among the live rows of the account.
\<close>

definition live_tokens :: "int \<Rightarrow> int \<Rightarrow> database \<Rightarrow> TokenRow list" where
  "live_tokens accountID now d =
     filter (\<lambda>t. tr_account_id t = accountID \<and> tr_revoked t = 0 \<and> tr_expires_at t > now) (refresh_tokens d)"

definition max_of :: "('r \<Rightarrow> int) \<Rightarrow> 'r list \<Rightarrow> int" where
  "max_of f rows = (case rows of [] \<Rightarrow> 0 | r # rs \<Rightarrow> foldr (\<lambda>q m. max (f q) m) rs (f r))"

definition session_group :: "TokenRow list \<Rightarrow> string \<Rightarrow> Session" where
  "session_group rows fam =
     (let g = filter (\<lambda>t. tr_family_id t = fam) rows
      in \<lparr>ses_FamilyID = fam, ses_IssuedAt = max_of tr_issued_at g, ses_ExpiresAt = max_of tr_expires_at g\<rparr>)"

definition session_before :: "Session \<Rightarrow> Session \<Rightarrow> bool" where
  "session_before a b \<longleftrightarrow> ses_IssuedAt a > ses_IssuedAt b \<or>
     (ses_IssuedAt a = ses_IssuedAt b \<and> ses_FamilyID a \<le> ses_FamilyID b)"

fun insert_session :: "Session \<Rightarrow> Session list \<Rightarrow> Session list" where
  "insert_session s [] = [s]"
| "insert_session s (t # ts) = (if session_before s t then s # t # ts else t # insert_session s ts)"

definition sql_select_sessions :: "int \<Rightarrow> int \<Rightarrow> database \<Rightarrow> Session list" where
  "sql_select_sessions accountID now d =
     (let rows = live_tokens accountID now d
      in foldr insert_session (map (session_group rows) (remdups (map tr_family_id rows))) [])"

definition store_SessionsForAccount :: "int \<Rightarrow> int \<Rightarrow> (world, go_error + Session list) state" where
  "store_SessionsForAccount accountID now = with_conn (do {
     r \<leftarrow> Execute (select (sql_select_sessions accountID now));
     ret (case r of Inl e \<Rightarrow> Inl (ErrSQL e) | Inr ss \<Rightarrow> Inr ss)
   })"

definition sql_purge :: "int \<Rightarrow> database \<Rightarrow> sql_error + (nat \<times> database)" where
  "sql_purge cutoff d = Inr (length (filter (\<lambda>t. tr_expires_at t \<le> cutoff) (refresh_tokens d)),
     d\<lparr>refresh_tokens := filter (\<lambda>t. \<not> tr_expires_at t \<le> cutoff) (refresh_tokens d)\<rparr>)"

definition store_PurgeExpiredRefreshTokens :: "int \<Rightarrow> (world, go_error + nat) state" where
  "store_PurgeExpiredRefreshTokens cutoff = with_conn (do {
     r \<leftarrow> Execute (sql_purge cutoff);
     ret (case r of Inl e \<Rightarrow> Inl (ErrSQL e) | Inr changes \<Rightarrow> Inr changes)
   })"

end
