(* ===== verification/StoreGames.thy ===== *)
theory StoreGames
  imports StoreAccounts
begin

text \<open>
  internal/store/store.go, the games and game_account_role part: games with their
  lifecycle status and rosters of members.
\<close>

section \<open>Games\<close>

record Game =
  game_ID :: int
  game_Code :: string
  game_Name :: string
  game_Status :: string
  game_Description :: "string option"
  game_IsActive :: bool

record GameMembership =
  gm_GameID :: int
  gm_Code :: string
  gm_IsActive :: bool
  gm_Handle :: string
  gm_IsGM :: bool

record GameUpdate =
  gu_Status :: "string option"
  gu_Name :: "string option"
  gu_Description :: "string option"
  gu_IsActive :: "bool option"

definition scanGame :: "GameRow \<Rightarrow> Game" where
  "scanGame g = \<lparr>game_ID = gr_id g, game_Code = gr_code g, game_Name = gr_name g,
     game_Status = gr_status g, game_Description = gr_description g,
     game_IsActive = (gr_is_active g \<noteq> 0)\<rparr>"

definition sql_select_memberships :: "int \<Rightarrow> database \<Rightarrow> GameMembership list" where
  "sql_select_memberships accountID d =
     map (\<lambda>(r, g). \<lparr>gm_GameID = gr_id g, gm_Code = gr_code g, gm_IsActive = (gr_is_active g \<noteq> 0),
            gm_Handle = rr_handle r, gm_IsGM = (rr_is_gm r \<noteq> 0)\<rparr>)
       (sort_key (\<lambda>(r, g). gr_id g)
         [(r, g). r \<leftarrow> game_account_role d, g \<leftarrow> games d,
            gr_id g = rr_game_id r, rr_account_id r = accountID \<and> rr_is_active r = 1])"

definition store_GamesForAccount :: "int \<Rightarrow> (world, go_error + GameMembership list) state" where
  "store_GamesForAccount accountID = with_conn (do {
     r \<leftarrow> Execute (select (sql_select_memberships accountID));
     ret (case r of Inl e \<Rightarrow> Inl (ErrSQL e) | Inr ms \<Rightarrow> Inr ms)
   })"

definition sql_insert_game ::
  "string \<Rightarrow> string \<Rightarrow> string option \<Rightarrow> database \<Rightarrow> sql_error + (int \<times> database)" where
  "sql_insert_game code name description d =
     (let row = \<lparr>gr_id = next_rowid gr_id (games d), gr_code = code, gr_is_active = 1, gr_name = name,
                 gr_status = ''draft'', gr_description = description\<rparr>
      in if \<not> games_check row then Inl ResultConstraintCheck
         else if code \<in> set (map gr_code (games d)) then Inl ResultConstraintUnique
         else Inr (gr_id row, d\<lparr>games := games d @ [row]\<rparr>))"

definition store_CreateGame ::
  "string \<Rightarrow> string \<Rightarrow> string option \<Rightarrow> (world, go_error + Game) state" where
  "store_CreateGame code name description = with_conn (do {
     r \<leftarrow> Execute (sql_insert_game code name description);
     ret (case r of
        Inl e \<Rightarrow> Inl (if e = ResultConstraintUnique then ErrConflict else ErrSQL e)
      | Inr rowid \<Rightarrow> Inr \<lparr>game_ID = rowid, game_Code = code, game_Name = name,
          game_Status = ''draft'', game_Description = description, game_IsActive = True\<rparr>)
   })"

definition game_update_empty :: "GameUpdate \<Rightarrow> bool" where
  "game_update_empty u \<longleftrightarrow>
     gu_Status u = None \<and> gu_Name u = None \<and> gu_Description u = None \<and> gu_IsActive u = None"

definition buildGameUpdate :: "GameUpdate \<Rightarrow> string list \<times> sqlval list" where
  "buildGameUpdate upd =
     add_set (gu_IsActive upd) ''is_active = ?'' (\<lambda>b. SInt (boolToInt b))
    (add_set (gu_Description upd) ''description = ?'' SText
    (add_set (gu_Name upd) ''name = ?'' SText
    (add_set (gu_Status upd) ''status = ?'' SText ([], []))))"

definition set_game_column :: "string \<Rightarrow> sqlval \<Rightarrow> GameRow \<Rightarrow> GameRow" where
  "set_game_column frag v r =
     (case v of
        SInt i \<Rightarrow> if frag = ''is_active = ?'' then r\<lparr>gr_is_active := i\<rparr> else r
      | SText s \<Rightarrow> if frag = ''status = ?'' then r\<lparr>gr_status := s\<rparr>
                  else if frag = ''name = ?'' then r\<lparr>gr_name := s\<rparr>
                  else if frag = ''description = ?'' then r\<lparr>gr_description := Some s\<rparr> else r
      | SNull \<Rightarrow> r)"

definition sql_update_game ::
  "string list \<Rightarrow> sqlval list \<Rightarrow> int \<Rightarrow> database \<Rightarrow> sql_error + (unit \<times> database)" where
  "sql_update_game sets args i d =
     (let rows = map (\<lambda>g. if gr_id g = i then update_columns set_game_column sets args g else g) (games d)
      in if sets = [] then Inl ResultError
         else if \<not> list_all games_check rows then Inl ResultConstraintCheck
         else Inr ((), d\<lparr>games := rows\<rparr>))"

text \<open>The final \<open>if upd.F != nil\<close> block: the applied fields over the row that was read.\<close>

definition merge_game :: "GameUpdate \<Rightarrow> Game \<Rightarrow> Game" where
  "merge_game upd g = g\<lparr>
     game_Status := (case gu_Status upd of None \<Rightarrow> game_Status g | Some v \<Rightarrow> v),
     game_Name := (case gu_Name upd of None \<Rightarrow> game_Name g | Some v \<Rightarrow> v),
     game_Description := (case gu_Description upd of None \<Rightarrow> game_Description g | Some v \<Rightarrow> Some v),
     game_IsActive := (case gu_IsActive upd of None \<Rightarrow> game_IsActive g | Some v \<Rightarrow> v)\<rparr>"

definition store_UpdateGame :: "int \<Rightarrow> GameUpdate \<Rightarrow> (world, go_error + Game) state" where
  "store_UpdateGame i upd =
     (if game_update_empty upd then ret (Inl ErrNoChanges)
      else with_conn (ImmediateTransaction (do {
        r \<leftarrow> Execute (select (\<lambda>d. filter (\<lambda>g. gr_id g = i) (games d)));
        case r of
          Inl e \<Rightarrow> ret (Inl (ErrSQL e))
        | Inr rows \<Rightarrow>
            if rows = [] then ret (Inl ErrNotFound)
            else (case buildGameUpdate upd of (sets, args) \<Rightarrow> do {
              u \<leftarrow> Execute (sql_update_game sets args i);
              case u of
                Inl e \<Rightarrow> ret (Inl (ErrSQL e))
              | Inr _ \<Rightarrow> ret (Inr (merge_game upd ((scanGame (last rows))\<lparr>game_ID := i\<rparr>)))
            })
      })))"

definition sql_list_games :: "int \<Rightarrow> bool \<Rightarrow> string option \<Rightarrow> database \<Rightarrow> GameRow list" where
  "sql_list_games accountID isAdmin status d =
     sort_key gr_id (filter (\<lambda>g. case status of None \<Rightarrow> True | Some s \<Rightarrow> gr_status g = s)
       (if isAdmin then games d
        else [g. g \<leftarrow> games d, r \<leftarrow> game_account_role d,
               rr_game_id r = gr_id g, rr_account_id r = accountID \<and> gr_is_active g = 1]))"

definition store_ListGames ::
  "int \<Rightarrow> bool \<Rightarrow> string option \<Rightarrow> (world, go_error + Game list) state" where
  "store_ListGames accountID isAdmin status = with_conn (do {
     r \<leftarrow> Execute (select (sql_list_games accountID isAdmin status));
     ret (case r of Inl e \<Rightarrow> Inl (ErrSQL e) | Inr rows \<Rightarrow> Inr (map scanGame rows))
   })"

definition sql_game_by_id :: "int \<Rightarrow> int \<Rightarrow> bool \<Rightarrow> database \<Rightarrow> GameRow list" where
  "sql_game_by_id i accountID isAdmin d =
     (if isAdmin then filter (\<lambda>g. gr_id g = i) (games d)
      else [g. g \<leftarrow> games d, r \<leftarrow> game_account_role d,
             rr_game_id r = gr_id g, gr_id g = i \<and> rr_account_id r = accountID \<and> gr_is_active g = 1])"

definition store_GameByID :: "int \<Rightarrow> int \<Rightarrow> bool \<Rightarrow> (world, go_error + Game) state" where
  "store_GameByID i accountID isAdmin = with_conn (do {
     r \<leftarrow> Execute (select (sql_game_by_id i accountID isAdmin));
     ret (case r of Inl e \<Rightarrow> Inl (ErrSQL e) | Inr rows \<Rightarrow> found_row scanGame rows)
   })"

definition store_GameByCode :: "string \<Rightarrow> (world, go_error + Game) state" where
  "store_GameByCode code = with_conn (do {
     r \<leftarrow> Execute (select (\<lambda>d. filter (\<lambda>g. gr_code g = code) (games d)));
     ret (case r of Inl e \<Rightarrow> Inl (ErrSQL e) | Inr rows \<Rightarrow> found_row scanGame rows)
   })"

section \<open>Members\<close>

record Member =
  mem_AccountID :: int
  mem_Handle :: string
  mem_IsGM :: bool
  mem_IsActive :: bool

record MemberUpdate =
  mu_IsActive :: "bool option"
  mu_IsGM :: "bool option"
  mu_Handle :: "string option"

definition member_of_row :: "RoleRow \<Rightarrow> Member" where
  "member_of_row r = \<lparr>mem_AccountID = rr_account_id r, mem_Handle = rr_handle r,
     mem_IsGM = (rr_is_gm r \<noteq> 0), mem_IsActive = (rr_is_active r \<noteq> 0)\<rparr>"

definition store_MembersForGame :: "int \<Rightarrow> (world, go_error + Member list) state" where
  "store_MembersForGame gameID = with_conn (do {
     r \<leftarrow> Execute (select (\<lambda>d. sort_key rr_id (filter (\<lambda>r. rr_game_id r = gameID) (game_account_role d))));
     ret (case r of Inl e \<Rightarrow> Inl (ErrSQL e) | Inr rows \<Rightarrow> Inr (map member_of_row rows))
   })"

definition role_at :: "int \<Rightarrow> int \<Rightarrow> RoleRow \<Rightarrow> bool" where
  "role_at gameID accountID r \<longleftrightarrow> rr_game_id r = gameID \<and> rr_account_id r = accountID"

definition store_MemberForGame :: "int \<Rightarrow> int \<Rightarrow> (world, go_error + Member) state" where
  "store_MemberForGame gameID accountID = with_conn (do {
     r \<leftarrow> Execute (select (\<lambda>d. filter (role_at gameID accountID) (game_account_role d)));
     ret (case r of
        Inl e \<Rightarrow> Inl (ErrSQL e)
      | Inr rows \<Rightarrow> found_row (\<lambda>r. (member_of_row r)\<lparr>mem_AccountID := accountID\<rparr>) rows)
   })"

definition existsInt :: "(database \<Rightarrow> bool) \<Rightarrow> (world, sql_error + bool) state" where
  "existsInt query = Execute (select query)"

definition sql_insert_member ::
  "int \<Rightarrow> int \<Rightarrow> string \<Rightarrow> int \<Rightarrow> database \<Rightarrow> sql_error + (unit \<times> database)" where
  "sql_insert_member gameID accountID handle is_gm d =
     (let rows = game_account_role d;
          row = \<lparr>rr_id = next_rowid rr_id rows, rr_game_id = gameID, rr_account_id = accountID,
                 rr_handle = handle, rr_is_gm = is_gm, rr_is_active = 1\<rparr>
      in if \<not> roles_check row then Inl ResultConstraintCheck
         else if list_ex (role_at gameID accountID) rows \<or>
                 list_ex (\<lambda>r. rr_game_id r = gameID \<and> rr_handle r = handle) rows
           then Inl ResultConstraintUnique
         else if gameID \<notin> set (map gr_id (games d)) \<or> accountID \<notin> set (map ar_id (accounts d))
           then Inl ResultConstraintForeignKey
         else Inr ((), d\<lparr>game_account_role := rows @ [row]\<rparr>))"

text \<open>
  \<open>AddMember\<close>: account check, membership check, default handle from the member count,
  handle check and insert, all in one immediate transaction.
\<close>

definition insert_new_member ::
  "int \<Rightarrow> int \<Rightarrow> string \<Rightarrow> bool \<Rightarrow> (world, go_error + Member) state" where
  "insert_new_member gameID accountID handle isGM = do {
     taken \<leftarrow> existsInt (\<lambda>d. list_ex (\<lambda>r. rr_game_id r = gameID \<and> rr_handle r = handle) (game_account_role d));
     case taken of
       Inl e \<Rightarrow> ret (Inl (ErrSQL e))
     | Inr ok \<Rightarrow>
         if ok then ret (Inl ErrHandleTaken)
         else do {
           i \<leftarrow> Execute (sql_insert_member gameID accountID handle (boolToInt isGM));
           ret (case i of
              Inl e \<Rightarrow> Inl (if e = ResultConstraintUnique then ErrConflict else ErrSQL e)
            | Inr _ \<Rightarrow> Inr \<lparr>mem_AccountID = accountID, mem_Handle = handle, mem_IsGM = isGM,
                mem_IsActive = True\<rparr>)
         }
   }"

definition store_AddMember ::
  "int \<Rightarrow> int \<Rightarrow> string \<Rightarrow> bool \<Rightarrow> (world, go_error + Member) state" where
  "store_AddMember gameID accountID handle isGM = with_conn (ImmediateTransaction (do {
     acct \<leftarrow> existsInt (\<lambda>d. list_ex (\<lambda>a. ar_id a = accountID) (accounts d));
     case acct of
       Inl e \<Rightarrow> ret (Inl (ErrSQL e))
     | Inr ok \<Rightarrow>
         if \<not> ok then ret (Inl ErrNotFound)
         else do {
           mem \<leftarrow> existsInt (\<lambda>d. list_ex (role_at gameID accountID) (game_account_role d));
           case mem of
             Inl e \<Rightarrow> ret (Inl (ErrSQL e))
           | Inr ok \<Rightarrow>
               if ok then ret (Inl ErrMemberExists)
               else if handle = [] then do {
                 c \<leftarrow> Execute (select (\<lambda>d. length (filter (\<lambda>r. rr_game_id r = gameID) (game_account_role d))));
                 case c of
                   Inl e \<Rightarrow> ret (Inl (ErrSQL e))
                 | Inr count \<Rightarrow>
                     insert_new_member gameID accountID (''player_'' @ FormatInt (int count + 1)) isGM
               }
               else insert_new_member gameID accountID handle isGM
         }
   }))"

definition member_update_empty :: "MemberUpdate \<Rightarrow> bool" where
  "member_update_empty u \<longleftrightarrow> mu_IsActive u = None \<and> mu_IsGM u = None \<and> mu_Handle u = None"

definition buildMemberUpdate :: "MemberUpdate \<Rightarrow> string list \<times> sqlval list" where
  "buildMemberUpdate upd =
     add_set (mu_Handle upd) ''handle = ?'' SText
    (add_set (mu_IsGM upd) ''is_gm = ?'' (\<lambda>b. SInt (boolToInt b))
    (add_set (mu_IsActive upd) ''is_active = ?'' (\<lambda>b. SInt (boolToInt b)) ([], [])))"

definition set_role_column :: "string \<Rightarrow> sqlval \<Rightarrow> RoleRow \<Rightarrow> RoleRow" where
  "set_role_column frag v r =
     (case v of
        SInt i \<Rightarrow> if frag = ''is_active = ?'' then r\<lparr>rr_is_active := i\<rparr>
                  else if frag = ''is_gm = ?'' then r\<lparr>rr_is_gm := i\<rparr> else r
      | SText s \<Rightarrow> if frag = ''handle = ?'' then r\<lparr>rr_handle := s\<rparr> else r
      | SNull \<Rightarrow> r)"

definition sql_update_member ::
  "string list \<Rightarrow> sqlval list \<Rightarrow> int \<Rightarrow> int \<Rightarrow> database \<Rightarrow> sql_error + (unit \<times> database)" where
  "sql_update_member sets args gameID accountID d =
     (let rows = map (\<lambda>r. if role_at gameID accountID r
                          then update_columns set_role_column sets args r else r) (game_account_role d)
      in if sets = [] then Inl ResultError
         else if \<not> list_all roles_check rows then Inl ResultConstraintCheck
         else if \<not> distinct (map (\<lambda>r. (rr_game_id r, rr_handle r)) rows) then Inl ResultConstraintUnique
         else Inr ((), d\<lparr>game_account_role := rows\<rparr>))"

definition merge_member :: "MemberUpdate \<Rightarrow> Member \<Rightarrow> Member" where
  "merge_member upd m = m\<lparr>
     mem_IsActive := (case mu_IsActive upd of None \<Rightarrow> mem_IsActive m | Some v \<Rightarrow> v),
     mem_IsGM := (case mu_IsGM upd of None \<Rightarrow> mem_IsGM m | Some v \<Rightarrow> v),
     mem_Handle := (case mu_Handle upd of None \<Rightarrow> mem_Handle m | Some v \<Rightarrow> v)\<rparr>"

definition apply_member_update ::
  "int \<Rightarrow> int \<Rightarrow> MemberUpdate \<Rightarrow> Member \<Rightarrow> (world, go_error + Member) state" where
  "apply_member_update gameID accountID upd current =
     (case buildMemberUpdate upd of (sets, args) \<Rightarrow> do {
        u \<leftarrow> Execute (sql_update_member sets args gameID accountID);
        ret (case u of
           Inl e \<Rightarrow> Inl (if e = ResultConstraintUnique then ErrHandleTaken else ErrSQL e)
         | Inr _ \<Rightarrow> Inr (merge_member upd current))
      })"

definition store_UpdateMember ::
  "int \<Rightarrow> int \<Rightarrow> MemberUpdate \<Rightarrow> (world, go_error + Member) state" where
  "store_UpdateMember gameID accountID upd =
     (if member_update_empty upd then ret (Inl ErrNoChanges)
      else with_conn (ImmediateTransaction (do {
        r \<leftarrow> Execute (select (\<lambda>d. filter (role_at gameID accountID) (game_account_role d)));
        case r of
          Inl e \<Rightarrow> ret (Inl (ErrSQL e))
        | Inr rows \<Rightarrow>
            if rows = [] then ret (Inl ErrNotFound)
            else (let current = (member_of_row (last rows))\<lparr>mem_AccountID := accountID\<rparr> in
              case mu_Handle upd of
                None \<Rightarrow> apply_member_update gameID accountID upd current
              | Some h \<Rightarrow>
                  if h \<noteq> mem_Handle current then do {
                    taken \<leftarrow> existsInt (\<lambda>d. list_ex (\<lambda>r. rr_game_id r = gameID \<and> rr_handle r = h \<and>
                                                       rr_account_id r \<noteq> accountID) (game_account_role d));
                    case taken of
                      Inl e \<Rightarrow> ret (Inl (ErrSQL e))
                    | Inr ok \<Rightarrow>
                        if ok then ret (Inl ErrHandleTaken)
                        else apply_member_update gameID accountID upd current
                  }
                  else apply_member_update gameID accountID upd current)
      })))"

end
