(* ===== verification/StoreContract.thy ===== *)
theory StoreContract
  imports StoreGames
begin

text \<open>
  The contract between the store and its callers. For a preorder \<open>r\<close> on databases the
  locales name the statements of each table group that must move along \<open>r\<close>; under that
  assumption every store method does, in any schedule (the lemmas \<open>obeys_...\<close>). The
  handlers prove their part once, inside \<open>store_contract\<close>; the interpretations below
  discharge the laws for the schema invariant, for the history of the tables, and for the
  tables a group of operations leaves alone.
\<close>

section \<open>The contract\<close>

locale account_store = db_order r for r +
  assumes insert_account: "stmt_ok r (sql_insert_account email is_admin is_active hash)"
    and update_accounts:
      "buildAccountUpdate u = (sets, args) \<Longrightarrow> stmt_ok r (sql_update_accounts sets args P)"
begin

lemma obeys_CreateAccount [step_intros]: "obeys r (store_CreateAccount e a i h)"
  unfolding store_CreateAccount_def by (intro step_intros res_Execute insert_account)

lemma obeys_updateAccountWhere [step_intros]: "obeys r (updateAccountWhere c a u)"
  unfolding updateAccountWhere_def by (intro step_intros res_Execute update_accounts)

lemma obeys_UpdateAccountByEmail [step_intros]: "obeys r (store_UpdateAccountByEmail e u)"
  unfolding store_UpdateAccountByEmail_def by (intro step_intros)

lemma obeys_UpdateAccountByID [step_intros]: "obeys r (store_UpdateAccountByID i u)"
  unfolding store_UpdateAccountByID_def by (intro step_intros)

end

locale token_store = db_order r for r +
  assumes insert_token: "stmt_ok r (sql_insert_refresh_token jti fam a iss ex)"
    and revoke_tokens: "stmt_ok r (sql_revoke P)"
    and purge_tokens: "stmt_ok r (sql_purge cutoff)"
begin

lemma obeys_CreateRefreshToken [step_intros]: "obeys r (store_CreateRefreshToken jti f a i e)"
  unfolding store_CreateRefreshToken_def by (intro step_intros res_Execute insert_token)

lemma obeys_revoke [step_intros]: "obeys r (revoke c a)"
  unfolding revoke_def by (intro step_intros res_Execute revoke_tokens)

lemma obeys_RevokeRefreshToken [step_intros]: "obeys r (store_RevokeRefreshToken j)"
  unfolding store_RevokeRefreshToken_def by (intro step_intros)

lemma obeys_RevokeFamily [step_intros]: "obeys r (store_RevokeFamily f)"
  unfolding store_RevokeFamily_def by (intro step_intros)

lemma obeys_RevokeAllForAccount [step_intros]: "obeys r (store_RevokeAllForAccount a)"
  unfolding store_RevokeAllForAccount_def by (intro step_intros)

lemma obeys_RevokeFamilyForAccount [step_intros]: "obeys r (store_RevokeFamilyForAccount f a)"
  unfolding store_RevokeFamilyForAccount_def by (intro step_intros res_Execute revoke_tokens)

lemma obeys_Purge [step_intros]: "obeys r (store_PurgeExpiredRefreshTokens c)"
  unfolding store_PurgeExpiredRefreshTokens_def by (intro step_intros res_Execute purge_tokens)

end

text \<open>The roster law covers the updates the handlers make: none of them demotes a GM.\<close>

locale game_store = db_order r for r +
  assumes insert_game: "stmt_ok r (sql_insert_game code name descr)"
    and update_game:
      "buildGameUpdate gu = (sets, args) \<Longrightarrow> stmt_ok r (sql_update_game sets args i)"
    and insert_member: "stmt_ok r (sql_insert_member g a handle gm)"
    and update_member:
      "buildMemberUpdate mu = (sets, args) \<Longrightarrow> mu_IsGM mu \<noteq> Some False \<Longrightarrow>
       stmt_ok r (sql_update_member sets args g a)"
begin

lemma obeys_CreateGame [step_intros]: "obeys r (store_CreateGame c n d)"
  unfolding store_CreateGame_def by (intro step_intros res_Execute insert_game)

lemma obeys_UpdateGame [step_intros]: "obeys r (store_UpdateGame i u)"
  unfolding store_UpdateGame_def by (intro step_intros res_Execute update_game)

lemma obeys_existsInt [step_intros]: "obeys r (existsInt q)"
  unfolding existsInt_def by (intro step_intros)

lemma obeys_insert_new_member [step_intros]: "obeys r (insert_new_member g a h m)"
  unfolding insert_new_member_def by (intro step_intros res_Execute insert_member)

lemma obeys_AddMember [step_intros]: "obeys r (store_AddMember g a h m)"
  unfolding store_AddMember_def by (intro step_intros)

lemma obeys_apply_member_update [step_intros]:
  "mu_IsGM u \<noteq> Some False \<Longrightarrow> obeys r (apply_member_update g a u m)"
  unfolding apply_member_update_def by (intro step_intros res_Execute update_member)

lemma obeys_UpdateMember [step_intros]:
  "mu_IsGM u \<noteq> Some False \<Longrightarrow> obeys r (store_UpdateMember g a u)"
  unfolding store_UpdateMember_def Let_def by (intro step_intros)

end

context db_order
begin

lemma obeys_AccountByID [step_intros]: "obeys r (store_AccountByID i)"
  unfolding store_AccountByID_def by (intro step_intros)

lemma obeys_AccountByEmail [step_intros]: "obeys r (store_AccountByEmail e)"
  unfolding store_AccountByEmail_def by (intro step_intros)

lemma obeys_ListAccounts [step_intros]: "obeys r store_ListAccounts"
  unfolding store_ListAccounts_def by (intro step_intros)

lemma obeys_Credentials [step_intros]: "obeys r (store_Credentials e)"
  unfolding store_Credentials_def by (intro step_intros)

lemma obeys_SchemaVersion [step_intros]: "obeys r store_SchemaVersion"
  unfolding store_SchemaVersion_def by (intro step_intros)

lemma obeys_RefreshTokenByJTI [step_intros]: "obeys r (store_RefreshTokenByJTI j)"
  unfolding store_RefreshTokenByJTI_def by (intro step_intros)

lemma obeys_SessionsForAccount [step_intros]: "obeys r (store_SessionsForAccount a n)"
  unfolding store_SessionsForAccount_def by (intro step_intros)

lemma obeys_GamesForAccount [step_intros]: "obeys r (store_GamesForAccount a)"
  unfolding store_GamesForAccount_def by (intro step_intros)

lemma obeys_ListGames [step_intros]: "obeys r (store_ListGames a b s)"
  unfolding store_ListGames_def by (intro step_intros)

lemma obeys_GameByID [step_intros]: "obeys r (store_GameByID i a b)"
  unfolding store_GameByID_def by (intro step_intros)

lemma obeys_GameByCode [step_intros]: "obeys r (store_GameByCode c)"
  unfolding store_GameByCode_def by (intro step_intros)

lemma obeys_MembersForGame [step_intros]: "obeys r (store_MembersForGame g)"
  unfolding store_MembersForGame_def by (intro step_intros)

lemma obeys_MemberForGame [step_intros]: "obeys r (store_MemberForGame g a)"
  unfolding store_MemberForGame_def by (intro step_intros)

end

locale store_contract = account_store r + token_store r + game_store r for r

section \<open>What a dynamic UPDATE does to a row\<close>

lemma update_columns_keep:
  assumes "\<And>c v q. k (setcol c v q) = k q"
  shows "k (update_columns setcol sets args row) = k row"
proof -
  have "k (fold (\<lambda>(c, v). setcol c v) zs row) = k row" for zs
    using assms by (induction zs arbitrary: row) auto
  then show ?thesis by (simp add: update_columns_def)
qed

lemma set_account_column_keep [simp]:
  "ar_id (set_account_column c v q) = ar_id q" "ar_email (set_account_column c v q) = ar_email q"
  by (simp_all add: set_account_column_def split: sqlval.split)

lemma set_game_column_keep [simp]:
  "gr_id (set_game_column c v q) = gr_id q" "gr_code (set_game_column c v q) = gr_code q"
  by (simp_all add: set_game_column_def split: sqlval.split)

lemma set_role_column_keep [simp]:
  "rr_id (set_role_column c v q) = rr_id q" "rr_game_id (set_role_column c v q) = rr_game_id q"
  "rr_account_id (set_role_column c v q) = rr_account_id q"
  by (simp_all add: set_role_column_def split: sqlval.split)

lemmas account_update_keep [simp] =
  update_columns_keep [where k = ar_id and setcol = set_account_column, simplified]
  update_columns_keep [where k = ar_email and setcol = set_account_column, simplified]

lemmas game_update_keep [simp] =
  update_columns_keep [where k = gr_id and setcol = set_game_column, simplified]
  update_columns_keep [where k = gr_code and setcol = set_game_column, simplified]

lemmas role_update_keep [simp] =
  update_columns_keep [where k = rr_id and setcol = set_role_column, simplified]
  update_columns_keep [where k = rr_game_id and setcol = set_role_column, simplified]
  update_columns_keep [where k = rr_account_id and setcol = set_role_column, simplified]

text \<open>The SET clause built from an update writes exactly the fields that are set in it.\<close>

lemma buildAccountUpdate_row:
  assumes "buildAccountUpdate u = (sets, args)"
  shows "update_columns set_account_column sets args r = r\<lparr>
    ar_is_admin := (case au_IsAdmin u of None \<Rightarrow> ar_is_admin r | Some b \<Rightarrow> boolToInt b),
    ar_is_active := (case au_IsActive u of None \<Rightarrow> ar_is_active r | Some b \<Rightarrow> boolToInt b),
    ar_hashed_secret := (case au_HashedSecret u of None \<Rightarrow> ar_hashed_secret r | Some s \<Rightarrow> s)\<rparr>"
  using assms
  by (auto simp: buildAccountUpdate_def add_set_def update_columns_def set_account_column_def
      split: option.splits)

lemma buildGameUpdate_row:
  assumes "buildGameUpdate u = (sets, args)"
  shows "update_columns set_game_column sets args r = r\<lparr>
    gr_status := (case gu_Status u of None \<Rightarrow> gr_status r | Some s \<Rightarrow> s),
    gr_name := (case gu_Name u of None \<Rightarrow> gr_name r | Some s \<Rightarrow> s),
    gr_description := (case gu_Description u of None \<Rightarrow> gr_description r | Some s \<Rightarrow> Some s),
    gr_is_active := (case gu_IsActive u of None \<Rightarrow> gr_is_active r | Some b \<Rightarrow> boolToInt b)\<rparr>"
  using assms
  by (auto simp: buildGameUpdate_def add_set_def update_columns_def set_game_column_def
      split: option.splits)

lemma buildMemberUpdate_row:
  assumes "buildMemberUpdate u = (sets, args)"
  shows "update_columns set_role_column sets args r = r\<lparr>
    rr_is_active := (case mu_IsActive u of None \<Rightarrow> rr_is_active r | Some b \<Rightarrow> boolToInt b),
    rr_is_gm := (case mu_IsGM u of None \<Rightarrow> rr_is_gm r | Some b \<Rightarrow> boolToInt b),
    rr_handle := (case mu_Handle u of None \<Rightarrow> rr_handle r | Some s \<Rightarrow> s)\<rparr>"
  using assms
  by (auto simp: buildMemberUpdate_def add_set_def update_columns_def set_role_column_def
      split: option.splits)

lemma build_sets_nonempty:
  "buildAccountUpdate au = (sets, args) \<Longrightarrow> sets = [] \<longleftrightarrow> account_update_empty au"
  "buildGameUpdate gu = (sets, args) \<Longrightarrow> sets = [] \<longleftrightarrow> game_update_empty gu"
  "buildMemberUpdate mu = (sets, args) \<Longrightarrow> sets = [] \<longleftrightarrow> member_update_empty mu"
  by (auto simp: buildAccountUpdate_def buildGameUpdate_def buildMemberUpdate_def add_set_def
      account_update_empty_def game_update_empty_def member_update_empty_def split: option.splits)

end
