(* ===== verification/StoreInvariants.thy ===== *)
theory StoreInvariants
  imports StoreContract
begin

text \<open>
  The store keeps its contract: \<open>keep_inv\<close> (every statement keeps the schema invariant),
  \<open>grows\<close> (rows of accounts, games and rosters are never removed, their identities never
  change and a game master stays one), and the frames \<open>same_accounts\<close>, \<open>same_games\<close>,
  \<open>same_tokens\<close>. Each is an interpretation of the store locales.
\<close>

section \<open>The schema invariant\<close>

definition keep_inv :: "database \<Rightarrow> database \<Rightarrow> bool" where
  "keep_inv d d' \<longleftrightarrow> (db_ok d \<longrightarrow> db_ok d')"

lemma stmt_keep_invI:
  assumes "\<And>d x d'. db_ok d \<Longrightarrow> stmt d = Inr (x, d') \<Longrightarrow> db_ok d'"
  shows "stmt_ok keep_inv stmt"
  using assms by (auto simp: stmt_ok_def keep_inv_def)

lemma db_okD:
  assumes "db_ok d"
  shows "rowids_ok ar_id (accounts d)" "list_all accounts_check (accounts d)"
    "distinct (map ar_email (accounts d))"
    "rowids_ok gr_id (games d)" "list_all games_check (games d)" "distinct (map gr_code (games d))"
    "rowids_ok rr_id (game_account_role d)" "list_all roles_check (game_account_role d)"
    "distinct (map (\<lambda>r. (rr_game_id r, rr_account_id r)) (game_account_role d))"
    "distinct (map (\<lambda>r. (rr_game_id r, rr_handle r)) (game_account_role d))"
    "rr_game_id ` set (game_account_role d) \<subseteq> gr_id ` set (games d)"
    "rr_account_id ` set (game_account_role d) \<subseteq> ar_id ` set (accounts d)"
    "rowids_ok tr_id (refresh_tokens d)" "list_all tokens_check (refresh_tokens d)"
    "distinct (map tr_jti (refresh_tokens d))"
    "tr_account_id ` set (refresh_tokens d) \<subseteq> ar_id ` set (accounts d)"
  using assms by (simp_all add: db_ok_def accounts_ok_def games_ok_def roles_ok_def tokens_ok_def)

lemma db_ok_accounts:
  assumes "db_ok d" and "rowids_ok ar_id rows" and "list_all accounts_check rows"
    and "distinct (map ar_email rows)" and "ar_id ` set (accounts d) \<subseteq> ar_id ` set rows"
  shows "db_ok (d\<lparr>accounts := rows\<rparr>)"
  using assms order_trans [OF db_okD(12) [OF assms(1)] assms(5)]
    order_trans [OF db_okD(16) [OF assms(1)] assms(5)]
  by (simp add: db_ok_def accounts_ok_def roles_ok_def tokens_ok_def games_ok_def)

lemma db_ok_games:
  assumes "db_ok d" and "rowids_ok gr_id rows" and "list_all games_check rows"
    and "distinct (map gr_code rows)" and "gr_id ` set (games d) \<subseteq> gr_id ` set rows"
  shows "db_ok (d\<lparr>games := rows\<rparr>)"
  using assms order_trans [OF db_okD(11) [OF assms(1)] assms(5)]
  by (simp add: db_ok_def accounts_ok_def roles_ok_def tokens_ok_def games_ok_def)

lemma db_ok_roles:
  assumes "db_ok d" and "roles_ok (d\<lparr>game_account_role := rows\<rparr>)"
  shows "db_ok (d\<lparr>game_account_role := rows\<rparr>)"
  using assms by (auto simp: db_ok_def tokens_ok_def accounts_ok_def games_ok_def)

lemma db_ok_tokens:
  assumes "db_ok d" and "rowids_ok tr_id rows" and "list_all tokens_check rows"
    and "distinct (map tr_jti rows)" and "tr_account_id ` set rows \<subseteq> ar_id ` set (accounts d)"
  shows "db_ok (d\<lparr>refresh_tokens := rows\<rparr>)"
  using assms by (simp add: db_ok_def roles_ok_def accounts_ok_def games_ok_def tokens_ok_def)

lemma inv_insert_account: "stmt_ok keep_inv (sql_insert_account e a i h)"
  by (rule stmt_keep_invI)
    (auto simp: sql_insert_account_def Let_def db_okD
      intro!: db_ok_accounts acct_rows.rowids_ok_append split: if_splits)

lemma map_if_keep: "(\<And>x. k (f x) = k x) \<Longrightarrow> map (k \<circ> (\<lambda>x. if P x then f x else x)) xs = map k xs"
  by auto

lemma image_if_keep:
  "(\<And>x. k (f x) = k x) \<Longrightarrow> k ` set (map (\<lambda>x. if P x then f x else x) xs) = k ` set xs"
  unfolding set_map image_image by (intro image_cong) auto

lemma inv_update_accounts: "stmt_ok keep_inv (sql_update_accounts sets args P)"
proof (rule stmt_keep_invI)
  fix d x d'
  let ?f = "\<lambda>r. if P r then update_columns set_account_column sets args r else r"
  assume ok: "db_ok d" and run: "sql_update_accounts sets args P d = Inr (x, d')"
  then have d': "d' = d\<lparr>accounts := map ?f (accounts d)\<rparr>"
    and check: "list_all accounts_check (map ?f (accounts d))"
    by (auto simp: sql_update_accounts_def Let_def split: if_splits)
  from ok have "rowids_ok ar_id (map ?f (accounts d))"
    by (intro acct_rows.rowids_ok_map) (auto simp: db_okD)
  with ok check show "db_ok d'"
    unfolding d' by (intro db_ok_accounts) (simp_all add: db_okD map_if_keep image_if_keep del: set_map)
qed

lemma owner_ok: "db_ok d \<Longrightarrow> t \<in> set (refresh_tokens d) \<Longrightarrow> tr_account_id t \<in> ar_id ` set (accounts d)"
  using db_okD(16) [of d] by blast

lemma inv_insert_token: "stmt_ok keep_inv (sql_insert_refresh_token j f a i e)"
  by (rule stmt_keep_invI)
    (auto simp: sql_insert_refresh_token_def Let_def db_okD tokens_check_def
      intro!: db_ok_tokens token_rows.rowids_ok_append split: if_splits dest: owner_ok)

lemma revoke_row_keep [simp]:
  "tr_id (revoke_row P t) = tr_id t" "tr_jti (revoke_row P t) = tr_jti t"
  "tr_family_id (revoke_row P t) = tr_family_id t" "tr_account_id (revoke_row P t) = tr_account_id t"
  "tr_issued_at (revoke_row P t) = tr_issued_at t" "tr_expires_at (revoke_row P t) = tr_expires_at t"
  "tr_revoked (revoke_row P t) = (if P t then 1 else tr_revoked t)"
  by (simp_all add: revoke_row_def)

lemma revoked_check: "db_ok d \<Longrightarrow> list_all tokens_check (map (revoke_row P) (refresh_tokens d))"
  by (drule db_okD(14)) (auto simp: tokens_check_def list_all_iff)

lemma inv_revoke: "stmt_ok keep_inv (sql_revoke P)"
  by (rule stmt_keep_invI)
    (auto simp: sql_revoke_def db_okD(13) db_okD(15) owner_ok o_def
      intro!: db_ok_tokens token_rows.rowids_ok_map revoked_check)

lemma list_all_filter: "list_all P xs \<Longrightarrow> list_all P (filter Q xs)"
  by (simp add: list_all_iff)

lemma inv_purge: "stmt_ok keep_inv (sql_purge cutoff)"
  by (rule stmt_keep_invI)
    (auto simp: sql_purge_def db_okD intro!: db_ok_tokens token_rows.rowids_ok_filter
      distinct_map_filter list_all_filter dest: owner_ok)

lemma inv_insert_game: "stmt_ok keep_inv (sql_insert_game c n ds)"
  by (rule stmt_keep_invI)
    (auto simp: sql_insert_game_def Let_def db_okD
      intro!: db_ok_games game_rows.rowids_ok_append split: if_splits)

lemma inv_update_game: "stmt_ok keep_inv (sql_update_game sets args i)"
proof (rule stmt_keep_invI)
  fix d x d'
  let ?f = "\<lambda>g. if gr_id g = i then update_columns set_game_column sets args g else g"
  assume ok: "db_ok d" and run: "sql_update_game sets args i d = Inr (x, d')"
  then have d': "d' = d\<lparr>games := map ?f (games d)\<rparr>"
    and check: "list_all games_check (map ?f (games d))"
    by (auto simp: sql_update_game_def Let_def split: if_splits)
  from ok have "rowids_ok gr_id (map ?f (games d))"
    by (intro game_rows.rowids_ok_map) (auto simp: db_okD)
  with ok check show "db_ok d'"
    unfolding d' by (intro db_ok_games) (simp_all add: db_okD map_if_keep image_if_keep del: set_map)
qed

lemma inv_insert_member: "stmt_ok keep_inv (sql_insert_member g a h m)"
proof (rule stmt_keep_invI)
  fix d :: database and x d'
  let ?row = "\<lparr>rr_id = next_rowid rr_id (game_account_role d), rr_game_id = g, rr_account_id = a,
    rr_handle = h, rr_is_gm = m, rr_is_active = 1\<rparr>"
  assume ok: "db_ok d" and run: "sql_insert_member g a h m d = Inr (x, d')"
  from run have d': "d' = d\<lparr>game_account_role := game_account_role d @ [?row]\<rparr>"
    and "roles_check ?row" "\<not> list_ex (role_at g a) (game_account_role d)"
    "\<not> list_ex (\<lambda>r. rr_game_id r = g \<and> rr_handle r = h) (game_account_role d)"
    "g \<in> gr_id ` set (games d)" "a \<in> ar_id ` set (accounts d)"
    by (auto simp: sql_insert_member_def Let_def split: if_splits)
  moreover have "rowids_ok rr_id (game_account_role d @ [?row])"
    using ok by (intro role_rows.rowids_ok_append) (auto simp: db_ok_def roles_ok_def)
  ultimately show "db_ok d'"
    using ok unfolding d'
    by (intro db_ok_roles) (auto simp: db_ok_def roles_ok_def list_ex_iff role_at_def)
qed

lemma inv_update_member: "stmt_ok keep_inv (sql_update_member sets args g a)"
proof (rule stmt_keep_invI)
  fix d x d'
  let ?f = "\<lambda>r. if role_at g a r then update_columns set_role_column sets args r else r"
  assume ok: "db_ok d" and run: "sql_update_member sets args g a d = Inr (x, d')"
  then have d': "d' = d\<lparr>game_account_role := map ?f (game_account_role d)\<rparr>"
    and check: "list_all roles_check (map ?f (game_account_role d))"
    and handles: "distinct (map (\<lambda>r. (rr_game_id r, rr_handle r)) (map ?f (game_account_role d)))"
    by (auto simp: sql_update_member_def Let_def split: if_splits)
  have "rowids_ok rr_id (map ?f (game_account_role d))"
    using ok by (intro role_rows.rowids_ok_map) (auto simp: db_ok_def roles_ok_def)
  moreover have "map (\<lambda>r. (rr_game_id r, rr_account_id r)) (map ?f (game_account_role d)) =
      map (\<lambda>r. (rr_game_id r, rr_account_id r)) (game_account_role d)"
    by auto
  ultimately show "db_ok d'"
    using ok check handles unfolding d'
    by (intro db_ok_roles) (simp_all add: roles_ok_def db_okD image_if_keep
        del: set_map map_map)
qed

interpretation inv: store_contract keep_inv
  by unfold_locales
    (auto simp: keep_inv_def intro: inv_insert_account inv_update_accounts inv_insert_token inv_revoke
      inv_purge inv_insert_game inv_update_game inv_insert_member inv_update_member)

section \<open>The history of the tables\<close>

text \<open>\<open>extends P xs ys\<close>: \<open>ys\<close> has a row for each row of \<open>xs\<close>, in the same place and related
  by \<open>P\<close>, and possibly more rows after them.\<close>

definition extends :: "('a \<Rightarrow> 'a \<Rightarrow> bool) \<Rightarrow> 'a list \<Rightarrow> 'a list \<Rightarrow> bool" where
  "extends P xs ys \<longleftrightarrow> length xs \<le> length ys \<and> (\<forall>i < length xs. P (xs ! i) (ys ! i))"

lemma extends_refl: "(\<And>x. P x x) \<Longrightarrow> extends P xs xs"
  by (simp add: extends_def)

lemma extends_trans:
  assumes "\<And>x y z. P x y \<Longrightarrow> P y z \<Longrightarrow> P x z" and "extends P xs ys" and "extends P ys zs"
  shows "extends P xs zs"
  using assms(2,3) by (auto simp: extends_def intro: assms(1) [of _ "ys ! i" for i])

lemma extends_append: "(\<And>x. P x x) \<Longrightarrow> extends P xs (xs @ ys)"
  by (simp add: extends_def nth_append)

lemma extends_map: "(\<And>x. x \<in> set xs \<Longrightarrow> P x (f x)) \<Longrightarrow> extends P xs (map f xs)"
  by (simp add: extends_def)

lemma extends_mem: "extends P xs ys \<Longrightarrow> x \<in> set xs \<Longrightarrow> \<exists>y \<in> set ys. P x y"
  unfolding extends_def in_set_conv_nth by (metis nth_mem order_less_le_trans)

definition same_account :: "AccountRow \<Rightarrow> AccountRow \<Rightarrow> bool" where
  "same_account a b \<longleftrightarrow> ar_id b = ar_id a \<and> ar_email b = ar_email a"

definition same_game :: "GameRow \<Rightarrow> GameRow \<Rightarrow> bool" where
  "same_game a b \<longleftrightarrow> gr_id b = gr_id a \<and> gr_code b = gr_code a"

definition later_role :: "RoleRow \<Rightarrow> RoleRow \<Rightarrow> bool" where
  "later_role a b \<longleftrightarrow> rr_id b = rr_id a \<and> rr_game_id b = rr_game_id a \<and>
     rr_account_id b = rr_account_id a \<and> (rr_is_gm a \<noteq> 0 \<longrightarrow> rr_is_gm b \<noteq> 0)"

definition grows :: "database \<Rightarrow> database \<Rightarrow> bool" where
  "grows d d' \<longleftrightarrow> extends same_account (accounts d) (accounts d') \<and>
     extends same_game (games d) (games d') \<and>
     extends later_role (game_account_role d) (game_account_role d')"

lemmas row_rel_defs = same_account_def same_game_def later_role_def

lemma grows_refl: "grows d d"
  by (simp add: grows_def extends_refl row_rel_defs)

lemma grows_trans: "grows d e \<Longrightarrow> grows e f \<Longrightarrow> grows d f"
  unfolding grows_def by (auto intro: extends_trans [rotated] simp: row_rel_defs)

lemma grows_update_member:
  assumes "buildMemberUpdate u = (sets, args)" and "mu_IsGM u \<noteq> Some False"
  shows "stmt_ok grows (sql_update_member sets args g a)"
  using assms
  by (auto simp: stmt_ok_def sql_update_member_def Let_def grows_def extends_refl row_rel_defs
      buildMemberUpdate_row [OF assms(1)] intro!: extends_map split: if_splits option.split)

interpretation hist: store_contract grows
proof unfold_locales
  show "grows d d" for d by (rule grows_refl)
  show "grows d e \<Longrightarrow> grows e f \<Longrightarrow> grows d f" for d e f by (rule grows_trans)
  show "stmt_ok grows (sql_update_member sets args g a)"
    if "buildMemberUpdate mu = (sets, args)" "mu_IsGM mu \<noteq> Some False" for mu sets args g a
    using that by (rule grows_update_member)
qed (auto simp: stmt_ok_def sql_insert_account_def sql_update_accounts_def
    sql_insert_refresh_token_def sql_revoke_def sql_purge_def sql_insert_game_def
    sql_update_game_def sql_insert_member_def Let_def grows_def extends_refl row_rel_defs
    intro!: extends_append extends_map split: if_splits)

section \<open>Frames\<close>

definition same_tokens :: "database \<Rightarrow> database \<Rightarrow> bool" where
  "same_tokens d d' \<longleftrightarrow> refresh_tokens d' = refresh_tokens d"

definition same_accounts :: "database \<Rightarrow> database \<Rightarrow> bool" where
  "same_accounts d d' \<longleftrightarrow> accounts d' = accounts d"

definition same_games :: "database \<Rightarrow> database \<Rightarrow> bool" where
  "same_games d d' \<longleftrightarrow> games d' = games d \<and> game_account_role d' = game_account_role d"

interpretation games_only: game_store "\<lambda>d d'. same_accounts d d' \<and> same_tokens d d'"
  by unfold_locales
    (auto simp: stmt_ok_def sql_insert_game_def sql_update_game_def sql_insert_member_def
      sql_update_member_def Let_def same_accounts_def same_tokens_def split: if_splits)

interpretation accounts_only: account_store "\<lambda>d d'. same_games d d' \<and> same_tokens d d'"
  by unfold_locales
    (auto simp: stmt_ok_def sql_insert_account_def sql_update_accounts_def Let_def
      same_games_def same_tokens_def split: if_splits)

interpretation tokens_only: token_store "\<lambda>d d'. same_accounts d d' \<and> same_games d d'"
  by unfold_locales
    (auto simp: stmt_ok_def sql_insert_refresh_token_def sql_revoke_def sql_purge_def Let_def
      same_accounts_def same_games_def split: if_splits)

end
