(* ===== verification/AuthTokens.thy ===== *)
theory AuthTokens
  imports World
begin

text \<open>
  internal/auth: claims.go, jwt.go, secret.go, context.go. The third-party packages the
  code calls are parameters, collected in the record \<open>libs\<close>: golang-jwt (signing, parsing and
  the rounding of time stamps), bcrypt, the printing of versions, and the non-ASCII part of
  \<open>strings.ToLower\<close>. What the code relies on is stated by \<open>jwt_ok\<close> and
  \<open>bcrypt_ok\<close>, and theory Samples has concrete functions with these properties.
  Times are nanoseconds since 1970; a nil or zero time is \<open>None\<close>.
\<close>

section \<open>Claims\<close>

record Claims =
  cl_Subject :: string
  cl_UserID :: int
  cl_Username :: string
  cl_Roles :: "string list"
  cl_ExpiresAt :: "int option"
  cl_Actor :: int

definition Impersonated :: "Claims \<Rightarrow> bool" where
  "Impersonated c \<longleftrightarrow> cl_Actor c \<noteq> 0"

record RefreshClaims =
  rc_Subject :: string
  rc_UserID :: int
  rc_JTI :: string
  rc_Family :: string
  rc_ExpiresAt :: "int option"

fun HasRole :: "string list \<Rightarrow> string \<Rightarrow> bool" where
  "HasRole [] role = False"
| "HasRole (candidate # rest) role = (if candidate = role then True else HasRole rest role)"

text \<open>The request context, as far as this package uses it: the claims stored in it.\<close>

type_synonym ctx = "Claims option"

definition WithClaims :: "ctx \<Rightarrow> Claims \<Rightarrow> ctx" where
  "WithClaims ctx claims = Some claims"

definition ClaimsFromContext :: "ctx \<Rightarrow> Claims option" where
  "ClaimsFromContext ctx = ctx"

section \<open>The packages called\<close>

record RegisteredClaims =
  reg_Issuer :: string
  reg_Subject :: string
  reg_Audience :: "string list"
  reg_IssuedAt :: "int option"
  reg_ExpiresAt :: "int option"
  reg_ID :: string

record tokenClaims = RegisteredClaims +
  tc_Username :: string
  tc_Roles :: "string list"
  tc_Family :: string
  tc_Act :: int

datatype signing_method = SigningMethodHMAC string | OtherMethod string

fun alg :: "signing_method \<Rightarrow> string" where
  "alg (SigningMethodHMAC a) = a"
| "alg (OtherMethod a) = a"

record parse_options =
  opt_ValidMethods :: "string list"
  opt_Issuer :: string
  opt_Audience :: string

record semver =
  Major :: int
  Minor :: int
  Patch :: int
  Build :: string

record libs =
  semver_Commit :: string
  semver_Short :: "semver \<Rightarrow> string"
  semver_String :: "semver \<Rightarrow> string"
  NewNumericDate :: "int \<Rightarrow> int"
  SignedString :: "tokenClaims \<Rightarrow> string \<Rightarrow> string option"
  ParseWithClaims ::
    "string \<Rightarrow> (signing_method \<Rightarrow> string option) \<Rightarrow> parse_options \<Rightarrow> int \<Rightarrow> tokenClaims option"
  GenerateFromPassword :: "string \<Rightarrow> string \<Rightarrow> string option"
  CompareHashAndPassword :: "string \<Rightarrow> string \<Rightarrow> bool"
  unicode_lower :: "string \<Rightarrow> string"

definition claims_valid :: "parse_options \<Rightarrow> int \<Rightarrow> tokenClaims \<Rightarrow> bool" where
  "claims_valid opts now c \<longleftrightarrow> reg_Issuer c = opt_Issuer opts \<and>
     opt_Audience opts \<in> set (reg_Audience c) \<and>
     (case reg_ExpiresAt c of None \<Rightarrow> True | Some e \<Rightarrow> now < e)"

text \<open>Claims that JSON carries unchanged: ASCII text and whole seconds.\<close>

definition wire_ok :: "tokenClaims \<Rightarrow> bool" where
  "wire_ok c \<longleftrightarrow>
     list_all is_ascii ([reg_Issuer c, reg_Subject c, reg_ID c, tc_Username c, tc_Family c] @
       reg_Audience c @ tc_Roles c) \<and>
     (\<forall>t \<in> set_option (reg_IssuedAt c) \<union> set_option (reg_ExpiresAt c). t mod 1000000000 = 0)"

text \<open>
  The documented behaviour of golang-jwt: time stamps are rounded down to seconds; parsing
  succeeds only on valid claims; a signed token is not empty; an HS256 token made from wire-safe claims parses to these
  claims, and does parse when the key, the method and the claims are right.
\<close>

definition jwt_ok :: "libs \<Rightarrow> bool" where
  "jwt_ok L \<longleftrightarrow>
     (\<forall>t. NewNumericDate L t = t - t mod 1000000000) \<and>
     (\<forall>raw kf opts now c. ParseWithClaims L raw kf opts now = Some c \<longrightarrow> claims_valid opts now c) \<and>
     (\<forall>c k. SignedString L c k \<noteq> Some []) \<and>
     (\<forall>c k raw kf opts now. wire_ok c \<and> SignedString L c k = Some raw \<longrightarrow>
        (\<forall>c'. ParseWithClaims L raw kf opts now = Some c' \<longrightarrow> c' = c) \<and>
        (claims_valid opts now c \<and> ''HS256'' \<in> set (opt_ValidMethods opts) \<and>
         kf (SigningMethodHMAC ''HS256'') = Some k \<longrightarrow>
         ParseWithClaims L raw kf opts now = Some c))"

text \<open>The documented behaviour of bcrypt: secrets over 72 bytes are refused, and a hash
  matches the secret it was made from.\<close>

definition bcrypt_ok :: "libs \<Rightarrow> bool" where
  "bcrypt_ok L \<longleftrightarrow>
     (\<forall>pw salt. (GenerateFromPassword L pw salt = None \<longleftrightarrow> 72 < length pw)) \<and>
     (\<forall>pw salt h. GenerateFromPassword L pw salt = Some h \<longrightarrow> CompareHashAndPassword L h pw)"

section \<open>Secrets\<close>

definition MinSecretLength :: nat where
  "MinSecretLength = 8"

text \<open>\<open>len\<close> counts bytes. bcrypt draws its salt from \<open>crypto/rand\<close>.\<close>

definition HashSecret :: "libs \<Rightarrow> string \<Rightarrow> (world, go_error + string) state" where
  "HashSecret L plaintext =
     (if length plaintext < MinSecretLength then ret (Inl ErrSecretTooShort)
      else do {
        salt \<leftarrow> rand_Read;
        ret (case salt of
           None \<Rightarrow> Inl ErrHash
         | Some s \<Rightarrow> (case GenerateFromPassword L plaintext s of None \<Rightarrow> Inl ErrHash | Some h \<Rightarrow> Inr h))
      })"

section \<open>The token service\<close>

record TokenService =
  ts_secret :: string
  ts_accessTTL :: int
  ts_refreshTTL :: int

definition tokenIssuer :: string where
  "tokenIssuer = ''ecv4''"

definition accessAudience :: string where
  "accessAudience = ''ecv4-access''"

definition refreshAudience :: string where
  "refreshAudience = ''ecv4-refresh''"

definition impersonationTTL :: int where
  "impersonationTTL = 15 * 60 * 1000000000"

definition registered :: "libs \<Rightarrow> int \<Rightarrow> string \<Rightarrow> int \<Rightarrow> int \<Rightarrow> RegisteredClaims" where
  "registered L accountID audience now exp = \<lparr>reg_Issuer = tokenIssuer,
     reg_Subject = FormatInt accountID, reg_Audience = [audience],
     reg_IssuedAt = Some (NewNumericDate L now), reg_ExpiresAt = Some (NewNumericDate L exp),
     reg_ID = []\<rparr>"

definition with_registered ::
  "RegisteredClaims \<Rightarrow> string \<Rightarrow> string list \<Rightarrow> string \<Rightarrow> int \<Rightarrow> tokenClaims" where
  "with_registered r username roles family act =
     RegisteredClaims.extend r (tokenClaims.fields username roles family act)"

definition sign :: "libs \<Rightarrow> TokenService \<Rightarrow> tokenClaims \<Rightarrow> go_error + string" where
  "sign L ts claims =
     (case SignedString L claims (ts_secret ts) of None \<Rightarrow> Inl ErrSign | Some s \<Rightarrow> Inr s)"

definition IssueAccess ::
  "libs \<Rightarrow> TokenService \<Rightarrow> int \<Rightarrow> string \<Rightarrow> string list \<Rightarrow> (world, go_error + string \<times> int) state" where
  "IssueAccess L ts accountID username roles = do {
     now \<leftarrow> clock_now;
     let exp = now + ts_accessTTL ts in
     ret (case sign L ts (with_registered (registered L accountID accessAudience now exp)
                            username roles [] 0) of
        Inl e \<Rightarrow> Inl e | Inr signed \<Rightarrow> Inr (signed, exp))
   }"

definition IssueImpersonation ::
  "libs \<Rightarrow> TokenService \<Rightarrow> int \<Rightarrow> string \<Rightarrow> string list \<Rightarrow> int \<Rightarrow> (world, go_error + string \<times> int) state" where
  "IssueImpersonation L ts accountID username roles actor = do {
     now \<leftarrow> clock_now;
     let exp = now + impersonationTTL in
     ret (case sign L ts (with_registered (registered L accountID accessAudience now exp)
                            username roles [] actor) of
        Inl e \<Rightarrow> Inl e | Inr signed \<Rightarrow> Inr (signed, exp))
   }"

definition IssueRefresh ::
  "libs \<Rightarrow> TokenService \<Rightarrow> int \<Rightarrow> string \<Rightarrow> string \<Rightarrow> (world, go_error + string \<times> int) state" where
  "IssueRefresh L ts accountID jti family = do {
     now \<leftarrow> clock_now;
     let exp = now + ts_refreshTTL ts in
     ret (case sign L ts (with_registered
                 ((registered L accountID refreshAudience now exp)\<lparr>reg_ID := jti\<rparr>) [] [] family 0) of
        Inl e \<Rightarrow> Inl e | Inr signed \<Rightarrow> Inr (signed, exp))
   }"

text \<open>\<open>rand.Read(buf[:])\<close> into a buffer of \<open>n\<close> bytes.\<close>

definition fill :: "nat \<Rightarrow> string \<Rightarrow> string" where
  "fill n bytes = take n (bytes @ replicate n (CHR 0x00))"

definition NewTokenID :: "(world, go_error + string) state" where
  "NewTokenID = do {
     r \<leftarrow> rand_Read;
     ret (case r of None \<Rightarrow> Inl ErrRandom | Some bytes \<Rightarrow> Inr (EncodeToString (fill 16 bytes)))
   }"

definition keyfunc :: "TokenService \<Rightarrow> signing_method \<Rightarrow> string option" where
  "keyfunc ts method =
     (case method of SigningMethodHMAC _ \<Rightarrow> Some (ts_secret ts) | OtherMethod _ \<Rightarrow> None)"

definition token_options :: "string \<Rightarrow> parse_options" where
  "token_options audience = \<lparr>opt_ValidMethods = [''HS256''], opt_Issuer = tokenIssuer,
     opt_Audience = audience\<rparr>"

definition parse :: "libs \<Rightarrow> TokenService \<Rightarrow> string \<Rightarrow> string \<Rightarrow> (world, go_error + tokenClaims) state" where
  "parse L ts raw audience = do {
     now \<leftarrow> clock_now;
     ret (case ParseWithClaims L raw (keyfunc ts) (token_options audience) now of
        None \<Rightarrow> Inl ErrToken | Some c \<Rightarrow> Inr c)
   }"

definition Verify :: "libs \<Rightarrow> TokenService \<Rightarrow> string \<Rightarrow> (world, go_error + Claims) state" where
  "Verify L ts raw = do {
     r \<leftarrow> parse L ts raw accessAudience;
     ret (case r of
        Inl e \<Rightarrow> Inl e
      | Inr claims \<Rightarrow>
          (case ParseInt (reg_Subject claims) of
             None \<Rightarrow> Inl ErrToken
           | Some accountID \<Rightarrow> Inr \<lparr>cl_Subject = reg_Subject claims, cl_UserID = accountID,
               cl_Username = tc_Username claims, cl_Roles = tc_Roles claims,
               cl_ExpiresAt = reg_ExpiresAt claims, cl_Actor = tc_Act claims\<rparr>))
   }"

definition VerifyRefresh :: "libs \<Rightarrow> TokenService \<Rightarrow> string \<Rightarrow> (world, go_error + RefreshClaims) state" where
  "VerifyRefresh L ts raw = do {
     r \<leftarrow> parse L ts raw refreshAudience;
     ret (case r of
        Inl e \<Rightarrow> Inl e
      | Inr claims \<Rightarrow>
          (case ParseInt (reg_Subject claims) of
             None \<Rightarrow> Inl ErrToken
           | Some accountID \<Rightarrow> Inr \<lparr>rc_Subject = reg_Subject claims, rc_UserID = accountID,
               rc_JTI = reg_ID claims, rc_Family = tc_Family claims,
               rc_ExpiresAt = reg_ExpiresAt claims\<rparr>))
   }"

end
