(* ===== verification/ApiTypes.thy ===== *)
theory ApiTypes
  imports StoreInvariants Phrases
begin

text \<open>
  The request and response types of internal/api/openapi.gen.go that the handlers build, with
  the envelope of an error, and the frame every handler shares: \<open>or_return\<close> is Go's
  \<open>if err != nil { return nil, err }\<close>. A response is its status and body; a handler's result
  is \<open>Inl err\<close> for \<open>(nil, err)\<close>, which the strict server turns into a 500 or 501, or
  \<open>Inr response\<close>.
\<close>

section \<open>Responses\<close>

record error_response =
  er_Code :: string
  er_Message :: string

datatype 'a response =
  OK200 'a
| Created201 'a
| Accepted202
| NoContent204
| BadRequest400 error_response
| Unauthorized401 error_response
| Forbidden403 error_response
| NotFound404 error_response
| Conflict409 error_response

type_synonym 'a handler = "(world, go_error + 'a response) state"

definition or_return ::
  "(world, go_error + 'a) state \<Rightarrow> ('a \<Rightarrow> (world, go_error + 'b) state) \<Rightarrow> (world, go_error + 'b) state" where
  "or_return m f = do {
     r \<leftarrow> m;
     case r of Inl e \<Rightarrow> ret (Inl e) | Inr x \<Rightarrow> f x
   }"

definition respond :: "'a response \<Rightarrow> 'a handler" where
  "respond x = ret (Inr x)"

definition refuse :: "(error_response \<Rightarrow> 'a response) \<Rightarrow> string \<Rightarrow> string \<Rightarrow> 'a response" where
  "refuse status code message = status \<lparr>er_Code = code, er_Message = message\<rparr>"

section \<open>API objects\<close>

definition Admin :: string where "Admin = ''admin''"
definition Player :: string where "Player = ''player''"

record HealthResponse =
  hr_Status :: string
  hr_Version :: string

record VersionResponse =
  vr_Application :: string
  vr_SchemaVersion :: int

record AuthTokensBody =
  at_AccessToken :: string
  at_RefreshToken :: string
  at_TokenType :: string
  at_ExpiresInSeconds :: int

record User =
  usr_Id :: int
  usr_Username :: string
  usr_Roles :: "string list"

record MyGame =
  mg_Id :: int
  mg_Code :: string
  mg_IsActive :: bool
  mg_Handle :: string
  mg_IsGm :: bool

record ApiAccount =
  aa_Id :: int
  aa_Email :: string
  aa_IsActive :: bool
  aa_IsAdmin :: bool
  aa_Roles :: "string list"

record CreatedAccount =
  ca_Account :: ApiAccount
  ca_GeneratedSecret :: "string option"

record ApiSession =
  as_FamilyId :: string
  as_IssuedAt :: int
  as_ExpiresAt :: int

record ImpersonationResponse =
  ir_Token :: string
  ir_TokenType :: string
  ir_ExpiresInSeconds :: int
  ir_Subject_AccountId :: int
  ir_Subject_Email :: string
  ir_Actor_AccountId :: int

record ApiGame =
  ag_Id :: int
  ag_Code :: string
  ag_Name :: string
  ag_Status :: string
  ag_Description :: "string option"

record ApiMember =
  am_AccountId :: int
  am_Handle :: string
  am_IsGm :: bool
  am_IsActive :: bool

section \<open>Request bodies\<close>

record LoginRequest =
  lr_Username :: string
  lr_Password :: string

record ChangePasswordRequest =
  cp_CurrentPassword :: string
  cp_NewPassword :: string

record CreateAccountRequest =
  car_Email :: string
  car_Secret :: "string option"
  car_IsActive :: "bool option"
  car_IsAdmin :: "bool option"

record UpdateAccountRequest =
  uar_Secret :: "string option"
  uar_IsActive :: "bool option"
  uar_IsAdmin :: "bool option"

record CreateGameRequest =
  cgr_Code :: string
  cgr_Name :: string
  cgr_Description :: "string option"

record UpdateGameRequest =
  ugr_Status :: "string option"
  ugr_Name :: "string option"
  ugr_Description :: "string option"
  ugr_IsActive :: "bool option"

record AddMemberRequest =
  amr_AccountId :: int
  amr_Handle :: "string option"
  amr_IsGm :: "bool option"

record UpdateMemberRequest =
  umr_IsActive :: "bool option"
  umr_IsGm :: "bool option"
  umr_Handle :: "string option"

section \<open>GameStatus\<close>

definition Draft :: string where "Draft = ''draft''"
definition Recruiting :: string where "Recruiting = ''recruiting''"
definition Active :: string where "Active = ''active''"
definition Paused :: string where "Paused = ''paused''"
definition Complete :: string where "Complete = ''complete''"
definition Archived :: string where "Archived = ''archived''"

lemmas status_defs = Draft_def Recruiting_def Active_def Paused_def Complete_def Archived_def

definition GameStatus_Valid :: "string \<Rightarrow> bool" where
  "GameStatus_Valid e \<longleftrightarrow>
     e = Active \<or> e = Archived \<or> e = Complete \<or> e = Draft \<or> e = Paused \<or> e = Recruiting"

lemma GameStatus_Valid_iff: "GameStatus_Valid s \<longleftrightarrow> s \<in> set game_statuses"
  by (auto simp: GameStatus_Valid_def game_statuses_def status_defs)

section \<open>The handlers' frame\<close>

text \<open>The seconds of a duration, truncated toward zero as \<open>int(d.Seconds())\<close> does.\<close>

definition whole_seconds :: "int \<Rightarrow> int" where
  "whole_seconds d = (if d < 0 then - (- d div 1000000000) else d div 1000000000)"

text \<open>\<open>Time.Unix\<close>.\<close>

definition Unix :: "int \<Rightarrow> int" where
  "Unix t = t div 1000000000"

text \<open>\<open>bcrypt.CompareHashAndPassword\<close> as a handler calls it; the comparisons are counted.\<close>

definition bcrypt_compare :: "libs \<Rightarrow> string \<Rightarrow> string \<Rightarrow> (world, bool) state" where
  "bcrypt_compare L hash pw =
     State (\<lambda>w. (CompareHashAndPassword L hash pw, w\<lparr>w_compares := Suc (w_compares w)\<rparr>))"

definition trigger_shutdown :: "(world, unit) state" where
  "trigger_shutdown = modify (\<lambda>w. w\<lparr>w_shutdowns := Suc (w_shutdowns w)\<rparr>)"

context db_order
begin

lemma obeys_or_return [step_intros]:
  "obeys r m \<Longrightarrow> (\<And>x. obeys r (f x)) \<Longrightarrow> obeys r (or_return m f)"
  unfolding or_return_def by (intro step_intros)

lemma obeys_respond [step_intros]: "obeys r (respond x)"
  unfolding respond_def by (intro step_intros)

lemma obeys_bcrypt_compare [step_intros]: "obeys r (bcrypt_compare L h p)"
  by (auto simp: obeys_def bcrypt_compare_def guar_def state_io_rel_def)

lemma obeys_shutdown [step_intros]: "obeys r trigger_shutdown"
  by (auto simp: obeys_def trigger_shutdown_def guar_def state_io_rel_def)

lemma obeys_HashSecret [step_intros]: "obeys r (HashSecret L p)"
  unfolding HashSecret_def by (intro step_intros)

lemma obeys_GenerateSecret [step_intros]: "obeys r (GenerateSecret s)"
  unfolding GenerateSecret_def by (intro step_intros)

lemma obeys_NewTokenID [step_intros]: "obeys r NewTokenID"
  unfolding NewTokenID_def by (intro step_intros)

lemma obeys_Issue [step_intros]:
  "obeys r (IssueAccess L ts a u rs)" "obeys r (IssueRefresh L ts a j f)"
  "obeys r (IssueImpersonation L ts a u rs act)"
  unfolding IssueAccess_def IssueRefresh_def IssueImpersonation_def by (intro step_intros)+

lemma obeys_Verify [step_intros]: "obeys r (Verify L ts raw)" "obeys r (VerifyRefresh L ts raw)"
  unfolding Verify_def VerifyRefresh_def parse_def by (intro step_intros)+

end

lemma run_or_return [simp]:
  "run_state (or_return m f) w =
     (case run_state m w of (Inl e, w') \<Rightarrow> (Inl e, w') | (Inr x, w') \<Rightarrow> run_state (f x) w')"
  by (auto simp: or_return_def split: prod.splits sum.splits)

lemma run_respond [simp]: "run_state (respond x) w = (Inr x, w)"
  by (simp add: respond_def)

end
