(* ===== verification/Handlers.thy ===== *)
theory Handlers
  imports ApiTypes
begin

text \<open>
  internal/handlers: server.go (authentication, sessions of the caller, administration of the
  server, the read side of games), accounts.go, sessions.go and impersonation.go. A handler
  is a program of the world; its refusals are values of \<open>response\<close>. Requests carry their
  decoded body, \<open>None\<close> for a nil pointer.
\<close>

section \<open>The server\<close>

record Server =
  srv_tokens :: TokenService
  srv_shutdown :: bool
  dummyHash :: string

definition Version :: "libs \<Rightarrow> semver" where
  "Version L = \<lparr>Major = 0, Minor = 5, Patch = 0, Build = semver_Commit L\<rparr>"

text \<open>The package variable \<open>dummyHash\<close>; \<open>Inl\<close> is the panic at start-up.\<close>

definition mustDummyHash :: "libs \<Rightarrow> (world, go_error + string) state" where
  "mustDummyHash L = do {
     salt \<leftarrow> rand_Read;
     ret (case salt of
        None \<Rightarrow> Inl ErrHash
      | Some s \<Rightarrow> (case GenerateFromPassword L ''no account ever uses this password'' s of
          None \<Rightarrow> Inl ErrHash | Some h \<Rightarrow> Inr h))
   }"

definition NewServer :: "TokenService \<Rightarrow> string \<Rightarrow> (Server \<Rightarrow> Server) list \<Rightarrow> Server" where
  "NewServer tokens dummy opts =
     fold (\<lambda>opt s. opt s) opts \<lparr>srv_tokens = tokens, srv_shutdown = False, dummyHash = dummy\<rparr>"

definition WithShutdown :: "Server \<Rightarrow> Server" where
  "WithShutdown s = s\<lparr>srv_shutdown := True\<rparr>"

section \<open>Callers\<close>

text \<open>The named result \<open>msg\<close> is the \<open>Inl\<close> of the inner sum.\<close>

definition authenticatedAccount :: "ctx \<Rightarrow> (world, go_error + (string + Account)) state" where
  "authenticatedAccount ctx = (case ClaimsFromContext ctx of
     None \<Rightarrow> ret (Inr (Inl ''missing credentials''))
   | Some claims \<Rightarrow> do {
       r \<leftarrow> store_AccountByID (cl_UserID claims);
       ret (case r of
          Inl e \<Rightarrow> if e = ErrNotFound then Inr (Inl ''account no longer exists'') else Inl e
        | Inr account \<Rightarrow> if \<not> acc_IsActive account then Inr (Inl ''account is not active'')
                         else Inr (Inr account))
     })"

record adminAuthError =
  ae_forbidden :: bool
  ae_message :: string

definition forbiddenBody :: "adminAuthError \<Rightarrow> error_response" where
  "forbiddenBody e = \<lparr>er_Code = ''forbidden'', er_Message = ae_message e\<rparr>"

definition unauthorizedBody :: "adminAuthError \<Rightarrow> error_response" where
  "unauthorizedBody e = \<lparr>er_Code = ''unauthorized'', er_Message = ae_message e\<rparr>"

definition requireAdmin :: "ctx \<Rightarrow> (world, go_error + (adminAuthError + Account)) state" where
  "requireAdmin ctx = (case ClaimsFromContext ctx of
     None \<Rightarrow> ret (Inr (Inl \<lparr>ae_forbidden = False, ae_message = ''missing credentials''\<rparr>))
   | Some claims \<Rightarrow> do {
       r \<leftarrow> store_AccountByID (cl_UserID claims);
       ret (case r of
          Inl e \<Rightarrow> if e = ErrNotFound
                   then Inr (Inl \<lparr>ae_forbidden = True, ae_message = ''admin privileges required''\<rparr>)
                   else Inl e
        | Inr account \<Rightarrow>
            if \<not> acc_IsActive account \<or> \<not> acc_IsAdmin account
            then Inr (Inl \<lparr>ae_forbidden = True, ae_message = ''admin privileges required''\<rparr>)
            else Inr (Inr account))
     })"

text \<open>
  The two guards at the head of the handlers: the refusal is answered at once, otherwise the
  handler goes on with the account.
\<close>

definition authenticated ::
  "ctx \<Rightarrow> (string \<Rightarrow> 'a response) \<Rightarrow> (Account \<Rightarrow> 'a handler) \<Rightarrow> 'a handler" where
  "authenticated ctx unauth body = or_return (authenticatedAccount ctx) (\<lambda>r.
     case r of Inl msg \<Rightarrow> respond (unauth msg) | Inr account \<Rightarrow> body account)"

definition admin_only :: "ctx \<Rightarrow> (Account \<Rightarrow> 'a handler) \<Rightarrow> 'a handler" where
  "admin_only ctx body = or_return (requireAdmin ctx) (\<lambda>r.
     case r of
       Inl e \<Rightarrow> respond (if ae_forbidden e then Forbidden403 (forbiddenBody e)
                         else Unauthorized401 (unauthorizedBody e))
     | Inr admin \<Rightarrow> body admin)"

definition accountRoles :: "Account \<Rightarrow> string list" where
  "accountRoles account = (if acc_IsAdmin account then [Admin] else [Player])"

definition roleStrings :: "string list \<Rightarrow> string list" where
  "roleStrings roles = map (\<lambda>r. r) roles"

section \<open>Health and version\<close>

definition GetHealth :: "libs \<Rightarrow> HealthResponse handler" where
  "GetHealth L = respond (OK200 \<lparr>hr_Status = ''ok'', hr_Version = semver_Short L (Version L)\<rparr>)"

definition GetVersion :: "libs \<Rightarrow> VersionResponse handler" where
  "GetVersion L = or_return store_SchemaVersion (\<lambda>schemaVersion.
     respond (OK200 \<lparr>vr_Application = semver_String L (Version L), vr_SchemaVersion = schemaVersion\<rparr>))"

section \<open>Login, refresh, logout\<close>

definition loginUnauthorized :: "string \<Rightarrow> 'a response" where
  "loginUnauthorized message = Unauthorized401 \<lparr>er_Code = ''unauthorized'', er_Message = message\<rparr>"

definition refreshUnauthorized :: "string \<Rightarrow> 'a response" where
  "refreshUnauthorized message = Unauthorized401 \<lparr>er_Code = ''unauthorized'', er_Message = message\<rparr>"

definition issueRefresh ::
  "libs \<Rightarrow> Server \<Rightarrow> int \<Rightarrow> string \<Rightarrow> (world, go_error + string) state" where
  "issueRefresh L s accountID family =
     or_return NewTokenID (\<lambda>jti.
     or_return (IssueRefresh L (srv_tokens s) accountID jti family) (\<lambda>(token, exp).
       let issuedAt = exp + - ts_refreshTTL (srv_tokens s) in
       or_return (store_CreateRefreshToken jti family accountID (Unix issuedAt) (Unix exp)) (\<lambda>_.
         ret (Inr token))))"

definition auth_tokens :: "Server \<Rightarrow> string \<Rightarrow> string \<Rightarrow> AuthTokensBody" where
  "auth_tokens s access refresh = \<lparr>at_AccessToken = access, at_RefreshToken = refresh,
     at_TokenType = ''Bearer'', at_ExpiresInSeconds = whole_seconds (ts_accessTTL (srv_tokens s))\<rparr>"

text \<open>The part of \<open>Login\<close> after the credentials were found good.\<close>

definition login_session :: "libs \<Rightarrow> Server \<Rightarrow> Account \<Rightarrow> AuthTokensBody handler" where
  "login_session L s account =
     or_return (IssueAccess L (srv_tokens s) (acc_ID account) (acc_Email account)
                  (roleStrings (accountRoles account))) (\<lambda>(accessToken, _).
     or_return NewTokenID (\<lambda>family.
     or_return (issueRefresh L s (acc_ID account) family) (\<lambda>refreshToken.
       respond (OK200 (auth_tokens s accessToken refreshToken)))))"

definition Login :: "libs \<Rightarrow> Server \<Rightarrow> LoginRequest option \<Rightarrow> AuthTokensBody handler" where
  "Login L s body = (case body of
     None \<Rightarrow> respond (loginUnauthorized ''missing credentials'')
   | Some b \<Rightarrow> do {
       r \<leftarrow> store_Credentials (ToLower (unicode_lower L) (TrimSpace (lr_Username b)));
       case r of
         Inl e \<Rightarrow>
           if e = ErrNotFound then do {
             bcrypt_compare L (dummyHash s) (lr_Password b);
             respond (loginUnauthorized ''invalid username or password'')
           }
           else ret (Inl e)
       | Inr (account, hashedSecret) \<Rightarrow>
           if \<not> acc_IsActive account then do {
             bcrypt_compare L (dummyHash s) (lr_Password b);
             respond (loginUnauthorized ''invalid username or password'')
           }
           else do {
             match \<leftarrow> bcrypt_compare L hashedSecret (lr_Password b);
             if \<not> match then respond (loginUnauthorized ''invalid username or password'')
             else login_session L s account
           }
     })"

text \<open>The rotation at the end of \<open>RefreshToken\<close>: the old token is revoked last.\<close>

definition rotate ::
  "libs \<Rightarrow> Server \<Rightarrow> Account \<Rightarrow> string \<Rightarrow> string \<Rightarrow> AuthTokensBody handler" where
  "rotate L s account family jti =
     or_return (IssueAccess L (srv_tokens s) (acc_ID account) (acc_Email account)
                  (roleStrings (accountRoles account))) (\<lambda>(accessToken, _).
     or_return (issueRefresh L s (acc_ID account) family) (\<lambda>refreshToken.
     or_return (store_RevokeRefreshToken jti) (\<lambda>_.
       respond (OK200 (auth_tokens s accessToken refreshToken)))))"

definition RefreshToken_handler :: "libs \<Rightarrow> Server \<Rightarrow> string option \<Rightarrow> AuthTokensBody handler" where
  "RefreshToken_handler L s body =
     (case body of None \<Rightarrow> respond (refreshUnauthorized ''missing refresh token'') | Some raw \<Rightarrow>
     if raw = [] then respond (refreshUnauthorized ''missing refresh token'')
     else do {
       v \<leftarrow> VerifyRefresh L (srv_tokens s) raw;
       case v of
         Inl _ \<Rightarrow> respond (refreshUnauthorized ''invalid refresh token'')
       | Inr claims \<Rightarrow> do {
           r \<leftarrow> store_RefreshTokenByJTI (rc_JTI claims);
           case r of
             Inl e \<Rightarrow> if e = ErrNotFound then respond (refreshUnauthorized ''invalid refresh token'')
                      else ret (Inl e)
           | Inr rec \<Rightarrow>
               if rt_Revoked rec then
                 or_return (store_RevokeFamily (rt_FamilyID rec)) (\<lambda>_.
                   respond (refreshUnauthorized ''invalid refresh token''))
               else do {
                 a \<leftarrow> store_AccountByID (rc_UserID claims);
                 case a of
                   Inl e \<Rightarrow> if e = ErrNotFound then respond (refreshUnauthorized ''invalid refresh token'')
                            else ret (Inl e)
                 | Inr account \<Rightarrow>
                     if \<not> acc_IsActive account
                     then respond (refreshUnauthorized ''invalid refresh token'')
                     else rotate L s account (rt_FamilyID rec) (rc_JTI claims)
               }
         }
     })"

definition Logout :: "libs \<Rightarrow> Server \<Rightarrow> ctx \<Rightarrow> string option option \<Rightarrow> unit handler" where
  "Logout L s ctx body = (case ClaimsFromContext ctx of
     None \<Rightarrow> respond (refuse Unauthorized401 ''unauthorized'' ''missing credentials'')
   | Some claims \<Rightarrow>
       (case (case body of Some (Some raw) \<Rightarrow> if raw \<noteq> [] then Some raw else None | _ \<Rightarrow> None) of
          Some raw \<Rightarrow> do {
            v \<leftarrow> VerifyRefresh L (srv_tokens s) raw;
            case v of
              Inl _ \<Rightarrow> respond NoContent204
            | Inr rc \<Rightarrow>
                if rc_UserID rc = cl_UserID claims
                then or_return (store_RevokeFamily (rc_Family rc)) (\<lambda>_. respond NoContent204)
                else respond NoContent204
          }
        | None \<Rightarrow> or_return (store_RevokeAllForAccount (cl_UserID claims)) (\<lambda>_. respond NoContent204)))"

section \<open>Administration of the server\<close>

definition ShutdownServer :: "Server \<Rightarrow> ctx \<Rightarrow> unit handler" where
  "ShutdownServer s ctx =
     (if \<not> srv_shutdown s then respond (refuse NotFound404 ''not_found'' ''not found'')
      else admin_only ctx (\<lambda>_. do {
        trigger_shutdown;
        respond Accepted202
      }))"

definition PurgeRefreshTokens :: "ctx \<Rightarrow> nat handler" where
  "PurgeRefreshTokens ctx = admin_only ctx (\<lambda>_. do {
     now \<leftarrow> clock_now;
     or_return (store_PurgeExpiredRefreshTokens (Unix now)) (\<lambda>purged. respond (OK200 purged))
   })"

section \<open>The caller's own account\<close>

definition unauthorized :: "string \<Rightarrow> 'a response" where
  "unauthorized message = Unauthorized401 \<lparr>er_Code = ''unauthorized'', er_Message = message\<rparr>"

definition GetMe :: "ctx \<Rightarrow> User handler" where
  "GetMe ctx = authenticated ctx unauthorized (\<lambda>account.
     respond (OK200 \<lparr>usr_Id = acc_ID account, usr_Username = acc_Email account,
       usr_Roles = accountRoles account\<rparr>))"

definition myGamesUnauthorized :: "string \<Rightarrow> 'a response" where
  "myGamesUnauthorized message = Unauthorized401 \<lparr>er_Code = ''unauthorized'', er_Message = message\<rparr>"

definition ListMyGames :: "ctx \<Rightarrow> MyGame list handler" where
  "ListMyGames ctx = authenticated ctx myGamesUnauthorized (\<lambda>account.
     or_return (store_GamesForAccount (acc_ID account)) (\<lambda>memberships.
       respond (OK200 (map (\<lambda>m. \<lparr>mg_Id = gm_GameID m, mg_Code = gm_Code m,
         mg_IsActive = gm_IsActive m, mg_Handle = gm_Handle m, mg_IsGm = gm_IsGM m\<rparr>) memberships))))"

definition changePasswordUnauthorized :: "string \<Rightarrow> 'a response" where
  "changePasswordUnauthorized message =
     Unauthorized401 \<lparr>er_Code = ''unauthorized'', er_Message = message\<rparr>"

definition changePasswordBadRequest :: "string \<Rightarrow> 'a response" where
  "changePasswordBadRequest message = BadRequest400 \<lparr>er_Code = ''bad_request'', er_Message = message\<rparr>"

definition ChangeMyPassword :: "libs \<Rightarrow> ctx \<Rightarrow> ChangePasswordRequest option \<Rightarrow> unit handler" where
  "ChangeMyPassword L ctx body = authenticated ctx changePasswordUnauthorized (\<lambda>account.
     case body of
       None \<Rightarrow> respond (changePasswordBadRequest ''missing request body'')
     | Some b \<Rightarrow> do {
         c \<leftarrow> store_Credentials (acc_Email account);
         case c of
           Inl e \<Rightarrow> if e = ErrNotFound then respond (changePasswordUnauthorized ''account no longer exists'')
                    else ret (Inl e)
         | Inr (_, hashedSecret) \<Rightarrow> do {
             match \<leftarrow> bcrypt_compare L hashedSecret (cp_CurrentPassword b);
             if \<not> match then respond (changePasswordUnauthorized ''current password is incorrect'')
             else do {
               h \<leftarrow> HashSecret L (cp_NewPassword b);
               case h of
                 Inl e \<Rightarrow> if e = ErrSecretTooShort
                          then respond (changePasswordBadRequest ''new password is too short'')
                          else ret (Inl e)
               | Inr newHash \<Rightarrow>
                   or_return (store_UpdateAccountByID (acc_ID account)
                     \<lparr>au_IsAdmin = None, au_IsActive = None, au_HashedSecret = Some newHash\<rparr>) (\<lambda>_.
                   or_return (store_RevokeAllForAccount (acc_ID account)) (\<lambda>_.
                     respond NoContent204))
             }
           }
       })"

definition listSessionsUnauthorized :: "string \<Rightarrow> 'a response" where
  "listSessionsUnauthorized message = Unauthorized401 \<lparr>er_Code = ''unauthorized'', er_Message = message\<rparr>"

definition revokeSessionUnauthorized :: "string \<Rightarrow> 'a response" where
  "revokeSessionUnauthorized message = Unauthorized401 \<lparr>er_Code = ''unauthorized'', er_Message = message\<rparr>"

definition ListMySessions :: "ctx \<Rightarrow> ApiSession list handler" where
  "ListMySessions ctx = authenticated ctx listSessionsUnauthorized (\<lambda>account. do {
     now \<leftarrow> clock_now;
     or_return (store_SessionsForAccount (acc_ID account) (Unix now)) (\<lambda>sessions.
       respond (OK200 (map (\<lambda>ss. \<lparr>as_FamilyId = ses_FamilyID ss, as_IssuedAt = ses_IssuedAt ss,
         as_ExpiresAt = ses_ExpiresAt ss\<rparr>) sessions)))
   })"

definition RevokeMySession :: "ctx \<Rightarrow> string \<Rightarrow> unit handler" where
  "RevokeMySession ctx familyId = authenticated ctx revokeSessionUnauthorized (\<lambda>account. do {
     r \<leftarrow> store_RevokeFamilyForAccount familyId (acc_ID account);
     case r of
       Inl e \<Rightarrow> if e = ErrNotFound then respond (refuse NotFound404 ''not_found'' ''session not found'')
                else ret (Inl e)
     | Inr _ \<Rightarrow> respond NoContent204
   })"

section \<open>Accounts\<close>

definition apiAccount :: "Account \<Rightarrow> ApiAccount" where
  "apiAccount a = \<lparr>aa_Id = acc_ID a, aa_Email = acc_Email a, aa_IsActive = acc_IsActive a,
     aa_IsAdmin = acc_IsAdmin a, aa_Roles = accountRoles a\<rparr>"

definition GetAccount :: "ctx \<Rightarrow> int \<Rightarrow> ApiAccount handler" where
  "GetAccount ctx accountId = admin_only ctx (\<lambda>_. do {
     r \<leftarrow> store_AccountByID accountId;
     case r of
       Inl e \<Rightarrow> if e = ErrNotFound then respond (refuse NotFound404 ''not_found'' ''account not found'')
                else ret (Inl e)
     | Inr account \<Rightarrow> respond (OK200 (apiAccount account))
   })"

definition ListAccounts :: "ctx \<Rightarrow> ApiAccount list handler" where
  "ListAccounts ctx = admin_only ctx (\<lambda>_.
     or_return store_ListAccounts (\<lambda>as. respond (OK200 (map apiAccount as))))"

definition createAccountBadRequest :: "string \<Rightarrow> 'a response" where
  "createAccountBadRequest message = BadRequest400 \<lparr>er_Code = ''bad_request'', er_Message = message\<rparr>"

definition updateAccountBadRequest :: "string \<Rightarrow> 'a response" where
  "updateAccountBadRequest message = BadRequest400 \<lparr>er_Code = ''bad_request'', er_Message = message\<rparr>"

text \<open>\<open>err.Error()\<close> of \<open>HashSecret\<close>'s length error.\<close>

definition too_short_text :: string where
  "too_short_text = ''secret is too short: need at least 8 characters''"

definition flag :: "bool option \<Rightarrow> bool" where
  "flag b = (case b of None \<Rightarrow> False | Some v \<Rightarrow> v)"

text \<open>The secret and, when it was generated, the copy that goes into the response.\<close>

definition chosen_secret :: "string option \<Rightarrow> (world, go_error + string \<times> string option) state" where
  "chosen_secret given = (case given of
     Some s \<Rightarrow> ret (Inr (s, None))
   | None \<Rightarrow> or_return (GenerateSecret None) (\<lambda>gen. ret (Inr (gen, Some gen))))"

definition CreateAccount :: "libs \<Rightarrow> ctx \<Rightarrow> CreateAccountRequest option \<Rightarrow> CreatedAccount handler" where
  "CreateAccount L ctx body = admin_only ctx (\<lambda>_.
     case body of None \<Rightarrow> respond (createAccountBadRequest ''request body is required'') | Some b \<Rightarrow>
     let email = ToLower (unicode_lower L) (TrimSpace (car_Email b)) in
     if email = [] then respond (createAccountBadRequest ''email is required'')
     else or_return (chosen_secret (car_Secret b)) (\<lambda>(secret, generatedSecret). do {
       h \<leftarrow> HashSecret L secret;
       case h of
         Inl e \<Rightarrow> if e = ErrSecretTooShort then respond (createAccountBadRequest too_short_text)
                  else ret (Inl e)
       | Inr hashedSecret \<Rightarrow> do {
           i \<leftarrow> store_CreateAccount email (flag (car_IsAdmin b)) (flag (car_IsActive b)) hashedSecret;
           case i of
             Inl e \<Rightarrow> if e = ErrConflict
                      then respond (refuse Conflict409 ''conflict'' ''an account with that email already exists'')
                      else ret (Inl e)
           | Inr rowid \<Rightarrow> respond (Created201 \<lparr>ca_Account = apiAccount \<lparr>acc_ID = rowid, acc_Email = email,
                 acc_IsAdmin = flag (car_IsAdmin b), acc_IsActive = flag (car_IsActive b)\<rparr>,
               ca_GeneratedSecret = generatedSecret\<rparr>)
         }
     }))"

text \<open>The tail of \<open>UpdateAccount\<close>, from the test for an empty update on.\<close>

definition apply_account_update :: "int \<Rightarrow> AccountUpdate \<Rightarrow> ApiAccount handler" where
  "apply_account_update accountId upd =
     (if au_IsActive upd = None \<and> au_IsAdmin upd = None \<and> au_HashedSecret upd = None
      then respond (updateAccountBadRequest ''at least one field must be provided'')
      else do {
        u \<leftarrow> store_UpdateAccountByID accountId upd;
        case u of
          Inl e \<Rightarrow> if e = ErrNotFound then respond (refuse NotFound404 ''not_found'' ''account not found'')
                   else ret (Inl e)
        | Inr _ \<Rightarrow> or_return (store_AccountByID accountId) (\<lambda>account.
            respond (OK200 (apiAccount account)))
      })"

definition UpdateAccount :: "libs \<Rightarrow> ctx \<Rightarrow> int \<Rightarrow> UpdateAccountRequest option \<Rightarrow> ApiAccount handler" where
  "UpdateAccount L ctx accountId body = admin_only ctx (\<lambda>_.
     case body of None \<Rightarrow> respond (updateAccountBadRequest ''request body is required'') | Some b \<Rightarrow>
     let upd = \<lparr>au_IsAdmin = uar_IsAdmin b, au_IsActive = uar_IsActive b, au_HashedSecret = None\<rparr> in
     case uar_Secret b of
       None \<Rightarrow> apply_account_update accountId upd
     | Some secret \<Rightarrow> do {
         h \<leftarrow> HashSecret L secret;
         case h of
           Inl e \<Rightarrow> if e = ErrSecretTooShort then respond (updateAccountBadRequest too_short_text)
                    else ret (Inl e)
         | Inr hashedSecret \<Rightarrow> apply_account_update accountId (upd\<lparr>au_HashedSecret := Some hashedSecret\<rparr>)
       })"

section \<open>Impersonation\<close>

definition impersonationBadRequest :: "string \<Rightarrow> 'a response" where
  "impersonationBadRequest message = BadRequest400 \<lparr>er_Code = ''bad_request'', er_Message = message\<rparr>"

definition impersonationConflict :: "string \<Rightarrow> 'a response" where
  "impersonationConflict message = Conflict409 \<lparr>er_Code = ''conflict'', er_Message = message\<rparr>"

definition CreateImpersonation ::
  "libs \<Rightarrow> Server \<Rightarrow> ctx \<Rightarrow> int option \<Rightarrow> ImpersonationResponse handler" where
  "CreateImpersonation L s ctx body = admin_only ctx (\<lambda>admin.
     case body of None \<Rightarrow> respond (impersonationBadRequest ''request body is required'') | Some accountId \<Rightarrow>
     if accountId \<le> 0 then respond (impersonationBadRequest ''accountId is required'')
     else if accountId = acc_ID admin
       then respond (impersonationConflict ''cannot impersonate your own account'')
     else do {
       t \<leftarrow> store_AccountByID accountId;
       case t of
         Inl e \<Rightarrow> if e = ErrNotFound then respond (refuse NotFound404 ''not_found'' ''account not found'')
                  else ret (Inl e)
       | Inr target \<Rightarrow>
           if acc_IsAdmin target then respond (impersonationConflict ''cannot impersonate an admin account'')
           else if \<not> acc_IsActive target
             then respond (impersonationConflict ''cannot impersonate an inactive account'')
           else or_return (IssueImpersonation L (srv_tokens s) (acc_ID target) (acc_Email target)
                  (roleStrings (accountRoles target)) (acc_ID admin)) (\<lambda>(token, _).
             respond (OK200 \<lparr>ir_Token = token, ir_TokenType = ''Bearer'',
               ir_ExpiresInSeconds = whole_seconds impersonationTTL,
               ir_Subject_AccountId = acc_ID target, ir_Subject_Email = acc_Email target,
               ir_Actor_AccountId = acc_ID admin\<rparr>))
     })"

section \<open>Endpoints without an implementation\<close>

definition ListTurns :: "unit handler" where "ListTurns = ret (Inl ErrNotImplemented)"
definition GetTurn :: "unit handler" where "GetTurn = ret (Inl ErrNotImplemented)"
definition ValidateOrders :: "unit handler" where "ValidateOrders = ret (Inl ErrNotImplemented)"
definition SubmitOrders :: "unit handler" where "SubmitOrders = ret (Inl ErrNotImplemented)"
definition GetOrderSubmission :: "unit handler" where "GetOrderSubmission = ret (Inl ErrNotImplemented)"

end
