(* ===== verification/HandlersGames.thy ===== *)
theory HandlersGames
  imports Handlers
begin

text \<open>
  internal/handlers/games.go and the game reads of server.go. The decisions of \<open>UpdateGame\<close>,
  \<open>AddGameMember\<close> and \<open>UpdateGameMember\<close> are pure functions of what the handler has read
  (\<open>plan_...\<close>, one per field block of the code, in the code's order): \<open>Inl\<close> is the refusal
  the block returns, \<open>Inr\<close> the field it adds to the update. The handlers compose them with the
  store calls.
\<close>

section \<open>Mapping to API objects\<close>

definition apiGame :: "Game \<Rightarrow> ApiGame" where
  "apiGame g = \<lparr>ag_Id = game_ID g, ag_Code = game_Code g, ag_Name = game_Name g,
     ag_Status = game_Status g, ag_Description = game_Description g\<rparr>"

definition apiMember :: "Member \<Rightarrow> ApiMember" where
  "apiMember m = \<lparr>am_AccountId = mem_AccountID m, am_Handle = mem_Handle m,
     am_IsGm = mem_IsGM m, am_IsActive = mem_IsActive m\<rparr>"

section \<open>Reading games\<close>

definition gameStatusFilter :: "string option \<Rightarrow> string option" where
  "gameStatusFilter status = (case status of None \<Rightarrow> None | Some s \<Rightarrow> Some s)"

definition listGamesUnauthorized :: "string \<Rightarrow> 'a response" where
  "listGamesUnauthorized message = Unauthorized401 \<lparr>er_Code = ''unauthorized'', er_Message = message\<rparr>"

definition getGameUnauthorized :: "string \<Rightarrow> 'a response" where
  "getGameUnauthorized message = Unauthorized401 \<lparr>er_Code = ''unauthorized'', er_Message = message\<rparr>"

definition ListGames :: "ctx \<Rightarrow> string option \<Rightarrow> ApiGame list handler" where
  "ListGames ctx status = authenticated ctx listGamesUnauthorized (\<lambda>account.
     or_return (store_ListGames (acc_ID account) (acc_IsAdmin account) (gameStatusFilter status))
       (\<lambda>games. respond (OK200 (map apiGame games))))"

definition GetGame :: "ctx \<Rightarrow> int \<Rightarrow> ApiGame handler" where
  "GetGame ctx gameId = authenticated ctx getGameUnauthorized (\<lambda>account. do {
     r \<leftarrow> store_GameByID gameId (acc_ID account) (acc_IsAdmin account);
     case r of
       Inl e \<Rightarrow> if e = ErrNotFound then respond (refuse NotFound404 ''not_found'' ''game not found'')
                else ret (Inl e)
     | Inr game \<Rightarrow> respond (OK200 (apiGame game))
   })"

definition listMembersUnauthorized :: "string \<Rightarrow> 'a response" where
  "listMembersUnauthorized message = Unauthorized401 \<lparr>er_Code = ''unauthorized'', er_Message = message\<rparr>"

definition ListGameMembers :: "ctx \<Rightarrow> int \<Rightarrow> ApiMember list handler" where
  "ListGameMembers ctx gameId = authenticated ctx listMembersUnauthorized (\<lambda>account. do {
     r \<leftarrow> store_GameByID gameId (acc_ID account) (acc_IsAdmin account);
     case r of
       Inl e \<Rightarrow> if e = ErrNotFound then respond (refuse NotFound404 ''not_found'' ''game not found'')
                else ret (Inl e)
     | Inr _ \<Rightarrow> or_return (store_MembersForGame gameId) (\<lambda>members.
         respond (OK200 (map apiMember members)))
   })"

section \<open>CreateGame\<close>

definition createGameBadRequest :: "string \<Rightarrow> 'a response" where
  "createGameBadRequest message = BadRequest400 \<lparr>er_Code = ''bad_request'', er_Message = message\<rparr>"

definition CreateGame :: "ctx \<Rightarrow> CreateGameRequest option \<Rightarrow> ApiGame handler" where
  "CreateGame ctx body = admin_only ctx (\<lambda>_.
     case body of None \<Rightarrow> respond (createGameBadRequest ''request body is required'') | Some b \<Rightarrow>
     if \<not> ValidCode (cgr_Code b) then respond (createGameBadRequest ErrInvalidCode)
     else let name = TrimSpace (cgr_Name b) in
       if name = [] then respond (createGameBadRequest ''name is required'')
       else do {
         r \<leftarrow> store_CreateGame (cgr_Code b) name (cgr_Description b);
         case r of
           Inl e \<Rightarrow> if e = ErrConflict
                    then respond (refuse Conflict409 ''conflict'' ''a game with that code already exists'')
                    else ret (Inl e)
         | Inr game \<Rightarrow> respond (Created201 (apiGame game))
       })"

section \<open>UpdateGame\<close>

definition updateGameUnauthorized :: "string \<Rightarrow> 'a response" where
  "updateGameUnauthorized message = Unauthorized401 \<lparr>er_Code = ''unauthorized'', er_Message = message\<rparr>"

definition updateGameBadRequest :: "string \<Rightarrow> 'a response" where
  "updateGameBadRequest message = BadRequest400 \<lparr>er_Code = ''bad_request'', er_Message = message\<rparr>"

definition updateGameForbidden :: "string \<Rightarrow> 'a response" where
  "updateGameForbidden message = Forbidden403 \<lparr>er_Code = ''forbidden'', er_Message = message\<rparr>"

definition updateGameNotFound :: "string \<Rightarrow> 'a response" where
  "updateGameNotFound message = NotFound404 \<lparr>er_Code = ''not_found'', er_Message = message\<rparr>"

definition updateGameConflict :: "string \<Rightarrow> 'a response" where
  "updateGameConflict message = Conflict409 \<lparr>er_Code = ''conflict'', er_Message = message\<rparr>"

definition statusOrder :: "string list" where
  "statusOrder = [Draft, Recruiting, Active, Paused, Complete, Archived]"

fun index_from :: "int \<Rightarrow> string \<Rightarrow> string list \<Rightarrow> int" where
  "index_from i s [] = -1"
| "index_from i s (v # vs) = (if v = s then i else index_from (i + 1) s vs)"

definition statusIndex :: "string \<Rightarrow> int" where
  "statusIndex s = index_from 0 s statusOrder"

text \<open>\<open>%q\<close> of a status, which has no character to escape.\<close>

definition quoted :: "string \<Rightarrow> string" where
  "quoted s = [CHR 0x22] @ s @ [CHR 0x22]"

text \<open>The arguments are whether the caller is an admin and whether an active GM.\<close>

definition plan_status ::
  "bool \<Rightarrow> bool \<Rightarrow> string \<Rightarrow> string option \<Rightarrow> 'a response + string option" where
  "plan_status isAdmin activeGM current requested =
     (case requested of None \<Rightarrow> Inr None | Some target \<Rightarrow>
        if \<not> GameStatus_Valid target then Inl (updateGameBadRequest ''unknown status'')
        else if target \<noteq> current then
          (let ci = statusIndex current; ti = statusIndex target in
           if current = Archived then
             (if \<not> isAdmin
              then Inl (updateGameForbidden ''only an admin may change the status of an archived game'')
              else Inr (Some target))
           else if ti > ci then
             (if \<not> (isAdmin \<or> activeGM)
              then Inl (updateGameForbidden
                ''only an active game master or an admin may advance a game's status'')
              else Inr (Some target))
           else if current = Paused \<and> target = Active then
             (if \<not> isAdmin then Inl (updateGameForbidden ''only an admin may un-pause a game'')
              else Inr (Some target))
           else Inl (updateGameConflict
             (''cannot change status from '' @ quoted current @ '' to '' @ quoted target)))
        else Inr None)"

definition edit_refused :: string where
  "edit_refused = ''only an active game master or an admin may edit game metadata''"

definition plan_name ::
  "bool \<Rightarrow> bool \<Rightarrow> Game \<Rightarrow> string option \<Rightarrow> 'a response + string option" where
  "plan_name isAdmin activeGM game requested =
     (case requested of None \<Rightarrow> Inr None | Some n \<Rightarrow>
        let name = TrimSpace n in
        if name = [] then Inl (updateGameBadRequest ''name must not be empty'')
        else if name \<noteq> game_Name game then
          (if \<not> (isAdmin \<or> activeGM) then Inl (updateGameForbidden edit_refused) else Inr (Some name))
        else Inr None)"

definition plan_description ::
  "bool \<Rightarrow> bool \<Rightarrow> Game \<Rightarrow> string option \<Rightarrow> 'a response + string option" where
  "plan_description isAdmin activeGM game requested =
     (case requested of None \<Rightarrow> Inr None | Some desc \<Rightarrow>
        if (case game_Description game of None \<Rightarrow> True | Some old \<Rightarrow> desc \<noteq> old) then
          (if \<not> (isAdmin \<or> activeGM) then Inl (updateGameForbidden edit_refused) else Inr (Some desc))
        else Inr None)"

definition plan_visibility :: "bool \<Rightarrow> Game \<Rightarrow> bool option \<Rightarrow> 'a response + bool option" where
  "plan_visibility isAdmin game requested =
     (case requested of None \<Rightarrow> Inr None | Some v \<Rightarrow>
        if v \<noteq> game_IsActive game then
          (if \<not> isAdmin then Inl (updateGameForbidden ''only an admin may change a game's visibility'')
           else Inr (Some v))
        else Inr None)"

definition plan_game_update ::
  "bool \<Rightarrow> bool \<Rightarrow> Game \<Rightarrow> UpdateGameRequest \<Rightarrow> 'a response + GameUpdate" where
  "plan_game_update isAdmin activeGM game body =
     (let current = game_Status game in
      if current = Archived \<and>
         (ugr_Name body \<noteq> None \<or> ugr_Description body \<noteq> None \<or> ugr_IsActive body \<noteq> None)
      then Inl (updateGameForbidden ''an archived game is frozen; only an admin may change its status'')
      else case plan_status isAdmin activeGM current (ugr_Status body) of Inl x \<Rightarrow> Inl x | Inr st \<Rightarrow>
           (case plan_name isAdmin activeGM game (ugr_Name body) of Inl x \<Rightarrow> Inl x | Inr nm \<Rightarrow>
           (case plan_description isAdmin activeGM game (ugr_Description body) of Inl x \<Rightarrow> Inl x | Inr ds \<Rightarrow>
           (case plan_visibility isAdmin game (ugr_IsActive body) of Inl x \<Rightarrow> Inl x | Inr vs \<Rightarrow>
            Inr \<lparr>gu_Status = st, gu_Name = nm, gu_Description = ds, gu_IsActive = vs\<rparr>))))"

text \<open>The caller's standing in a game the visibility gate has let them see.\<close>

definition active_gm :: "Account \<Rightarrow> int \<Rightarrow> (world, go_error + bool) state" where
  "active_gm account gameId =
     (if acc_IsAdmin account then ret (Inr True)
      else or_return (store_MemberForGame gameId (acc_ID account)) (\<lambda>caller.
        ret (Inr (mem_IsActive caller \<and> mem_IsGM caller))))"

definition UpdateGame :: "ctx \<Rightarrow> int \<Rightarrow> UpdateGameRequest option \<Rightarrow> ApiGame handler" where
  "UpdateGame ctx gameId request = authenticated ctx updateGameUnauthorized (\<lambda>account.
     case request of None \<Rightarrow> respond (updateGameBadRequest ''request body is required'') | Some body \<Rightarrow>
     if ugr_Status body = None \<and> ugr_Name body = None \<and> ugr_Description body = None \<and>
        ugr_IsActive body = None
     then respond (updateGameBadRequest ''no changes requested'')
     else do {
       r \<leftarrow> store_GameByID gameId (acc_ID account) (acc_IsAdmin account);
       case r of
         Inl e \<Rightarrow> if e = ErrNotFound then respond (updateGameNotFound ''game not found'') else ret (Inl e)
       | Inr game \<Rightarrow> or_return (active_gm account gameId) (\<lambda>activeGM.
           case plan_game_update (acc_IsAdmin account) activeGM game body of
             Inl refusal \<Rightarrow> respond refusal
           | Inr upd \<Rightarrow>
               if gu_Status upd = None \<and> gu_Name upd = None \<and> gu_Description upd = None \<and>
                  gu_IsActive upd = None
               then respond (OK200 (apiGame game))
               else do {
                 u \<leftarrow> store_UpdateGame gameId upd;
                 case u of
                   Inl e \<Rightarrow> if e = ErrNotFound then respond (updateGameNotFound ''game not found'')
                            else ret (Inl e)
                 | Inr updated \<Rightarrow> respond (OK200 (apiGame updated))
               })
     })"

section \<open>AddGameMember\<close>

definition addMemberUnauthorized :: "string \<Rightarrow> 'a response" where
  "addMemberUnauthorized message = Unauthorized401 \<lparr>er_Code = ''unauthorized'', er_Message = message\<rparr>"

definition addMemberBadRequest :: "string \<Rightarrow> 'a response" where
  "addMemberBadRequest message = BadRequest400 \<lparr>er_Code = ''bad_request'', er_Message = message\<rparr>"

definition addMemberForbidden :: "string \<Rightarrow> 'a response" where
  "addMemberForbidden message = Forbidden403 \<lparr>er_Code = ''forbidden'', er_Message = message\<rparr>"

definition addMemberNotFound :: "string \<Rightarrow> 'a response" where
  "addMemberNotFound message = NotFound404 \<lparr>er_Code = ''not_found'', er_Message = message\<rparr>"

definition addMemberConflict :: "string \<Rightarrow> 'a response" where
  "addMemberConflict message = Conflict409 \<lparr>er_Code = ''conflict'', er_Message = message\<rparr>"

definition addMemberStatusGate :: "string \<Rightarrow> bool \<Rightarrow> bool \<Rightarrow> string" where
  "addMemberStatusGate status isGM isAdmin =
     (if status = Archived then ''the game is archived and cannot be modified''
      else if isGM \<or> isAdmin then []
      else if status \<noteq> Recruiting then ''players can only be added while the game is recruiting''
      else [])"

definition add_role_refused :: string where
  "add_role_refused = ''only an active game master or an admin may add members''"

text \<open>The handle of the request: an omitted one is the empty string, left to the store.\<close>

definition requested_handle :: "string option \<Rightarrow> 'a response + string" where
  "requested_handle given = (case given of
     None \<Rightarrow> Inr []
   | Some h \<Rightarrow> (let handle = TrimSpace h in
       if \<not> ValidHandle handle then Inl (addMemberBadRequest ErrInvalidHandle) else Inr handle))"

text \<open>The role gate: \<open>None\<close> lets the caller through.\<close>

definition add_role_gate :: "Account \<Rightarrow> int \<Rightarrow> (world, go_error + 'a response option) state" where
  "add_role_gate account gameId =
     (if acc_IsAdmin account then ret (Inr None)
      else do {
        r \<leftarrow> store_MemberForGame gameId (acc_ID account);
        ret (case r of
           Inl e \<Rightarrow> if e = ErrNotFound then Inr (Some (addMemberForbidden add_role_refused)) else Inl e
         | Inr caller \<Rightarrow>
             if \<not> mem_IsActive caller \<or> \<not> mem_IsGM caller
             then Inr (Some (addMemberForbidden add_role_refused)) else Inr None)
      })"

text \<open>The store call and the answers to its errors.\<close>

definition add_to_roster :: "int \<Rightarrow> int \<Rightarrow> string \<Rightarrow> bool \<Rightarrow> ApiMember handler" where
  "add_to_roster gameId accountId handle isGM = do {
     r \<leftarrow> store_AddMember gameId accountId handle isGM;
     case r of
       Inl e \<Rightarrow>
         if e = ErrNotFound then respond (addMemberBadRequest ''account does not exist'')
         else if e = ErrMemberExists then respond (addMemberConflict
           ''account is already a member; reactivate the existing membership instead'')
         else if e = ErrHandleTaken then respond (addMemberConflict ''handle already in use'')
         else if e = ErrConflict
           then respond (addMemberConflict ''member could not be added due to a conflict'')
         else ret (Inl e)
     | Inr member \<Rightarrow> respond (Created201 (apiMember member))
   }"

definition AddGameMember :: "ctx \<Rightarrow> int \<Rightarrow> AddMemberRequest option \<Rightarrow> ApiMember handler" where
  "AddGameMember ctx gameId request = authenticated ctx addMemberUnauthorized (\<lambda>account.
     case request of None \<Rightarrow> respond (addMemberBadRequest ''request body is required'') | Some body \<Rightarrow>
     if amr_AccountId body \<le> 0 then respond (addMemberBadRequest ''accountId is required'')
     else case requested_handle (amr_Handle body) of Inl refusal \<Rightarrow> respond refusal | Inr handle \<Rightarrow>
     do {
       r \<leftarrow> store_GameByID gameId (acc_ID account) (acc_IsAdmin account);
       case r of
         Inl e \<Rightarrow> if e = ErrNotFound then respond (addMemberNotFound ''game not found'') else ret (Inl e)
       | Inr game \<Rightarrow> or_return (add_role_gate account gameId) (\<lambda>gate.
           case gate of
             Some refusal \<Rightarrow> respond refusal
           | None \<Rightarrow>
               let isGM = flag (amr_IsGm body);
                   msg = addMemberStatusGate (game_Status game) isGM (acc_IsAdmin account) in
               if msg \<noteq> [] then respond (addMemberForbidden msg)
               else add_to_roster gameId (amr_AccountId body) handle isGM)
     })"

section \<open>UpdateGameMember\<close>

definition updateMemberUnauthorized :: "string \<Rightarrow> 'a response" where
  "updateMemberUnauthorized message = Unauthorized401 \<lparr>er_Code = ''unauthorized'', er_Message = message\<rparr>"

definition updateMemberBadRequest :: "string \<Rightarrow> 'a response" where
  "updateMemberBadRequest message = BadRequest400 \<lparr>er_Code = ''bad_request'', er_Message = message\<rparr>"

definition updateMemberForbidden :: "string \<Rightarrow> 'a response" where
  "updateMemberForbidden message = Forbidden403 \<lparr>er_Code = ''forbidden'', er_Message = message\<rparr>"

definition updateMemberNotFound :: "string \<Rightarrow> 'a response" where
  "updateMemberNotFound message = NotFound404 \<lparr>er_Code = ''not_found'', er_Message = message\<rparr>"

definition updateMemberConflict :: "string \<Rightarrow> 'a response" where
  "updateMemberConflict message = Conflict409 \<lparr>er_Code = ''conflict'', er_Message = message\<rparr>"

record standing =
  st_isAdmin :: bool
  st_activeGM :: bool
  st_isSelf :: bool
  st_recruiting :: bool

definition plan_active :: "standing \<Rightarrow> Member \<Rightarrow> bool option \<Rightarrow> 'a response + bool option" where
  "plan_active st target requested =
     (case requested of None \<Rightarrow> Inr None | Some v \<Rightarrow>
        if v then
          (if \<not> mem_IsActive target then
             (if \<not> (st_isAdmin st \<or> st_activeGM st)
              then Inl (updateMemberForbidden
                ''only an active game master or an admin may reactivate a member'')
              else Inr (Some True))
           else Inr None)
        else
          (if mem_IsActive target then
             (if \<not> (st_isSelf st \<or> st_activeGM st)
              then Inl (updateMemberForbidden
                ''only the member, an active game master, or an admin may drop a member'')
              else Inr (Some False))
           else Inr None))"

definition plan_gm :: "standing \<Rightarrow> Member \<Rightarrow> bool option \<Rightarrow> 'a response + bool option" where
  "plan_gm st target requested =
     (case requested of None \<Rightarrow> Inr None | Some v \<Rightarrow>
        if \<not> v then Inl (updateMemberForbidden ''demoting a game master is not supported'')
        else if \<not> mem_IsGM target then
          (if \<not> (st_isAdmin st \<or> st_activeGM st)
           then Inl (updateMemberForbidden ''only an active game master or an admin may promote a member'')
           else if \<not> st_isAdmin st \<and> \<not> st_recruiting st
           then Inl (updateMemberForbidden ''players can only be promoted while the game is recruiting'')
           else Inr (Some True))
        else Inr None)"

definition plan_handle :: "standing \<Rightarrow> Member \<Rightarrow> string option \<Rightarrow> 'a response + string option" where
  "plan_handle st target requested =
     (case requested of None \<Rightarrow> Inr None | Some h \<Rightarrow>
        let handle = TrimSpace h in
        if \<not> ValidHandle handle then Inl (updateMemberBadRequest ErrInvalidHandle)
        else if handle \<noteq> mem_Handle target then
          (if st_activeGM st then Inr (Some handle)
           else if st_isSelf st then
             (if \<not> st_recruiting st
              then Inl (updateMemberForbidden ''a handle can only be changed while the game is recruiting'')
              else if HasPrefix handle ''player_''
              then Inl (updateMemberBadRequest
                (''a handle may not begin with '' @ [CHR 0x27] @ ''player_'' @ [CHR 0x27]))
              else Inr (Some handle))
           else Inl (updateMemberForbidden
             ''only the member, a game master, or an admin may change a handle''))
        else Inr None)"

definition plan_member_update ::
  "standing \<Rightarrow> Member \<Rightarrow> UpdateMemberRequest \<Rightarrow> 'a response + MemberUpdate" where
  "plan_member_update st target body =
     (case plan_active st target (umr_IsActive body) of Inl x \<Rightarrow> Inl x | Inr a \<Rightarrow>
     (case plan_gm st target (umr_IsGm body) of Inl x \<Rightarrow> Inl x | Inr g \<Rightarrow>
     (case plan_handle st target (umr_Handle body) of Inl x \<Rightarrow> Inl x | Inr h \<Rightarrow>
      Inr \<lparr>mu_IsActive = a, mu_IsGM = g, mu_Handle = h\<rparr>)))"

definition apply_roster_update :: "int \<Rightarrow> int \<Rightarrow> MemberUpdate \<Rightarrow> ApiMember handler" where
  "apply_roster_update gameId accountId upd = do {
     u \<leftarrow> store_UpdateMember gameId accountId upd;
     case u of
       Inl e \<Rightarrow>
         if e = ErrNotFound then respond (updateMemberNotFound ''member not found'')
         else if e = ErrHandleTaken then respond (updateMemberConflict ''handle already in use'')
         else if e = ErrConflict
           then respond (updateMemberConflict ''member could not be updated due to a conflict'')
         else ret (Inl e)
     | Inr member \<Rightarrow> respond (OK200 (apiMember member))
   }"

definition UpdateGameMember :: "ctx \<Rightarrow> int \<Rightarrow> int \<Rightarrow> UpdateMemberRequest option \<Rightarrow> ApiMember handler" where
  "UpdateGameMember ctx gameId accountId request = authenticated ctx updateMemberUnauthorized (\<lambda>account.
     case request of None \<Rightarrow> respond (updateMemberBadRequest ''request body is required'') | Some body \<Rightarrow>
     if umr_IsActive body = None \<and> umr_IsGm body = None \<and> umr_Handle body = None
     then respond (updateMemberBadRequest ''no changes requested'')
     else do {
       r \<leftarrow> store_GameByID gameId (acc_ID account) (acc_IsAdmin account);
       case r of
         Inl e \<Rightarrow> if e = ErrNotFound then respond (updateMemberNotFound ''game not found'') else ret (Inl e)
       | Inr game \<Rightarrow> do {
           t \<leftarrow> store_MemberForGame gameId accountId;
           case t of
             Inl e \<Rightarrow> if e = ErrNotFound then respond (updateMemberNotFound ''member not found'')
                      else ret (Inl e)
           | Inr target \<Rightarrow>
               if game_Status game = Archived
               then respond (updateMemberForbidden ''the game is archived and cannot be modified'')
               else or_return (active_gm account gameId) (\<lambda>activeGM.
                 case plan_member_update \<lparr>st_isAdmin = acc_IsAdmin account, st_activeGM = activeGM,
                        st_isSelf = (acc_ID account = accountId),
                        st_recruiting = (game_Status game = Recruiting)\<rparr> target body of
                   Inl refusal \<Rightarrow> respond refusal
                 | Inr upd \<Rightarrow>
                     if mu_IsActive upd = None \<and> mu_IsGM upd = None \<and> mu_Handle upd = None
                     then respond (OK200 (apiMember target))
                     else apply_roster_update gameId accountId upd)
         }
     })"

end
