(* ===== verification/HandlersContract.thy ===== *)
theory HandlersContract
  imports HandlersGames
begin

text \<open>
  Every handler keeps the store's contract: whatever preorder the statements move along, a
  whole request does, under every schedule of failures and interference. The dispatcher
  \<open>serve\<close> is the strict server's call of one handler per operation, so that the contract is
  one statement about all requests.
\<close>

section \<open>A GM is never demoted\<close>

lemma plan_gm_promotes: "plan_gm st target requested = Inr g \<Longrightarrow> g \<noteq> Some False"
  by (auto simp: plan_gm_def split: option.splits if_splits)

lemma plan_member_no_demotion: "plan_member_update st target body = Inr upd \<Longrightarrow> mu_IsGM upd \<noteq> Some False"
  by (auto simp: plan_member_update_def dest: plan_gm_promotes split: sum.splits)

section \<open>Programs that only read\<close>

context db_order
begin

lemma obeys_authenticatedAccount [step_intros]: "obeys r (authenticatedAccount ctx)"
  unfolding authenticatedAccount_def by (intro step_intros)

lemma obeys_requireAdmin [step_intros]: "obeys r (requireAdmin ctx)"
  unfolding requireAdmin_def by (intro step_intros)

lemma obeys_authenticated [step_intros]:
  "(\<And>account. obeys r (body account)) \<Longrightarrow> obeys r (authenticated ctx unauth body)"
  unfolding authenticated_def by (intro step_intros)

lemma obeys_admin_only [step_intros]:
  "(\<And>account. obeys r (body account)) \<Longrightarrow> obeys r (admin_only ctx body)"
  unfolding admin_only_def by (intro step_intros)

lemma obeys_active_gm [step_intros]: "obeys r (active_gm account g)"
  unfolding active_gm_def by (intro step_intros)

lemma obeys_add_role_gate [step_intros]: "obeys r (add_role_gate account g)"
  unfolding add_role_gate_def by (intro step_intros)

lemma obeys_chosen_secret [step_intros]: "obeys r (chosen_secret s)"
  unfolding chosen_secret_def by (intro step_intros)

lemma obeys_reads [step_intros]:
  "obeys r (GetHealth L)" "obeys r (GetVersion L)" "obeys r (GetMe ctx)" "obeys r (ListMyGames ctx)"
  "obeys r (ListMySessions ctx)" "obeys r (GetAccount ctx i)" "obeys r (ListAccounts ctx)"
  "obeys r (ListGames ctx st)" "obeys r (GetGame ctx g)" "obeys r (ListGameMembers ctx g)"
  "obeys r (ShutdownServer s ctx)" "obeys r (CreateImpersonation L s ctx target)"
  unfolding GetHealth_def GetVersion_def GetMe_def ListMyGames_def ListMySessions_def GetAccount_def
    ListAccounts_def ListGames_def GetGame_def ListGameMembers_def ShutdownServer_def
    CreateImpersonation_def
  by (intro step_intros)+

lemma obeys_unimplemented [step_intros]:
  "obeys r ListTurns" "obeys r GetTurn" "obeys r ValidateOrders" "obeys r SubmitOrders"
  "obeys r GetOrderSubmission"
  unfolding ListTurns_def GetTurn_def ValidateOrders_def SubmitOrders_def GetOrderSubmission_def
  by (intro step_intros)+

end

section \<open>Programs that change one group of tables\<close>

context token_store
begin

lemma obeys_issueRefresh [step_intros]: "obeys r (issueRefresh L s a fam)"
  unfolding issueRefresh_def by (intro step_intros)

lemma obeys_login_session [step_intros]: "obeys r (login_session L s account)"
  unfolding login_session_def by (intro step_intros)

lemma obeys_Login [step_intros]: "obeys r (Login L s body)"
  unfolding Login_def by (intro step_intros)

lemma obeys_rotate [step_intros]: "obeys r (rotate L s account fam jti)"
  unfolding rotate_def by (intro step_intros)

lemma obeys_RefreshToken [step_intros]: "obeys r (RefreshToken_handler L s body)"
  unfolding RefreshToken_handler_def by (intro step_intros)

lemma obeys_Logout [step_intros]: "obeys r (Logout L s ctx body)"
  unfolding Logout_def by (intro step_intros)

lemma obeys_token_admin [step_intros]:
  "obeys r (PurgeRefreshTokens ctx)" "obeys r (RevokeMySession ctx fam)"
  unfolding PurgeRefreshTokens_def RevokeMySession_def by (intro step_intros)+

end

context account_store
begin

lemma obeys_CreateAccount_handler [step_intros]: "obeys r (CreateAccount L ctx body)"
  unfolding CreateAccount_def by (intro step_intros)

lemma obeys_apply_account_update [step_intros]: "obeys r (apply_account_update i u)"
  unfolding apply_account_update_def by (intro step_intros)

lemma obeys_UpdateAccount [step_intros]: "obeys r (UpdateAccount L ctx i body)"
  unfolding UpdateAccount_def by (intro step_intros)

end

context game_store
begin

lemma obeys_CreateGame_handler [step_intros]: "obeys r (CreateGame ctx body)"
  unfolding CreateGame_def by (intro step_intros)

lemma obeys_UpdateGame_handler [step_intros]: "obeys r (UpdateGame ctx g body)"
  unfolding UpdateGame_def by (intro step_intros)

lemma obeys_add_to_roster [step_intros]: "obeys r (add_to_roster g a h m)"
  unfolding add_to_roster_def by (intro step_intros)

lemma obeys_AddGameMember [step_intros]: "obeys r (AddGameMember ctx g body)"
  unfolding AddGameMember_def by (intro step_intros)

lemma obeys_apply_roster_update [step_intros]:
  "mu_IsGM u \<noteq> Some False \<Longrightarrow> obeys r (apply_roster_update g a u)"
  unfolding apply_roster_update_def by (intro step_intros)

lemma obeys_UpdateGameMember [step_intros]: "obeys r (UpdateGameMember ctx g a body)"
  unfolding UpdateGameMember_def by (intro step_intros) (rule plan_member_no_demotion)

end

section \<open>All requests\<close>

datatype request =
  Req_GetHealth | Req_GetVersion
| Req_Login "LoginRequest option" | Req_RefreshToken "string option" | Req_Logout "string option option"
| Req_ShutdownServer | Req_PurgeRefreshTokens
| Req_GetMe | Req_ListMyGames | Req_ChangeMyPassword "ChangePasswordRequest option"
| Req_ListMySessions | Req_RevokeMySession string
| Req_GetAccount int | Req_ListAccounts | Req_CreateAccount "CreateAccountRequest option"
| Req_UpdateAccount int "UpdateAccountRequest option" | Req_CreateImpersonation "int option"
| Req_ListGames "string option" | Req_GetGame int | Req_ListGameMembers int
| Req_CreateGame "CreateGameRequest option" | Req_UpdateGame int "UpdateGameRequest option"
| Req_AddGameMember int "AddMemberRequest option"
| Req_UpdateGameMember int int "UpdateMemberRequest option"
| Req_ListTurns | Req_GetTurn | Req_ValidateOrders | Req_SubmitOrders | Req_GetOrderSubmission

definition run_handler :: "'a handler \<Rightarrow> (world, unit) state" where
  "run_handler h = do { h; ret () }"

fun serve :: "libs \<Rightarrow> Server \<Rightarrow> ctx \<Rightarrow> request \<Rightarrow> (world, unit) state" where
  "serve L s ctx Req_GetHealth = run_handler (GetHealth L)"
| "serve L s ctx Req_GetVersion = run_handler (GetVersion L)"
| "serve L s ctx (Req_Login b) = run_handler (Login L s b)"
| "serve L s ctx (Req_RefreshToken b) = run_handler (RefreshToken_handler L s b)"
| "serve L s ctx (Req_Logout b) = run_handler (Logout L s ctx b)"
| "serve L s ctx Req_ShutdownServer = run_handler (ShutdownServer s ctx)"
| "serve L s ctx Req_PurgeRefreshTokens = run_handler (PurgeRefreshTokens ctx)"
| "serve L s ctx Req_GetMe = run_handler (GetMe ctx)"
| "serve L s ctx Req_ListMyGames = run_handler (ListMyGames ctx)"
| "serve L s ctx (Req_ChangeMyPassword b) = run_handler (ChangeMyPassword L ctx b)"
| "serve L s ctx Req_ListMySessions = run_handler (ListMySessions ctx)"
| "serve L s ctx (Req_RevokeMySession f) = run_handler (RevokeMySession ctx f)"
| "serve L s ctx (Req_GetAccount i) = run_handler (GetAccount ctx i)"
| "serve L s ctx Req_ListAccounts = run_handler (ListAccounts ctx)"
| "serve L s ctx (Req_CreateAccount b) = run_handler (CreateAccount L ctx b)"
| "serve L s ctx (Req_UpdateAccount i b) = run_handler (UpdateAccount L ctx i b)"
| "serve L s ctx (Req_CreateImpersonation b) = run_handler (CreateImpersonation L s ctx b)"
| "serve L s ctx (Req_ListGames st) = run_handler (ListGames ctx st)"
| "serve L s ctx (Req_GetGame g) = run_handler (GetGame ctx g)"
| "serve L s ctx (Req_ListGameMembers g) = run_handler (ListGameMembers ctx g)"
| "serve L s ctx (Req_CreateGame b) = run_handler (CreateGame ctx b)"
| "serve L s ctx (Req_UpdateGame g b) = run_handler (UpdateGame ctx g b)"
| "serve L s ctx (Req_AddGameMember g b) = run_handler (AddGameMember ctx g b)"
| "serve L s ctx (Req_UpdateGameMember g a b) = run_handler (UpdateGameMember ctx g a b)"
| "serve L s ctx Req_ListTurns = run_handler ListTurns"
| "serve L s ctx Req_GetTurn = run_handler GetTurn"
| "serve L s ctx Req_ValidateOrders = run_handler ValidateOrders"
| "serve L s ctx Req_SubmitOrders = run_handler SubmitOrders"
| "serve L s ctx Req_GetOrderSubmission = run_handler GetOrderSubmission"

text \<open>A server's life as seen by one connection after the other.\<close>

fun serve_all :: "libs \<Rightarrow> Server \<Rightarrow> (ctx \<times> request) list \<Rightarrow> (world, unit) state" where
  "serve_all L s [] = ret ()"
| "serve_all L s ((ctx, q) # qs) = do { serve L s ctx q; serve_all L s qs }"

context store_contract
begin

lemma obeys_ChangeMyPassword [step_intros]: "obeys r (ChangeMyPassword L ctx body)"
  unfolding ChangeMyPassword_def by (intro step_intros)

lemma obeys_run_handler [step_intros]: "obeys r h \<Longrightarrow> obeys r (run_handler h)"
  unfolding run_handler_def by (intro step_intros)

lemma obeys_serve: "obeys r (serve L s ctx q)"
  by (cases q) (simp_all only: serve.simps, (intro step_intros)+)

lemma obeys_serve_all: "obeys r (serve_all L s qs)"
proof (induction qs)
  case Nil
  then show ?case unfolding serve_all.simps by (rule res_ret)
next
  case (Cons cq qs)
  then show ?case
    by (cases cq) (simp only: serve_all.simps, intro step_intros obeys_serve)
qed

end

end
