(* ===== verification/StoreSpec.thy ===== *)
theory StoreSpec
  imports StoreInvariants
begin

text \<open>
  The abstract specification of the store: the database seen as finite maps
  (\<open>account_of\<close>, \<open>login_of\<close>, \<open>game_of\<close>, \<open>member_of\<close>, \<open>token_of\<close>), and what each store method
  does to them. The lemmas \<open>run_...\<close> are the refinement: in an undisturbed world whose
  database satisfies \<open>db_ok\<close>, the SQL of a method computes the map operation.
\<close>

section \<open>Lookups\<close>

definition account_of :: "database \<Rightarrow> int \<Rightarrow> Account option" where
  "account_of d i = map_option account_of_row (find (\<lambda>r. ar_id r = i) (accounts d))"

definition login_of :: "database \<Rightarrow> string \<Rightarrow> (Account \<times> string) option" where
  "login_of d email = map_option (\<lambda>r. (account_of_row r, ar_hashed_secret r))
     (find (\<lambda>r. ar_email r = email) (accounts d))"

definition game_of :: "database \<Rightarrow> int \<Rightarrow> Game option" where
  "game_of d i = map_option scanGame (find (\<lambda>g. gr_id g = i) (games d))"

definition member_of :: "database \<Rightarrow> int \<Rightarrow> int \<Rightarrow> Member option" where
  "member_of d g a = map_option member_of_row (find (role_at g a) (game_account_role d))"

definition token_of_row :: "TokenRow \<Rightarrow> RefreshToken" where
  "token_of_row t = \<lparr>rt_JTI = tr_jti t, rt_FamilyID = tr_family_id t, rt_AccountID = tr_account_id t,
     rt_IssuedAt = tr_issued_at t, rt_ExpiresAt = tr_expires_at t, rt_Revoked = (tr_revoked t \<noteq> 0)\<rparr>"

definition token_of :: "database \<Rightarrow> string \<Rightarrow> RefreshToken option" where
  "token_of d j = map_option token_of_row (find (\<lambda>t. tr_jti t = j) (refresh_tokens d))"

text \<open>Who may see a game.\<close>

definition visible :: "database \<Rightarrow> int \<Rightarrow> bool \<Rightarrow> int \<Rightarrow> bool" where
  "visible d accountID isAdmin gameID \<longleftrightarrow> isAdmin \<or>
     (member_of d gameID accountID \<noteq> None \<and>
      (case game_of d gameID of None \<Rightarrow> False | Some g \<Rightarrow> game_IsActive g))"

section \<open>A WHERE clause on a key selects at most one row\<close>

lemma filter_key:
  assumes "distinct (map k xs)"
  shows "filter (\<lambda>x. k x = v) xs = (case find (\<lambda>x. k x = v) xs of None \<Rightarrow> [] | Some x \<Rightarrow> [x])"
  using assms
proof (induction xs)
  case (Cons x xs)
  show ?case
  proof (cases "k x = v")
    case True
    with Cons.prems have "filter (\<lambda>x. k x = v) xs = []" by (auto simp: filter_empty_conv image_iff)
    with True show ?thesis by simp
  next
    case False
    with Cons show ?thesis by simp
  qed
qed simp

lemma role_at_key: "role_at g a = (\<lambda>r. (rr_game_id r, rr_account_id r) = (g, a))"
  by (auto simp: role_at_def)

lemma filter_role:
  assumes "db_ok d"
  shows "filter (role_at g a) (game_account_role d) =
    (case find (role_at g a) (game_account_role d) of None \<Rightarrow> [] | Some x \<Rightarrow> [x])"
  unfolding role_at_key using filter_key [OF db_okD(9) [OF assms]] .

lemmas filter_id_keys =
  filter_key [OF acct_rows.rowids_ok_inj [OF db_okD(1)]]
  filter_key [OF db_okD(3)]
  filter_key [OF game_rows.rowids_ok_inj [OF db_okD(4)]]
  filter_key [OF db_okD(6)]
  filter_key [OF db_okD(15)]

lemma found_row_option [simp]:
  "found_row scan (case x of None \<Rightarrow> [] | Some r \<Rightarrow> [r]) =
     (case x of None \<Rightarrow> Inl ErrNotFound | Some r \<Rightarrow> Inr (scan r))"
  by (cases x) (simp_all add: found_row_def)

section \<open>Reads\<close>

definition or_missing :: "'a option \<Rightarrow> go_error + 'a" where
  "or_missing x = (case x of None \<Rightarrow> Inl ErrNotFound | Some v \<Rightarrow> Inr v)"

lemma or_missing_simps [simp]: "or_missing None = Inl ErrNotFound" "or_missing (Some v) = Inr v"
  by (simp_all add: or_missing_def)

lemma run_AccountByID [simp]:
  assumes "quiet w" and "db_ok (w_db w)"
  shows "run_state (store_AccountByID i) w = (or_missing (account_of (w_db w) i), w)"
  using assms find_Some_mem [where P = "\<lambda>r. ar_id r = i"]
  by (auto simp: store_AccountByID_def filter_id_keys(1) account_of_def account_of_row_def
      split: option.split)

lemma run_AccountByEmail [simp]:
  assumes "quiet w" and "db_ok (w_db w)"
  shows "run_state (store_AccountByEmail e) w = (or_missing (map_option fst (login_of (w_db w) e)), w)"
  using assms find_Some_mem [where P = "\<lambda>r. ar_email r = e"]
  by (auto simp: store_AccountByEmail_def filter_id_keys(2) login_of_def account_of_row_def
      split: option.split)

lemma run_Credentials [simp]:
  assumes "quiet w" and "db_ok (w_db w)"
  shows "run_state (store_Credentials e) w = (or_missing (login_of (w_db w) e), w)"
  using assms by (auto simp: store_Credentials_def filter_id_keys(2) login_of_def split: option.split)

lemma run_RefreshTokenByJTI [simp]:
  assumes "quiet w" and "db_ok (w_db w)"
  shows "run_state (store_RefreshTokenByJTI j) w = (or_missing (token_of (w_db w) j), w)"
  using assms find_Some_mem [where P = "\<lambda>t. tr_jti t = j"]
  by (auto simp: store_RefreshTokenByJTI_def filter_id_keys(5) token_of_def token_of_row_def
      split: option.split)

lemma run_MemberForGame [simp]:
  assumes "quiet w" and "db_ok (w_db w)"
  shows "run_state (store_MemberForGame g a) w = (or_missing (member_of (w_db w) g a), w)"
  using assms find_Some_mem [where P = "role_at g a"]
  by (auto simp: store_MemberForGame_def filter_role member_of_def member_of_row_def role_at_def
      split: option.split)

lemma member_of_None: "member_of d g a = None \<longleftrightarrow> filter (role_at g a) (game_account_role d) = []"
  by (auto simp: member_of_def find_None_iff filter_empty_conv)

lemma game_of_None: "game_of d g = None \<longleftrightarrow> filter (\<lambda>r. gr_id r = g) (games d) = []"
  by (auto simp: game_of_def find_None_iff filter_empty_conv)

lemma concat_if: "concat (map (\<lambda>x. if P x then f x else []) xs) = concat (map f (filter P xs))"
  by (induction xs) auto

lemma concat_const: "concat (map (\<lambda>r. if P r then [c] else []) rs) = replicate (length (filter P rs)) c"
  by (induction rs) auto

lemma one_role:
  assumes "db_ok d"
  shows "length (filter (role_at g a) (game_account_role d)) = (if member_of d g a = None then 0 else 1)"
  using filter_role [OF assms, of g a] by (auto simp: member_of_def split: option.splits)

lemma member_game_rows:
  assumes ok: "db_ok d"
  shows "[g. g \<leftarrow> gs, r \<leftarrow> game_account_role d,
            rr_game_id r = gr_id g, gr_id g = i \<and> rr_account_id r = a \<and> gr_is_active g = 1] =
    filter (\<lambda>g. gr_id g = i \<and> member_of d i a \<noteq> None \<and> gr_is_active g = 1) gs"
proof (induction gs)
  case (Cons g gs)
  have "concat (map (\<lambda>r. if rr_game_id r = gr_id g
            then if gr_id g = i \<and> rr_account_id r = a \<and> gr_is_active g = 1 then [g] else [] else [])
          (game_account_role d)) =
        replicate (length (filter (\<lambda>r. role_at i a r \<and> gr_id g = i \<and> gr_is_active g = 1)
          (game_account_role d))) g"
    unfolding concat_const [symmetric]
    by (intro arg_cong [of _ _ concat] map_cong) (auto simp: role_at_def)
  also have "\<dots> = (if gr_id g = i \<and> member_of d i a \<noteq> None \<and> gr_is_active g = 1 then [g] else [])"
    using one_role [OF ok, of i a]
    by (cases "gr_id g = i \<and> gr_is_active g = 1") (simp_all split: if_splits)
  finally show ?case using Cons by simp
qed simp

lemma active_flag:
  assumes "db_ok d" and "g \<in> set (games d)"
  shows "gr_is_active g = 1 \<longleftrightarrow> gr_is_active g \<noteq> 0"
  using db_okD(5) [OF assms(1)] assms(2) by (auto simp: list_all_iff games_check_def sql_bool_def)

lemma sql_game_by_id_rows:
  assumes ok: "db_ok d"
  shows "found_row scanGame (sql_game_by_id i a isAdmin d) =
    or_missing (if visible d a isAdmin i then game_of d i else None)"
proof (cases isAdmin)
  case True
  then show ?thesis
    by (simp add: sql_game_by_id_def visible_def filter_id_keys(3) [OF ok] game_of_def
        split: option.split)
next
  case False
  let ?Q = "\<lambda>g. member_of d i a \<noteq> None \<and> gr_is_active g = 1"
  have "filter (\<lambda>g. gr_id g = i \<and> ?Q g) (games d) = filter ?Q (filter (\<lambda>g. gr_id g = i) (games d))"
    by (simp add: conj_commute conj_left_commute)
  also have "\<dots> = (case find (\<lambda>g. gr_id g = i) (games d) of None \<Rightarrow> [] | Some g \<Rightarrow> if ?Q g then [g] else [])"
    by (simp add: filter_id_keys(3) [OF ok] split: option.split)
  finally have rows: "sql_game_by_id i a isAdmin d =
      (case find (\<lambda>g. gr_id g = i) (games d) of None \<Rightarrow> [] | Some g \<Rightarrow> if ?Q g then [g] else [])"
    using False by (simp add: sql_game_by_id_def member_game_rows [OF ok])
  show ?thesis
  proof (cases "find (\<lambda>g. gr_id g = i) (games d)")
    case None
    then show ?thesis by (simp add: rows found_row_def game_of_def)
  next
    case (Some g)
    with find_Some_mem [OF Some] have "gr_is_active g = 1 \<longleftrightarrow> gr_is_active g \<noteq> 0"
      by (intro active_flag [OF ok]) simp
    with Some False rows show ?thesis
      by (simp add: found_row_def game_of_def visible_def scanGame_def)
  qed
qed

lemma run_GameByID [simp]:
  assumes "quiet w" and "db_ok (w_db w)"
  shows "run_state (store_GameByID i a isAdmin) w =
    (or_missing (if visible (w_db w) a isAdmin i then game_of (w_db w) i else None), w)"
  using assms by (simp add: store_GameByID_def sql_game_by_id_rows)

section \<open>Refresh tokens\<close>

definition revoke_where :: "(RefreshToken \<Rightarrow> bool) \<Rightarrow> database \<Rightarrow> database" where
  "revoke_where P d = d\<lparr>refresh_tokens := map (revoke_row (P \<circ> token_of_row)) (refresh_tokens d)\<rparr>"

lemma sql_revoke_where: "sql_revoke (P \<circ> token_of_row) d =
    Inr (length (filter (P \<circ> token_of_row) (refresh_tokens d)), revoke_where P d)"
  by (simp add: sql_revoke_def revoke_where_def)

lemma db_ok_revoke [simp]: "db_ok d \<Longrightarrow> db_ok (revoke_where P d)"
  using inv_revoke [of "P \<circ> token_of_row"] sql_revoke_where [of P d]
  by (auto simp: stmt_ok_def keep_inv_def)

lemma revoke_where_frame [simp]:
  "accounts (revoke_where P d) = accounts d" "games (revoke_where P d) = games d"
  "game_account_role (revoke_where P d) = game_account_role d"
  "account_of (revoke_where P d) = account_of d" "login_of (revoke_where P d) = login_of d"
  by (simp_all add: revoke_where_def account_of_def login_of_def fun_eq_iff)

lemma token_of_row_revoke:
  "token_of_row (revoke_row (P \<circ> token_of_row) t) =
     (if P (token_of_row t) then (token_of_row t)\<lparr>rt_Revoked := True\<rparr> else token_of_row t)"
  by (simp add: token_of_row_def revoke_row_def)

lemma token_of_revoke [simp]:
  "token_of (revoke_where P d) j =
     map_option (\<lambda>t. if P t then t\<lparr>rt_Revoked := True\<rparr> else t) (token_of d j)"
  by (simp add: token_of_def revoke_where_def find_map_fun o_def option.map_comp
      token_of_row_revoke [unfolded o_def] cong: option.map_cong)

lemma token_where_spec:
  "token_where ''jti = ?'' (SText s) = (\<lambda>t. rt_JTI t = s) \<circ> token_of_row"
  "token_where ''family_id = ?'' (SText s) = (\<lambda>t. rt_FamilyID t = s) \<circ> token_of_row"
  "token_where ''account_id = ?'' (SInt i) = (\<lambda>t. rt_AccountID t = i) \<circ> token_of_row"
  by (auto simp: token_where_def token_of_row_def fun_eq_iff)

lemma run_RevokeRefreshToken [simp]: "quiet w \<Longrightarrow> run_state (store_RevokeRefreshToken j) w =
    (Inr (), w\<lparr>w_db := revoke_where (\<lambda>t. rt_JTI t = j) (w_db w)\<rparr>)"
  by (simp add: store_RevokeRefreshToken_def revoke_def token_where_spec sql_revoke_where)

lemma run_RevokeFamily [simp]: "quiet w \<Longrightarrow> run_state (store_RevokeFamily f) w =
    (Inr (), w\<lparr>w_db := revoke_where (\<lambda>t. rt_FamilyID t = f) (w_db w)\<rparr>)"
  by (simp add: store_RevokeFamily_def revoke_def token_where_spec sql_revoke_where)

lemma run_RevokeAllForAccount [simp]: "quiet w \<Longrightarrow> run_state (store_RevokeAllForAccount a) w =
    (Inr (), w\<lparr>w_db := revoke_where (\<lambda>t. rt_AccountID t = a) (w_db w)\<rparr>)"
  by (simp add: store_RevokeAllForAccount_def revoke_def token_where_spec sql_revoke_where)

lemma run_RevokeFamilyForAccount [simp]:
  assumes "quiet w"
  shows "run_state (store_RevokeFamilyForAccount f a) w =
    (if \<exists>t \<in> set (refresh_tokens (w_db w)). tr_family_id t = f \<and> tr_account_id t = a
     then Inr () else Inl ErrNotFound,
     w\<lparr>w_db := revoke_where (\<lambda>t. rt_FamilyID t = f \<and> rt_AccountID t = a) (w_db w)\<rparr>)"
proof -
  have "(\<lambda>t. tr_family_id t = f \<and> tr_account_id t = a) =
      (\<lambda>t. rt_FamilyID t = f \<and> rt_AccountID t = a) \<circ> token_of_row"
    by (simp add: token_of_row_def fun_eq_iff)
  then show ?thesis
    using assms
    by (simp add: store_RevokeFamilyForAccount_def sql_revoke_where filter_empty_conv token_of_row_def)
qed

definition add_token :: "RefreshToken \<Rightarrow> database \<Rightarrow> database" where
  "add_token t d = d\<lparr>refresh_tokens := refresh_tokens d @ [\<lparr>tr_id = next_rowid tr_id (refresh_tokens d),
     tr_jti = rt_JTI t, tr_family_id = rt_FamilyID t, tr_account_id = rt_AccountID t,
     tr_issued_at = rt_IssuedAt t, tr_expires_at = rt_ExpiresAt t,
     tr_revoked = (if rt_Revoked t then 1 else 0)\<rparr>]\<rparr>"

lemma token_of_add [simp]: "token_of d (rt_JTI t) = None \<Longrightarrow>
    token_of (add_token t d) j = (if j = rt_JTI t then Some t else token_of d j)"
  by (auto simp: token_of_def add_token_def find_append token_of_row_def split: option.split)

lemma add_token_frame [simp]:
  "accounts (add_token t d) = accounts d" "games (add_token t d) = games d"
  "game_account_role (add_token t d) = game_account_role d"
  "account_of (add_token t d) = account_of d" "login_of (add_token t d) = login_of d"
  by (simp_all add: add_token_def account_of_def login_of_def fun_eq_iff)

lemma token_of_mem: "token_of d j = None \<longleftrightarrow> j \<notin> tr_jti ` set (refresh_tokens d)"
  by (auto simp: token_of_def find_None_iff)

lemma account_of_mem: "account_of d i = None \<longleftrightarrow> i \<notin> ar_id ` set (accounts d)"
  by (auto simp: account_of_def find_None_iff)

lemma run_CreateRefreshToken [simp]:
  assumes "quiet w"
  shows "run_state (store_CreateRefreshToken j f a i e) w =
    (if token_of (w_db w) j \<noteq> None then (Inl ErrConflict, w)
     else if account_of (w_db w) a = None then (Inl (ErrSQL ResultConstraintForeignKey), w)
     else (Inr (), w\<lparr>w_db := add_token \<lparr>rt_JTI = j, rt_FamilyID = f, rt_AccountID = a,
       rt_IssuedAt = i, rt_ExpiresAt = e, rt_Revoked = False\<rparr> (w_db w)\<rparr>))"
  using assms token_of_mem [of "w_db w" j] account_of_mem [of "w_db w" a]
  by (auto simp: store_CreateRefreshToken_def sql_insert_refresh_token_def Let_def add_token_def)

lemma db_ok_add_token [simp]:
  assumes "db_ok d" and "token_of d (rt_JTI t) = None" and "account_of d (rt_AccountID t) \<noteq> None"
    and "\<not> rt_Revoked t"
  shows "db_ok (add_token t d)"
proof -
  have "sql_insert_refresh_token (rt_JTI t) (rt_FamilyID t) (rt_AccountID t) (rt_IssuedAt t)
      (rt_ExpiresAt t) d = Inr ((), add_token t d)"
    using assms(2-4) token_of_mem [of d "rt_JTI t"] account_of_mem [of d "rt_AccountID t"]
    by (auto simp: sql_insert_refresh_token_def Let_def add_token_def)
  with inv_insert_token assms(1) show ?thesis by (auto simp: stmt_ok_def keep_inv_def)
qed

definition purge_tokens :: "int \<Rightarrow> database \<Rightarrow> database" where
  "purge_tokens cutoff d =
     d\<lparr>refresh_tokens := filter (\<lambda>t. \<not> tr_expires_at t \<le> cutoff) (refresh_tokens d)\<rparr>"

lemma run_Purge [simp]:
  "quiet w \<Longrightarrow> run_state (store_PurgeExpiredRefreshTokens c) w =
     (Inr (length (filter (\<lambda>t. tr_expires_at t \<le> c) (refresh_tokens (w_db w)))),
      w\<lparr>w_db := purge_tokens c (w_db w)\<rparr>)"
  by (simp add: store_PurgeExpiredRefreshTokens_def sql_purge_def purge_tokens_def)

lemma find_filter_key:
  assumes "distinct (map k xs)"
  shows "find (\<lambda>x. k x = v) (filter P xs) =
    (case find (\<lambda>x. k x = v) xs of None \<Rightarrow> None | Some x \<Rightarrow> if P x then Some x else None)"
  using assms
proof (induction xs)
  case (Cons x xs)
  have "k x \<notin> k ` set xs" using Cons.prems by simp
  then have "find (\<lambda>y. k y = k x) (filter P xs) = None"
    by (auto simp: find_None_iff image_iff)
  then show ?case using Cons by auto
qed simp

lemma token_of_purge [simp]:
  assumes "db_ok d"
  shows "token_of (purge_tokens c d) j =
    (case token_of d j of None \<Rightarrow> None | Some t \<Rightarrow> if rt_ExpiresAt t \<le> c then None else Some t)"
  using find_filter_key [OF db_okD(15) [OF assms], of j]
  by (simp add: token_of_def purge_tokens_def token_of_row_def split: option.split)

section \<open>Accounts\<close>

definition add_account :: "string \<Rightarrow> bool \<Rightarrow> bool \<Rightarrow> string \<Rightarrow> database \<Rightarrow> database" where
  "add_account email isAdmin isActive hash d = d\<lparr>accounts := accounts d @
     [\<lparr>ar_id = next_rowid ar_id (accounts d), ar_email = email, ar_is_admin = boolToInt isAdmin,
       ar_is_active = boolToInt isActive, ar_hashed_secret = hash\<rparr>]\<rparr>"

lemma login_of_mem: "login_of d e = None \<longleftrightarrow> e \<notin> ar_email ` set (accounts d)"
  by (auto simp: login_of_def find_None_iff)

lemma run_CreateAccount [simp]:
  assumes "quiet w"
  shows "run_state (store_CreateAccount e adm act h) w =
    (if login_of (w_db w) e \<noteq> None then (Inl ErrConflict, w)
     else (Inr (next_rowid ar_id (accounts (w_db w))), w\<lparr>w_db := add_account e adm act h (w_db w)\<rparr>))"
  using assms login_of_mem [of "w_db w" e]
  by (auto simp: store_CreateAccount_def sql_insert_account_def Let_def add_account_def accounts_check_def)

lemma login_of_add [simp]: "login_of d e = None \<Longrightarrow>
    login_of (add_account e adm act h d) e' =
      (if e' = e then Some (\<lparr>acc_ID = next_rowid ar_id (accounts d), acc_Email = e, acc_IsAdmin = adm,
         acc_IsActive = act\<rparr>, h) else login_of d e')"
  by (auto simp: login_of_def add_account_def find_append account_of_row_def split: option.split)

lemma account_of_add [simp]:
  "account_of (add_account e adm act h d) i =
     (if i = next_rowid ar_id (accounts d) then Some \<lparr>acc_ID = i, acc_Email = e, acc_IsAdmin = adm,
        acc_IsActive = act\<rparr> else account_of d i)"
proof -
  have "account_of d (next_rowid ar_id (accounts d)) = None"
    using acct_rows.next_rowid_fresh account_of_mem by blast
  then show ?thesis
    by (auto simp: account_of_def add_account_def find_append account_of_row_def split: option.split)
qed

lemma db_ok_add_account [simp]:
  assumes "db_ok d" and "login_of d e = None"
  shows "db_ok (add_account e adm act h d)"
proof -
  have "sql_insert_account e (boolToInt adm) (boolToInt act) h d =
      Inr (next_rowid ar_id (accounts d), add_account e adm act h d)"
    using assms(2) login_of_mem [of d e]
    by (simp add: sql_insert_account_def Let_def add_account_def accounts_check_def)
  with inv_insert_account assms(1) show ?thesis by (auto simp: stmt_ok_def keep_inv_def)
qed

text \<open>An account after an update.\<close>

definition merge_account :: "AccountUpdate \<Rightarrow> Account \<Rightarrow> Account" where
  "merge_account u a = a\<lparr>
     acc_IsAdmin := (case au_IsAdmin u of None \<Rightarrow> acc_IsAdmin a | Some b \<Rightarrow> b),
     acc_IsActive := (case au_IsActive u of None \<Rightarrow> acc_IsActive a | Some b \<Rightarrow> b)\<rparr>"

definition merge_account_row :: "AccountUpdate \<Rightarrow> AccountRow \<Rightarrow> AccountRow" where
  "merge_account_row u r = r\<lparr>
     ar_is_admin := (case au_IsAdmin u of None \<Rightarrow> ar_is_admin r | Some b \<Rightarrow> boolToInt b),
     ar_is_active := (case au_IsActive u of None \<Rightarrow> ar_is_active r | Some b \<Rightarrow> boolToInt b),
     ar_hashed_secret := (case au_HashedSecret u of None \<Rightarrow> ar_hashed_secret r | Some s \<Rightarrow> s)\<rparr>"

lemma merge_account_row_keep [simp]:
  "ar_id (merge_account_row u r) = ar_id r" "ar_email (merge_account_row u r) = ar_email r"
  by (simp_all add: merge_account_row_def)

lemma merge_account_row_spec [simp]:
  "account_of_row (merge_account_row u r) = merge_account u (account_of_row r)"
  by (simp add: account_of_row_def merge_account_def merge_account_row_def split: option.split)

definition update_account :: "int \<Rightarrow> AccountUpdate \<Rightarrow> database \<Rightarrow> database" where
  "update_account i u d =
     d\<lparr>accounts := map (\<lambda>r. if ar_id r = i then merge_account_row u r else r) (accounts d)\<rparr>"

text \<open>An update of the row with one key seen through a lookup.\<close>

lemma find_update:
  assumes "\<And>x. k (f x) = k x"
  shows "find (\<lambda>x. k x = v) (map (\<lambda>x. if k x = i then f x else x) xs) =
    (if v = i then map_option f (find (\<lambda>x. k x = v) xs) else find (\<lambda>x. k x = v) xs)"
  using assms by (induction xs) auto

lemma account_where_id: "account_where ''id'' (SInt i) = (\<lambda>r. ar_id r = i)"
  by (auto simp: account_where_def fun_eq_iff)

lemma run_UpdateAccountByID [simp]:
  assumes "quiet w" and "db_ok (w_db w)" and "\<not> account_update_empty u"
  shows "run_state (store_UpdateAccountByID i u) w =
    (if account_of (w_db w) i = None then Inl ErrNotFound else Inr (),
     w\<lparr>w_db := update_account i u (w_db w)\<rparr>)"
proof -
  obtain sets args where b: "buildAccountUpdate u = (sets, args)" by fastforce
  from build_sets_nonempty(1) [OF b] assms(3) have "sets \<noteq> []" by simp
  moreover have "(\<lambda>r. if ar_id r = i then update_columns set_account_column sets args r else r) =
      (\<lambda>r. if ar_id r = i then merge_account_row u r else r)"
    by (simp add: fun_eq_iff buildAccountUpdate_row [OF b] merge_account_row_def)
  moreover have "list_all accounts_check (accounts (update_account i u (w_db w)))"
    using db_okD(2) [OF assms(2)]
    by (auto simp: update_account_def merge_account_row_def list_all_iff accounts_check_def
        split: option.split)
  moreover have "filter (\<lambda>r. ar_id r = i) (accounts (w_db w)) = [] \<longleftrightarrow> account_of (w_db w) i = None"
    by (auto simp: account_of_mem filter_empty_conv)
  ultimately show ?thesis
    using assms
    by (simp add: store_UpdateAccountByID_def updateAccountWhere_def b sql_update_accounts_def Let_def
        account_where_id update_account_def)
qed

lemma account_of_update [simp]:
  "account_of (update_account i u d) j =
     (if j = i then map_option (merge_account u) (account_of d j) else account_of d j)"
  by (simp add: account_of_def update_account_def find_update option.map_comp o_def)

lemma update_account_frame [simp]:
  "games (update_account i u d) = games d" "refresh_tokens (update_account i u d) = refresh_tokens d"
  "game_account_role (update_account i u d) = game_account_role d"
  "token_of (update_account i u d) = token_of d"
  by (simp_all add: update_account_def token_of_def fun_eq_iff)

lemma find_update_other:
  assumes "\<And>x. q (f x) = q x"
  shows "find (\<lambda>x. q x = v) (map (\<lambda>x. if k x = i then f x else x) xs) =
    map_option (\<lambda>x. if k x = i then f x else x) (find (\<lambda>x. q x = v) xs)"
  using assms by (induction xs) auto

lemma login_of_update [simp]:
  "login_of (update_account i u d) e = map_option (\<lambda>(a, h). if acc_ID a = i
     then (merge_account u a, case au_HashedSecret u of None \<Rightarrow> h | Some s \<Rightarrow> s) else (a, h)) (login_of d e)"
proof -
  have "(account_of_row (merge_account_row u r), ar_hashed_secret (merge_account_row u r)) =
      (merge_account u (account_of_row r), case au_HashedSecret u of None \<Rightarrow> ar_hashed_secret r | Some s \<Rightarrow> s)" for r
    by (simp add: merge_account_row_def [of u r] flip: merge_account_row_spec)
  then show ?thesis
    by (auto simp: login_of_def update_account_def find_update_other option.map_comp o_def
        account_of_row_def [THEN arg_cong [where f = acc_ID]] intro!: option.map_cong)
qed

lemma db_ok_update_account [simp]:
  assumes "db_ok d" and "\<not> account_update_empty u"
  shows "db_ok (update_account i u d)"
proof -
  have "update_account i u d = d\<lparr>accounts := map (\<lambda>r. if ar_id r = i then merge_account_row u r else r) (accounts d)\<rparr>"
    by (simp add: update_account_def)
  moreover have "list_all accounts_check (map (\<lambda>r. if ar_id r = i then merge_account_row u r else r) (accounts d))"
    using db_okD(2) [OF assms(1)]
    by (auto simp: merge_account_row_def list_all_iff accounts_check_def split: option.split)
  ultimately show ?thesis
    using assms(1)
    by (auto intro!: db_ok_accounts acct_rows.rowids_ok_map
      simp: db_okD map_if_keep image_if_keep simp del: set_map)
qed

end
