(* ===== verification/StoreSpecGames.thy ===== *)
theory StoreSpecGames
  imports StoreSpec
begin

text \<open>
  The abstract specification of the games and rosters: what \<open>CreateGame\<close>, \<open>UpdateGame\<close>,
  \<open>AddMember\<close> and \<open>UpdateMember\<close> of the store do to the maps \<open>game_of\<close> and \<open>member_of\<close>.
\<close>

section \<open>Games\<close>

definition add_game :: "string \<Rightarrow> string \<Rightarrow> string option \<Rightarrow> database \<Rightarrow> database" where
  "add_game code name descr d = d\<lparr>games := games d @ [\<lparr>gr_id = next_rowid gr_id (games d),
     gr_code = code, gr_is_active = 1, gr_name = name, gr_status = ''draft'', gr_description = descr\<rparr>]\<rparr>"

definition new_game :: "int \<Rightarrow> string \<Rightarrow> string \<Rightarrow> string option \<Rightarrow> Game" where
  "new_game i code name descr = \<lparr>game_ID = i, game_Code = code, game_Name = name,
     game_Status = ''draft'', game_Description = descr, game_IsActive = True\<rparr>"

lemma game_of_mem: "game_of d i = None \<longleftrightarrow> i \<notin> gr_id ` set (games d)"
  by (auto simp: game_of_def find_None_iff)

lemma game_of_id: "game_of d i = Some g \<Longrightarrow> game_ID g = i"
  by (auto simp: game_of_def scanGame_def dest: find_Some_mem)

lemma game_of_status:
  assumes "db_ok d" and "game_of d i = Some g"
  shows "game_Status g \<in> set game_statuses"
proof -
  from assms(2) obtain r where "r \<in> set (games d)" "g = scanGame r"
    by (auto simp: game_of_def dest: find_Some_mem)
  with db_okD(5) [OF assms(1)] show ?thesis by (auto simp: list_all_iff games_check_def scanGame_def)
qed

lemma draft_status [simp]: "''draft'' \<in> set game_statuses"
  by (simp add: game_statuses_def)

lemma run_CreateGame [simp]:
  assumes "quiet w"
  shows "run_state (store_CreateGame code name descr) w =
    (if \<not> ValidCode (c_text code) then (Inl (ErrSQL ResultConstraintCheck), w)
     else if code \<in> gr_code ` set (games (w_db w)) then (Inl ErrConflict, w)
     else (Inr (new_game (next_rowid gr_id (games (w_db w))) code name descr),
           w\<lparr>w_db := add_game code name descr (w_db w)\<rparr>))"
  using assms
  by (simp add: store_CreateGame_def sql_insert_game_def Let_def add_game_def new_game_def
      games_check_def game_code_check_iff)

lemma game_of_add [simp]:
  "game_of (add_game code name descr d) i =
     (if i = next_rowid gr_id (games d) then Some (new_game i code name descr) else game_of d i)"
proof -
  have "game_of d (next_rowid gr_id (games d)) = None"
    using game_rows.next_rowid_fresh game_of_mem by blast
  then show ?thesis
    by (auto simp: game_of_def add_game_def find_append scanGame_def new_game_def split: option.split)
qed

definition merge_game_row :: "GameUpdate \<Rightarrow> GameRow \<Rightarrow> GameRow" where
  "merge_game_row u r = r\<lparr>
     gr_status := (case gu_Status u of None \<Rightarrow> gr_status r | Some s \<Rightarrow> s),
     gr_name := (case gu_Name u of None \<Rightarrow> gr_name r | Some s \<Rightarrow> s),
     gr_description := (case gu_Description u of None \<Rightarrow> gr_description r | Some s \<Rightarrow> Some s),
     gr_is_active := (case gu_IsActive u of None \<Rightarrow> gr_is_active r | Some b \<Rightarrow> boolToInt b)\<rparr>"

lemma merge_game_row_keep [simp]:
  "gr_id (merge_game_row u r) = gr_id r" "gr_code (merge_game_row u r) = gr_code r"
  by (simp_all add: merge_game_row_def)

lemma merge_game_row_spec [simp]: "scanGame (merge_game_row u r) = merge_game u (scanGame r)"
  by (simp add: scanGame_def merge_game_def merge_game_row_def split: option.split)

definition update_game :: "int \<Rightarrow> GameUpdate \<Rightarrow> database \<Rightarrow> database" where
  "update_game i u d = d\<lparr>games := map (\<lambda>g. if gr_id g = i then merge_game_row u g else g) (games d)\<rparr>"

lemma game_of_update [simp]:
  "game_of (update_game i u d) j =
     (if j = i then map_option (merge_game u) (game_of d j) else game_of d j)"
  by (simp add: game_of_def update_game_def find_update option.map_comp o_def)

lemma update_game_frame [simp]:
  "accounts (update_game i u d) = accounts d" "refresh_tokens (update_game i u d) = refresh_tokens d"
  "game_account_role (update_game i u d) = game_account_role d"
  by (simp_all add: update_game_def)

definition status_ok :: "GameUpdate \<Rightarrow> bool" where
  "status_ok u \<longleftrightarrow> (case gu_Status u of None \<Rightarrow> True | Some s \<Rightarrow> s \<in> set game_statuses)"

lemma games_check_update:
  assumes "db_ok d" and "status_ok u"
  shows "list_all games_check (map (\<lambda>g. if gr_id g = i then merge_game_row u g else g) (games d))"
  using db_okD(5) [OF assms(1)] assms(2)
  by (auto simp: list_all_iff games_check_def merge_game_row_def status_ok_def split: option.splits)

lemma run_UpdateGame [simp]:
  assumes "quiet w" and "db_ok (w_db w)" and "\<not> game_update_empty u" and "status_ok u"
  shows "run_state (store_UpdateGame i u) w =
    (case game_of (w_db w) i of None \<Rightarrow> (Inl ErrNotFound, w)
     | Some g \<Rightarrow> (Inr (merge_game u g), w\<lparr>w_db := update_game i u (w_db w)\<rparr>))"
proof -
  obtain sets args where b: "buildGameUpdate u = (sets, args)" by fastforce
  from build_sets_nonempty(2) [OF b] assms(3) have ne: "sets \<noteq> []" by simp
  have eq: "(\<lambda>g. if gr_id g = i then update_columns set_game_column sets args g else g) =
      (\<lambda>g. if gr_id g = i then merge_game_row u g else g)"
    by (simp add: fun_eq_iff buildGameUpdate_row [OF b] merge_game_row_def)
  have sql: "sql_update_game sets args i (w_db w) = Inr ((), update_game i u (w_db w))"
    using ne games_check_update [OF assms(2,4)]
    by (simp add: sql_update_game_def Let_def eq update_game_def)
  show ?thesis
  proof (cases "find (\<lambda>g. gr_id g = i) (games (w_db w))")
    case None
    with assms(1,3) show ?thesis
      by (simp add: store_UpdateGame_def b filter_id_keys(3) [OF assms(2)] game_of_def)
  next
    case (Some g)
    with find_Some_mem [OF Some] assms(1,3) show ?thesis
      by (simp add: store_UpdateGame_def b filter_id_keys(3) [OF assms(2)] game_of_def sql
          scanGame_def merge_game_def)
  qed
qed

section \<open>Rosters\<close>

definition count_members :: "database \<Rightarrow> int \<Rightarrow> nat" where
  "count_members d g = length (filter (\<lambda>r. rr_game_id r = g) (game_account_role d))"

definition handle_used :: "database \<Rightarrow> int \<Rightarrow> string \<Rightarrow> bool" where
  "handle_used d g h \<longleftrightarrow> (\<exists>r \<in> set (game_account_role d). rr_game_id r = g \<and> rr_handle r = h)"

definition add_member :: "int \<Rightarrow> int \<Rightarrow> string \<Rightarrow> bool \<Rightarrow> database \<Rightarrow> database" where
  "add_member g a h gm d = d\<lparr>game_account_role := game_account_role d @
     [\<lparr>rr_id = next_rowid rr_id (game_account_role d), rr_game_id = g, rr_account_id = a,
       rr_handle = h, rr_is_gm = boolToInt gm, rr_is_active = 1\<rparr>]\<rparr>"

definition new_member :: "int \<Rightarrow> string \<Rightarrow> bool \<Rightarrow> Member" where
  "new_member a h gm = \<lparr>mem_AccountID = a, mem_Handle = h, mem_IsGM = gm, mem_IsActive = True\<rparr>"

lemma member_of_mem: "member_of d g a = None \<longleftrightarrow> \<not> list_ex (role_at g a) (game_account_role d)"
  by (auto simp: member_of_def find_None_iff list_ex_iff)

lemma role_at_simps [simp]: "role_at g a \<lparr>rr_id = i, rr_game_id = g', rr_account_id = a', rr_handle = h,
    rr_is_gm = m, rr_is_active = t\<rparr> \<longleftrightarrow> g' = g \<and> a' = a"
  by (simp add: role_at_def)

lemma member_of_add [simp]:
  assumes "member_of d g a = None"
  shows "member_of (add_member g a h gm d) g' a' =
    (if g' = g \<and> a' = a then Some (new_member a h gm) else member_of d g' a')"
  using assms
  by (auto simp: member_of_def add_member_def find_append new_member_def member_of_row_def
      split: option.split)

lemma add_member_frame [simp]:
  "accounts (add_member g a h gm d) = accounts d" "games (add_member g a h gm d) = games d"
  "refresh_tokens (add_member g a h gm d) = refresh_tokens d"
  "game_of (add_member g a h gm d) = game_of d" "account_of (add_member g a h gm d) = account_of d"
  by (simp_all add: add_member_def game_of_def account_of_def fun_eq_iff)

text \<open>The handle a new member gets: the one asked for, or \<open>player_N\<close>.\<close>

definition default_handle :: "database \<Rightarrow> int \<Rightarrow> string \<Rightarrow> string" where
  "default_handle d g h = (if h = [] then ''player_'' @ FormatInt (int (count_members d g) + 1) else h)"

lemma run_insert_new_member [simp]:
  assumes "quiet w" and "game_of (w_db w) g \<noteq> None" and "account_of (w_db w) a \<noteq> None"
    and "member_of (w_db w) g a = None" and "handle_check h"
  shows "run_state (insert_new_member g a h gm) w =
    (if handle_used (w_db w) g h then (Inl ErrHandleTaken, w)
     else (Inr (new_member a h gm), w\<lparr>w_db := add_member g a h gm (w_db w)\<rparr>))"
proof -
  have used: "list_ex (\<lambda>r. rr_game_id r = g \<and> rr_handle r = h) (game_account_role (w_db w)) \<longleftrightarrow>
      handle_used (w_db w) g h"
    by (auto simp: handle_used_def list_ex_iff)
  from assms(2,3,4) have "g \<in> gr_id ` set (games (w_db w))" "a \<in> ar_id ` set (accounts (w_db w))"
    "\<not> list_ex (role_at g a) (game_account_role (w_db w))"
    by (auto simp: game_of_mem account_of_mem member_of_mem)
  with used assms(1,5) show ?thesis
    by (auto simp: insert_new_member_def existsInt_def sql_insert_member_def Let_def roles_check_def
        add_member_def new_member_def)
qed

lemma run_AddMember [simp]:
  assumes "quiet w" and "game_of (w_db w) g \<noteq> None"
    and "handle_check (default_handle (w_db w) g h)"
  shows "run_state (store_AddMember g a h gm) w =
    (let d = w_db w; h' = default_handle d g h in
     if account_of d a = None then (Inl ErrNotFound, w)
     else if member_of d g a \<noteq> None then (Inl ErrMemberExists, w)
     else if handle_used d g h' then (Inl ErrHandleTaken, w)
     else (Inr (new_member a h' gm), w\<lparr>w_db := add_member g a h' gm d\<rparr>))"
proof -
  have acct: "list_ex (\<lambda>r. ar_id r = a) (accounts (w_db w)) \<longleftrightarrow> account_of (w_db w) a \<noteq> None"
    by (auto simp: account_of_def find_None_iff list_ex_iff)
  have mem: "list_ex (role_at g a) (game_account_role (w_db w)) \<longleftrightarrow> member_of (w_db w) g a \<noteq> None"
    by (auto simp: member_of_mem)
  show ?thesis
    using assms
    by (cases "account_of (w_db w) a"; cases "member_of (w_db w) g a")
      (auto simp: store_AddMember_def existsInt_def acct mem Let_def default_handle_def
        count_members_def split: if_splits)
qed

definition merge_member_row :: "MemberUpdate \<Rightarrow> RoleRow \<Rightarrow> RoleRow" where
  "merge_member_row u r = r\<lparr>
     rr_is_active := (case mu_IsActive u of None \<Rightarrow> rr_is_active r | Some b \<Rightarrow> boolToInt b),
     rr_is_gm := (case mu_IsGM u of None \<Rightarrow> rr_is_gm r | Some b \<Rightarrow> boolToInt b),
     rr_handle := (case mu_Handle u of None \<Rightarrow> rr_handle r | Some s \<Rightarrow> s)\<rparr>"

definition update_member :: "int \<Rightarrow> int \<Rightarrow> MemberUpdate \<Rightarrow> database \<Rightarrow> database" where
  "update_member g a u d = d\<lparr>game_account_role :=
     map (\<lambda>r. if role_at g a r then merge_member_row u r else r) (game_account_role d)\<rparr>"

lemma merge_member_row_keep [simp]:
  "rr_id (merge_member_row u r) = rr_id r" "rr_game_id (merge_member_row u r) = rr_game_id r"
  "rr_account_id (merge_member_row u r) = rr_account_id r"
  "role_at g a (merge_member_row u r) = role_at g a r"
  by (simp_all add: merge_member_row_def role_at_def)

lemma merge_member_row_spec [simp]:
  "member_of_row (merge_member_row u r) = merge_member u (member_of_row r)"
  by (simp add: member_of_row_def merge_member_def merge_member_row_def split: option.split)

lemma role_at_same: "role_at g a r \<Longrightarrow> role_at g' a' r \<longleftrightarrow> g' = g \<and> a' = a"
  by (auto simp: role_at_def)

lemma find_role_update:
  "find (role_at g' a') (map (\<lambda>r. if role_at g a r then merge_member_row u r else r) rs) =
     (if g' = g \<and> a' = a then map_option (merge_member_row u) (find (role_at g a) rs)
      else find (role_at g' a') rs)"
  by (induction rs) (auto simp: role_at_same)

lemma member_of_update [simp]:
  "member_of (update_member g a u d) g' a' =
     (if g' = g \<and> a' = a then map_option (merge_member u) (member_of d g a) else member_of d g' a')"
  by (simp add: member_of_def update_member_def find_role_update option.map_comp o_def)

lemma update_member_frame [simp]:
  "accounts (update_member g a u d) = accounts d" "games (update_member g a u d) = games d"
  "refresh_tokens (update_member g a u d) = refresh_tokens d"
  "game_of (update_member g a u d) = game_of d" "account_of (update_member g a u d) = account_of d"
  by (simp_all add: update_member_def game_of_def account_of_def fun_eq_iff)

text \<open>Another member of the game already has the handle.\<close>

definition handle_clash :: "database \<Rightarrow> int \<Rightarrow> int \<Rightarrow> string \<Rightarrow> bool" where
  "handle_clash d g a h \<longleftrightarrow> (\<exists>r \<in> set (game_account_role d).
     rr_game_id r = g \<and> rr_handle r = h \<and> rr_account_id r \<noteq> a)"

definition rename_blocked :: "database \<Rightarrow> int \<Rightarrow> int \<Rightarrow> MemberUpdate \<Rightarrow> Member \<Rightarrow> bool" where
  "rename_blocked d g a u m \<longleftrightarrow> (case mu_Handle u of None \<Rightarrow> False
     | Some h \<Rightarrow> h \<noteq> mem_Handle m \<and> handle_clash d g a h)"

definition handle_ok :: "MemberUpdate \<Rightarrow> bool" where
  "handle_ok u \<longleftrightarrow> (case mu_Handle u of None \<Rightarrow> True | Some h \<Rightarrow> handle_check h)"

lemma roles_check_update:
  assumes "db_ok d" and "handle_ok u"
  shows "list_all roles_check (map (\<lambda>r. if role_at g a r then merge_member_row u r else r) (game_account_role d))"
  using db_okD(8) [OF assms(1)] assms(2)
  by (auto simp: list_all_iff roles_check_def merge_member_row_def handle_ok_def split: option.splits)

lemma handles_distinct_update:
  assumes ok: "db_ok d" and m: "member_of d g a = Some m" and free: "\<not> rename_blocked d g a u m"
  shows "distinct (map (\<lambda>r. (rr_game_id r, rr_handle r))
    (map (\<lambda>r. if role_at g a r then merge_member_row u r else r) (game_account_role d)))"
proof -
  let ?rows = "game_account_role d"
  let ?k = "\<lambda>r. (rr_game_id r, rr_handle r)"
  let ?f = "\<lambda>r. if role_at g a r then merge_member_row u r else r"
  have inj: "inj_on ?k (set ?rows)" and dist: "distinct ?rows"
    using db_okD(10) [OF ok] by (auto simp: distinct_map)
  have one: "r = q" if "r \<in> set ?rows" "q \<in> set ?rows" "role_at g a r" "role_at g a q" for r q
    using distinct_map_unique [OF db_okD(9) [OF ok] that(1,2)] that(3,4) by (simp add: role_at_def)
  have mixed: "r = q" if mem: "r \<in> set ?rows" "q \<in> set ?rows" and at: "role_at g a r"
    "\<not> role_at g a q" and eq: "?k (merge_member_row u r) = ?k q" for r q
  proof -
    from m obtain p where "p \<in> set ?rows" "role_at g a p" "m = member_of_row p"
      by (auto simp: member_of_def dest: find_Some_mem)
    with one mem(1) at(1) have "mem_Handle m = rr_handle r" by (auto simp: member_of_row_def)
    then have "?k r = ?k q"
      using eq at free mem(2)
      by (auto simp: merge_member_row_def rename_blocked_def handle_clash_def role_at_def split: option.splits)
    with inj mem show "r = q" by (auto dest: inj_onD)
  qed
  have "inj_on (?k \<circ> ?f) (set ?rows)"
  proof (rule inj_onI)
    fix r q assume "r \<in> set ?rows" "q \<in> set ?rows" "(?k \<circ> ?f) r = (?k \<circ> ?f) q"
    then show "r = q"
      using one [of r q] mixed [of r q] mixed [of q r] inj
      by (cases "role_at g a r"; cases "role_at g a q") (auto dest: inj_onD)
  qed
  with dist show ?thesis by (simp add: distinct_map)
qed

lemma run_apply_member_update:
  assumes "quiet w" and "db_ok (w_db w)" and "\<not> member_update_empty u" and "handle_ok u"
    and "member_of (w_db w) g a = Some m" and "\<not> rename_blocked (w_db w) g a u m"
  shows "run_state (apply_member_update g a u m) w =
    (Inr (merge_member u m), w\<lparr>w_db := update_member g a u (w_db w)\<rparr>)"
proof -
  obtain sets args where b: "buildMemberUpdate u = (sets, args)" by fastforce
  from build_sets_nonempty(3) [OF b] assms(3) have ne: "sets \<noteq> []" by simp
  have eq: "(\<lambda>r. if role_at g a r then update_columns set_role_column sets args r else r) =
      (\<lambda>r. if role_at g a r then merge_member_row u r else r)"
    by (simp add: fun_eq_iff buildMemberUpdate_row [OF b] merge_member_row_def)
  have "sql_update_member sets args g a (w_db w) = Inr ((), update_member g a u (w_db w))"
    using ne roles_check_update [OF assms(2,4)] handles_distinct_update [OF assms(2,5,6)]
    by (simp add: sql_update_member_def Let_def eq update_member_def del: map_map list.map_comp)
  with assms(1) show ?thesis by (simp add: apply_member_update_def b)
qed

lemma run_UpdateMember [simp]:
  assumes w: "quiet w" "db_ok (w_db w)" and u: "\<not> member_update_empty u" "handle_ok u"
  shows "run_state (store_UpdateMember g a u) w =
    (case member_of (w_db w) g a of None \<Rightarrow> (Inl ErrNotFound, w)
     | Some m \<Rightarrow> if rename_blocked (w_db w) g a u m then (Inl ErrHandleTaken, w)
                 else (Inr (merge_member u m), w\<lparr>w_db := update_member g a u (w_db w)\<rparr>))"
proof (cases "find (role_at g a) (game_account_role (w_db w))")
  case None
  with w u show ?thesis by (simp add: store_UpdateMember_def filter_role member_of_def)
next
  case (Some p)
  let ?m = "member_of_row p"
  have m: "member_of (w_db w) g a = Some ?m" using Some by (simp add: member_of_def)
  have id: "?m\<lparr>mem_AccountID := a\<rparr> = ?m"
    using find_Some_mem [OF Some] by (simp add: member_of_row_def role_at_def)
  have clash: "list_ex (\<lambda>r. rr_game_id r = g \<and> rr_handle r = h \<and> rr_account_id r \<noteq> a)
      (game_account_role (w_db w)) \<longleftrightarrow> handle_clash (w_db w) g a h" for h
    by (auto simp: handle_clash_def list_ex_iff)
  show ?thesis
    using w u m id run_apply_member_update [OF w u m]
    by (cases "mu_Handle u")
      (auto simp: store_UpdateMember_def filter_role [OF w(2)] Some Let_def existsInt_def clash
        rename_blocked_def)
qed

end
