(* ===== verification/GameSpec.thy ===== *)
theory GameSpec
  imports HandlersContract StoreSpecGames
begin

text \<open>
  What the game handlers answer and do, as equations over the abstract specification of the
  store: in an undisturbed world a handler is a function of the maps \<open>account_of\<close>, \<open>game_of\<close>
  and \<open>member_of\<close>.
\<close>

section \<open>Callers\<close>

definition caller :: "database \<Rightarrow> ctx \<Rightarrow> string + Account" where
  "caller d ctx = (case ctx of
     None \<Rightarrow> Inl ''missing credentials''
   | Some c \<Rightarrow> (case account_of d (cl_UserID c) of
       None \<Rightarrow> Inl ''account no longer exists''
     | Some a \<Rightarrow> if acc_IsActive a then Inr a else Inl ''account is not active''))"

definition admin_caller :: "database \<Rightarrow> ctx \<Rightarrow> adminAuthError + Account" where
  "admin_caller d ctx = (case ctx of
     None \<Rightarrow> Inl \<lparr>ae_forbidden = False, ae_message = ''missing credentials''\<rparr>
   | Some c \<Rightarrow> (case account_of d (cl_UserID c) of
       None \<Rightarrow> Inl \<lparr>ae_forbidden = True, ae_message = ''admin privileges required''\<rparr>
     | Some a \<Rightarrow> if acc_IsActive a \<and> acc_IsAdmin a then Inr a
                 else Inl \<lparr>ae_forbidden = True, ae_message = ''admin privileges required''\<rparr>))"

definition admin_refusal :: "adminAuthError \<Rightarrow> 'a response" where
  "admin_refusal e = (if ae_forbidden e then Forbidden403 (forbiddenBody e)
     else Unauthorized401 (unauthorizedBody e))"

lemma run_authenticated [simp]:
  assumes "quiet w" and "db_ok (w_db w)"
  shows "run_state (authenticated ctx unauth body) w =
    (case caller (w_db w) ctx of Inl m \<Rightarrow> (Inr (unauth m), w) | Inr a \<Rightarrow> run_state (body a) w)"
  using assms
  by (auto simp: authenticated_def authenticatedAccount_def caller_def ClaimsFromContext_def
      or_missing_def split: option.split)

lemma run_admin_only [simp]:
  assumes "quiet w" and "db_ok (w_db w)"
  shows "run_state (admin_only ctx body) w =
    (case admin_caller (w_db w) ctx of Inl e \<Rightarrow> (Inr (admin_refusal e), w) | Inr a \<Rightarrow> run_state (body a) w)"
  using assms
  by (auto simp: admin_only_def requireAdmin_def admin_caller_def admin_refusal_def
      ClaimsFromContext_def or_missing_def split: option.split)

lemma caller_account: "caller d ctx = Inr a \<Longrightarrow>
    \<exists>c. ctx = Some c \<and> account_of d (cl_UserID c) = Some a \<and> acc_ID a = cl_UserID c \<and> acc_IsActive a"
  by (auto simp: caller_def account_of_def account_of_row_def dest: find_Some_mem
      split: option.splits if_splits)

text \<open>An active game master of a game, or an admin.\<close>

definition gm_standing :: "database \<Rightarrow> Account \<Rightarrow> int \<Rightarrow> bool" where
  "gm_standing d a g \<longleftrightarrow> acc_IsAdmin a \<or>
     (\<exists>m. member_of d g (acc_ID a) = Some m \<and> mem_IsActive m \<and> mem_IsGM m)"

lemma run_active_gm [simp]:
  assumes "quiet w" and "db_ok (w_db w)" and "visible (w_db w) (acc_ID a) (acc_IsAdmin a) g"
  shows "run_state (active_gm a g) w = (Inr (gm_standing (w_db w) a g), w)"
  using assms by (auto simp: active_gm_def gm_standing_def visible_def)

text \<open>The game a handler works on: the visibility gate.\<close>

definition seen_game :: "database \<Rightarrow> Account \<Rightarrow> int \<Rightarrow> Game option" where
  "seen_game d a g = (if visible d (acc_ID a) (acc_IsAdmin a) g then game_of d g else None)"

lemma seen_gameD: "seen_game d a g = Some x \<Longrightarrow>
    visible d (acc_ID a) (acc_IsAdmin a) g \<and> game_of d g = Some x"
  by (auto simp: seen_game_def split: if_splits)

section \<open>CreateGame\<close>

lemma valid_code_no_nul: "ValidCode s \<Longrightarrow> c_text s = s"
  by (intro c_text_id) (auto simp: ValidCode_iff list_all_iff upper_letter_def)

lemma run_CreateGame_handler:
  assumes "quiet w" and "db_ok (w_db w)"
  shows "run_state (CreateGame ctx (Some b)) w =
    (case admin_caller (w_db w) ctx of Inl e \<Rightarrow> (Inr (admin_refusal e), w) | Inr a \<Rightarrow>
     if \<not> ValidCode (cgr_Code b) then (Inr (createGameBadRequest ErrInvalidCode), w)
     else if TrimSpace (cgr_Name b) = [] then (Inr (createGameBadRequest ''name is required''), w)
     else if cgr_Code b \<in> gr_code ` set (games (w_db w))
     then (Inr (refuse Conflict409 ''conflict'' ''a game with that code already exists''), w)
     else (Inr (Created201 (apiGame (new_game (next_rowid gr_id (games (w_db w))) (cgr_Code b)
             (TrimSpace (cgr_Name b)) (cgr_Description b)))),
           w\<lparr>w_db := add_game (cgr_Code b) (TrimSpace (cgr_Name b)) (cgr_Description b) (w_db w)\<rparr>))"
  using assms
  by (auto simp: CreateGame_def Let_def valid_code_no_nul split: sum.split)

section \<open>UpdateGame\<close>

lemma plan_status_valid: "plan_status ad gm cur req = Inr (Some s) \<Longrightarrow> s \<in> set game_statuses"
  by (auto simp: plan_status_def Let_def GameStatus_Valid_iff split: option.splits if_splits)

lemma plan_game_status_ok: "plan_game_update ad gm game body = Inr upd \<Longrightarrow> status_ok upd"
  by (auto simp: plan_game_update_def status_ok_def Let_def dest: plan_status_valid
      split: sum.splits if_splits option.splits)

definition no_game_fields :: "UpdateGameRequest \<Rightarrow> bool" where
  "no_game_fields b \<longleftrightarrow> ugr_Status b = None \<and> ugr_Name b = None \<and> ugr_Description b = None \<and>
     ugr_IsActive b = None"

lemma run_UpdateGame_handler:
  assumes "quiet w" and "db_ok (w_db w)"
  shows "run_state (UpdateGame ctx g (Some b)) w =
    (case caller (w_db w) ctx of Inl m \<Rightarrow> (Inr (updateGameUnauthorized m), w) | Inr a \<Rightarrow>
     if no_game_fields b then (Inr (updateGameBadRequest ''no changes requested''), w)
     else case seen_game (w_db w) a g of
       None \<Rightarrow> (Inr (updateGameNotFound ''game not found''), w)
     | Some game \<Rightarrow>
        (case plan_game_update (acc_IsAdmin a) (gm_standing (w_db w) a g) game b of
           Inl x \<Rightarrow> (Inr x, w)
         | Inr upd \<Rightarrow>
             if game_update_empty upd then (Inr (OK200 (apiGame game)), w)
             else (Inr (OK200 (apiGame (merge_game upd game))),
                   w\<lparr>w_db := update_game g upd (w_db w)\<rparr>)))"
proof (cases "caller (w_db w) ctx")
  case (Inl m)
  with assms show ?thesis by (simp add: UpdateGame_def)
next
  case (Inr a)
  show ?thesis
  proof (cases "no_game_fields b \<or> seen_game (w_db w) a g = None")
    case True
    with Inr assms show ?thesis
      by (auto simp: UpdateGame_def no_game_fields_def seen_game_def split: if_splits)
  next
    case False
    then obtain game where s: "\<not> no_game_fields b" "seen_game (w_db w) a g = Some game" by auto
    note v = seen_gameD [OF s(2)]
    show ?thesis
    proof (cases "plan_game_update (acc_IsAdmin a) (gm_standing (w_db w) a g) game b :: ApiGame response + GameUpdate")
      case (Inl x)
      with Inr assms s v show ?thesis by (auto simp: UpdateGame_def no_game_fields_def)
    next
      case (Inr upd)
      have "status_ok upd" by (rule plan_game_status_ok [OF Inr])
      with Inr \<open>caller (w_db w) ctx = Inr a\<close> assms s v show ?thesis
        by (auto simp: UpdateGame_def no_game_fields_def game_update_empty_def)
    qed
  qed
qed

lemma run_UpdateGame_nil:
  assumes "quiet w" and "db_ok (w_db w)"
  shows "run_state (UpdateGame ctx g None) w =
    (case caller (w_db w) ctx of Inl m \<Rightarrow> (Inr (updateGameUnauthorized m), w)
     | Inr a \<Rightarrow> (Inr (updateGameBadRequest ''request body is required''), w))"
  using assms by (auto simp: UpdateGame_def split: sum.split)

section \<open>AddGameMember\<close>

lemma requested_handle_check: "requested_handle given = Inr h \<Longrightarrow> h = [] \<or> ValidHandle h"
  by (auto simp: requested_handle_def Let_def split: option.splits if_splits)

lemma valid_handle_check: "ValidHandle h \<Longrightarrow> handle_check h"
proof -
  assume v: "ValidHandle h"
  then have "CHR 0x00 \<notin> set h"
    by (auto simp: ValidHandle_iff list_all_iff handle_char_def letter_def upper_letter_def is_digit_def)
  with v show ?thesis by (simp add: handle_check_iff c_text_id)
qed

lemma default_handle_valid:
  assumes "h = [] \<or> ValidHandle h"
  shows "ValidHandle (default_handle d g h)"
proof (cases "h = []")
  case True
  have "ValidHandle (''player_'' @ FormatInt (int (count_members d g) + 1))"
    using digits_all [of "nat (int (count_members d g) + 1)"]
    by (auto simp: ValidHandle_iff FormatInt_def handle_char_def letter_def upper_letter_def list_all_iff)
  with True show ?thesis by (simp add: default_handle_def)
next
  case False
  with assms show ?thesis by (simp add: default_handle_def)
qed

lemma default_handle_check: "h = [] \<or> ValidHandle h \<Longrightarrow> handle_check (default_handle d g h)"
  by (intro valid_handle_check default_handle_valid)

definition add_answer :: "database \<Rightarrow> int \<Rightarrow> int \<Rightarrow> string \<Rightarrow> bool \<Rightarrow> ApiMember response \<times> database" where
  "add_answer d g a h gm =
     (if account_of d a = None then (addMemberBadRequest ''account does not exist'', d)
      else if member_of d g a \<noteq> None then (addMemberConflict
        ''account is already a member; reactivate the existing membership instead'', d)
      else if handle_used d g h then (addMemberConflict ''handle already in use'', d)
      else (Created201 (apiMember (new_member a h gm)), add_member g a h gm d))"

lemma run_add_to_roster:
  assumes "quiet w" and "game_of (w_db w) g \<noteq> None" and "h = [] \<or> ValidHandle h"
  shows "run_state (add_to_roster g a h gm) w =
    (case add_answer (w_db w) g a (default_handle (w_db w) g h) gm of (x, d) \<Rightarrow> (Inr x, w\<lparr>w_db := d\<rparr>))"
  using assms default_handle_check [OF assms(3)]
  by (simp add: add_to_roster_def add_answer_def Let_def)

text \<open>Who may add whom: the role gate and the status gate together.\<close>

lemma run_add_role_gate:
  assumes "quiet w" and "db_ok (w_db w)"
  shows "run_state (add_role_gate a g) w =
    (Inr (if gm_standing (w_db w) a g then None else Some (addMemberForbidden add_role_refused)), w)"
  using assms by (auto simp: add_role_gate_def gm_standing_def or_missing_def split: option.split)

lemma run_AddGameMember_handler:
  assumes "quiet w" and "db_ok (w_db w)"
  shows "run_state (AddGameMember ctx g (Some b)) w =
    (case caller (w_db w) ctx of Inl m \<Rightarrow> (Inr (addMemberUnauthorized m), w) | Inr a \<Rightarrow>
     if amr_AccountId b \<le> 0 then (Inr (addMemberBadRequest ''accountId is required''), w)
     else case requested_handle (amr_Handle b) of Inl x \<Rightarrow> (Inr x, w) | Inr h \<Rightarrow>
     (case seen_game (w_db w) a g of
        None \<Rightarrow> (Inr (addMemberNotFound ''game not found''), w)
      | Some game \<Rightarrow>
          if \<not> gm_standing (w_db w) a g then (Inr (addMemberForbidden add_role_refused), w)
          else let msg = addMemberStatusGate (game_Status game) (flag (amr_IsGm b)) (acc_IsAdmin a) in
          if msg \<noteq> [] then (Inr (addMemberForbidden msg), w)
          else (case add_answer (w_db w) g (amr_AccountId b) (default_handle (w_db w) g h) (flag (amr_IsGm b)) of
            (x, d) \<Rightarrow> (Inr x, w\<lparr>w_db := d\<rparr>))))"
proof (cases "caller (w_db w) ctx")
  case (Inl m)
  with assms show ?thesis by (simp add: AddGameMember_def)
next
  case (Inr a)
  show ?thesis
  proof (cases "requested_handle (amr_Handle b) :: ApiMember response + string")
    case (Inl x)
    with Inr assms show ?thesis by (simp add: AddGameMember_def)
  next
    case (Inr h)
    note h = requested_handle_check [OF Inr]
    show ?thesis
    proof (cases "seen_game (w_db w) a g")
      case None
      with Inr \<open>caller (w_db w) ctx = Inr a\<close> assms show ?thesis
        by (auto simp: AddGameMember_def seen_game_def split: if_splits)
    next
      case (Some game)
      note v = seen_gameD [OF Some]
      then have "game_of (w_db w) g \<noteq> None" by simp
      with Inr \<open>caller (w_db w) ctx = Inr a\<close> assms Some v h show ?thesis
        by (simp add: AddGameMember_def run_add_role_gate run_add_to_roster Let_def)
    qed
  qed
qed

section \<open>UpdateGameMember\<close>

lemma plan_handle_ok: "plan_handle st m req = Inr (Some h) \<Longrightarrow> handle_check h"
  by (auto simp: plan_handle_def Let_def valid_handle_check split: option.splits if_splits)

lemma plan_member_handle_ok: "plan_member_update st m b = Inr upd \<Longrightarrow> handle_ok upd"
  by (auto simp: plan_member_update_def handle_ok_def dest: plan_handle_ok split: sum.splits option.splits)

definition no_member_fields :: "UpdateMemberRequest \<Rightarrow> bool" where
  "no_member_fields b \<longleftrightarrow> umr_IsActive b = None \<and> umr_IsGm b = None \<and> umr_Handle b = None"

definition standing_of :: "database \<Rightarrow> Account \<Rightarrow> int \<Rightarrow> int \<Rightarrow> Game \<Rightarrow> standing" where
  "standing_of d a g target game = \<lparr>st_isAdmin = acc_IsAdmin a, st_activeGM = gm_standing d a g,
     st_isSelf = (acc_ID a = target), st_recruiting = (game_Status game = Recruiting)\<rparr>"

definition roster_answer :: "database \<Rightarrow> int \<Rightarrow> int \<Rightarrow> Member \<Rightarrow> MemberUpdate \<Rightarrow> ApiMember response \<times> database" where
  "roster_answer d g t m upd =
     (if member_update_empty upd then (OK200 (apiMember m), d)
      else if rename_blocked d g t upd m then (updateMemberConflict ''handle already in use'', d)
      else (OK200 (apiMember (merge_member upd m)), update_member g t upd d))"

lemma run_UpdateGameMember_handler:
  assumes "quiet w" and "db_ok (w_db w)"
  shows "run_state (UpdateGameMember ctx g t (Some b)) w =
    (case caller (w_db w) ctx of Inl m \<Rightarrow> (Inr (updateMemberUnauthorized m), w) | Inr a \<Rightarrow>
     if no_member_fields b then (Inr (updateMemberBadRequest ''no changes requested''), w)
     else case seen_game (w_db w) a g of
       None \<Rightarrow> (Inr (updateMemberNotFound ''game not found''), w)
     | Some game \<Rightarrow>
        (case member_of (w_db w) g t of
           None \<Rightarrow> (Inr (updateMemberNotFound ''member not found''), w)
         | Some m \<Rightarrow>
             if game_Status game = Archived
             then (Inr (updateMemberForbidden ''the game is archived and cannot be modified''), w)
             else case plan_member_update (standing_of (w_db w) a g t game) m b of
               Inl x \<Rightarrow> (Inr x, w)
             | Inr upd \<Rightarrow> (case roster_answer (w_db w) g t m upd of (x, d) \<Rightarrow> (Inr x, w\<lparr>w_db := d\<rparr>))))"
proof (cases "caller (w_db w) ctx")
  case (Inl m)
  with assms show ?thesis by (simp add: UpdateGameMember_def)
next
  case (Inr a)
  show ?thesis
  proof (cases "no_member_fields b \<or> seen_game (w_db w) a g = None \<or> member_of (w_db w) g t = None")
    case True
    with Inr assms show ?thesis
      by (auto simp: UpdateGameMember_def no_member_fields_def seen_game_def split: if_splits option.splits)
  next
    case False
    then obtain game m where s: "\<not> no_member_fields b" "seen_game (w_db w) a g = Some game"
      "member_of (w_db w) g t = Some m" by auto
    note v = seen_gameD [OF s(2)]
    let ?plan = "plan_member_update (standing_of (w_db w) a g t game) m b :: ApiMember response + MemberUpdate"
    show ?thesis
    proof (cases ?plan)
      case (Inl x)
      with Inr assms s v show ?thesis
        by (auto simp: UpdateGameMember_def no_member_fields_def standing_of_def)
    next
      case (Inr upd)
      have "handle_ok upd" by (rule plan_member_handle_ok [OF Inr])
      with Inr \<open>caller (w_db w) ctx = Inr a\<close> assms s v show ?thesis
        by (auto simp: UpdateGameMember_def no_member_fields_def standing_of_def roster_answer_def
            member_update_empty_def apply_roster_update_def)
    qed
  qed
qed

end
