(* ===== verification/AuthSpec.thy ===== *)
theory AuthSpec
  imports GameSpec
begin

text \<open>
  Authentication over the abstract specification: what verification accepts, and the runs of
  \<open>Login\<close>, \<open>RefreshToken\<close>, \<open>Logout\<close>, \<open>ChangeMyPassword\<close> and the session endpoints in an
  undisturbed world.
\<close>

section \<open>The clock and the random source\<close>

definition tick :: "world \<Rightarrow> world" where
  "tick w = (case w_later w of [] \<Rightarrow> w | t # ts \<Rightarrow> w\<lparr>w_now := t, w_later := ts\<rparr>)"

definition drawn :: "world \<Rightarrow> string option \<times> world" where
  "drawn w = (case w_entropy w of [] \<Rightarrow> (None, w) | e # es \<Rightarrow> (e, w\<lparr>w_entropy := es\<rparr>))"

lemma run_clock [simp]: "run_state clock_now w = (w_now w, tick w)"
  by (simp add: clock_now_def tick_def)

lemma run_rand [simp]: "run_state rand_Read w = drawn w"
  by (simp add: rand_Read_def drawn_def split: list.split)

lemma tick_frame [simp]: "w_db (tick w) = w_db w" "quiet (tick w) = quiet w"
  "w_compares (tick w) = w_compares w" "w_sched (tick w) = w_sched w"
  by (simp_all add: tick_def split: list.split)

lemma drawn_frame [simp]: "w_db (snd (drawn w)) = w_db w" "quiet (snd (drawn w)) = quiet w"
  "w_compares (snd (drawn w)) = w_compares w" "w_sched (snd (drawn w)) = w_sched w"
  by (simp_all add: drawn_def split: list.split)

lemma drawnD: "drawn w = (x, w') \<Longrightarrow>
    w_db w' = w_db w \<and> quiet w' = quiet w \<and> w_compares w' = w_compares w \<and> w_sched w' = w_sched w"
  by (metis drawn_frame snd_conv)

text \<open>The clock readings of a world: the present one and those to come.\<close>

definition readings :: "world \<Rightarrow> int set" where
  "readings w = insert (w_now w) (set (w_later w))"

lemma tick_readings: "readings (tick w) \<subseteq> readings w"
  by (auto simp: readings_def tick_def split: list.split)

section \<open>Verification\<close>

definition parsed :: "libs \<Rightarrow> TokenService \<Rightarrow> int \<Rightarrow> string \<Rightarrow> string \<Rightarrow> tokenClaims option" where
  "parsed L ts now raw audience = ParseWithClaims L raw (keyfunc ts) (token_options audience) now"

definition verified_refresh :: "libs \<Rightarrow> TokenService \<Rightarrow> int \<Rightarrow> string \<Rightarrow> RefreshClaims option" where
  "verified_refresh L ts now raw = (case parsed L ts now raw refreshAudience of None \<Rightarrow> None | Some c \<Rightarrow>
     (case ParseInt (reg_Subject c) of None \<Rightarrow> None
      | Some i \<Rightarrow> Some \<lparr>rc_Subject = reg_Subject c, rc_UserID = i, rc_JTI = reg_ID c,
          rc_Family = tc_Family c, rc_ExpiresAt = reg_ExpiresAt c\<rparr>))"

definition verified_access :: "libs \<Rightarrow> TokenService \<Rightarrow> int \<Rightarrow> string \<Rightarrow> Claims option" where
  "verified_access L ts now raw = (case parsed L ts now raw accessAudience of None \<Rightarrow> None | Some c \<Rightarrow>
     (case ParseInt (reg_Subject c) of None \<Rightarrow> None
      | Some i \<Rightarrow> Some \<lparr>cl_Subject = reg_Subject c, cl_UserID = i, cl_Username = tc_Username c,
          cl_Roles = tc_Roles c, cl_ExpiresAt = reg_ExpiresAt c, cl_Actor = tc_Act c\<rparr>))"

definition or_token_error :: "'a option \<Rightarrow> go_error + 'a" where
  "or_token_error x = (case x of None \<Rightarrow> Inl ErrToken | Some v \<Rightarrow> Inr v)"

lemma or_token_error_simps [simp]: "or_token_error None = Inl ErrToken" "or_token_error (Some v) = Inr v"
  by (simp_all add: or_token_error_def)

lemma run_VerifyRefresh [simp]:
  "run_state (VerifyRefresh L ts raw) w = (or_token_error (verified_refresh L ts (w_now w) raw), tick w)"
  by (simp add: VerifyRefresh_def parse_def verified_refresh_def parsed_def split: option.split)

lemma run_Verify [simp]:
  "run_state (Verify L ts raw) w = (or_token_error (verified_access L ts (w_now w) raw), tick w)"
  by (simp add: Verify_def parse_def verified_access_def parsed_def split: option.split)

text \<open>What was signed as one kind of token never verifies as the other.\<close>

lemma parsed_audience:
  assumes "jwt_ok L" and "parsed L ts now raw aud = Some c"
  shows "aud \<in> set (reg_Audience c) \<and> reg_Issuer c = tokenIssuer \<and>
    (\<forall>e. reg_ExpiresAt c = Some e \<longrightarrow> now < e)"
proof -
  from assms have "claims_valid (token_options aud) now c"
    unfolding jwt_ok_def parsed_def by blast
  then show ?thesis by (auto simp: claims_valid_def token_options_def split: option.splits)
qed

section \<open>Minting\<close>

definition refresh_claims :: "libs \<Rightarrow> TokenService \<Rightarrow> int \<Rightarrow> string \<Rightarrow> string \<Rightarrow> int \<Rightarrow> tokenClaims" where
  "refresh_claims L ts a jti family now = with_registered
     ((registered L a refreshAudience now (now + ts_refreshTTL ts))\<lparr>reg_ID := jti\<rparr>) [] [] family 0"

definition access_claims :: "libs \<Rightarrow> TokenService \<Rightarrow> Account \<Rightarrow> int \<Rightarrow> tokenClaims" where
  "access_claims L ts a now = with_registered
     (registered L (acc_ID a) accessAudience now (now + ts_accessTTL ts)) (acc_Email a) (accountRoles a) [] 0"

lemma run_IssueRefresh [simp]:
  "run_state (IssueRefresh L ts a jti fam) w =
    (case SignedString L (refresh_claims L ts a jti fam (w_now w)) (ts_secret ts) of
       None \<Rightarrow> Inl ErrSign | Some t \<Rightarrow> Inr (t, w_now w + ts_refreshTTL ts), tick w)"
  by (simp add: IssueRefresh_def refresh_claims_def sign_def split: option.split)

lemma roleStrings_id [simp]: "roleStrings rs = rs"
  by (simp add: roleStrings_def)

lemma run_IssueAccess_account:
  "run_state (IssueAccess L ts (acc_ID a) (acc_Email a) (accountRoles a)) w =
    (case SignedString L (access_claims L ts a (w_now w)) (ts_secret ts) of
       None \<Rightarrow> Inl ErrSign | Some t \<Rightarrow> Inr (t, w_now w + ts_accessTTL ts), tick w)"
  by (simp add: IssueAccess_def access_claims_def sign_def split: option.split)

lemma run_NewTokenID:
  "run_state NewTokenID w = (case drawn w of (None, w') \<Rightarrow> (Inl ErrRandom, w')
     | (Some e, w') \<Rightarrow> (Inr (EncodeToString (fill 16 e)), w'))"
  by (simp add: NewTokenID_def split: prod.split option.split)

text \<open>A new row of refresh_tokens for a token of the given issue time.\<close>

definition fresh_token :: "TokenService \<Rightarrow> string \<Rightarrow> string \<Rightarrow> int \<Rightarrow> int \<Rightarrow> RefreshToken" where
  "fresh_token ts jti family a now = \<lparr>rt_JTI = jti, rt_FamilyID = family, rt_AccountID = a,
     rt_IssuedAt = Unix now, rt_ExpiresAt = Unix (now + ts_refreshTTL ts), rt_Revoked = False\<rparr>"

lemma hex_digit_ascii: "d < 16 \<Longrightarrow> ord (hex_digit d) < 128"
  by (simp add: hex_digit_def byte_def)

lemma hex_ascii [simp]: "is_ascii (EncodeToString s)"
  by (auto simp: EncodeToString_def is_ascii_def list_all_iff ord_less less_mult_imp_div_less
      intro!: hex_digit_ascii)

text \<open>\<open>issueRefresh\<close> succeeds with a row for an unused id, or leaves the tables alone.\<close>

lemma run_issueRefresh:
  assumes "quiet w" and "account_of (w_db w) a \<noteq> None" and "run_state (issueRefresh L s a fam) w = (r, w')"
  shows "quiet w' \<and> w_compares w' = w_compares w \<and>
    (case r of
       Inl e \<Rightarrow> w_db w' = w_db w
     | Inr raw \<Rightarrow> \<exists>jti now. token_of (w_db w) jti = None \<and> is_ascii jti \<and>
         SignedString L (refresh_claims L (srv_tokens s) a jti fam now) (ts_secret (srv_tokens s)) = Some raw \<and>
         w_db w' = add_token (fresh_token (srv_tokens s) jti fam a now) (w_db w))"
proof (cases "drawn w")
  case (Pair x w1)
  note w1 = drawnD [OF Pair]
  show ?thesis
  proof (cases x)
    case None
    with Pair w1 assms show ?thesis by (auto simp: issueRefresh_def run_NewTokenID)
  next
    case (Some e)
    let ?jti = "EncodeToString (fill 16 e)"
    let ?c = "refresh_claims L (srv_tokens s) a ?jti fam (w_now w1)"
    show ?thesis
    proof (cases "SignedString L ?c (ts_secret (srv_tokens s))")
      case None
      with Some Pair w1 assms show ?thesis by (auto simp: issueRefresh_def run_NewTokenID)
    next
      case (Some raw)
      with \<open>x = Some e\<close> Pair w1 assms show ?thesis
        by (cases "token_of (w_db w) ?jti")
          (auto simp: issueRefresh_def run_NewTokenID fresh_token_def Let_def intro!: exI [of _ ?jti]
            exI [of _ "w_now w1"])
    qed
  qed
qed

end
