(* ===== verification/AuthProperties.thy ===== *)
theory AuthProperties
  imports AuthSpec
begin

text \<open>
  The effects of the authentication handlers in an undisturbed world, one lemma per handler:
  which row is written, which tokens are revoked, and that a refusal writes nothing.
\<close>

section \<open>Login\<close>

definition login_email :: "libs \<Rightarrow> LoginRequest \<Rightarrow> string" where
  "login_email L b = ToLower (unicode_lower L) (TrimSpace (lr_Username b))"

lemma run_compare [simp]:
  "run_state (bcrypt_compare L h p) w = (CompareHashAndPassword L h p, w\<lparr>w_compares := Suc (w_compares w)\<rparr>)"
  by (simp add: bcrypt_compare_def)

lemma login_of_account: "login_of d e = Some (a, h) \<Longrightarrow> db_ok d \<Longrightarrow> account_of d (acc_ID a) = Some a"
  using find_key [OF acct_rows.rowids_ok_inj [OF db_okD(1)]]
  by (auto simp: login_of_def account_of_def account_of_row_def dest!: find_Some_mem)

text \<open>A session: a fresh family with one live token, or nothing at all.\<close>

lemma run_login_session:
  assumes "quiet w" and "account_of (w_db w) (acc_ID a) \<noteq> None"
    and "run_state (login_session L s a) w = (r, w')"
  shows "quiet w' \<and> w_compares w' = w_compares w \<and>
    (case r of
       Inl e \<Rightarrow> w_db w' = w_db w
     | Inr x \<Rightarrow> \<exists>b jti fam now. x = OK200 b \<and> token_of (w_db w) jti = None \<and> is_ascii jti \<and> is_ascii fam \<and>
         SignedString L (refresh_claims L (srv_tokens s) (acc_ID a) jti fam now)
           (ts_secret (srv_tokens s)) = Some (at_RefreshToken b) \<and>
         w_db w' = add_token (fresh_token (srv_tokens s) jti fam (acc_ID a) now) (w_db w))"
proof (cases "SignedString L (access_claims L (srv_tokens s) a (w_now w)) (ts_secret (srv_tokens s))")
  case None
  with assms show ?thesis by (auto simp: login_session_def run_IssueAccess_account)
next
  case (Some access)
  obtain x w1 where d: "drawn (tick w) = (x, w1)" by fastforce
  note w1 = drawnD [OF d]
  show ?thesis
  proof (cases x)
    case None
    with Some d w1 assms show ?thesis
      by (auto simp: login_session_def run_IssueAccess_account run_NewTokenID)
  next
    case (Some e)
    obtain y w2 where i: "run_state (issueRefresh L s (acc_ID a) (EncodeToString (fill 16 e))) w1 = (y, w2)"
      by fastforce
    from w1 assms(1,2) have "quiet w1" "account_of (w_db w1) (acc_ID a) \<noteq> None" by auto
    note eff = run_issueRefresh [OF this i]
    show ?thesis
    proof (cases y)
      case (Inl err)
      with Some \<open>_ = Some access\<close> d w1 i eff assms show ?thesis
        by (auto simp: login_session_def run_IssueAccess_account run_NewTokenID)
    next
      case (Inr raw)
      with Some \<open>_ = Some access\<close> d w1 i assms
      have r: "r = Inr (OK200 (auth_tokens s access raw))" and "w' = w2"
        by (auto simp: login_session_def run_IssueAccess_account run_NewTokenID)
      from eff Inr obtain jti now where "token_of (w_db w1) jti = None" "is_ascii jti"
        "SignedString L (refresh_claims L (srv_tokens s) (acc_ID a) jti (EncodeToString (fill 16 e)) now)
          (ts_secret (srv_tokens s)) = Some raw"
        "w_db w2 = add_token (fresh_token (srv_tokens s) jti (EncodeToString (fill 16 e)) (acc_ID a) now) (w_db w1)"
        "quiet w2" "w_compares w2 = w_compares w1"
        by auto
      with r \<open>w' = w2\<close> w1 show ?thesis
        by (simp add: auth_tokens_def) (blast intro: hex_ascii)
    qed
  qed
qed

lemma Login_effect:
  assumes "quiet w" and "db_ok (w_db w)" and "run_state (Login L s (Some b)) w = (res, w')"
  shows "w_compares w' = Suc (w_compares w) \<and>
    ((\<exists>a h body jti fam now. res = Inr (OK200 body) \<and>
        login_of (w_db w) (login_email L b) = Some (a, h) \<and> acc_IsActive a \<and>
        CompareHashAndPassword L h (lr_Password b) \<and> token_of (w_db w) jti = None \<and>
        is_ascii jti \<and> is_ascii fam \<and>
        SignedString L (refresh_claims L (srv_tokens s) (acc_ID a) jti fam now)
          (ts_secret (srv_tokens s)) = Some (at_RefreshToken body) \<and>
        w_db w' = add_token (fresh_token (srv_tokens s) jti fam (acc_ID a) now) (w_db w)) \<or>
     (w_db w' = w_db w \<and>
      (res = Inr (loginUnauthorized ''invalid username or password'') \<and>
         \<not> (\<exists>a h. login_of (w_db w) (login_email L b) = Some (a, h) \<and> acc_IsActive a \<and>
             CompareHashAndPassword L h (lr_Password b)) \<or>
       (\<exists>a h e. res = Inl e \<and> login_of (w_db w) (login_email L b) = Some (a, h) \<and> acc_IsActive a \<and>
         CompareHashAndPassword L h (lr_Password b)))))"
proof (cases "login_of (w_db w) (login_email L b)")
  case None
  with assms show ?thesis by (auto simp: Login_def login_email_def)
next
  case (Some p)
  obtain a h where p: "p = (a, h)" by fastforce
  show ?thesis
  proof (cases "acc_IsActive a \<and> CompareHashAndPassword L h (lr_Password b)")
    case False
    with Some p assms show ?thesis
      by (cases "acc_IsActive a") (auto simp: Login_def login_email_def)
  next
    case True
    let ?w = "w\<lparr>w_compares := Suc (w_compares w)\<rparr>"
    have run: "run_state (login_session L s a) ?w = (res, w')"
      using True Some p assms by (auto simp: Login_def login_email_def)
    from login_of_account [OF Some [unfolded p] assms(2)] assms(1)
    have "quiet ?w" "account_of (w_db ?w) (acc_ID a) \<noteq> None" by auto
    from run_login_session [OF this run] True Some p show ?thesis by (cases res) auto
  qed
qed

section \<open>Refresh\<close>

lemma token_id: "token_of d j = Some t \<Longrightarrow> rt_JTI t = j"
  by (auto simp: token_of_def token_of_row_def dest: find_Some_mem)

lemma run_rotate:
  assumes "quiet w" and "account_of (w_db w) (acc_ID a) \<noteq> None"
    and "run_state (rotate L s a fam j) w = (r, w')"
  shows "quiet w' \<and>
    (case r of
       Inl e \<Rightarrow> w_db w' = w_db w
     | Inr x \<Rightarrow> \<exists>b jti now. x = OK200 b \<and> token_of (w_db w) jti = None \<and>
         SignedString L (refresh_claims L (srv_tokens s) (acc_ID a) jti fam now)
           (ts_secret (srv_tokens s)) = Some (at_RefreshToken b) \<and>
         w_db w' = revoke_where (\<lambda>t. rt_JTI t = j)
           (add_token (fresh_token (srv_tokens s) jti fam (acc_ID a) now) (w_db w)))"
proof (cases "SignedString L (access_claims L (srv_tokens s) a (w_now w)) (ts_secret (srv_tokens s))")
  case None
  with assms show ?thesis by (auto simp: rotate_def run_IssueAccess_account)
next
  case (Some access)
  obtain y w2 where i: "run_state (issueRefresh L s (acc_ID a) fam) (tick w) = (y, w2)" by fastforce
  from assms(1,2) have "quiet (tick w)" "account_of (w_db (tick w)) (acc_ID a) \<noteq> None" by auto
  note eff = run_issueRefresh [OF this i]
  show ?thesis
  proof (cases y)
    case (Inl err)
    with Some i eff assms show ?thesis by (auto simp: rotate_def run_IssueAccess_account)
  next
    case (Inr raw)
    with Some i eff assms
    have r: "r = Inr (OK200 (auth_tokens s access raw))"
      and "w' = w2\<lparr>w_db := revoke_where (\<lambda>t. rt_JTI t = j) (w_db w2)\<rparr>"
      by (auto simp: rotate_def run_IssueAccess_account)
    with eff Inr show ?thesis by (fastforce simp: auth_tokens_def)
  qed
qed

lemma RefreshToken_effect:
  assumes "quiet w" and "db_ok (w_db w)"
    and "run_state (RefreshToken_handler L s (Some raw)) w = (res, w')"
  shows "(w_db w' = w_db w \<and> (\<forall>b. res \<noteq> Inr (OK200 b))) \<or>
    (\<exists>c t. raw \<noteq> [] \<and> verified_refresh L (srv_tokens s) (w_now w) raw = Some c \<and>
       token_of (w_db w) (rc_JTI c) = Some t \<and>
       (if rt_Revoked t
        then res = Inr (refreshUnauthorized ''invalid refresh token'') \<and>
          w_db w' = revoke_where (\<lambda>u. rt_FamilyID u = rt_FamilyID t) (w_db w)
        else \<exists>a b jti now. account_of (w_db w) (rc_UserID c) = Some a \<and> acc_IsActive a \<and>
          res = Inr (OK200 b) \<and> token_of (w_db w) jti = None \<and>
          SignedString L (refresh_claims L (srv_tokens s) (acc_ID a) jti (rt_FamilyID t) now)
            (ts_secret (srv_tokens s)) = Some (at_RefreshToken b) \<and>
          w_db w' = revoke_where (\<lambda>u. rt_JTI u = rc_JTI c)
            (add_token (fresh_token (srv_tokens s) jti (rt_FamilyID t) (acc_ID a) now) (w_db w))))"
proof (cases "raw = [] \<or> verified_refresh L (srv_tokens s) (w_now w) raw = None")
  case True
  with assms show ?thesis
    by (cases "raw = []") (auto simp: RefreshToken_handler_def refreshUnauthorized_def)
next
  case False
  then obtain c where c: "raw \<noteq> []" "verified_refresh L (srv_tokens s) (w_now w) raw = Some c" by auto
  show ?thesis
  proof (cases "token_of (w_db w) (rc_JTI c)")
    case None
    with c assms show ?thesis by (auto simp: RefreshToken_handler_def refreshUnauthorized_def)
  next
    case t: (Some t)
    show ?thesis
    proof (cases "rt_Revoked t")
      case True
      with c t assms show ?thesis by (auto simp: RefreshToken_handler_def)
    next
      case live: False
      show ?thesis
      proof (cases "account_of (w_db w) (rc_UserID c)")
        case None
        with live c t assms show ?thesis by (auto simp: RefreshToken_handler_def refreshUnauthorized_def)
      next
        case a: (Some a)
        show ?thesis
        proof (cases "acc_IsActive a")
          case False
          with a live c t assms show ?thesis
            by (auto simp: RefreshToken_handler_def refreshUnauthorized_def)
        next
          case True
          have id: "acc_ID a = rc_UserID c"
            using a by (auto simp: account_of_def account_of_row_def dest: find_Some_mem)
          have run: "run_state (rotate L s a (rt_FamilyID t) (rc_JTI c)) (tick w) = (res, w')"
            using True a live c t assms by (auto simp: RefreshToken_handler_def)
          have "quiet (tick w)" "account_of (w_db (tick w)) (acc_ID a) \<noteq> None"
            using assms(1) a id by auto
          from run_rotate [OF this run] True a live c t show ?thesis by (cases res) auto
        qed
      qed
    qed
  qed
qed

text \<open>Once under way a rotation never answers 401.\<close>

lemma rotate_not_refused: "fst (run_state (rotate L s a fam j) w) = Inr (Unauthorized401 e) \<Longrightarrow> False"
  by (auto simp: rotate_def split: prod.splits sum.splits)

section \<open>A minted refresh token verifies\<close>

lemma digits_ascii: "is_ascii (digits n)"
  using digits_all [of n] by (auto simp: is_ascii_def list_all_iff is_digit_def)

lemma FormatInt_ascii [simp]: "is_ascii (FormatInt i)"
  using digits_ascii by (auto simp: FormatInt_def is_ascii_def)

lemma refresh_claims_fields:
  "reg_Issuer (refresh_claims L ts a jti fam now) = tokenIssuer"
  "reg_Subject (refresh_claims L ts a jti fam now) = FormatInt a"
  "reg_Audience (refresh_claims L ts a jti fam now) = [refreshAudience]"
  "reg_IssuedAt (refresh_claims L ts a jti fam now) = Some (NewNumericDate L now)"
  "reg_ExpiresAt (refresh_claims L ts a jti fam now) = Some (NewNumericDate L (now + ts_refreshTTL ts))"
  "reg_ID (refresh_claims L ts a jti fam now) = jti"
  "tc_Username (refresh_claims L ts a jti fam now) = []" "tc_Roles (refresh_claims L ts a jti fam now) = []"
  "tc_Family (refresh_claims L ts a jti fam now) = fam"
  by (simp_all add: refresh_claims_def with_registered_def registered_def RegisteredClaims.extend_def
      tokenClaims.fields_def)

lemma access_claims_fields:
  "reg_Issuer (access_claims L ts a now) = tokenIssuer"
  "reg_Subject (access_claims L ts a now) = FormatInt (acc_ID a)"
  "reg_Audience (access_claims L ts a now) = [accessAudience]"
  "reg_IssuedAt (access_claims L ts a now) = Some (NewNumericDate L now)"
  "reg_ExpiresAt (access_claims L ts a now) = Some (NewNumericDate L (now + ts_accessTTL ts))"
  "reg_ID (access_claims L ts a now) = []"
  "tc_Username (access_claims L ts a now) = acc_Email a" "tc_Roles (access_claims L ts a now) = accountRoles a"
  "tc_Family (access_claims L ts a now) = []"
  by (simp_all add: access_claims_def with_registered_def registered_def RegisteredClaims.extend_def
      tokenClaims.fields_def)

lemma constants_ascii [simp]: "is_ascii tokenIssuer" "is_ascii accessAudience" "is_ascii refreshAudience"
  "is_ascii []" "is_ascii Admin" "is_ascii Player"
  by (simp_all add: is_ascii_def tokenIssuer_def accessAudience_def refreshAudience_def Admin_def Player_def)

lemma jwt_dates: "jwt_ok L \<Longrightarrow> NewNumericDate L t = t - t mod 1000000000"
  by (simp add: jwt_ok_def)

lemma whole_second: "(t - t mod 1000000000) mod 1000000000 = (0 :: int)"
  by (simp add: mod_diff_right_eq mod_diff_left_eq)

lemma refresh_claims_wire:
  "jwt_ok L \<Longrightarrow> is_ascii jti \<Longrightarrow> is_ascii fam \<Longrightarrow> wire_ok (refresh_claims L ts a jti fam now)"
  by (simp add: wire_ok_def refresh_claims_fields jwt_dates whole_second)

lemma access_claims_wire:
  "jwt_ok L \<Longrightarrow> is_ascii (acc_Email a) \<Longrightarrow> wire_ok (access_claims L ts a now)"
  by (simp add: wire_ok_def access_claims_fields jwt_dates whole_second accountRoles_def)

lemma jwt_roundtrip:
  assumes "jwt_ok L" and "wire_ok c" and "SignedString L c (ts_secret ts) = Some raw"
  shows "parsed L ts now raw aud = Some c' \<Longrightarrow> c' = c"
    and "claims_valid (token_options aud) now c \<Longrightarrow> parsed L ts now raw aud = Some c"
proof -
  from assms have rt: "\<forall>kf opts now. (\<forall>c'. ParseWithClaims L raw kf opts now = Some c' \<longrightarrow> c' = c) \<and>
      (claims_valid opts now c \<and> ''HS256'' \<in> set (opt_ValidMethods opts) \<and>
       kf (SigningMethodHMAC ''HS256'') = Some (ts_secret ts) \<longrightarrow> ParseWithClaims L raw kf opts now = Some c)"
    unfolding jwt_ok_def by blast
  show "parsed L ts now raw aud = Some c' \<Longrightarrow> c' = c" using rt unfolding parsed_def by blast
  assume v: "claims_valid (token_options aud) now c"
  have "''HS256'' \<in> set (opt_ValidMethods (token_options aud))"
    and "keyfunc ts (SigningMethodHMAC ''HS256'') = Some (ts_secret ts)"
    by (simp_all add: token_options_def keyfunc_def)
  with v rt show "parsed L ts now raw aud = Some c" unfolding parsed_def by blast
qed

lemma refresh_claims_verified:
  assumes "jwt_ok L" and "is_ascii jti" and "is_ascii fam" and "int64 a"
    and "SignedString L (refresh_claims L ts a jti fam now) (ts_secret ts) = Some raw"
  shows "now' < Unix (now + ts_refreshTTL ts) * 1000000000 \<Longrightarrow>
    \<exists>c. verified_refresh L ts now' raw = Some c \<and> rc_JTI c = jti \<and> rc_UserID c = a"
proof -
  let ?c = "refresh_claims L ts a jti fam now"
  assume "now' < Unix (now + ts_refreshTTL ts) * 1000000000"
  moreover have "t - t mod 1000000000 = Unix t * 1000000000" for t
    by (simp add: Unix_def minus_mod_eq_div_mult)
  ultimately have "claims_valid (token_options refreshAudience) now' ?c"
    using jwt_dates [OF assms(1)] by (simp add: claims_valid_def token_options_def refresh_claims_fields)
  from jwt_roundtrip(2) [OF assms(1) refresh_claims_wire [OF assms(1-3)] assms(5) this] assms(4)
  show ?thesis by (simp add: verified_refresh_def refresh_claims_fields ParseInt_FormatInt)
qed

section \<open>A minted access token verifies\<close>

lemma verified_minted:
  assumes "jwt_ok L" and "int64 i" and "is_ascii u" and "list_all is_ascii rs"
    and "SignedString L (with_registered (registered L i accessAudience now0 exp) u rs [] act) (ts_secret ts) = Some raw"
  shows "verified_access L ts now raw = (if now < Unix exp * 1000000000
      then Some \<lparr>cl_Subject = FormatInt i, cl_UserID = i, cl_Username = u, cl_Roles = rs,
          cl_ExpiresAt = Some (Unix exp * 1000000000), cl_Actor = act\<rparr> else None)"
proof -
  let ?c = "with_registered (registered L i accessAudience now0 exp) u rs [] act"
  have fields: "reg_Issuer ?c = tokenIssuer" "reg_Subject ?c = FormatInt i" "reg_Audience ?c = [accessAudience]"
    "reg_ExpiresAt ?c = Some (Unix exp * 1000000000)" "tc_Username ?c = u" "tc_Roles ?c = rs" "tc_Act ?c = act"
    using jwt_dates [OF assms(1), of exp]
    by (simp_all add: with_registered_def registered_def RegisteredClaims.extend_def tokenClaims.fields_def
        Unix_def minus_mod_eq_div_mult)
  have wire: "wire_ok ?c"
    using assms(1,3,4) by (simp add: wire_ok_def with_registered_def registered_def RegisteredClaims.extend_def
        tokenClaims.fields_def jwt_dates whole_second)
  have valid: "claims_valid (token_options accessAudience) now ?c \<longleftrightarrow> now < Unix exp * 1000000000"
    by (simp add: claims_valid_def token_options_def fields)
  have "parsed L ts now raw accessAudience = (if now < Unix exp * 1000000000 then Some ?c else None)"
    using jwt_roundtrip [OF assms(1) wire assms(5)] valid parsed_audience [OF assms(1)] fields(4)
    by (cases "parsed L ts now raw accessAudience") fastforce+
  then show ?thesis
    by (simp add: verified_access_def fields ParseInt_FormatInt [OF assms(2)])
qed

section \<open>Logout and password change\<close>

lemma Logout_effect:
  assumes "quiet w" and "run_state (Logout L s ctx body) w = (res, w')"
  shows "case ctx of
     None \<Rightarrow> w' = w \<and> res = Inr (refuse Unauthorized401 ''unauthorized'' ''missing credentials'')
   | Some claims \<Rightarrow> res = Inr NoContent204 \<and> w_db w' =
       (case body of
          Some (Some raw) \<Rightarrow>
            if raw = [] then revoke_where (\<lambda>t. rt_AccountID t = cl_UserID claims) (w_db w)
            else (case verified_refresh L (srv_tokens s) (w_now w) raw of
                None \<Rightarrow> w_db w
              | Some rc \<Rightarrow> if rc_UserID rc = cl_UserID claims
                  then revoke_where (\<lambda>t. rt_FamilyID t = rc_Family rc) (w_db w) else w_db w)
        | _ \<Rightarrow> revoke_where (\<lambda>t. rt_AccountID t = cl_UserID claims) (w_db w))"
  using assms
  by (auto simp: Logout_def ClaimsFromContext_def or_token_error_def
      split: option.splits if_splits)

lemma run_HashSecret:
  "run_state (HashSecret L p) w =
     (if length p < MinSecretLength then (Inl ErrSecretTooShort, w)
      else case drawn w of (x, w') \<Rightarrow> (case x of None \<Rightarrow> Inl ErrHash
        | Some salt \<Rightarrow> (case GenerateFromPassword L p salt of None \<Rightarrow> Inl ErrHash | Some h \<Rightarrow> Inr h), w'))"
  by (simp add: HashSecret_def split: prod.split)

definition new_secret :: "string \<Rightarrow> AccountUpdate" where
  "new_secret h = \<lparr>au_IsAdmin = None, au_IsActive = None, au_HashedSecret = Some h\<rparr>"

lemma new_secret_simps [simp]: "\<not> account_update_empty (new_secret h)"
  "merge_account (new_secret h) a = a" "au_HashedSecret (new_secret h) = Some h"
  by (simp_all add: new_secret_def account_update_empty_def merge_account_def)

lemma ChangeMyPassword_effect:
  assumes "quiet w" and "db_ok (w_db w)"
    and "run_state (ChangeMyPassword L ctx (Some b)) w = (res, w')"
  shows "(w_db w' = w_db w \<and> res \<noteq> Inr NoContent204) \<or>
    (\<exists>a old salt h. res = Inr NoContent204 \<and> caller (w_db w) ctx = Inr a \<and>
       login_of (w_db w) (acc_Email a) = Some old \<and>
       CompareHashAndPassword L (snd old) (cp_CurrentPassword b) \<and>
       MinSecretLength \<le> length (cp_NewPassword b) \<and>
       GenerateFromPassword L (cp_NewPassword b) salt = Some h \<and>
       w_db w' = revoke_where (\<lambda>t. rt_AccountID t = acc_ID a)
         (update_account (acc_ID a) (new_secret h) (w_db w)))"
proof (cases "caller (w_db w) ctx")
  case (Inl m)
  with assms show ?thesis by (auto simp: ChangeMyPassword_def changePasswordUnauthorized_def)
next
  case (Inr a)
  then have acct: "account_of (w_db w) (acc_ID a) \<noteq> None" using caller_account by fastforce
  show ?thesis
  proof (cases "login_of (w_db w) (acc_Email a)")
    case None
    with Inr assms show ?thesis by (auto simp: ChangeMyPassword_def changePasswordUnauthorized_def)
  next
    case (Some old)
    show ?thesis
    proof (cases "CompareHashAndPassword L (snd old) (cp_CurrentPassword b) \<and>
        MinSecretLength \<le> length (cp_NewPassword b)")
      case False
      with Inr Some assms show ?thesis
        by (auto simp: ChangeMyPassword_def changePasswordUnauthorized_def changePasswordBadRequest_def
            run_HashSecret split: if_splits prod.splits)
    next
      case True
      let ?w = "w\<lparr>w_compares := Suc (w_compares w)\<rparr>"
      obtain x w1 where d: "drawn ?w = (x, w1)" by fastforce
      from drawnD [OF d] have w1: "w_db w1 = w_db w" "quiet w1" using assms(1) by auto
      show ?thesis
      proof (cases "x = None \<or> GenerateFromPassword L (cp_NewPassword b) (the x) = None")
        case fail: True
        with True Inr Some d w1 assms show ?thesis
          by (auto simp: ChangeMyPassword_def run_HashSecret split: option.splits prod.splits)
      next
        case False
        then obtain salt h where h: "x = Some salt"
          "GenerateFromPassword L (cp_NewPassword b) salt = Some h" by auto
        from True Inr Some d w1 h acct assms
        have "res = Inr NoContent204 \<and> w_db w' = revoke_where (\<lambda>t. rt_AccountID t = acc_ID a)
            (update_account (acc_ID a) (new_secret h) (w_db w))"
          by (auto simp: ChangeMyPassword_def run_HashSecret simp flip: new_secret_def split: prod.splits)
        with True Inr Some h show ?thesis by blast
      qed
    qed
  qed
qed

end
