(* ===== verification/Faults.thy ===== *)
theory Faults
  imports AuthProperties
begin

text \<open>
  Worlds in which calls may fail but nobody interferes (\<open>calm\<close>): reads return what the tables
  hold, a failed statement has no effect, and a token that was usable stays usable until its
  own revocation succeeds.
\<close>

section \<open>Calm worlds\<close>

definition calm :: "world \<Rightarrow> bool" where
  "calm w \<longleftrightarrow> (\<forall>f. Interfere f \<notin> set (w_sched w))"

lemma calm_rely: "calm w \<Longrightarrow> rely r w"
  by (simp add: calm_def rely_def)

text \<open>Equality of databases is a preorder too: it bounds the programs that only read.\<close>

interpretation unchanged: db_order "(=)"
  by unfold_locales auto

lemma calm_run:
  assumes "obeys r m" and "calm w" and "run_state m w = (x, w')"
  shows "r (w_db w) (w_db w')" and "calm w'"
proof -
  show "r (w_db w) (w_db w')" using obeysD [OF assms(1) calm_rely [OF assms(2)] assms(3)] .
  from assms(1,3) have "guar r w w'" by (auto simp: obeys_def state_io_rel_def dest: spec [of _ w])
  with assms(2) show "calm w'" by (auto simp: guar_def calm_def)
qed

lemma await_turn_calm: "\<forall>f. Interfere f \<notin> set s \<Longrightarrow> fst (snd (await_turn d s)) = d"
  by (induction d s rule: await_turn.induct) auto

lemma calm_pool_Get: "calm w \<Longrightarrow> run_state pool_Get w = (e, w') \<Longrightarrow> w_db w' = w_db w \<and> calm w'"
  using calm_run [OF unchanged.res_pool_Get] by metis

text \<open>A statement that fails has no effect; one that succeeds has exactly its own.\<close>

lemma run_Execute_cases:
  assumes "run_state (Execute stmt) w = (x, w')"
  obtains e where "x = Inl e" "w_db w' = w_db w"
  | y d where "x = Inr y" "stmt (w_db w) = Inr (y, d)" "w_db w' = d"
  using assms by (auto simp: Execute_def Let_def split: prod.splits if_splits sum.splits)

lemma calm_with_conn:
  assumes "calm w" and "run_state (with_conn body) w = (x, w')"
  obtains e where "x = Inl e" "w_db w' = w_db w"
  | w1 where "calm w1" "w_db w1 = w_db w" "run_state body w1 = (x, w')"
proof -
  obtain e w1 where g: "run_state pool_Get w = (e, w1)" by fastforce
  from calm_pool_Get [OF assms(1) g] have w1: "w_db w1 = w_db w" "calm w1" by auto
  show thesis
  proof (cases e)
    case None
    with g w1 assms(2) that(2) show ?thesis by (auto simp: with_conn_def)
  next
    case (Some err)
    with g w1 assms(2) that(1) show ?thesis by (auto simp: with_conn_def)
  qed
qed

lemma failed_revoke:
  assumes "calm w" and "run_state (revoke c a) w = (Inl e, w')"
  shows "w_db w' = w_db w"
  using assms(2) unfolding revoke_def
proof (rule calm_with_conn [OF assms(1)])
  fix w1
  assume w1: "w_db w1 = w_db w"
    and run: "run_state (Execute (sql_revoke (token_where c a)) \<bind>
      (\<lambda>r. ret (case r of Inl e \<Rightarrow> Inl (ErrSQL e) | Inr _ \<Rightarrow> Inr ()))) w1 = (Inl e, w')"
  obtain y w2 where ex: "run_state (Execute (sql_revoke (token_where c a))) w1 = (y, w2)" by fastforce
  from run ex have "\<exists>e1. y = Inl e1" and "w' = w2" by (auto split: sum.splits)
  with ex w1 show ?thesis by (elim run_Execute_cases) auto
qed auto

lemma calm_RefreshTokenByJTI:
  assumes "calm w" and "db_ok (w_db w)" and "run_state (store_RefreshTokenByJTI j) w = (Inr rec, w')"
  shows "token_of (w_db w) j = Some rec"
  using assms(3) unfolding store_RefreshTokenByJTI_def
proof (rule calm_with_conn [OF assms(1)])
  fix w1
  let ?q = "\<lambda>d. filter (\<lambda>t. tr_jti t = j) (refresh_tokens d)"
  assume w1: "w_db w1 = w_db w"
    and run: "run_state (Execute (select ?q) \<bind> (\<lambda>r. ret (case r of Inl e \<Rightarrow> Inl (ErrSQL e)
      | Inr rows \<Rightarrow> found_row (\<lambda>t. \<lparr>rt_JTI = j, rt_FamilyID = tr_family_id t, rt_AccountID = tr_account_id t,
          rt_IssuedAt = tr_issued_at t, rt_ExpiresAt = tr_expires_at t, rt_Revoked = (tr_revoked t \<noteq> 0)\<rparr>) rows))) w1 =
      (Inr rec, w')"
  obtain y w2 where ex: "run_state (Execute (select ?q)) w1 = (y, w2)" by fastforce
  from run [unfolded run_state_bind ex] obtain rows where y: "y = Inr rows"
    and found: "found_row (\<lambda>t. \<lparr>rt_JTI = j, rt_FamilyID = tr_family_id t, rt_AccountID = tr_account_id t,
          rt_IssuedAt = tr_issued_at t, rt_ExpiresAt = tr_expires_at t, rt_Revoked = (tr_revoked t \<noteq> 0)\<rparr>) rows = Inr rec"
    by (auto split: sum.splits)
  from ex y w1 have "rows = ?q (w_db w)" by (elim run_Execute_cases) auto
  with found show ?thesis
    using find_Some_mem [where P = "\<lambda>t. tr_jti t = j"]
    by (auto simp: filter_id_keys(5) [OF assms(2)] token_of_def token_of_row_def split: option.splits)
qed auto

section \<open>A usable token\<close>

definition usable :: "database \<Rightarrow> string \<Rightarrow> bool" where
  "usable d j \<longleftrightarrow> (\<exists>t \<in> set (refresh_tokens d). tr_jti t = j \<and> tr_revoked t = 0)"

definition keeps_usable :: "string \<Rightarrow> database \<Rightarrow> database \<Rightarrow> bool" where
  "keeps_usable j d d' \<longleftrightarrow> (usable d j \<longrightarrow> usable d' j)"

interpretation usable: db_order "keeps_usable j" for j
  by unfold_locales (auto simp: keeps_usable_def)

lemma usable_insert: "stmt_ok (keeps_usable j) (sql_insert_refresh_token jti f a i e)"
  by (auto simp: stmt_ok_def sql_insert_refresh_token_def keeps_usable_def usable_def Let_def split: if_splits)

lemma usable_issueRefresh: "obeys (keeps_usable j) (issueRefresh L s a fam)"
  unfolding issueRefresh_def store_CreateRefreshToken_def
  by (intro usable.obeys_or_return usable.obeys_NewTokenID usable.obeys_Issue usable.res_let usable.res_prod
      usable.res_with_conn usable.res_bind usable.res_Execute usable_insert usable.res_ret)

lemma usable_token_of: "db_ok d \<Longrightarrow> usable d j \<longleftrightarrow> (\<exists>t. token_of d j = Some t \<and> \<not> rt_Revoked t)"
  using find_key [OF db_okD(15), of d]
  by (auto simp: usable_def token_of_def token_of_row_def dest: find_Some_mem)

lemma failed_rotate:
  assumes "calm w" and "run_state (rotate L s a fam j) w = (Inl e, w')" and "usable (w_db w) j"
  shows "usable (w_db w') j"
proof -
  let ?acc = "IssueAccess L (srv_tokens s) (acc_ID a) (acc_Email a) (roleStrings (accountRoles a))"
  obtain x w1 where 1: "run_state ?acc w = (x, w1)" by fastforce
  obtain y w2 where 2: "run_state (issueRefresh L s (acc_ID a) fam) w1 = (y, w2)" by fastforce
  obtain z w3 where 3: "run_state (store_RevokeRefreshToken j) w2 = (z, w3)" by fastforce
  note s1 = calm_run [OF unchanged.obeys_Issue(1) assms(1) 1]
  note s2 = calm_run [OF usable_issueRefresh [of j] s1(2) 2]
  have u: "usable (w_db w1) j" "usable (w_db w2) j"
    using assms(3) s1(1) s2(1) by (simp_all add: keeps_usable_def)
  show ?thesis
  proof (cases x)
    case (Inl e1)
    with 1 assms(2) u show ?thesis by (simp add: rotate_def)
  next
    case x: (Inr p)
    show ?thesis
    proof (cases y)
      case (Inl e2)
      with x 1 2 assms(2) u show ?thesis by (simp add: rotate_def split: prod.splits)
    next
      case (Inr raw)
      with x 1 2 3 assms(2) have "z = Inl e" "w' = w3"
        by (auto simp: rotate_def split: prod.splits sum.splits)
      with failed_revoke [OF s2(2)] 3 u show ?thesis by (auto simp: store_RevokeRefreshToken_def)
    qed
  qed
qed

lemma failed_refresh:
  assumes "calm w" and "db_ok (w_db w)"
    and "run_state (RefreshToken_handler L s (Some raw)) w = (Inl e, w')"
    and "verified_refresh L (srv_tokens s) (w_now w) raw = Some c" and "usable (w_db w) (rc_JTI c)"
  shows "usable (w_db w') (rc_JTI c)"
proof -
  have raw: "raw \<noteq> []" using assms(3) by (auto simp: RefreshToken_handler_def)
  have tick: "calm (tick w)" "w_db (tick w) = w_db w" using assms(1) by (simp_all add: calm_def)
  obtain x w1 where 1: "run_state (store_RefreshTokenByJTI (rc_JTI c)) (tick w) = (x, w1)" by fastforce
  note s1 = calm_run [OF unchanged.obeys_RefreshTokenByJTI tick(1) 1]
  show ?thesis
  proof (cases x)
    case (Inl e1)
    with 1 s1 tick assms(3-5) raw show ?thesis
      by (auto simp: RefreshToken_handler_def split: if_splits)
  next
    case x: (Inr rec)
    from calm_RefreshTokenByJTI [OF tick(1)] 1 x assms(2) tick(2)
    have "token_of (w_db w) (rc_JTI c) = Some rec" by simp
    with assms(2,5) have live: "\<not> rt_Revoked rec" by (simp add: usable_token_of)
    obtain y w2 where 2: "run_state (store_AccountByID (rc_UserID c)) w1 = (y, w2)" by fastforce
    note s2 = calm_run [OF unchanged.obeys_AccountByID s1(2) 2]
    have same: "w_db w2 = w_db w" using s1(1) s2(1) tick(2) by simp
    show ?thesis
    proof (cases "\<exists>a. y = Inr a \<and> acc_IsActive a")
      case False
      with x live 1 2 same assms(3-5) raw show ?thesis
        by (cases y) (auto simp: RefreshToken_handler_def split: if_splits)
    next
      case True
      then obtain a where "y = Inr a" "acc_IsActive a" by blast
      with x live 1 2 assms(3,4) raw
      have "run_state (rotate L s a (rt_FamilyID rec) (rc_JTI c)) w2 = (Inl e, w')"
        by (auto simp: RefreshToken_handler_def)
      from failed_rotate [OF s2(2) this] assms(5) same show ?thesis by simp
    qed
  qed
qed

end
