(* ===== verification/GameProperties.thy ===== *)
theory GameProperties
  imports GameSpec
begin

text \<open>
  Properties of the game endpoints: who may change what, the lifecycle of a game, the
  visibility rule, and rosters.
\<close>

section \<open>The lifecycle of a game\<close>

text \<open>What an update may make of a game.\<close>

definition legal_change :: "bool \<Rightarrow> Game \<Rightarrow> Game \<Rightarrow> bool" where
  "legal_change isAdmin before after \<longleftrightarrow>
     game_ID after = game_ID before \<and> game_Code after = game_Code before \<and>
     (game_Status after = game_Status before \<or>
      statusIndex (game_Status after) > statusIndex (game_Status before) \<or>
      isAdmin \<and> (game_Status before = Archived \<or>
                 game_Status before = Paused \<and> game_Status after = Active)) \<and>
     (game_Status before = Archived \<longrightarrow>
        game_Name after = game_Name before \<and> game_Description after = game_Description before \<and>
        game_IsActive after = game_IsActive before \<and>
        (isAdmin \<or> game_Status after = game_Status before)) \<and>
     (\<not> isAdmin \<longrightarrow> game_IsActive after = game_IsActive before)"

lemma legal_refl [simp]: "legal_change ad x x"
  by (simp add: legal_change_def)

lemma plan_status_cases:
  assumes "plan_status ad gm cur req = Inr (Some s)"
  shows "(cur = Archived \<and> ad) \<or> (cur \<noteq> Archived \<and> statusIndex s > statusIndex cur \<and> (ad \<or> gm)) \<or>
    (cur = Paused \<and> s = Active \<and> ad)"
  using assms by (auto simp: plan_status_def Let_def split: option.splits if_splits)

lemma plan_visibility_admin: "plan_visibility ad game req = Inr (Some v) \<Longrightarrow> ad"
  by (auto simp: plan_visibility_def split: option.splits if_splits)

lemma plan_none:
  "plan_name ad gm game None = Inr None" "plan_description ad gm game None = Inr None"
  "plan_visibility ad game None = Inr None"
  by (simp_all add: plan_name_def plan_description_def plan_visibility_def)

lemma plan_game_parts:
  assumes "plan_game_update ad gm game body = (Inr upd :: 'a response + GameUpdate)"
  obtains st nm ds vs where
    "plan_status ad gm (game_Status game) (ugr_Status body) = (Inr st :: 'a response + string option)"
    "plan_name ad gm game (ugr_Name body) = (Inr nm :: 'a response + string option)"
    "plan_description ad gm game (ugr_Description body) = (Inr ds :: 'a response + string option)"
    "plan_visibility ad game (ugr_IsActive body) = (Inr vs :: 'a response + bool option)"
    "upd = \<lparr>gu_Status = st, gu_Name = nm, gu_Description = ds, gu_IsActive = vs\<rparr>"
    "game_Status game = Archived \<Longrightarrow> nm = None \<and> ds = None \<and> vs = None"
  using assms by (auto simp: plan_game_update_def Let_def plan_none split: if_splits sum.splits)

lemma plan_game_legal:
  assumes plan: "plan_game_update ad gm game body = (Inr upd :: 'a response + GameUpdate)"
  shows "legal_change ad game (merge_game upd game)"
proof -
  from plan obtain st nm ds vs where parts:
    "plan_status ad gm (game_Status game) (ugr_Status body) = (Inr st :: 'a response + string option)"
    "plan_visibility ad game (ugr_IsActive body) = (Inr vs :: 'a response + bool option)"
    and upd: "upd = \<lparr>gu_Status = st, gu_Name = nm, gu_Description = ds, gu_IsActive = vs\<rparr>"
    and frozen: "game_Status game = Archived \<Longrightarrow> nm = None \<and> ds = None \<and> vs = None"
    by (rule plan_game_parts) blast
  have "vs = Some v \<Longrightarrow> ad" for v using plan_visibility_admin parts(2) by blast
  moreover have "st = Some s \<Longrightarrow> (game_Status game = Archived \<and> ad) \<or>
      (game_Status game \<noteq> Archived \<and> statusIndex s > statusIndex (game_Status game)) \<or>
      (game_Status game = Paused \<and> s = Active \<and> ad)" for s
    using plan_status_cases parts(1) by blast
  moreover have "Paused \<noteq> Archived" by (simp add: status_defs)
  ultimately show ?thesis
    using frozen unfolding upd legal_change_def merge_game_def
    by (cases st; cases vs) auto
qed

lemma plan_game_standing:
  assumes plan: "plan_game_update False False game body = (Inr upd :: 'a response + GameUpdate)"
  shows "game_update_empty upd"
proof -
  from plan obtain st nm ds vs where parts:
    "plan_status False False (game_Status game) (ugr_Status body) = (Inr st :: 'a response + string option)"
    "plan_name False False game (ugr_Name body) = (Inr nm :: 'a response + string option)"
    "plan_description False False game (ugr_Description body) = (Inr ds :: 'a response + string option)"
    "plan_visibility False game (ugr_IsActive body) = (Inr vs :: 'a response + bool option)"
    and upd: "upd = \<lparr>gu_Status = st, gu_Name = nm, gu_Description = ds, gu_IsActive = vs\<rparr>"
    by (rule plan_game_parts) blast
  have "st \<noteq> Some s" for s using plan_status_cases parts(1) by blast
  moreover have "vs \<noteq> Some v" for v using plan_visibility_admin parts(4) by blast
  moreover have "nm = None"
    using parts(2) by (auto simp: plan_name_def Let_def split: option.splits if_splits)
  moreover have "ds = None"
    using parts(3) by (auto simp: plan_description_def split: option.splits if_splits)
  ultimately show ?thesis by (cases st; cases vs) (auto simp: upd game_update_empty_def)
qed

lemma UpdateGame_effect:
  assumes "quiet w" and "db_ok (w_db w)" and "run_state (UpdateGame ctx g req) w = (res, w')"
  shows "w' = w \<or> (\<exists>b a game upd. req = Some b \<and> caller (w_db w) ctx = Inr a \<and>
    seen_game (w_db w) a g = Some game \<and>
    plan_game_update (acc_IsAdmin a) (gm_standing (w_db w) a g) game b =
      (Inr upd :: ApiGame response + GameUpdate) \<and> \<not> game_update_empty upd \<and>
    w' = w\<lparr>w_db := update_game g upd (w_db w)\<rparr>)"
  using assms
  by (cases req) (auto simp: run_UpdateGame_handler run_UpdateGame_nil split: sum.splits if_splits option.splits)

section \<open>The visibility rule\<close>

lemma concat_roles:
  assumes ok: "db_ok d"
  shows "[g. g \<leftarrow> gs, r \<leftarrow> game_account_role d,
            rr_game_id r = gr_id g, rr_account_id r = a \<and> gr_is_active g = 1] =
    filter (\<lambda>g. member_of d (gr_id g) a \<noteq> None \<and> gr_is_active g = 1) gs"
proof (induction gs)
  case (Cons g gs)
  have "concat (map (\<lambda>r. if rr_game_id r = gr_id g
            then if rr_account_id r = a \<and> gr_is_active g = 1 then [g] else [] else [])
          (game_account_role d)) =
        replicate (length (filter (\<lambda>r. role_at (gr_id g) a r \<and> gr_is_active g = 1)
          (game_account_role d))) g"
    unfolding concat_const [symmetric]
    by (intro arg_cong [of _ _ concat] map_cong) (auto simp: role_at_def)
  also have "\<dots> = (if member_of d (gr_id g) a \<noteq> None \<and> gr_is_active g = 1 then [g] else [])"
    using one_role [OF ok, of "gr_id g" a] by (cases "gr_is_active g = 1") (simp_all split: if_splits)
  finally show ?case using Cons by simp
qed simp

lemma game_of_row:
  assumes "db_ok d" and "r \<in> set (games d)"
  shows "game_of d (gr_id r) = Some (scanGame r)"
  using find_key [OF game_rows.rowids_ok_inj [OF db_okD(4) [OF assms(1)]] assms(2)]
  by (simp add: game_of_def)

lemma list_games_rows:
  assumes ok: "db_ok d"
  shows "sql_list_games a isAdmin st d = filter (\<lambda>r. visible d a isAdmin (gr_id r) \<and>
    (case st of None \<Rightarrow> True | Some s \<Rightarrow> gr_status r = s)) (games d)"
proof -
  let ?st = "\<lambda>g. case st of None \<Rightarrow> True | Some s \<Rightarrow> gr_status g = s"
  have "filter ?st (if isAdmin then games d else filter (\<lambda>g. member_of d (gr_id g) a \<noteq> None \<and> gr_is_active g = 1) (games d)) =
      filter (\<lambda>r. visible d a isAdmin (gr_id r) \<and> ?st r) (games d)"
    using game_of_row [OF ok] active_flag [OF ok]
    by (auto simp: visible_def scanGame_def intro!: filter_cong)
  then show ?thesis
    unfolding sql_list_games_def concat_roles [OF ok]
    by (simp add: game_rows.sort_rowid_filter [OF db_okD(4) [OF ok]])
qed

lemma run_ListGames [simp]:
  assumes "quiet w" and "db_ok (w_db w)"
  shows "run_state (ListGames ctx st) w =
    (case caller (w_db w) ctx of Inl m \<Rightarrow> (Inr (listGamesUnauthorized m), w)
     | Inr a \<Rightarrow> (Inr (OK200 (map (apiGame \<circ> scanGame) (filter (\<lambda>r.
         visible (w_db w) (acc_ID a) (acc_IsAdmin a) (gr_id r) \<and>
         (case st of None \<Rightarrow> True | Some s \<Rightarrow> gr_status r = s)) (games (w_db w))))), w))"
  using assms
  by (cases st) (auto simp: ListGames_def gameStatusFilter_def store_ListGames_def list_games_rows
      split: sum.split)

lemma run_GetGame [simp]:
  assumes "quiet w" and "db_ok (w_db w)"
  shows "run_state (GetGame ctx g) w =
    (case caller (w_db w) ctx of Inl m \<Rightarrow> (Inr (getGameUnauthorized m), w)
     | Inr a \<Rightarrow> (case seen_game (w_db w) a g of
         None \<Rightarrow> (Inr (refuse NotFound404 ''not_found'' ''game not found''), w)
       | Some x \<Rightarrow> (Inr (OK200 (apiGame x)), w)))"
  using assms by (auto simp: GetGame_def seen_game_def or_missing_def split: sum.split option.split)

lemma run_ListGameMembers [simp]:
  assumes "quiet w" and "db_ok (w_db w)"
  shows "run_state (ListGameMembers ctx g) w =
    (case caller (w_db w) ctx of Inl m \<Rightarrow> (Inr (listMembersUnauthorized m), w)
     | Inr a \<Rightarrow> (case seen_game (w_db w) a g of
         None \<Rightarrow> (Inr (refuse NotFound404 ''not_found'' ''game not found''), w)
       | Some x \<Rightarrow> (Inr (OK200 (map (apiMember \<circ> member_of_row)
           (filter (\<lambda>r. rr_game_id r = g) (game_account_role (w_db w))))), w)))"
  using assms
  by (auto simp: ListGameMembers_def seen_game_def or_missing_def store_MembersForGame_def
      role_rows.sort_rowid_filter [OF db_okD(7)] split: sum.split option.split)

section \<open>Rosters\<close>

lemma AddGameMember_effect:
  assumes "quiet w" and "db_ok (w_db w)" and "run_state (AddGameMember ctx g req) w = (res, w')"
  shows "(w' = w \<and> (\<forall>x. res \<noteq> Inr (Created201 x))) \<or> (\<exists>b a h game. req = Some b \<and> caller (w_db w) ctx = Inr a \<and>
    requested_handle (amr_Handle b) = (Inr h :: ApiMember response + string) \<and>
    seen_game (w_db w) a g = Some game \<and> gm_standing (w_db w) a g \<and>
    addMemberStatusGate (game_Status game) (flag (amr_IsGm b)) (acc_IsAdmin a) = [] \<and>
    account_of (w_db w) (amr_AccountId b) \<noteq> None \<and>
    member_of (w_db w) g (amr_AccountId b) = None \<and>
    \<not> handle_used (w_db w) g (default_handle (w_db w) g h) \<and>
    res = Inr (Created201 (apiMember (new_member (amr_AccountId b) (default_handle (w_db w) g h) (flag (amr_IsGm b))))) \<and>
    w' = w\<lparr>w_db := add_member g (amr_AccountId b) (default_handle (w_db w) g h) (flag (amr_IsGm b)) (w_db w)\<rparr>)"
proof (cases req)
  case None
  with assms show ?thesis
    by (auto simp: AddGameMember_def addMemberBadRequest_def addMemberUnauthorized_def split: sum.splits)
next
  case (Some b)
  show ?thesis
  proof (cases "\<exists>x. res = Inr (Created201 x)")
    case True
    with assms Some show ?thesis
      by (auto simp: run_AddGameMember_handler Let_def add_answer_def addMemberUnauthorized_def
          addMemberBadRequest_def addMemberForbidden_def addMemberNotFound_def addMemberConflict_def
          requested_handle_def split: sum.splits if_splits option.splits)
  next
    case False
    with assms Some show ?thesis
      by (auto simp: run_AddGameMember_handler Let_def add_answer_def
          split: sum.splits if_splits option.splits)
  qed
qed

lemma UpdateGameMember_effect:
  assumes "quiet w" and "db_ok (w_db w)" and "run_state (UpdateGameMember ctx g t req) w = (res, w')"
  shows "w' = w \<or> (\<exists>b a game m upd. req = Some b \<and> caller (w_db w) ctx = Inr a \<and>
    seen_game (w_db w) a g = Some game \<and> member_of (w_db w) g t = Some m \<and>
    game_Status game \<noteq> Archived \<and>
    plan_member_update (standing_of (w_db w) a g t game) m b = (Inr upd :: ApiMember response + MemberUpdate) \<and>
    \<not> rename_blocked (w_db w) g t upd m \<and>
    w' = w\<lparr>w_db := update_member g t upd (w_db w)\<rparr>)"
proof (cases req)
  case None
  with assms show ?thesis by (auto simp: UpdateGameMember_def split: sum.splits)
next
  case (Some b)
  with assms show ?thesis
    by (auto simp: run_UpdateGameMember_handler roster_answer_def split: sum.splits if_splits option.splits)
qed

text \<open>What a caller without GM standing can do to a member.\<close>

definition player_change :: "bool \<Rightarrow> bool \<Rightarrow> Member \<Rightarrow> Member \<Rightarrow> bool" where
  "player_change isSelf recruiting before after \<longleftrightarrow>
     after = before \<or>
     (isSelf \<and> mem_AccountID after = mem_AccountID before \<and> mem_IsGM after = mem_IsGM before \<and>
      (mem_IsActive after \<longrightarrow> mem_IsActive before) \<and>
      (mem_Handle after \<noteq> mem_Handle before \<longrightarrow>
         recruiting \<and> \<not> HasPrefix (mem_Handle after) ''player_'' \<and> ValidHandle (mem_Handle after)))"

lemma plan_active_player:
  assumes "plan_active st m req = Inr (Some v)" and "\<not> st_isAdmin st" and "\<not> st_activeGM st"
  shows "st_isSelf st \<and> \<not> v \<and> mem_IsActive m"
  using assms by (auto simp: plan_active_def split: option.splits if_splits)

lemma plan_gm_player:
  "plan_gm st m req = Inr (Some v) \<Longrightarrow> st_isAdmin st \<or> st_activeGM st"
  by (auto simp: plan_gm_def split: option.splits if_splits)

lemma plan_handle_player:
  assumes "plan_handle st m req = Inr (Some h)" and "\<not> st_activeGM st"
  shows "st_isSelf st \<and> st_recruiting st \<and> \<not> HasPrefix h ''player_'' \<and> ValidHandle h"
  using assms by (auto simp: plan_handle_def Let_def split: option.splits if_splits)

lemma plan_member_player:
  assumes plan: "plan_member_update st m b = (Inr upd :: 'a response + MemberUpdate)"
    and "\<not> st_isAdmin st" and "\<not> st_activeGM st"
  shows "player_change (st_isSelf st) (st_recruiting st) m (merge_member upd m)"
proof -
  from plan obtain a gm h where
    parts: "plan_active st m (umr_IsActive b) = (Inr a :: 'a response + bool option)"
      "plan_gm st m (umr_IsGm b) = (Inr gm :: 'a response + bool option)"
      "plan_handle st m (umr_Handle b) = (Inr h :: 'a response + string option)"
    and upd: "upd = \<lparr>mu_IsActive = a, mu_IsGM = gm, mu_Handle = h\<rparr>"
    by (auto simp: plan_member_update_def split: sum.splits)
  have "gm = None" using plan_gm_player parts(2) assms(2,3) by (cases gm) auto
  moreover have "a = Some v \<Longrightarrow> st_isSelf st \<and> \<not> v" for v
    using plan_active_player parts(1) assms(2,3) by blast
  moreover have "h = Some s \<Longrightarrow> st_isSelf st \<and> st_recruiting st \<and> \<not> HasPrefix s ''player_'' \<and> ValidHandle s" for s
    using plan_handle_player parts(3) assms(3) by blast
  ultimately show ?thesis
    unfolding upd player_change_def merge_member_def by (cases a; cases h) auto
qed

end
