(* ===== verification/Samples.thy ===== *)
theory Samples
  imports Faults GameProperties
begin

text \<open>
  Concrete inputs for the witnesses: a small server with an admin, a game master, a player and
  an inactive account; two games, one of them hidden; a live and a revoked refresh token; and
  packages given by a table of signed tokens, which satisfy \<open>jwt_ok\<close> and \<open>bcrypt_ok\<close>.
\<close>

definition sample_db :: database where
  "sample_db = \<lparr>
     accounts = [
       \<lparr>ar_id = 1, ar_email = ''root@x'', ar_is_admin = 1, ar_is_active = 1, ar_hashed_secret = ''adminpass''\<rparr>,
       \<lparr>ar_id = 2, ar_email = ''gm@x'', ar_is_admin = 0, ar_is_active = 1, ar_hashed_secret = ''gmpassword''\<rparr>,
       \<lparr>ar_id = 3, ar_email = ''pl@x'', ar_is_admin = 0, ar_is_active = 1, ar_hashed_secret = ''plpassword''\<rparr>,
       \<lparr>ar_id = 4, ar_email = ''off@x'', ar_is_admin = 0, ar_is_active = 0, ar_hashed_secret = ''offpassword''\<rparr>],
     games = [
       \<lparr>gr_id = 1, gr_code = ''ALPHA'', gr_is_active = 1, gr_name = ''Alpha'', gr_status = ''recruiting'',
         gr_description = None\<rparr>,
       \<lparr>gr_id = 2, gr_code = ''BETA'', gr_is_active = 0, gr_name = ''Beta'', gr_status = ''active'',
         gr_description = None\<rparr>],
     game_account_role = [
       \<lparr>rr_id = 1, rr_game_id = 1, rr_account_id = 2, rr_handle = ''GM'', rr_is_gm = 1, rr_is_active = 1\<rparr>,
       \<lparr>rr_id = 2, rr_game_id = 1, rr_account_id = 3, rr_handle = ''zed'', rr_is_gm = 0, rr_is_active = 1\<rparr>],
     refresh_tokens = [
       \<lparr>tr_id = 1, tr_jti = ''j1'', tr_family_id = ''f1'', tr_account_id = 3, tr_issued_at = 100,
         tr_expires_at = 1000, tr_revoked = 0\<rparr>,
       \<lparr>tr_id = 2, tr_jti = ''j2'', tr_family_id = ''f1'', tr_account_id = 3, tr_issued_at = 50,
         tr_expires_at = 1000, tr_revoked = 1\<rparr>],
     user_version = 7\<rparr>"

lemma sample_ok [simp]: "db_ok sample_db"
  by code_simp

text \<open>A table of tokens: claims, key and the signed form.\<close>

type_synonym token_table = "(tokenClaims \<times> string \<times> string) list"

definition table_sign :: "token_table \<Rightarrow> tokenClaims \<Rightarrow> string \<Rightarrow> string option" where
  "table_sign tab c k = map_option (snd \<circ> snd) (find (\<lambda>(c', k', _). c' = c \<and> k' = k) tab)"

definition table_parse ::
  "token_table \<Rightarrow> string \<Rightarrow> (signing_method \<Rightarrow> string option) \<Rightarrow> parse_options \<Rightarrow> int \<Rightarrow> tokenClaims option" where
  "table_parse tab raw kf opts now = (case find (\<lambda>(_, _, r). r = raw) tab of
     None \<Rightarrow> None
   | Some (c, k, _) \<Rightarrow>
       if claims_valid opts now c \<and> ''HS256'' \<in> set (opt_ValidMethods opts) \<and>
          kf (SigningMethodHMAC ''HS256'') = Some k then Some c else None)"

definition table_libs :: "token_table \<Rightarrow> libs" where
  "table_libs tab = \<lparr>semver_Commit = ''dev'', semver_Short = (\<lambda>_. ''0.5.0''), semver_String = (\<lambda>_. ''0.5.0+dev''),
     NewNumericDate = (\<lambda>t. t - t mod 1000000000), SignedString = table_sign tab,
     ParseWithClaims = table_parse tab,
     GenerateFromPassword = (\<lambda>pw salt. if 72 < length pw then None else Some pw),
     CompareHashAndPassword = (\<lambda>h pw. h = pw), unicode_lower = (\<lambda>s. s)\<rparr>"

lemma table_jwt_ok:
  assumes "distinct (map (snd \<circ> snd) tab)" and "[] \<notin> set (map (snd \<circ> snd) tab)"
  shows "jwt_ok (table_libs tab)"
proof -
  have row: "find (\<lambda>(_, _, r). r = raw) tab = Some (c, k, raw)"
    if "table_sign tab c k = Some raw" for c k raw
  proof -
    from that obtain z where f: "find (\<lambda>(c', k', _). c' = c \<and> k' = k) tab = Some z" and "snd (snd z) = raw"
      by (auto simp: table_sign_def)
    with find_Some_mem [OF f] have "z = (c, k, raw)" "z \<in> set tab" by (auto split: prod.splits)
    with find_key [OF assms(1), of z] show ?thesis by (simp add: case_prod_beta')
  qed
  show ?thesis
    unfolding jwt_ok_def
  proof (intro conjI allI impI)
    fix c k raw kf opts now c'
    assume s: "wire_ok c \<and> SignedString (table_libs tab) c k = Some raw"
    then have f: "find (\<lambda>(_, _, r). r = raw) tab = Some (c, k, raw)"
      by (intro row) (simp add: table_libs_def)
    then show "ParseWithClaims (table_libs tab) raw kf opts now = Some c' \<Longrightarrow> c' = c"
      and "claims_valid opts now c \<and> ''HS256'' \<in> set (opt_ValidMethods opts) \<and>
        kf (SigningMethodHMAC ''HS256'') = Some k \<Longrightarrow>
        ParseWithClaims (table_libs tab) raw kf opts now = Some c"
      by (auto simp: table_libs_def table_parse_def split: if_splits)
  next
    fix c k
    show "SignedString (table_libs tab) c k \<noteq> Some []"
    proof
      assume "SignedString (table_libs tab) c k = Some []"
      then have "find (\<lambda>(_, _, r). r = []) tab = Some (c, k, [])"
        by (intro row) (simp add: table_libs_def)
      from find_Some_mem [OF this] assms(2) show False by force
    qed
  qed (auto simp: table_libs_def table_parse_def split: option.splits prod.splits if_splits)
qed

lemma table_bcrypt_ok: "bcrypt_ok (table_libs tab)"
  by (auto simp: bcrypt_ok_def table_libs_def split: if_splits)

section \<open>A running server\<close>

definition sample_tokens :: TokenService where
  "sample_tokens = \<lparr>ts_secret = ''key'', ts_accessTTL = 900000000000, ts_refreshTTL = 3600000000000\<rparr>"

definition sample_server :: Server where
  "sample_server = \<lparr>srv_tokens = sample_tokens, srv_shutdown = True, dummyHash = ''dummy''\<rparr>"

definition sample_world :: "database \<Rightarrow> world" where
  "sample_world d = \<lparr>w_db = d, w_sched = [], w_now = 200000000000, w_later = [],
     w_entropy = [Some ''AAAAAAAAAAAAAAAA'', Some ''BBBBBBBBBBBBBBBB'', Some ''CCCCCCCCCCCCCCCC''],
     w_compares = 0, w_shutdowns = 0\<rparr>"

lemma sample_world_simps [simp]:
  "quiet (sample_world d)" "w_db (sample_world d) = d" "w_now (sample_world d) = 200000000000"
  "w_sched (sample_world d) = []"
  by (simp_all add: sample_world_def quiet_def)

definition sample_claims :: "int \<Rightarrow> ctx" where
  "sample_claims i = Some \<lparr>cl_Subject = FormatInt i, cl_UserID = i, cl_Username = [], cl_Roles = [],
     cl_ExpiresAt = None, cl_Actor = 0\<rparr>"

definition sample_account :: "int \<Rightarrow> string \<Rightarrow> bool \<Rightarrow> Account" where
  "sample_account i e adm = \<lparr>acc_ID = i, acc_Email = e, acc_IsAdmin = adm, acc_IsActive = True\<rparr>"

lemma sample_callers [simp]:
  "caller sample_db (sample_claims 1) = Inr (sample_account 1 ''root@x'' True)"
  "caller sample_db (sample_claims 2) = Inr (sample_account 2 ''gm@x'' False)"
  "caller sample_db (sample_claims 3) = Inr (sample_account 3 ''pl@x'' False)"
  by code_simp+

definition sample_game :: Game where
  "sample_game = \<lparr>game_ID = 1, game_Code = ''ALPHA'', game_Name = ''Alpha'', game_Status = ''recruiting'',
     game_Description = None, game_IsActive = True\<rparr>"

definition sample_member :: "int \<Rightarrow> string \<Rightarrow> bool \<Rightarrow> Member" where
  "sample_member a h gm = \<lparr>mem_AccountID = a, mem_Handle = h, mem_IsGM = gm, mem_IsActive = True\<rparr>"

definition sample_token :: "string \<Rightarrow> int \<Rightarrow> bool \<Rightarrow> RefreshToken" where
  "sample_token j iss revoked = \<lparr>rt_JTI = j, rt_FamilyID = ''f1'', rt_AccountID = 3, rt_IssuedAt = iss,
     rt_ExpiresAt = 1000, rt_Revoked = revoked\<rparr>"

lemma sample_lookups [simp]:
  "game_of sample_db 1 = Some sample_game"
  "member_of sample_db 1 1 = None"
  "member_of sample_db 1 2 = Some (sample_member 2 ''GM'' True)"
  "member_of sample_db 1 3 = Some (sample_member 3 ''zed'' False)"
  "token_of sample_db ''j1'' = Some (sample_token ''j1'' 100 False)"
  "token_of sample_db ''j2'' = Some (sample_token ''j2'' 50 True)"
  "account_of sample_db 3 = Some (sample_account 3 ''pl@x'' False)"
  by code_simp+

text \<open>The table holds every token the sample server signs or is shown.\<close>

definition jti_A :: string where "jti_A = ''41414141414141414141414141414141''"
definition jti_B :: string where "jti_B = ''42424242424242424242424242424242''"

definition signed_at :: int where "signed_at = 200000000000"

definition base_libs :: libs where
  "base_libs = table_libs []"

definition sample_table :: token_table where
  "sample_table =
     [(access_claims base_libs sample_tokens (sample_account 3 ''pl@x'' False) signed_at, ''key'', ''access3''),
      (refresh_claims base_libs sample_tokens 3 ''j1'' ''f1'' signed_at, ''key'', ''refresh-j1''),
      (refresh_claims base_libs sample_tokens 3 ''j2'' ''f1'' signed_at, ''key'', ''refresh-j2''),
      (refresh_claims base_libs sample_tokens 3 jti_A ''f1'' signed_at, ''key'', ''refresh-A''),
      (refresh_claims base_libs sample_tokens 3 jti_B ''f1'' signed_at, ''key'', ''refresh-B''),
      (refresh_claims base_libs sample_tokens 3 jti_B jti_A signed_at,
        ''key'', ''refresh-AB'')]"

definition sample_libs :: libs where
  "sample_libs = table_libs sample_table"

lemma sample_libs_ok: "jwt_ok sample_libs" "bcrypt_ok sample_libs"
  by (simp_all add: sample_libs_def table_bcrypt_ok table_jwt_ok sample_table_def)

section \<open>Running a handler on a sample\<close>

lemma result_pair: "fst p = x \<Longrightarrow> p = (x, snd p)"
  by (cases p) simp

definition busy_world :: world where
  "busy_world = (sample_world sample_db)\<lparr>w_sched := [Fine, Interfere (revoke_where (\<lambda>_. True)), Fault, Fine, Fault]\<rparr>"

definition add_root :: request where
  "add_root = Req_AddGameMember 1 (Some \<lparr>amr_AccountId = 1, amr_Handle = None, amr_IsGm = None\<rparr>)"

end
