(* ===== verification/GameTheorems.thy ===== *)
theory GameTheorems
  imports Samples
begin

text \<open>
  The properties of the game endpoints: the lifecycle of a game, who may change what, rosters,
  and visibility.
\<close>

section \<open>Games\<close>

text \<open>C4. Lifecycle. After an UpdateGame request every game is what it was or a legal change of
  it: the status only advances along draft, recruiting, active, paused, complete, archived,
  except that an admin may un-pause a game or take it out of archived; an archived game keeps
  its name, description and visibility, and changes at all only by an admin's status change;
  the admin hide flag changes only by an admin; id and code never change.\<close>

theorem UpdateGame_lifecycle:
  assumes "quiet w" and "db_ok (w_db w)" and "run_state (UpdateGame ctx g req) w = (res, w')"
    and "caller (w_db w) ctx = Inr a" and "game_of (w_db w) i = Some before"
  shows "\<exists>after. game_of (w_db w') i = Some after \<and> legal_change (acc_IsAdmin a) before after"
proof -
  from UpdateGame_effect [OF assms(1-3)] consider "w' = w" |
    b game upd where "seen_game (w_db w) a g = Some game"
      "plan_game_update (acc_IsAdmin a) (gm_standing (w_db w) a g) game b =
        (Inr upd :: ApiGame response + GameUpdate)"
      "w' = w\<lparr>w_db := update_game g upd (w_db w)\<rparr>"
    using assms(4) by auto
  then show ?thesis
  proof cases
    case 1
    with assms(5) show ?thesis by simp
  next
    case (2 b game upd)
    then have "i = g \<Longrightarrow> before = game" using seen_gameD assms(5) by fastforce
    with 2 assms(5) plan_game_legal [OF 2(2)] show ?thesis by auto
  qed
qed

definition to_active :: UpdateGameRequest where
  "to_active = \<lparr>ugr_Status = Some ''active'', ugr_Name = Some '' Omega '', ugr_Description = None, ugr_IsActive = None\<rparr>"

theorem UpdateGame_lifecycle_witness:
  "\<exists>after. game_of (w_db (snd (run_state (UpdateGame (sample_claims 2) 1 (Some to_active))
      (sample_world sample_db)))) 1 = Some after \<and> legal_change False sample_game after"
  using UpdateGame_lifecycle [where w = "sample_world sample_db" and ctx = "sample_claims 2" and g = 1
      and req = "Some to_active" and a = "sample_account 2 ''gm@x'' False" and i = 1,
      OF _ _ prod.collapse [symmetric]]
  by (simp add: sample_account_def sample_callers(2) [unfolded sample_account_def])

text \<open>C5. Authority. A request by a caller who is neither an admin nor an active game master of
  the game changes nothing through UpdateGame and AddGameMember.\<close>

theorem game_changes_need_standing:
  assumes "quiet w" and "db_ok (w_db w)"
    and "\<And>a. caller (w_db w) ctx = Inr a \<Longrightarrow> \<not> gm_standing (w_db w) a g"
  shows "snd (run_state (UpdateGame ctx g req) w) = w \<and> snd (run_state (AddGameMember ctx g req') w) = w"
proof -
  have standing: "\<not> acc_IsAdmin a" if "\<not> gm_standing d a g" for d a
    using that by (simp add: gm_standing_def)
  have "snd (run_state (UpdateGame ctx g req) w) = w"
    using UpdateGame_effect [OF assms(1,2) prod.collapse [symmetric], of ctx g req]
      assms(3) standing plan_game_standing by fastforce
  moreover have "snd (run_state (AddGameMember ctx g req') w) = w"
    using AddGameMember_effect [OF assms(1,2) prod.collapse [symmetric], of ctx g req'] assms(3) by blast
  ultimately show ?thesis ..
qed

theorem game_changes_need_standing_witness:
  "snd (run_state (UpdateGame (sample_claims 3) 1 (Some to_active)) (sample_world sample_db)) =
     sample_world sample_db"
  by (rule conjunct1 [OF game_changes_need_standing [where req' = None]])
    (auto simp: gm_standing_def sample_account_def sample_member_def
      sample_callers(3) [unfolded sample_account_def])

text \<open>C6. Adding a member. When AddGameMember answers 201, the caller was an admin or an active
  game master who can see the game; the game was not archived, and was recruiting unless a GM
  is added or the caller is an admin; the account exists and had no membership; the handle is
  the trimmed one requested or player_N for the N-th member, satisfies the handle rule and was
  free in this game; and the roster gains exactly this active membership.\<close>

theorem AddGameMember_adds:
  assumes "quiet w" and "db_ok (w_db w)" and "run_state (AddGameMember ctx g req) w = (Inr (Created201 x), w')"
  shows "\<exists>b a game. req = Some b \<and> caller (w_db w) ctx = Inr a \<and> gm_standing (w_db w) a g \<and>
    seen_game (w_db w) a g = Some game \<and> game_Status game \<noteq> Archived \<and>
    (flag (amr_IsGm b) \<or> acc_IsAdmin a \<or> game_Status game = Recruiting) \<and>
    account_of (w_db w) (amr_AccountId b) \<noteq> None \<and> member_of (w_db w) g (amr_AccountId b) = None \<and>
    am_Handle x = (case amr_Handle b of Some h \<Rightarrow> TrimSpace h
      | None \<Rightarrow> ''player_'' @ FormatInt (int (count_members (w_db w) g) + 1)) \<and>
    handle_check (am_Handle x) \<and> \<not> handle_used (w_db w) g (am_Handle x) \<and>
    (\<forall>g' a'. member_of (w_db w') g' a' = (if g' = g \<and> a' = amr_AccountId b
       then Some (new_member a' (am_Handle x) (flag (amr_IsGm b))) else member_of (w_db w) g' a'))"
proof -
  from AddGameMember_effect [OF assms] obtain b a h game where e: "req = Some b"
    "caller (w_db w) ctx = Inr a" "requested_handle (amr_Handle b) = (Inr h :: ApiMember response + string)"
    "seen_game (w_db w) a g = Some game" "gm_standing (w_db w) a g"
    "addMemberStatusGate (game_Status game) (flag (amr_IsGm b)) (acc_IsAdmin a) = []"
    "account_of (w_db w) (amr_AccountId b) \<noteq> None" "member_of (w_db w) g (amr_AccountId b) = None"
    "\<not> handle_used (w_db w) g (default_handle (w_db w) g h)"
    "x = apiMember (new_member (amr_AccountId b) (default_handle (w_db w) g h) (flag (amr_IsGm b)))"
    "w' = w\<lparr>w_db := add_member g (amr_AccountId b) (default_handle (w_db w) g h) (flag (amr_IsGm b)) (w_db w)\<rparr>"
    by auto
  have handle: "am_Handle x = default_handle (w_db w) g h"
    by (simp add: e(10) apiMember_def new_member_def)
  have status: "game_Status game \<noteq> Archived \<and> (flag (amr_IsGm b) \<or> acc_IsAdmin a \<or> game_Status game = Recruiting)"
    using e(6) by (auto simp: addMemberStatusGate_def split: if_splits)
  have asked: "default_handle (w_db w) g h = (case amr_Handle b of Some t \<Rightarrow> TrimSpace t
      | None \<Rightarrow> ''player_'' @ FormatInt (int (count_members (w_db w) g) + 1))"
    using e(3) by (auto simp: requested_handle_def default_handle_def Let_def ValidHandle_iff
        split: option.splits if_splits)
  have members: "\<forall>g' a'. member_of (w_db w') g' a' = (if g' = g \<and> a' = amr_AccountId b
       then Some (new_member a' (am_Handle x) (flag (amr_IsGm b))) else member_of (w_db w) g' a')"
    using e(8) by (simp add: e(11) handle)
  show ?thesis
    using e(1,2,4,5,7,8,9) status asked members default_handle_check [OF requested_handle_check [OF e(3)]]
    unfolding handle by blast
qed

definition add_inactive :: "AddMemberRequest option" where
  "add_inactive = Some \<lparr>amr_AccountId = 4, amr_Handle = None, amr_IsGm = None\<rparr>"

lemma sample_add: "fst (run_state (AddGameMember (sample_claims 2) 1 add_inactive) (sample_world sample_db)) =
    Inr (Created201 \<lparr>am_AccountId = 4, am_Handle = ''player_3'', am_IsGm = False, am_IsActive = True\<rparr>)"
  by code_simp

theorem AddGameMember_adds_witness:
  "\<exists>b. add_inactive = Some b \<and> handle_check ''player_3'' \<and> \<not> handle_used sample_db 1 ''player_3'' \<and>
    member_of (w_db (snd (run_state (AddGameMember (sample_claims 2) 1 add_inactive) (sample_world sample_db)))) 1 4 =
      Some (new_member 4 ''player_3'' False)"
  using AddGameMember_adds [where w = "sample_world sample_db" and ctx = "sample_claims 2" and g = 1
      and req = add_inactive, OF _ _ result_pair [OF sample_add]]
  by (auto simp: add_inactive_def flag_def)

text \<open>C7. Changing a member. After an UpdateGameMember request every membership still exists, no
  game master is demoted, nothing changes in an archived game, and a caller without GM standing
  has at most dropped their own membership or renamed themselves, the latter only while the
  game is recruiting, to a valid handle that does not begin with player_.\<close>

theorem UpdateGameMember_rules:
  assumes "quiet w" and "db_ok (w_db w)" and "run_state (UpdateGameMember ctx g t req) w = (res, w')"
    and "caller (w_db w) ctx = Inr a" and "member_of (w_db w) g' t' = Some before"
    and "game_of (w_db w) g' = Some game"
  shows "\<exists>after. member_of (w_db w') g' t' = Some after \<and>
    (mem_IsGM before \<longrightarrow> mem_IsGM after) \<and>
    (game_Status game = Archived \<longrightarrow> after = before) \<and>
    (gm_standing (w_db w) a g' \<or>
     player_change (acc_ID a = t') (game_Status game = Recruiting) before after)"
proof -
  from UpdateGameMember_effect [OF assms(1-3)] consider "w' = w" | "w' \<noteq> w" "g' \<noteq> g \<or> t' \<noteq> t" |
    b m x upd where "seen_game (w_db w) a g = Some x" "member_of (w_db w) g t = Some m"
      "game_Status x \<noteq> Archived" "g' = g" "t' = t"
      "plan_member_update (standing_of (w_db w) a g t x) m b = (Inr upd :: ApiMember response + MemberUpdate)"
      "w' = w\<lparr>w_db := update_member g t upd (w_db w)\<rparr>"
    using assms(4) by auto
  then show ?thesis
  proof cases
    case 1
    with assms(5) show ?thesis by (auto simp: player_change_def)
  next
    case 2
    with UpdateGameMember_effect [OF assms(1-3)] assms(5) show ?thesis
      by (auto simp: player_change_def)
  next
    case (3 b m x upd)
    have same: "m = before" "x = game"
      using 3 assms(5,6) seen_gameD [OF 3(1)] by auto
    have "mu_IsGM upd \<noteq> Some False" by (rule plan_member_no_demotion [OF 3(6)])
    then have "mem_IsGM before \<longrightarrow> mem_IsGM (merge_member upd before)"
      by (cases "mu_IsGM upd") (auto simp: merge_member_def)
    moreover have "gm_standing (w_db w) a g \<or>
        player_change (acc_ID a = t) (game_Status x = Recruiting) m (merge_member upd m)"
      using plan_member_player [OF 3(6)] by (auto simp: standing_of_def gm_standing_def)
    ultimately show ?thesis using 3 same by auto
  qed
qed

definition rename_self :: "UpdateMemberRequest option" where
  "rename_self = Some \<lparr>umr_IsActive = None, umr_IsGm = None, umr_Handle = Some ''newname''\<rparr>"

theorem UpdateGameMember_rules_witness:
  "\<exists>after. member_of (w_db (snd (run_state (UpdateGameMember (sample_claims 3) 1 3 rename_self)
      (sample_world sample_db)))) 1 3 = Some after \<and> player_change True True (sample_member 3 ''zed'' False) after"
  using UpdateGameMember_rules [where w = "sample_world sample_db" and ctx = "sample_claims 3" and g = 1
      and t = 3 and req = rename_self and a = "sample_account 3 ''pl@x'' False" and g' = 1 and t' = 3
      and before = "sample_member 3 ''zed'' False" and game = sample_game, OF _ _ prod.collapse [symmetric]]
  by (auto simp: sample_account_def sample_callers(3) [unfolded sample_account_def] gm_standing_def
      Recruiting_def) (auto simp: sample_game_def sample_member_def)

text \<open>C8. The list and the single read agree. A game is in the answer of ListGames exactly when
  GetGame would return it to the same caller and it has the status asked for; no game is listed
  twice, and nothing is changed by reading.\<close>

theorem ListGames_GetGame:
  assumes "quiet w" and "db_ok (w_db w)" and "run_state (ListGames ctx st) w = (Inr (OK200 gs), w')"
  shows "w' = w \<and> distinct (map ag_Id gs) \<and>
    (\<forall>x. x \<in> set gs \<longleftrightarrow> run_state (GetGame ctx (ag_Id x)) w = (Inr (OK200 x), w) \<and>
       (case st of None \<Rightarrow> True | Some s \<Rightarrow> ag_Status x = s))"
proof -
  let ?P = "\<lambda>a r. visible (w_db w) (acc_ID a) (acc_IsAdmin a) (gr_id r) \<and>
      (case st of None \<Rightarrow> True | Some s \<Rightarrow> gr_status r = s)"
  from assms obtain a where a: "caller (w_db w) ctx = Inr a" and w': "w' = w"
    and gs: "gs = map (apiGame \<circ> scanGame) (filter (?P a) (games (w_db w)))"
    by (auto simp: listGamesUnauthorized_def split: sum.splits)
  have id: "ag_Id (apiGame (scanGame r)) = gr_id r" "ag_Status (apiGame (scanGame r)) = gr_status r" for r
    by (simp_all add: apiGame_def scanGame_def)
  have "distinct (map gr_id (filter (?P a) (games (w_db w))))"
    by (intro distinct_map_filter game_rows.rowids_ok_inj db_okD(4) assms(2))
  then have "distinct (map ag_Id gs)" by (simp add: gs o_def id)
  moreover have "x \<in> set gs \<longleftrightarrow> (\<exists>g. seen_game (w_db w) a (ag_Id x) = Some g \<and> x = apiGame g) \<and>
      (case st of None \<Rightarrow> True | Some s \<Rightarrow> ag_Status x = s)" for x
  proof
    assume "x \<in> set gs"
    then obtain r where "r \<in> set (games (w_db w))" "?P a r" "x = apiGame (scanGame r)" by (auto simp: gs)
    with game_of_row [OF assms(2)] show "(\<exists>g. seen_game (w_db w) a (ag_Id x) = Some g \<and> x = apiGame g) \<and>
      (case st of None \<Rightarrow> True | Some s \<Rightarrow> ag_Status x = s)"
      by (cases st) (auto simp: seen_game_def id)
  next
    assume r: "(\<exists>g. seen_game (w_db w) a (ag_Id x) = Some g \<and> x = apiGame g) \<and>
      (case st of None \<Rightarrow> True | Some s \<Rightarrow> ag_Status x = s)"
    then obtain g where g: "seen_game (w_db w) a (ag_Id x) = Some g" "x = apiGame g" by auto
    note v = seen_gameD [OF g(1)]
    from v obtain q where q: "q \<in> set (games (w_db w))" "gr_id q = ag_Id x" "g = scanGame q"
      by (auto simp: game_of_def dest: find_Some_mem)
    have x: "x = (apiGame \<circ> scanGame) q" using g(2) q(3) by simp
    have "visible (w_db w) (acc_ID a) (acc_IsAdmin a) (gr_id q)" using v by (simp only: q(2))
    moreover have status: "ag_Status x = gr_status q" by (simp only: x comp_apply id)
    have "case st of None \<Rightarrow> True | Some s \<Rightarrow> gr_status q = s"
      using conjunct2 [OF r] by (simp only: status)
    ultimately have "?P a q" by blast
    with q(1) show "x \<in> set gs" unfolding gs x set_map by (intro imageI) simp
  qed
  ultimately show ?thesis
    using assms(1,2) a w' by (auto simp: getGameUnauthorized_def refuse_def split: option.splits)
qed

theorem ListGames_GetGame_witness:
  "\<forall>x. x \<in> set [apiGame sample_game] \<longleftrightarrow>
    run_state (GetGame (sample_claims 3) (ag_Id x)) (sample_world sample_db) = (Inr (OK200 x), sample_world sample_db)"
proof -
  have "run_state (ListGames (sample_claims 3) None) (sample_world sample_db) =
      (Inr (OK200 [apiGame sample_game]), sample_world sample_db)"
    by (simp add: sample_account_def sample_callers(3) [unfolded sample_account_def] visible_def)
      (simp add: sample_db_def scanGame_def sample_game_def apiGame_def member_of_def role_at_def game_of_def)
  from ListGames_GetGame [OF _ _ this] show ?thesis by simp
qed

text \<open>C9. No probing. To a caller who may not see a game, its absence and its presence look the
  same: in two worlds where the game is not visible (missing in one, say, and hidden in the
  other) all five game endpoints give identical answers.\<close>

theorem unseen_game_indistinguishable:
  assumes "quiet w1" and "db_ok (w_db w1)" and "quiet w2" and "db_ok (w_db w2)"
    and "caller (w_db w1) ctx = Inr a1" and "caller (w_db w2) ctx = Inr a2"
    and "seen_game (w_db w1) a1 g = None" and "seen_game (w_db w2) a2 g = None"
  shows "fst (run_state (GetGame ctx g) w1) = fst (run_state (GetGame ctx g) w2) \<and>
    fst (run_state (ListGameMembers ctx g) w1) = fst (run_state (ListGameMembers ctx g) w2) \<and>
    fst (run_state (UpdateGame ctx g ub) w1) = fst (run_state (UpdateGame ctx g ub) w2) \<and>
    fst (run_state (AddGameMember ctx g (Some ab)) w1) = fst (run_state (AddGameMember ctx g (Some ab)) w2) \<and>
    fst (run_state (UpdateGameMember ctx g t (Some mb)) w1) =
      fst (run_state (UpdateGameMember ctx g t (Some mb)) w2)"
  using assms
  by (cases ub; cases "requested_handle (amr_Handle ab) :: ApiMember response + string")
    (simp_all add: run_UpdateGame_handler run_UpdateGame_nil run_AddGameMember_handler
      run_UpdateGameMember_handler)

definition without_beta :: database where
  "without_beta = sample_db\<lparr>games := filter (\<lambda>g. gr_id g = 1) (games sample_db)\<rparr>"

lemma without_beta_facts: "db_ok without_beta"
  "caller without_beta (sample_claims 3) = Inr (sample_account 3 ''pl@x'' False)"
  "seen_game without_beta (sample_account 3 ''pl@x'' False) 2 = None"
  "seen_game sample_db (sample_account 3 ''pl@x'' False) 2 = None"
  "game_of without_beta 2 = None" "game_of sample_db 2 \<noteq> None"
  by code_simp+

theorem unseen_game_indistinguishable_witness:
  "game_of without_beta 2 = None \<and> game_of sample_db 2 \<noteq> None \<and>
   fst (run_state (GetGame (sample_claims 3) 2) (sample_world sample_db)) =
   fst (run_state (GetGame (sample_claims 3) 2) (sample_world without_beta))"
  using unseen_game_indistinguishable [of "sample_world sample_db" "sample_world without_beta"
      "sample_claims 3" _ _ 2] without_beta_facts
  by simp

end
