(* ===== verification/SessionTheorems.thy ===== *)
theory SessionTheorems
  imports Samples
begin

text \<open>
  The properties of login, refresh, logout, password change and impersonation.
\<close>

section \<open>Sessions\<close>

text \<open>C10. Login. Every login with a body performs exactly one bcrypt comparison, whatever the
  email, so the work does not tell which accounts exist. It answers 200 only for an active
  account whose stored hash matches; an unknown email, a wrong password and an inactive account
  all get the same 401, and no refusal writes to the database.\<close>

theorem Login_outcome:
  assumes "quiet w" and "db_ok (w_db w)" and "run_state (Login L s (Some b)) w = (res, w')"
  shows "w_compares w' = Suc (w_compares w) \<and>
    (if \<exists>a h. login_of (w_db w) (login_email L b) = Some (a, h) \<and> acc_IsActive a \<and>
          CompareHashAndPassword L h (lr_Password b)
     then (\<exists>body. res = Inr (OK200 body)) \<or> (\<exists>e. res = Inl e \<and> w_db w' = w_db w)
     else res = Inr (loginUnauthorized ''invalid username or password'') \<and> w_db w' = w_db w)"
  using Login_effect [OF assms] by auto

theorem Login_outcome_witness:
  "fst (run_state (Login sample_libs sample_server (Some \<lparr>lr_Username = ''off@x'', lr_Password = ''offpassword''\<rparr>))
     (sample_world sample_db)) = Inr (loginUnauthorized ''invalid username or password'')"
proof -
  have off: "login_of sample_db (login_email sample_libs \<lparr>lr_Username = ''off@x'', lr_Password = ''offpassword''\<rparr>) =
      Some (\<lparr>acc_ID = 4, acc_Email = ''off@x'', acc_IsAdmin = False, acc_IsActive = False\<rparr>, ''offpassword'')"
    unfolding sample_libs_def by code_simp
  show ?thesis
    using Login_outcome [where w = "sample_world sample_db" and L = sample_libs and s = sample_server
        and b = "\<lparr>lr_Username = ''off@x'', lr_Password = ''offpassword''\<rparr>", OF _ _ prod.collapse [symmetric]]
    by (simp add: off)
qed

text \<open>C11. Rotation. A refresh that answers 200 was given a verified token whose row is live and
  whose account is active. Afterwards that token is revoked, exactly one token has been added,
  live, with an unused id and in the same session family for the same account, its signed form
  is the one returned, and every other token is as before.\<close>

theorem refresh_rotates:
  assumes "quiet w" and "db_ok (w_db w)"
    and "run_state (RefreshToken_handler L s (Some raw)) w = (Inr (OK200 b), w')"
  shows "\<exists>c old a jti now. verified_refresh L (srv_tokens s) (w_now w) raw = Some c \<and>
    token_of (w_db w) (rc_JTI c) = Some old \<and> \<not> rt_Revoked old \<and>
    account_of (w_db w) (rc_UserID c) = Some a \<and> acc_IsActive a \<and>
    token_of (w_db w) jti = None \<and>
    SignedString L (refresh_claims L (srv_tokens s) (rc_UserID c) jti (rt_FamilyID old) now)
      (ts_secret (srv_tokens s)) = Some (at_RefreshToken b) \<and>
    (\<forall>j. token_of (w_db w') j =
       (if j = rc_JTI c then Some (old\<lparr>rt_Revoked := True\<rparr>)
        else if j = jti then Some (fresh_token (srv_tokens s) jti (rt_FamilyID old) (rc_UserID c) now)
        else token_of (w_db w) j))"
proof -
  from RefreshToken_effect [OF assms] obtain c old a jti now where e:
    "verified_refresh L (srv_tokens s) (w_now w) raw = Some c"
    "token_of (w_db w) (rc_JTI c) = Some old" "\<not> rt_Revoked old"
    "account_of (w_db w) (rc_UserID c) = Some a" "acc_IsActive a" "token_of (w_db w) jti = None"
    "SignedString L (refresh_claims L (srv_tokens s) (acc_ID a) jti (rt_FamilyID old) now)
      (ts_secret (srv_tokens s)) = Some (at_RefreshToken b)"
    "w_db w' = revoke_where (\<lambda>u. rt_JTI u = rc_JTI c)
      (add_token (fresh_token (srv_tokens s) jti (rt_FamilyID old) (acc_ID a) now) (w_db w))"
    by (auto simp: refreshUnauthorized_def split: if_splits)
  have id: "acc_ID a = rc_UserID c"
    using e(4) by (auto simp: account_of_def account_of_row_def dest: find_Some_mem)
  have jti: "rt_JTI (fresh_token ts jti f i n) = jti" for ts f i n by (simp add: fresh_token_def)
  have ne: "jti \<noteq> rc_JTI c" using e(2,6) by auto
  have other: "token_of (w_db w) j = Some t \<Longrightarrow> j \<noteq> rc_JTI c \<Longrightarrow> rt_JTI t \<noteq> rc_JTI c" for j t
    using token_id by blast
  have "token_of (w_db w') j =
       (if j = rc_JTI c then Some (old\<lparr>rt_Revoked := True\<rparr>)
        else if j = jti then Some (fresh_token (srv_tokens s) jti (rt_FamilyID old) (rc_UserID c) now)
        else token_of (w_db w) j)" for j
    using e(2,6) ne other [of j] token_id [OF e(2)]
    by (cases "token_of (w_db w) j") (auto simp: e(8) jti id token_of_add [of "w_db w" "fresh_token _ jti _ _ _", unfolded jti])
  with e id show ?thesis by metis
qed

lemma sample_verified:
  "verified_refresh sample_libs sample_tokens signed_at ''refresh-j1'' =
     Some \<lparr>rc_Subject = ''3'', rc_UserID = 3, rc_JTI = ''j1'', rc_Family = ''f1'', rc_ExpiresAt = Some 3800000000000\<rparr>"
  "verified_refresh sample_libs sample_tokens signed_at ''refresh-j2'' =
     Some \<lparr>rc_Subject = ''3'', rc_UserID = 3, rc_JTI = ''j2'', rc_Family = ''f1'', rc_ExpiresAt = Some 3800000000000\<rparr>"
  by code_simp+

lemma sample_refresh:
  "fst (run_state (RefreshToken_handler sample_libs sample_server (Some ''refresh-j1'')) (sample_world sample_db)) =
     Inr (OK200 (auth_tokens sample_server ''access3'' ''refresh-A''))"
  by code_simp

theorem refresh_rotates_witness:
  "\<exists>jti. \<forall>j. token_of (w_db (snd (run_state (RefreshToken_handler sample_libs sample_server (Some ''refresh-j1''))
     (sample_world sample_db)))) j \<noteq> token_of sample_db j \<longrightarrow> j = ''j1'' \<or> j = jti"
proof -
  have s: "srv_tokens sample_server = sample_tokens" by (simp add: sample_server_def)
  obtain c jti where c: "verified_refresh sample_libs sample_tokens signed_at ''refresh-j1'' = Some c"
    and same: "\<forall>j. j \<noteq> rc_JTI c \<longrightarrow> j \<noteq> jti \<longrightarrow> token_of (w_db (snd (run_state (RefreshToken_handler sample_libs
       sample_server (Some ''refresh-j1'')) (sample_world sample_db)))) j = token_of sample_db j"
    using refresh_rotates [OF _ _ result_pair [OF sample_refresh]]
    by (simp only: s sample_world_simps signed_at_def sample_ok) metis
  from c sample_verified(1) have "rc_JTI c = ''j1''" by auto
  with same show ?thesis by metis
qed

text \<open>C12. Reuse. Presenting a verified refresh token that has already been revoked is answered with
  the same 401 as any bad token, and revokes every token of its session family and no other.\<close>

theorem refresh_reuse_revokes_family:
  assumes "quiet w" and "db_ok (w_db w)" and "raw \<noteq> []"
    and "verified_refresh L (srv_tokens s) (w_now w) raw = Some c"
    and "token_of (w_db w) (rc_JTI c) = Some t" and "rt_Revoked t"
    and "run_state (RefreshToken_handler L s (Some raw)) w = (res, w')"
  shows "res = Inr (refreshUnauthorized ''invalid refresh token'') \<and>
    (\<forall>j u. token_of (w_db w) j = Some u \<longrightarrow> token_of (w_db w') j =
      Some (if rt_FamilyID u = rt_FamilyID t then u\<lparr>rt_Revoked := True\<rparr> else u))"
  using assms by (auto simp: RefreshToken_handler_def)

theorem refresh_reuse_revokes_family_witness:
  "token_of (w_db (snd (run_state (RefreshToken_handler sample_libs sample_server (Some ''refresh-j2''))
     (sample_world sample_db)))) ''j1'' = Some (sample_token ''j1'' 100 True)"
proof -
  have s: "srv_tokens sample_server = sample_tokens" by (simp add: sample_server_def)
  have "\<forall>j u. token_of sample_db j = Some u \<longrightarrow> token_of (w_db (snd (run_state
      (RefreshToken_handler sample_libs sample_server (Some ''refresh-j2'')) (sample_world sample_db)))) j =
      Some (if rt_FamilyID u = ''f1'' then u\<lparr>rt_Revoked := True\<rparr> else u)"
    using refresh_reuse_revokes_family [where w = "sample_world sample_db" and raw = "''refresh-j2''"
        and t = "sample_token ''j2'' 50 True", OF _ _ _ _ _ _ prod.collapse [symmetric]]
      sample_verified(2) by (simp add: s signed_at_def sample_token_def sample_lookups(6) [unfolded sample_token_def])
  then show ?thesis by (simp add: sample_token_def)
qed

text \<open>C13. A login's session can be continued. Under the documented behaviour of golang-jwt the
  refresh token a login returns is accepted by RefreshToken until it expires: in any later
  undisturbed world with the tables the login left, the answer is not a refusal.\<close>

theorem login_then_refresh:
  assumes "jwt_ok L" and "quiet w" and "db_ok (w_db w)"
    and "run_state (Login L s (Some b)) w = (Inr (OK200 body), w')"
    and "\<forall>r \<in> set (accounts (w_db w)). int64 (ar_id r)"
  shows "\<exists>j t. token_of (w_db w) j = None \<and> token_of (w_db w') j = Some t \<and> \<not> rt_Revoked t \<and>
    (\<forall>w2. quiet w2 \<and> w_db w2 = w_db w' \<and> w_now w2 < rt_ExpiresAt t * 1000000000 \<longrightarrow>
      (\<forall>e. fst (run_state (RefreshToken_handler L s (Some (at_RefreshToken body))) w2) \<noteq> Inr (Unauthorized401 e)))"
proof -
  from Login_effect [OF assms(2-4)] obtain a h jti fam now where e:
    "login_of (w_db w) (login_email L b) = Some (a, h)" "acc_IsActive a"
    "token_of (w_db w) jti = None" "is_ascii jti" "is_ascii fam"
    "SignedString L (refresh_claims L (srv_tokens s) (acc_ID a) jti fam now) (ts_secret (srv_tokens s)) =
      Some (at_RefreshToken body)"
    "w_db w' = add_token (fresh_token (srv_tokens s) jti fam (acc_ID a) now) (w_db w)"
    by (auto simp: loginUnauthorized_def)
  let ?t = "fresh_token (srv_tokens s) jti fam (acc_ID a) now"
  have acct: "account_of (w_db w) (acc_ID a) = Some a" using login_of_account [OF e(1) assms(3)] .
  then have "int64 (acc_ID a)"
    using assms(5) by (auto simp: account_of_def account_of_row_def dest: find_Some_mem)
  note v = refresh_claims_verified [OF assms(1) e(4,5) this e(6)]
  have jti: "rt_JTI ?t = jti" "rt_AccountID ?t = acc_ID a" "\<not> rt_Revoked ?t"
    "rt_ExpiresAt ?t = Unix (now + ts_refreshTTL (srv_tokens s))" "rt_FamilyID ?t = fam"
    by (simp_all add: fresh_token_def)
  have ok: "db_ok (w_db w')"
    using assms(3) e(3) acct by (simp add: e(7) jti)
  have row: "token_of (w_db w') jti = Some ?t" using e(3) by (simp add: e(7) jti)
  have "fst (run_state (RefreshToken_handler L s (Some (at_RefreshToken body))) w2) \<noteq> Inr (Unauthorized401 err)"
    if w2: "quiet w2" "w_db w2 = w_db w'" "w_now w2 < rt_ExpiresAt ?t * 1000000000" for w2 err
  proof -
    have ver: "\<exists>c. verified_refresh L (srv_tokens s) (w_now w2) (at_RefreshToken body) = Some c \<and>
        rc_JTI c = jti \<and> rc_UserID c = acc_ID a"
      using v w2(3) by (simp add: jti)
    have "at_RefreshToken body \<noteq> []"
      using assms(1) e(6) by (auto simp: jwt_ok_def)
    with ver acct e(2) row w2(1,2) ok e(7) jti show ?thesis
      by (auto simp: RefreshToken_handler_def or_token_error_def dest: rotate_not_refused)
  qed
  with e(3) row jti show ?thesis by blast
qed

definition pl_login :: LoginRequest where
  "pl_login = \<lparr>lr_Username = ''pl@x'', lr_Password = ''plpassword''\<rparr>"

lemma sample_login: "fst (run_state (Login sample_libs sample_server (Some pl_login)) (sample_world sample_db)) =
    Inr (OK200 (auth_tokens sample_server ''access3'' ''refresh-AB''))"
  by code_simp

theorem login_then_refresh_witness:
  "\<exists>j t. token_of sample_db j = None \<and> token_of (w_db (snd (run_state (Login sample_libs sample_server
     (Some pl_login)) (sample_world sample_db)))) j = Some t \<and> \<not> rt_Revoked t"
  using login_then_refresh [OF sample_libs_ok(1) _ _ result_pair [OF sample_login]]
  by (simp add: sample_db_def [THEN arg_cong [where f = accounts]] int64_def) blast




text \<open>Logout. Without a refresh token it revokes exactly the caller's tokens, on all devices;
  with one that verifies and is the caller's own it revokes exactly that token's family; with any
  other token it changes nothing. It answers 204 in every case, and deletes no row.\<close>

theorem Logout_revokes:
  assumes "quiet w" and "run_state (Logout L s (Some claims) body) w = (res, w')"
  shows "res = Inr NoContent204 \<and>
    (\<forall>j. token_of (w_db w') j = map_option (\<lambda>t. if
       (case body of
          Some (Some raw) \<Rightarrow>
            if raw = [] then rt_AccountID t = cl_UserID claims
            else (case verified_refresh L (srv_tokens s) (w_now w) raw of
                None \<Rightarrow> False
              | Some rc \<Rightarrow> rc_UserID rc = cl_UserID claims \<and> rt_FamilyID t = rc_Family rc)
        | _ \<Rightarrow> rt_AccountID t = cl_UserID claims)
       then t\<lparr>rt_Revoked := True\<rparr> else t) (token_of (w_db w) j))"
  using Logout_effect [OF assms] by (auto simp: option.map_ident split: option.splits if_splits)

theorem Logout_revokes_witness:
  "token_of (w_db (snd (run_state (Logout sample_libs sample_server (sample_claims 3) (Some (Some ''refresh-j2'')))
     (sample_world sample_db)))) ''j1'' = Some (sample_token ''j1'' 100 True)"
proof -
  have s: "srv_tokens sample_server = sample_tokens" by (simp add: sample_server_def)
  from Logout_revokes [OF _ prod.collapse [symmetric], of "sample_world sample_db" sample_libs sample_server
      "the (sample_claims 3)" "Some (Some ''refresh-j2'')"]
  show ?thesis
    using sample_verified(2) by (simp add: s signed_at_def sample_claims_def sample_token_def
        sample_lookups(5) [unfolded sample_token_def])
qed

text \<open>C15. Changing the password, in a run in which no database call fails and nobody else writes. A
  204 means the caller is an active account that proved its current password, that the new one
  has at least eight bytes and its hash is now stored, and that every refresh token of the
  account is revoked; no other account's credentials and no other account's tokens change. Any
  other outcome of such a run writes nothing. (When the database fails between the two writes
  this is not so: the hash is stored and the sessions live on.)\<close>

theorem ChangeMyPassword_outcome:
  assumes "quiet w" and "db_ok (w_db w)" and "run_state (ChangeMyPassword L ctx (Some b)) w = (res, w')"
  shows "(res \<noteq> Inr NoContent204 \<and> w_db w' = w_db w) \<or>
    (\<exists>a old salt h. res = Inr NoContent204 \<and> caller (w_db w) ctx = Inr a \<and>
       login_of (w_db w) (acc_Email a) = Some old \<and>
       CompareHashAndPassword L (snd old) (cp_CurrentPassword b) \<and> 8 \<le> length (cp_NewPassword b) \<and>
       GenerateFromPassword L (cp_NewPassword b) salt = Some h \<and>
       (\<forall>e. login_of (w_db w') e = map_option (\<lambda>(x, y). (x, if acc_ID x = acc_ID a then h else y)) (login_of (w_db w) e)) \<and>
       (\<forall>j. token_of (w_db w') j = map_option (\<lambda>t. if rt_AccountID t = acc_ID a then t\<lparr>rt_Revoked := True\<rparr> else t)
          (token_of (w_db w) j)))"
proof -
  from ChangeMyPassword_effect [OF assms] show ?thesis
  proof (elim disjE exE conjE)
    fix a old salt h
    assume e: "res = Inr NoContent204" "caller (w_db w) ctx = Inr a" "login_of (w_db w) (acc_Email a) = Some old"
      "CompareHashAndPassword L (snd old) (cp_CurrentPassword b)" "MinSecretLength \<le> length (cp_NewPassword b)"
      "GenerateFromPassword L (cp_NewPassword b) salt = Some h"
      and w': "w_db w' = revoke_where (\<lambda>t. rt_AccountID t = acc_ID a)
         (update_account (acc_ID a) (new_secret h) (w_db w))"
    have "login_of (w_db w') e = map_option (\<lambda>(x, y). (x, if acc_ID x = acc_ID a then h else y)) (login_of (w_db w) e)" for e
      by (auto simp: w' intro!: option.map_cong)
    moreover have "token_of (w_db w') j = map_option (\<lambda>t. if rt_AccountID t = acc_ID a then t\<lparr>rt_Revoked := True\<rparr> else t)
          (token_of (w_db w) j)" for j
      by (simp add: w')
    ultimately show ?thesis using e unfolding MinSecretLength_def by blast
  qed simp
qed

definition new_password :: ChangePasswordRequest where
  "new_password = \<lparr>cp_CurrentPassword = ''plpassword'', cp_NewPassword = ''correct horse''\<rparr>"

lemma sample_change: "fst (run_state (ChangeMyPassword sample_libs (sample_claims 3) (Some new_password))
    (sample_world sample_db)) = Inr NoContent204"
  unfolding sample_libs_def by code_simp

theorem ChangeMyPassword_outcome_witness:
  "\<forall>j. token_of (w_db (snd (run_state (ChangeMyPassword sample_libs (sample_claims 3) (Some new_password))
      (sample_world sample_db)))) j =
    map_option (\<lambda>t. if rt_AccountID t = 3 then t\<lparr>rt_Revoked := True\<rparr> else t) (token_of sample_db j)"
proof -
  have "acc_ID a = 3" if "caller sample_db (sample_claims 3) = Inr a" for a
    using that by (auto simp: sample_account_def)
  with ChangeMyPassword_outcome [OF _ _ result_pair [OF sample_change]] show ?thesis by auto
qed

text \<open>The hash and the tokens are changed by two calls outside of a transaction: if the second fails,
  the answer is an error, yet the new password holds and the old sessions go on.\<close>

lemma half_changed_password:
  "case run_state (ChangeMyPassword sample_libs (sample_claims 3) (Some new_password))
      ((sample_world sample_db)\<lparr>w_sched := replicate 6 Fine @ [Fault]\<rparr>) of
     (r, w) \<Rightarrow> r = Inl (ErrSQL ResultError) \<and> map_option snd (login_of (w_db w) ''pl@x'') = Some ''correct horse'' \<and>
       map_option rt_Revoked (token_of (w_db w) ''j1'') = Some False"
  unfolding sample_libs_def by code_simp

end
