(* ===== verification/Http.thy ===== *)
theory Http
  imports HandlersContract
begin

text \<open>
  The HTTP side: internal/auth/middleware.go, internal/handlers/wiring.go and auth.go, and
  internal/httputil. What the standard mux and the generated parameter binder make of a request
  is part of the input (\<open>routed\<close>): no route (with the mux's own answer), a parameter that does not parse, or an operation
  with its decoded request object or the text of the decoding error. The layers are those of
  the code: RequestLogger around hideRoute around the mux, requireBearer around the strict
  handler of the operation. Content types and the timing in the log line are left out.
\<close>

section \<open>Requests and responses\<close>

datatype payload =
  P_Health HealthResponse | P_Version VersionResponse | P_Tokens AuthTokensBody | P_None unit | P_Purged nat
| P_User User | P_MyGames "MyGame list" | P_Sessions "ApiSession list" | P_Account ApiAccount
| P_Accounts "ApiAccount list" | P_Created CreatedAccount | P_Impersonation ImpersonationResponse
| P_Games "ApiGame list" | P_Game ApiGame | P_Members "ApiMember list" | P_Member ApiMember

datatype http_body =
  Envelope string string "string option"
| Plain string
| Payload payload
| NoBody

record http_response =
  hs_Status :: nat
  hs_Subject :: "string option"
  hs_Body :: http_body

datatype routed =
  NoRoute nat string
| BadParameter string
| Routed request "string option"

record http_request =
  hq_Path :: string
  hq_Authorization :: string
  hq_RequestId :: string
  hq_Routed :: routed

definition RequestIDHeader :: string where
  "RequestIDHeader = ''X-Request-Id''"

definition ImpersonatedSubjectHeader :: string where
  "ImpersonatedSubjectHeader = ''Impersonated-Subject''"

section \<open>Errors\<close>

text \<open>An empty id is left out of the envelope.\<close>

definition WriteError :: "string \<Rightarrow> nat \<Rightarrow> string \<Rightarrow> string \<Rightarrow> http_response" where
  "WriteError requestID status code message = \<lparr>hs_Status = status, hs_Subject = None,
     hs_Body = Envelope code message (if requestID \<noteq> [] then Some requestID else None)\<rparr>"

definition RequestErrorHandlerFunc :: "string \<Rightarrow> string \<Rightarrow> http_response" where
  "RequestErrorHandlerFunc requestID err = WriteError requestID 400 ''bad_request'' err"

definition ResponseErrorHandlerFunc :: "string \<Rightarrow> go_error \<Rightarrow> http_response" where
  "ResponseErrorHandlerFunc requestID err =
     (if err = ErrNotImplemented
      then WriteError requestID 501 ''not_implemented'' ''this endpoint is not implemented yet''
      else WriteError requestID 500 ''internal'' ''internal server error'')"

text \<open>The generated Visit methods. The handlers leave the envelope's request id nil.\<close>

definition visit_error :: "nat \<Rightarrow> error_response \<Rightarrow> http_response" where
  "visit_error status e = \<lparr>hs_Status = status, hs_Subject = None,
     hs_Body = Envelope (er_Code e) (er_Message e) None\<rparr>"

fun Visit :: "payload response \<Rightarrow> http_response" where
  "Visit (OK200 x) = \<lparr>hs_Status = 200, hs_Subject = None, hs_Body = Payload x\<rparr>"
| "Visit (Created201 x) = \<lparr>hs_Status = 201, hs_Subject = None, hs_Body = Payload x\<rparr>"
| "Visit Accepted202 = \<lparr>hs_Status = 202, hs_Subject = None, hs_Body = NoBody\<rparr>"
| "Visit NoContent204 = \<lparr>hs_Status = 204, hs_Subject = None, hs_Body = NoBody\<rparr>"
| "Visit (BadRequest400 e) = visit_error 400 e"
| "Visit (Unauthorized401 e) = visit_error 401 e"
| "Visit (Forbidden403 e) = visit_error 403 e"
| "Visit (NotFound404 e) = visit_error 404 e"
| "Visit (Conflict409 e) = visit_error 409 e"

section \<open>The strict handler\<close>

definition answer :: "('a \<Rightarrow> payload) \<Rightarrow> 'a handler \<Rightarrow> payload handler" where
  "answer f h = do {
     r \<leftarrow> h;
     ret (case r of Inl e \<Rightarrow> Inl e | Inr x \<Rightarrow> Inr (map_response f x))
   }"

fun dispatch :: "libs \<Rightarrow> Server \<Rightarrow> ctx \<Rightarrow> request \<Rightarrow> payload handler" where
  "dispatch L s ctx Req_GetHealth = answer P_Health (GetHealth L)"
| "dispatch L s ctx Req_GetVersion = answer P_Version (GetVersion L)"
| "dispatch L s ctx (Req_Login b) = answer P_Tokens (Login L s b)"
| "dispatch L s ctx (Req_RefreshToken b) = answer P_Tokens (RefreshToken_handler L s b)"
| "dispatch L s ctx (Req_Logout b) = answer P_None (Logout L s ctx b)"
| "dispatch L s ctx Req_ShutdownServer = answer P_None (ShutdownServer s ctx)"
| "dispatch L s ctx Req_PurgeRefreshTokens = answer P_Purged (PurgeRefreshTokens ctx)"
| "dispatch L s ctx Req_GetMe = answer P_User (GetMe ctx)"
| "dispatch L s ctx Req_ListMyGames = answer P_MyGames (ListMyGames ctx)"
| "dispatch L s ctx (Req_ChangeMyPassword b) = answer P_None (ChangeMyPassword L ctx b)"
| "dispatch L s ctx Req_ListMySessions = answer P_Sessions (ListMySessions ctx)"
| "dispatch L s ctx (Req_RevokeMySession f) = answer P_None (RevokeMySession ctx f)"
| "dispatch L s ctx (Req_GetAccount i) = answer P_Account (GetAccount ctx i)"
| "dispatch L s ctx Req_ListAccounts = answer P_Accounts (ListAccounts ctx)"
| "dispatch L s ctx (Req_CreateAccount b) = answer P_Created (CreateAccount L ctx b)"
| "dispatch L s ctx (Req_UpdateAccount i b) = answer P_Account (UpdateAccount L ctx i b)"
| "dispatch L s ctx (Req_CreateImpersonation b) = answer P_Impersonation (CreateImpersonation L s ctx b)"
| "dispatch L s ctx (Req_ListGames st) = answer P_Games (ListGames ctx st)"
| "dispatch L s ctx (Req_GetGame g) = answer P_Game (GetGame ctx g)"
| "dispatch L s ctx (Req_ListGameMembers g) = answer P_Members (ListGameMembers ctx g)"
| "dispatch L s ctx (Req_CreateGame b) = answer P_Game (CreateGame ctx b)"
| "dispatch L s ctx (Req_UpdateGame g b) = answer P_Game (UpdateGame ctx g b)"
| "dispatch L s ctx (Req_AddGameMember g b) = answer P_Member (AddGameMember ctx g b)"
| "dispatch L s ctx (Req_UpdateGameMember g a b) = answer P_Member (UpdateGameMember ctx g a b)"
| "dispatch L s ctx Req_ListTurns = answer P_None ListTurns"
| "dispatch L s ctx Req_GetTurn = answer P_None GetTurn"
| "dispatch L s ctx Req_ValidateOrders = answer P_None ValidateOrders"
| "dispatch L s ctx Req_SubmitOrders = answer P_None SubmitOrders"
| "dispatch L s ctx Req_GetOrderSubmission = answer P_None GetOrderSubmission"

definition strictHandler ::
  "libs \<Rightarrow> Server \<Rightarrow> string \<Rightarrow> request \<Rightarrow> string option \<Rightarrow> ctx \<Rightarrow> (world, http_response) state" where
  "strictHandler L s requestID q undecodable ctx = (case undecodable of
     Some err \<Rightarrow> ret (RequestErrorHandlerFunc requestID err)
   | None \<Rightarrow> do {
       r \<leftarrow> dispatch L s ctx q;
       ret (case r of Inl e \<Rightarrow> ResponseErrorHandlerFunc requestID e | Inr x \<Rightarrow> Visit x)
     })"

section \<open>Bearer authentication\<close>

text \<open>The operations without the mark BearerAuthScopes.\<close>

fun public :: "request \<Rightarrow> bool" where
  "public Req_GetHealth = True"
| "public Req_GetVersion = True"
| "public (Req_Login b) = True"
| "public (Req_RefreshToken b) = True"
| "public q = False"

text \<open>The impersonation record of the request log: actor and subject.\<close>

type_synonym impersonation = "int \<times> int"

definition SetImpersonation :: "impersonation \<Rightarrow> int \<Rightarrow> int \<Rightarrow> impersonation" where
  "SetImpersonation holder actorID subjectID = (actorID, subjectID)"

definition BearerPrefix :: string where
  "BearerPrefix = ''Bearer ''"

definition RequireBearerJWT ::
  "libs \<Rightarrow> TokenService \<Rightarrow> string \<Rightarrow> string \<Rightarrow> (ctx \<Rightarrow> (world, http_response) state) \<Rightarrow>
   (world, http_response \<times> impersonation) state" where
  "RequireBearerJWT L ts requestID authz next =
     (if authz = [] then
        ret (WriteError requestID 401 ''unauthorized'' ''missing Authorization header'', (0, 0))
      else if \<not> HasPrefix authz BearerPrefix then
        ret (WriteError requestID 401 ''unauthorized'' ''Authorization header must use Bearer scheme'', (0, 0))
      else do {
        v \<leftarrow> Verify L ts (TrimSpace (TrimPrefix authz BearerPrefix));
        case v of
          Inl _ \<Rightarrow> ret (WriteError requestID 401 ''unauthorized'' ''invalid access token'', (0, 0))
        | Inr claims \<Rightarrow> do {
            resp \<leftarrow> next (WithClaims None claims);
            ret (if Impersonated claims
                 then (resp\<lparr>hs_Subject := Some (cl_Subject claims)\<rparr>,
                       SetImpersonation (0, 0) (cl_Actor claims) (cl_UserID claims))
                 else (resp, (0, 0)))
          }
      })"

definition requireBearer ::
  "libs \<Rightarrow> TokenService \<Rightarrow> request \<Rightarrow> string \<Rightarrow> string \<Rightarrow> (ctx \<Rightarrow> (world, http_response) state) \<Rightarrow>
   (world, http_response \<times> impersonation) state" where
  "requireBearer L ts q requestID authz next =
     (if \<not> public q then RequireBearerJWT L ts requestID authz next
      else do { resp \<leftarrow> next None; ret (resp, (0, 0)) })"

section \<open>The mux and the hidden route\<close>

definition http_NotFound :: http_response where
  "http_NotFound = \<lparr>hs_Status = 404, hs_Subject = None, hs_Body = Plain (''404 page not found'' @ [CHR 0x0A])\<rparr>"

definition apiHandler :: "libs \<Rightarrow> Server \<Rightarrow> string \<Rightarrow> http_request \<Rightarrow> (world, http_response \<times> impersonation) state" where
  "apiHandler L s requestID r = (case hq_Routed r of
     NoRoute status txt \<Rightarrow> ret (\<lparr>hs_Status = status, hs_Subject = None, hs_Body = Plain txt\<rparr>, (0, 0))
   | BadParameter err \<Rightarrow> ret (\<lparr>hs_Status = 400, hs_Subject = None, hs_Body = Plain (err @ [CHR 0x0A])\<rparr>, (0, 0))
   | Routed q undecodable \<Rightarrow>
       requireBearer L (srv_tokens s) q requestID (hq_Authorization r)
         (strictHandler L s requestID q undecodable))"

definition hideRoute ::
  "(http_request \<Rightarrow> (world, http_response \<times> impersonation) state) \<Rightarrow> string \<Rightarrow> http_request \<Rightarrow>
   (world, http_response \<times> impersonation) state" where
  "hideRoute next path r = (if hq_Path r = path then ret (http_NotFound, (0, 0)) else next r)"

definition NewHTTPHandler ::
  "libs \<Rightarrow> Server \<Rightarrow> string \<Rightarrow> http_request \<Rightarrow> (world, http_response \<times> impersonation) state" where
  "NewHTTPHandler L s requestID r =
     (if \<not> srv_shutdown s then hideRoute (apiHandler L s requestID) ''/admin/shutdown'' r
      else apiHandler L s requestID r)"

section \<open>The request log\<close>

text \<open>The wrapper of the response writer: the first explicit status wins, 200 by default.\<close>

record statusRecorder =
  rec_status :: nat
  rec_bytes :: nat
  rec_wroteHeader :: bool

definition new_recorder :: statusRecorder where
  "new_recorder = \<lparr>rec_status = 200, rec_bytes = 0, rec_wroteHeader = False\<rparr>"

definition WriteHeader :: "nat \<Rightarrow> statusRecorder \<Rightarrow> statusRecorder" where
  "WriteHeader status rec =
     (if \<not> rec_wroteHeader rec then rec\<lparr>rec_status := status, rec_wroteHeader := True\<rparr> else rec)"

definition Write :: "nat \<Rightarrow> statusRecorder \<Rightarrow> statusRecorder" where
  "Write n rec = (rec\<lparr>rec_wroteHeader := True\<rparr>)\<lparr>rec_bytes := rec_bytes rec + n\<rparr>"

text \<open>Every writer of a response sends its header, then the body if there is one; \<open>len\<close> is the
  length of an encoded body.\<close>

definition write_response :: "(http_body \<Rightarrow> nat) \<Rightarrow> http_response \<Rightarrow> statusRecorder \<Rightarrow> statusRecorder" where
  "write_response len resp rec =
     (let rec1 = WriteHeader (hs_Status resp) rec
      in if hs_Body resp = NoBody then rec1 else Write (len (hs_Body resp)) rec1)"

datatype level = LevelInfo | LevelError

record log_line =
  log_level :: level
  log_path :: string
  log_status :: nat
  log_bytes :: nat
  log_requestId :: string
  log_actor_subject :: "(int \<times> int) option"

definition newRequestID :: "(world, string) state" where
  "newRequestID = do {
     r \<leftarrow> rand_Read;
     ret (case r of None \<Rightarrow> [] | Some bytes \<Rightarrow> EncodeToString (fill 16 bytes))
   }"

text \<open>The answer to a request: the request id header, the response and the log line.\<close>

definition RequestLogger ::
  "libs \<Rightarrow> Server \<Rightarrow> (http_body \<Rightarrow> nat) \<Rightarrow> http_request \<Rightarrow>
   (world, string option \<times> http_response \<times> log_line) state" where
  "RequestLogger L s len r = do {
     requestID \<leftarrow> (if hq_RequestId r = [] then newRequestID else ret (hq_RequestId r));
     x \<leftarrow> NewHTTPHandler L s requestID r;
     case x of (resp, imp) \<Rightarrow>
       let rec = write_response len resp new_recorder in
       ret (if requestID \<noteq> [] then Some requestID else None, resp,
         \<lparr>log_level = (if 500 \<le> rec_status rec then LevelError else LevelInfo),
          log_path = hq_Path r, log_status = rec_status rec, log_bytes = rec_bytes rec,
          log_requestId = requestID,
          log_actor_subject = (if fst imp \<noteq> 0 then Some imp else None)\<rparr>)
   }"

end
