(* ===== verification/AccountTheorems.thy ===== *)
theory AccountTheorems
  imports Samples Http
begin

text \<open>
  The properties of the account endpoints: impersonation, accounts that are not active, account
  creation, and the agreement of the Go name rules with the CHECK constraints.
\<close>

section \<open>Impersonation\<close>

text \<open>C16. Impersonation. CreateImpersonation never writes. When it answers 200 the caller is an
  active admin, the subject is an existing, active account that is no admin and not the caller,
  and the token is signed for that account with the role of a player, the caller as its actor
  and a life of fifteen minutes whatever the configured access lifetime is.\<close>

theorem CreateImpersonation_outcome:
  assumes "quiet w" and "db_ok (w_db w)" and "run_state (CreateImpersonation L s ctx body) w = (res, w')"
  shows "w_db w' = w_db w \<and> (\<forall>r. res = Inr (OK200 r) \<longrightarrow> (\<exists>admin target now.
    admin_caller (w_db w) ctx = Inr admin \<and> body = Some (ir_Subject_AccountId r) \<and>
    account_of (w_db w) (ir_Subject_AccountId r) = Some target \<and>
    acc_IsActive target \<and> \<not> acc_IsAdmin target \<and> acc_ID target \<noteq> acc_ID admin \<and>
    ir_Subject_Email r = acc_Email target \<and> ir_Actor_AccountId r = acc_ID admin \<and>
    ir_ExpiresInSeconds r = 900 \<and>
    SignedString L (with_registered (registered L (acc_ID target) accessAudience now (now + 900000000000))
      (acc_Email target) [Player] [] (acc_ID admin)) (ts_secret (srv_tokens s)) = Some (ir_Token r)))"
proof (cases "admin_caller (w_db w) ctx")
  case (Inl e)
  with assms show ?thesis by (auto simp: CreateImpersonation_def admin_refusal_def split: if_splits)
next
  case (Inr admin)
  show ?thesis
  proof (cases body)
    case None
    with Inr assms show ?thesis by (auto simp: CreateImpersonation_def impersonationBadRequest_def)
  next
    case (Some i)
    show ?thesis
    proof (cases "account_of (w_db w) i")
      case None
      with Inr Some assms show ?thesis
        by (auto simp: CreateImpersonation_def impersonationBadRequest_def impersonationConflict_def
            or_missing_def refuse_def split: if_splits)
    next
      case (Some target)
      then have "acc_ID target = i"
        by (auto simp: account_of_def account_of_row_def dest: find_Some_mem)
      with Inr Some \<open>body = Some i\<close> assms show ?thesis
        by (auto simp: CreateImpersonation_def impersonationBadRequest_def impersonationConflict_def
            or_missing_def IssueImpersonation_def sign_def Let_def accountRoles_def impersonationTTL_def
            whole_seconds_def split: if_splits option.splits)
    qed
  qed
qed

definition imp_claims :: tokenClaims where
  "imp_claims = with_registered (registered base_libs 3 accessAudience signed_at (signed_at + 900000000000))
     ''pl@x'' [Player] [] 1"

definition imp_libs :: libs where
  "imp_libs = table_libs [(imp_claims, ''key'', ''act3'')]"

lemma sample_impersonation:
  "fst (run_state (CreateImpersonation imp_libs sample_server (sample_claims 1) (Some 3)) (sample_world sample_db)) =
     Inr (OK200 \<lparr>ir_Token = ''act3'', ir_TokenType = ''Bearer'', ir_ExpiresInSeconds = 900,
       ir_Subject_AccountId = 3, ir_Subject_Email = ''pl@x'', ir_Actor_AccountId = 1\<rparr>)"
  by code_simp

theorem CreateImpersonation_outcome_witness:
  "\<exists>now. SignedString imp_libs (with_registered (registered imp_libs 3 accessAudience now (now + 900000000000))
     ''pl@x'' [Player] [] 1) ''key'' = Some ''act3''"
  using CreateImpersonation_outcome [OF _ _ result_pair [OF sample_impersonation]]
  by (auto simp: sample_account_def sample_server_def sample_tokens_def sample_lookups(7) [unfolded sample_account_def]
      sample_callers(1) [unfolded sample_account_def])

section \<open>Creating accounts\<close>

lemma run_GenerateSecret:
  "run_state (GenerateSecret seed) w = (r, w') \<Longrightarrow> w_db w' = w_db w \<and> quiet w' = quiet w"
  by (cases seed) (auto simp: GenerateSecret_def dest: drawnD split: prod.splits)

lemma run_chosen_secret:
  assumes "run_state (chosen_secret given) w = (Inr (secret, gen), w')"
  shows "w_db w' = w_db w \<and> quiet w' = quiet w \<and>
    (given = Some secret \<and> gen = None \<or> given = None \<and> gen = Some secret)"
  using assms run_GenerateSecret [of None w]
  by (cases given) (auto simp: chosen_secret_def split: prod.splits sum.splits)

lemma CreateAccount_effect:
  assumes "quiet w" and "db_ok (w_db w)"
    and "run_state (CreateAccount L ctx (Some b)) w = (Inr (Created201 x), w')"
  defines "email \<equiv> ToLower (unicode_lower L) (TrimSpace (car_Email b))"
  shows "\<exists>admin secret salt h. admin_caller (w_db w) ctx = Inr admin \<and> email \<noteq> [] \<and>
    (car_Secret b = Some secret \<and> ca_GeneratedSecret x = None \<or>
     car_Secret b = None \<and> ca_GeneratedSecret x = Some secret) \<and>
    8 \<le> length secret \<and> GenerateFromPassword L secret salt = Some h \<and> login_of (w_db w) email = None \<and>
    quiet w' \<and>
    ca_Account x = apiAccount \<lparr>acc_ID = next_rowid ar_id (accounts (w_db w)), acc_Email = email,
      acc_IsAdmin = flag (car_IsAdmin b), acc_IsActive = flag (car_IsActive b)\<rparr> \<and>
    w_db w' = add_account email (flag (car_IsAdmin b)) (flag (car_IsActive b)) h (w_db w)"
proof (cases "admin_caller (w_db w) ctx")
  case (Inl e)
  with assms(1-3) show ?thesis by (auto simp: CreateAccount_def Let_def admin_refusal_def split: if_splits)
next
  case (Inr admin)
  have ne: "email \<noteq> []"
    using Inr assms(1-3) by (auto simp: CreateAccount_def Let_def createAccountBadRequest_def email_def)
  obtain y w1 where c: "run_state (chosen_secret (car_Secret b)) w = (y, w1)" by fastforce
  with Inr ne assms(1-3) obtain secret gen where y: "y = Inr (secret, gen)"
    by (cases y) (auto simp: CreateAccount_def Let_def email_def)
  note s = run_chosen_secret [OF c [unfolded y]]
  obtain z w2 where d: "drawn w1 = (z, w2)" by fastforce
  note w2 = drawnD [OF d]
  from Inr ne c y d assms(1-3)
  have long: "8 \<le> length secret"
    by (auto simp: CreateAccount_def Let_def email_def run_HashSecret createAccountBadRequest_def MinSecretLength_def
        split: if_splits)
  with Inr ne c y d assms(1-3) obtain salt h where h: "z = Some salt" "GenerateFromPassword L secret salt = Some h"
    by (auto simp: CreateAccount_def Let_def email_def run_HashSecret MinSecretLength_def split: option.splits)
  have fresh: "login_of (w_db w) email = None"
    using long Inr ne c y d assms(1-3) s w2 h
    by (cases "login_of (w_db w) email")
       (simp_all add: CreateAccount_def Let_def email_def run_HashSecret MinSecretLength_def refuse_def)
  with h long Inr ne c y d assms(1-3) s w2
  have "quiet w' \<and>
      w_db w' = add_account email (flag (car_IsAdmin b)) (flag (car_IsActive b)) h (w_db w) \<and>
      x = \<lparr>ca_Account = apiAccount \<lparr>acc_ID = next_rowid ar_id (accounts (w_db w)), acc_Email = email,
        acc_IsAdmin = flag (car_IsAdmin b), acc_IsActive = flag (car_IsActive b)\<rparr>, ca_GeneratedSecret = gen\<rparr>"
    by (auto simp: CreateAccount_def Let_def email_def run_HashSecret MinSecretLength_def refuse_def split: if_splits)
  with Inr ne s long h fresh show ?thesis by auto
qed

text \<open>C18. A new account. In an undisturbed run, a 201 of CreateAccount means an active admin asked
  for it and nobody had the normalized email before; the account gets that email and an id never
  used, is inactive and no admin unless asked otherwise, and everybody else's credentials stay.
  Under the documented behaviour of bcrypt, a later undisturbed login with the same spelling of
  the email and the secret given or generated is refused exactly if the account was created
  inactive.\<close>

theorem created_account_logs_in:
  assumes "bcrypt_ok L" and "quiet w" and "db_ok (w_db w)"
    and "run_state (CreateAccount L ctx (Some b)) w = (Inr (Created201 x), w')"
  shows "\<exists>secret. (car_Secret b = Some secret \<or> ca_GeneratedSecret x = Some secret) \<and>
    (\<exists>admin. admin_caller (w_db w) ctx = Inr admin) \<and>
    aa_Email (ca_Account x) = ToLower (unicode_lower L) (TrimSpace (car_Email b)) \<and>
    login_of (w_db w) (aa_Email (ca_Account x)) = None \<and>
    account_of (w_db w) (aa_Id (ca_Account x)) = None \<and>
    account_of (w_db w') (aa_Id (ca_Account x)) = Some \<lparr>acc_ID = aa_Id (ca_Account x),
      acc_Email = aa_Email (ca_Account x), acc_IsAdmin = flag (car_IsAdmin b), acc_IsActive = flag (car_IsActive b)\<rparr> \<and>
    (\<forall>e. e \<noteq> aa_Email (ca_Account x) \<longrightarrow> login_of (w_db w') e = login_of (w_db w) e) \<and>
    (\<forall>w2. quiet w2 \<and> w_db w2 = w_db w' \<longrightarrow>
      (fst (run_state (Login L s (Some \<lparr>lr_Username = car_Email b, lr_Password = secret\<rparr>)) w2) =
         Inr (loginUnauthorized ''invalid username or password'') \<longleftrightarrow> \<not> flag (car_IsActive b)))"
proof -
  let ?email = "ToLower (unicode_lower L) (TrimSpace (car_Email b))"
  from CreateAccount_effect [OF assms(2-4)] obtain admin secret salt h where a: "admin_caller (w_db w) ctx = Inr admin" and e:
    "car_Secret b = Some secret \<or> ca_GeneratedSecret x = Some secret"
    "GenerateFromPassword L secret salt = Some h" "login_of (w_db w) ?email = None"
    "ca_Account x = apiAccount \<lparr>acc_ID = next_rowid ar_id (accounts (w_db w)), acc_Email = ?email,
      acc_IsAdmin = flag (car_IsAdmin b), acc_IsActive = flag (car_IsActive b)\<rparr>"
    "w_db w' = add_account ?email (flag (car_IsAdmin b)) (flag (car_IsActive b)) h (w_db w)"
    by blast
  have match: "CompareHashAndPassword L h secret" using assms(1) e(2) by (auto simp: bcrypt_ok_def)
  have ok: "db_ok (w_db w')" using assms(3) e(3,5) by simp
  let ?b = "\<lparr>lr_Username = car_Email b, lr_Password = secret\<rparr>"
  have "fst (run_state (Login L s (Some ?b)) w2) = Inr (loginUnauthorized ''invalid username or password'') \<longleftrightarrow>
      \<not> flag (car_IsActive b)" if "quiet w2" "w_db w2 = w_db w'" for w2
    using Login_effect [OF that(1) _ prod.collapse [symmetric], of L s ?b] that(2) ok e(3,5) match
    by (auto simp: login_email_def loginUnauthorized_def)
  moreover have "account_of (w_db w) (next_rowid ar_id (accounts (w_db w))) = None"
    using acct_rows.next_rowid_fresh account_of_mem by blast
  ultimately show ?thesis using a e(1,3,4,5) by (auto simp: apiAccount_def)
qed

definition new_hire :: CreateAccountRequest where
  "new_hire = \<lparr>car_Email = '' New@X '', car_Secret = Some ''long enough'', car_IsActive = Some True, car_IsAdmin = None\<rparr>"

lemma sample_creation: "fst (run_state (CreateAccount sample_libs (sample_claims 1) (Some new_hire)) (sample_world sample_db)) =
    Inr (Created201 \<lparr>ca_Account = \<lparr>aa_Id = 5, aa_Email = ''new@x'', aa_IsActive = True, aa_IsAdmin = False,
      aa_Roles = [''player'']\<rparr>, ca_GeneratedSecret = None\<rparr>)"
  unfolding sample_libs_def by code_simp

theorem created_account_logs_in_witness:
  "account_of (w_db (snd (run_state (CreateAccount sample_libs (sample_claims 1) (Some new_hire))
     (sample_world sample_db)))) 5 = Some (sample_account 5 ''new@x'' False)"
  using created_account_logs_in [OF sample_libs_ok(2) _ _ result_pair [OF sample_creation]]
  by (auto simp: sample_account_def new_hire_def flag_def)

section \<open>Accounts that are not active\<close>

lemma run_SchemaVersion:
  "quiet w \<Longrightarrow> run_state store_SchemaVersion w = (Inr (user_version (w_db w)), w)"
  by (simp add: store_SchemaVersion_def)

text \<open>What each operation answers to a caller whose account is not active: status and error code.
  Logout, which only needs the refresh token in its body, and the public operations are not
  meant.\<close>

fun lockout :: "Server \<Rightarrow> request \<Rightarrow> nat \<times> string" where
  "lockout s Req_ShutdownServer = (if srv_shutdown s then (403, ''forbidden'') else (404, ''not_found''))"
| "lockout s Req_PurgeRefreshTokens = (403, ''forbidden'')"
| "lockout s (Req_GetAccount i) = (403, ''forbidden'')"
| "lockout s Req_ListAccounts = (403, ''forbidden'')"
| "lockout s (Req_CreateAccount b) = (403, ''forbidden'')"
| "lockout s (Req_UpdateAccount i b) = (403, ''forbidden'')"
| "lockout s (Req_CreateImpersonation b) = (403, ''forbidden'')"
| "lockout s (Req_CreateGame b) = (403, ''forbidden'')"
| "lockout s Req_ListTurns = (501, ''not_implemented'')"
| "lockout s Req_GetTurn = (501, ''not_implemented'')"
| "lockout s Req_ValidateOrders = (501, ''not_implemented'')"
| "lockout s Req_SubmitOrders = (501, ''not_implemented'')"
| "lockout s Req_GetOrderSubmission = (501, ''not_implemented'')"
| "lockout s q = (401, ''unauthorized'')"

text \<open>C17. Lock-out. A still valid access token of an account that was deactivated or no longer
  exists is worth nothing. In an undisturbed run, every operation behind the bearer gate other
  than logout answers a request that carries this token's claims with an error and changes
  nothing: 403 for the operations of admins (404 for a shutdown that is not enabled), 501 for those
  that are not implemented, 400 if the request does not decode, and 401 for all others, whatever
  the request asks for.\<close>

theorem inactive_account_locked_out:
  assumes "quiet w" and "db_ok (w_db w)" and "\<not> public q" and "\<forall>b. q \<noteq> Req_Logout b"
    and "\<And>a. account_of (w_db w) (cl_UserID c) = Some a \<Longrightarrow> \<not> acc_IsActive a"
  shows "\<exists>status code message rid. 
    (status, code) = (if undecodable = None then lockout s q else (400, ''bad_request'')) \<and>
    run_state (strictHandler L s requestID q undecodable (Some c)) w =
      (\<lparr>hs_Status = status, hs_Subject = None, hs_Body = Envelope code message rid\<rparr>, w)"
proof (cases undecodable)
  case (Some err)
  then show ?thesis by (simp add: strictHandler_def RequestErrorHandlerFunc_def WriteError_def)
next
  case None
  obtain m where caller: "caller (w_db w) (Some c) = Inl m"
    using assms(5) by (cases "account_of (w_db w) (cl_UserID c)") (auto simp: caller_def)
  obtain e where admin: "admin_caller (w_db w) (Some c) = Inl e" "ae_forbidden e"
    using assms(5) by (cases "account_of (w_db w) (cl_UserID c)") (auto simp: admin_caller_def)
  note handlers = GetMe_def ListMyGames_def ChangeMyPassword_def ListMySessions_def RevokeMySession_def
    ListGames_def GetGame_def ListGameMembers_def UpdateGame_def AddGameMember_def UpdateGameMember_def
    ShutdownServer_def PurgeRefreshTokens_def GetAccount_def ListAccounts_def CreateAccount_def
    UpdateAccount_def CreateImpersonation_def CreateGame_def
    ListTurns_def GetTurn_def ValidateOrders_def SubmitOrders_def GetOrderSubmission_def
  note refusals = admin_refusal_def forbiddenBody_def refuse_def myGamesUnauthorized_def unauthorized_def
    changePasswordUnauthorized_def listSessionsUnauthorized_def revokeSessionUnauthorized_def
    listGamesUnauthorized_def getGameUnauthorized_def listMembersUnauthorized_def updateGameUnauthorized_def
    addMemberUnauthorized_def updateMemberUnauthorized_def
  show ?thesis
    using assms(1-4) None
    by (cases q) (simp_all add: strictHandler_def answer_def handlers caller admin refusals visit_error_def
        ResponseErrorHandlerFunc_def WriteError_def)
qed

theorem inactive_account_locked_out_witness:
  "\<exists>message rid. run_state (strictHandler sample_libs sample_server [] Req_ListAccounts None (sample_claims 4)) (sample_world sample_db) =
     (\<lparr>hs_Status = 403, hs_Subject = None, hs_Body = Envelope ''forbidden'' message rid\<rparr>, sample_world sample_db)"
proof -
  have "account_of sample_db 4 = Some \<lparr>acc_ID = 4, acc_Email = ''off@x'', acc_IsAdmin = False, acc_IsActive = False\<rparr>"
    by code_simp
  then show ?thesis
    using inactive_account_locked_out [of "sample_world sample_db" Req_ListAccounts "the (sample_claims 4)" None sample_server sample_libs "[]"]
    by (simp add: sample_claims_def)
qed

section \<open>Names\<close>

text \<open>One rule, two implementations. For text without a NUL byte the Go checks of game codes
  and handles accept exactly what the CHECK constraints of the tables accept.\<close>

theorem names_match_schema:
  assumes "CHR 0x00 \<notin> set s"
  shows "game_code_check s = ValidCode s \<and> handle_check s = ValidHandle s"
  using c_text_id [OF assms] by (simp add: game_code_check_iff handle_check_iff)

theorem names_match_schema_witness:
  "game_code_check ''ALPHA'' = ValidCode ''ALPHA'' \<and> handle_check ''player_1'' = ValidHandle ''player_1''"
  using names_match_schema [of "''ALPHA''"] names_match_schema [of "''player_1''"] by simp

end
