(* ===== verification/Sessions.thy ===== *)
theory Sessions
  imports AuthProperties
begin

text \<open>
  The session list of \<open>SessionsForAccount\<close>: the rows of the GROUP BY are the families of the
  account's live tokens, each once, with the latest times, in the order of the ORDER BY; and
  what revoking one family does to it.
\<close>

section \<open>MAX and ORDER BY\<close>

lemma max_of_ge: "r \<in> set rows \<Longrightarrow> f r \<le> max_of f rows"
proof (cases rows)
  case (Cons q qs)
  have "f x \<le> foldr (\<lambda>q m. max (f q) m) qs (f q)" if "x \<in> set (q # qs)" for x
    using that by (induction qs) auto
  with Cons show "r \<in> set rows \<Longrightarrow> f r \<le> max_of f rows" by (simp add: max_of_def)
qed simp

lemma max_of_mem: "rows \<noteq> [] \<Longrightarrow> \<exists>r \<in> set rows. f r = max_of f rows"
proof (cases rows)
  case (Cons q qs)
  have "\<exists>x \<in> set (q # qs). f x = foldr (\<lambda>q m. max (f q) m) qs (f q)"
    by (induction qs) (auto simp: max_def)
  with Cons show ?thesis by (simp add: max_of_def)
qed simp

lemma set_insert_session [simp]: "set (insert_session s ss) = insert s (set ss)"
  by (induction s ss rule: insert_session.induct) auto

lemma set_order_sessions [simp]: "set (foldr insert_session ss []) = set ss"
  by (induction ss) auto

lemma session_before_total: "session_before a b \<or> session_before b a"
  by (auto simp: session_before_def)

lemma session_before_trans: "session_before a b \<Longrightarrow> session_before b c \<Longrightarrow> session_before a c"
  by (auto simp: session_before_def)

lemma sorted_insert_session:
  "sorted_wrt session_before ss \<Longrightarrow> sorted_wrt session_before (insert_session s ss)"
  by (induction s ss rule: insert_session.induct)
    (use session_before_total session_before_trans in \<open>auto split: if_splits\<close>)

lemma sorted_order_sessions: "sorted_wrt session_before (foldr insert_session ss [])"
  by (induction ss) (auto intro: sorted_insert_session)

lemma distinct_insert_session:
  "distinct (map ses_FamilyID (insert_session s ss)) \<longleftrightarrow>
     ses_FamilyID s \<notin> ses_FamilyID ` set ss \<and> distinct (map ses_FamilyID ss)"
  by (induction s ss rule: insert_session.induct) auto

lemma distinct_order_sessions:
  "distinct (map ses_FamilyID (foldr insert_session ss [])) \<longleftrightarrow> distinct (map ses_FamilyID ss)"
  by (induction ss) (auto simp: distinct_insert_session)

section \<open>The sessions of an account\<close>

text \<open>A token that counts for the session list: the account's, not revoked, not expired.\<close>

definition live_token :: "database \<Rightarrow> int \<Rightarrow> int \<Rightarrow> RefreshToken \<Rightarrow> bool" where
  "live_token d a now t \<longleftrightarrow> (\<exists>j. token_of d j = Some t) \<and>
     rt_AccountID t = a \<and> \<not> rt_Revoked t \<and> now < rt_ExpiresAt t"

lemma token_of_rows:
  assumes "db_ok d"
  shows "(\<exists>j. token_of d j = Some t) \<longleftrightarrow> (\<exists>r \<in> set (refresh_tokens d). t = token_of_row r)"
  using find_key [OF db_okD(15) [OF assms]]
  by (auto simp: token_of_def dest!: find_Some_mem)

lemma ex_token_of:
  "db_ok d \<Longrightarrow> (\<exists>j t. token_of d j = Some t \<and> P t) \<longleftrightarrow> (\<exists>r \<in> set (refresh_tokens d). P (token_of_row r))"
  using token_of_rows by metis

lemma live_token_rows:
  "db_ok d \<Longrightarrow> live_token d a now t \<longleftrightarrow> (\<exists>r \<in> set (live_tokens a now d). t = token_of_row r)"
  by (auto simp: live_token_def token_of_rows live_tokens_def token_of_row_def)

text \<open>What \<open>SessionsForAccount\<close> promises.\<close>

definition session_list :: "database \<Rightarrow> int \<Rightarrow> int \<Rightarrow> Session list \<Rightarrow> bool" where
  "session_list d a now ss \<longleftrightarrow>
     distinct (map ses_FamilyID ss) \<and> sorted_wrt session_before ss \<and>
     (\<forall>t. live_token d a now t \<longrightarrow> (\<exists>s \<in> set ss. ses_FamilyID s = rt_FamilyID t \<and>
        rt_IssuedAt t \<le> ses_IssuedAt s \<and> rt_ExpiresAt t \<le> ses_ExpiresAt s)) \<and>
     (\<forall>s \<in> set ss.
        (\<exists>t. live_token d a now t \<and> rt_FamilyID t = ses_FamilyID s \<and> rt_IssuedAt t = ses_IssuedAt s) \<and>
        (\<exists>t. live_token d a now t \<and> rt_FamilyID t = ses_FamilyID s \<and> rt_ExpiresAt t = ses_ExpiresAt s))"

lemma select_sessions:
  assumes "db_ok d"
  shows "session_list d a now (sql_select_sessions a now d)"
  unfolding session_list_def
proof (intro conjI allI impI ballI)
  let ?rows = "live_tokens a now d"
  have grp: "ses_FamilyID (session_group ?rows f) = f" for f by (simp add: session_group_def Let_def)
  have set: "set (sql_select_sessions a now d) = session_group ?rows ` tr_family_id ` set ?rows"
    by (simp add: sql_select_sessions_def Let_def)
  show "distinct (map ses_FamilyID (sql_select_sessions a now d))"
    by (simp add: sql_select_sessions_def Let_def distinct_order_sessions o_def grp)
  show "sorted_wrt session_before (sql_select_sessions a now d)"
    by (simp add: sql_select_sessions_def Let_def sorted_order_sessions)
  fix t assume "live_token d a now t"
  then obtain r where r: "r \<in> set ?rows" "t = token_of_row r" using live_token_rows [OF assms] by blast
  have mem: "r \<in> set (filter (\<lambda>q. tr_family_id q = tr_family_id r) ?rows)" using r by simp
  have "session_group ?rows (tr_family_id r) \<in> set (sql_select_sessions a now d)" using r set by simp
  then show "\<exists>s \<in> set (sql_select_sessions a now d). ses_FamilyID s = rt_FamilyID t \<and>
      rt_IssuedAt t \<le> ses_IssuedAt s \<and> rt_ExpiresAt t \<le> ses_ExpiresAt s"
    by (rule rev_bexI)
      (use max_of_ge [OF mem] r in \<open>simp add: session_group_def Let_def token_of_row_def\<close>)
next
  let ?rows = "live_tokens a now d"
  fix s assume "s \<in> set (sql_select_sessions a now d)"
  then obtain q where q: "q \<in> set ?rows" "s = session_group ?rows (tr_family_id q)"
    by (auto simp: sql_select_sessions_def Let_def)
  let ?g = "filter (\<lambda>r. tr_family_id r = tr_family_id q) ?rows"
  have ne: "?g \<noteq> []" using q by (auto simp: filter_empty_conv)
  have "\<exists>t. live_token d a now t \<and> rt_FamilyID t = tr_family_id q \<and> P t"
    if "\<exists>r \<in> set ?g. P (token_of_row r)" for P
    using that live_token_rows [OF assms] by (auto simp: token_of_row_def)
  from this [of "\<lambda>t. rt_IssuedAt t = ses_IssuedAt s"] this [of "\<lambda>t. rt_ExpiresAt t = ses_ExpiresAt s"]
  show "\<exists>t. live_token d a now t \<and> rt_FamilyID t = ses_FamilyID s \<and> rt_IssuedAt t = ses_IssuedAt s"
    and "\<exists>t. live_token d a now t \<and> rt_FamilyID t = ses_FamilyID s \<and> rt_ExpiresAt t = ses_ExpiresAt s"
    using max_of_mem [OF ne, of tr_issued_at] max_of_mem [OF ne, of tr_expires_at] q(2)
    by (simp_all add: session_group_def Let_def token_of_row_def)
qed

lemma run_SessionsForAccount [simp]:
  "quiet w \<Longrightarrow> run_state (store_SessionsForAccount a now) w = (Inr (sql_select_sessions a now (w_db w)), w)"
  by (simp add: store_SessionsForAccount_def)

section \<open>Revoking a family, purging the expired\<close>

lemma filter_insert_session:
  "sorted_wrt session_before ss \<Longrightarrow>
   filter P (insert_session s ss) = (if P s then insert_session s (filter P ss) else filter P ss)"
proof (induction s ss rule: insert_session.induct)
  case (2 s t ts)
  have "insert_session s (filter P ts) = s # filter P ts" if "session_before s t"
  proof (cases "filter P ts")
    case (Cons u us)
    have "\<forall>x \<in> set (u # us). x \<in> set ts" unfolding Cons [symmetric] by simp
    with 2 have "session_before t u" by simp
    with Cons session_before_trans [OF that] show ?thesis by simp
  qed simp
  with 2 show ?case by auto
qed simp

lemma filter_order_sessions:
  "filter P (foldr insert_session ss []) = foldr insert_session (filter P ss) []"
  by (induction ss) (simp_all add: filter_insert_session sorted_order_sessions)

lemma select_sessions_filter:
  assumes "live_tokens a now d' = filter (\<lambda>t. tr_family_id t \<noteq> f) (live_tokens a now d)"
  shows "sql_select_sessions a now d' = filter (\<lambda>s. ses_FamilyID s \<noteq> f) (sql_select_sessions a now d)"
proof -
  let ?rows = "live_tokens a now d"
  let ?rest = "filter (\<lambda>t. tr_family_id t \<noteq> f) ?rows"
  have grp: "ses_FamilyID (session_group ?rows g) = g" for g by (simp add: session_group_def Let_def)
  have same: "session_group ?rest g = session_group ?rows g" if "g \<noteq> f" for g
  proof -
    have "filter (\<lambda>t. tr_family_id t = g) ?rest = filter (\<lambda>t. tr_family_id t = g) ?rows"
      using that by (auto intro: filter_cong)
    then show ?thesis by (simp add: session_group_def Let_def)
  qed
  have fams: "map tr_family_id ?rest = filter (\<lambda>g. g \<noteq> f) (map tr_family_id ?rows)"
    by (simp add: filter_map o_def)
  have "map (session_group ?rest) (filter (\<lambda>g. g \<noteq> f) xs) =
      filter (\<lambda>s. ses_FamilyID s \<noteq> f) (map (session_group ?rows) xs)" for xs
    by (induction xs) (simp_all add: grp same)
  then have "map (session_group ?rest) (remdups (map tr_family_id ?rest)) =
      filter (\<lambda>s. ses_FamilyID s \<noteq> f) (map (session_group ?rows) (remdups (map tr_family_id ?rows)))"
    by (simp only: fams remdups_filter)
  then show ?thesis
    by (simp add: sql_select_sessions_def Let_def assms filter_order_sessions)
qed

lemma live_tokens_revoke:
  "live_tokens a now (revoke_where (\<lambda>t. rt_FamilyID t = f \<and> rt_AccountID t = i) d) =
     (if a = i then filter (\<lambda>t. tr_family_id t \<noteq> f) (live_tokens a now d) else live_tokens a now d)"
proof -
  let ?P = "(\<lambda>t. rt_FamilyID t = f \<and> rt_AccountID t = i) \<circ> token_of_row"
  have "filter (\<lambda>t. tr_account_id t = a \<and> tr_revoked t = 0 \<and> tr_expires_at t > now) (map (revoke_row ?P) rs) =
      (if a = i then filter (\<lambda>t. tr_family_id t \<noteq> f) (filter (\<lambda>t. tr_account_id t = a \<and> tr_revoked t = 0 \<and>
         tr_expires_at t > now) rs)
       else filter (\<lambda>t. tr_account_id t = a \<and> tr_revoked t = 0 \<and> tr_expires_at t > now) rs)" for rs
    by (induction rs) (auto simp: revoke_row_def token_of_row_def)
  then show ?thesis by (simp add: live_tokens_def revoke_where_def)
qed

lemma revoke_where_none:
  assumes "\<And>r. r \<in> set (refresh_tokens d) \<Longrightarrow> \<not> P (token_of_row r)"
  shows "revoke_where P d = d"
proof -
  have "map (revoke_row (P \<circ> token_of_row)) (refresh_tokens d) = refresh_tokens d"
    using assms by (auto intro: map_idI simp: revoke_row_def)
  then show ?thesis by (simp add: revoke_where_def)
qed

lemma live_tokens_purge: "cutoff \<le> now \<Longrightarrow> live_tokens a now (purge_tokens cutoff d) = live_tokens a now d"
  by (auto simp: live_tokens_def purge_tokens_def intro: filter_cong)

end
