(* ===== verification/TokenTheorems.thy ===== *)
theory TokenTheorems
  imports Samples Sessions
begin

text \<open>
  The properties of the tokens themselves: the round trip of an access token, a refresh that
  fails half way, the list of sessions and its revocation, the purge, and the schedule in which
  one refresh token is rotated twice.
\<close>

section \<open>Access tokens\<close>

text \<open>C19. Round trip of access tokens. Under the documented behaviour of the JWT library, a token
  minted by IssueAccess or IssueImpersonation for a name and roles of ASCII characters (other
  bytes need not survive the encoding as JSON) expires after the configured access lifetime,
  or fifteen minutes for an impersonation; it verifies, under the same service, exactly until
  its expiry in whole seconds, and yields the account id, name, roles and actor it was minted
  with; afterwards it is refused.\<close>

theorem access_roundtrip:
  assumes "jwt_ok L" and "int64 i" and "is_ascii u" and "list_all is_ascii rs"
    and "fst (run_state (if act = 0 then IssueAccess L ts i u rs else IssueImpersonation L ts i u rs act) w) =
      Inr (raw, exp)"
  shows "exp = w_now w + (if act = 0 then ts_accessTTL ts else impersonationTTL) \<and>
    (\<forall>w2. fst (run_state (Verify L ts raw) w2) =
       (if w_now w2 < Unix exp * 1000000000
        then Inr \<lparr>cl_Subject = FormatInt i, cl_UserID = i, cl_Username = u, cl_Roles = rs,
          cl_ExpiresAt = Some (Unix exp * 1000000000), cl_Actor = act\<rparr>
        else Inl ErrToken))"
proof -
  from assms(5) have "exp = w_now w + (if act = 0 then ts_accessTTL ts else impersonationTTL)"
    and "SignedString L (with_registered (registered L i accessAudience (w_now w) exp) u rs [] act) (ts_secret ts) = Some raw"
    by (auto simp: IssueAccess_def IssueImpersonation_def sign_def Let_def split: option.splits if_splits)
  with verified_minted [OF assms(1-4)] show ?thesis by simp
qed

lemma sample_access:
  "fst (run_state (if (0 :: int) = 0 then IssueAccess sample_libs sample_tokens 3 ''pl@x'' [''player'']
     else IssueImpersonation sample_libs sample_tokens 3 ''pl@x'' [''player''] 0) (sample_world sample_db)) =
     Inr (''access3'', 1100000000000)"
  by code_simp

theorem access_roundtrip_witness:
  "fst (run_state (Verify sample_libs sample_tokens ''access3'') (sample_world empty_db)) =
     Inr \<lparr>cl_Subject = FormatInt 3, cl_UserID = 3, cl_Username = ''pl@x'', cl_Roles = [''player''],
       cl_ExpiresAt = Some 1100000000000, cl_Actor = 0\<rparr>"
proof -
  have "int64 3" "is_ascii ''pl@x''" "list_all is_ascii [''player'']" by (simp_all add: int64_def is_ascii_def)
  from access_roundtrip [OF sample_libs_ok(1) this sample_access, THEN conjunct2, THEN spec, of "sample_world empty_db"]
  show ?thesis by (simp add: Unix_def del: run_Verify)
qed

section \<open>A refresh that fails\<close>

text \<open>C20. No lock-out by failure. When a refresh with a usable token fails with an error, at
  whatever database call, the presented token is still usable, so the client can retry with it.\<close>

theorem failed_refresh_keeps_token:
  assumes "calm w" and "db_ok (w_db w)"
    and "run_state (RefreshToken_handler L s (Some raw)) w = (Inl e, w')"
    and "verified_refresh L (srv_tokens s) (w_now w) raw = Some c"
    and "token_of (w_db w) (rc_JTI c) = Some t" and "\<not> rt_Revoked t"
  shows "\<exists>t'. token_of (w_db w') (rc_JTI c) = Some t' \<and> \<not> rt_Revoked t'"
proof -
  have "usable (w_db w) (rc_JTI c)" using assms(2,5,6) by (simp add: usable_token_of)
  from failed_refresh [OF assms(1-4) this] have "usable (w_db w') (rc_JTI c)" .
  moreover have "db_ok (w_db w')"
    using obeysD [OF inv.obeys_RefreshToken calm_rely [OF assms(1)] assms(3)] assms(2)
    by (simp add: keep_inv_def)
  ultimately show ?thesis by (simp add: usable_token_of)
qed

definition failing_world :: world where
  "failing_world = (sample_world sample_db)\<lparr>w_sched := [Fine, Fine, Fine, Fine, Fine, Fine, Fine, Fault]\<rparr>"

lemma sample_failing:
  "fst (run_state (RefreshToken_handler sample_libs sample_server (Some ''refresh-j1'')) failing_world) =
     Inl (ErrSQL ResultError)"
  by code_simp

theorem failed_refresh_keeps_token_witness:
  "\<exists>t. token_of (w_db (snd (run_state (RefreshToken_handler sample_libs sample_server (Some ''refresh-j1''))
     failing_world))) ''j1'' = Some t \<and> \<not> rt_Revoked t"
proof -
  let ?c = "\<lparr>rc_Subject = ''3'', rc_UserID = 3, rc_JTI = ''j1'', rc_Family = ''f1'', rc_ExpiresAt = Some 3800000000000\<rparr>"
  have "verified_refresh sample_libs (srv_tokens sample_server) (w_now failing_world) ''refresh-j1'' = Some ?c"
    by code_simp
  from failed_refresh_keeps_token [OF _ _ result_pair [OF sample_failing] this]
  show ?thesis by (simp add: calm_def failing_world_def sample_token_def sample_lookups(5) [unfolded sample_token_def])
qed

section \<open>A refresh token rotated twice\<close>

text \<open>Another request refreshes with the same token, drawing other random bytes.\<close>

definition rival_refresh :: "database \<Rightarrow> database" where
  "rival_refresh d = w_db (snd (run_state (RefreshToken_handler sample_libs sample_server (Some ''refresh-j1''))
     ((sample_world d)\<lparr>w_entropy := [Some ''BBBBBBBBBBBBBBBB'']\<rparr>)))"

definition race_world :: world where
  "race_world = (sample_world sample_db)\<lparr>w_sched := [Fine, Fine, Interfere rival_refresh]\<rparr>"

text \<open>The rotation reads the token's row and revokes it in separate statements. In the
  schedule where a second refresh with the same token runs between the two, both requests answer
  200: one presented token has become two live tokens of its family, and no reuse is noticed.\<close>

theorem refresh_race:
  "fst (run_state (RefreshToken_handler sample_libs sample_server (Some ''refresh-j1'')) race_world) =
     Inr (OK200 (auth_tokens sample_server ''access3'' ''refresh-A''))
   \<and> fst (run_state (RefreshToken_handler sample_libs sample_server (Some ''refresh-j1''))
     ((sample_world sample_db)\<lparr>w_entropy := [Some ''BBBBBBBBBBBBBBBB'']\<rparr>)) =
     Inr (OK200 (auth_tokens sample_server ''access3'' ''refresh-B''))
   \<and> map (\<lambda>j. map_option rt_Revoked (token_of (w_db (snd (run_state
       (RefreshToken_handler sample_libs sample_server (Some ''refresh-j1'')) race_world))) j))
     [''j1'', jti_A, jti_B] = [Some True, Some False, Some False]"
  by code_simp

section \<open>The sessions of the caller\<close>

text \<open>C21. The session list. ListMySessions shows an active account exactly its session families
  that still have a usable refresh token, each once, with the latest issue and expiry times among
  the family's live tokens, newest first, ties by family id; and it changes nothing.\<close>

theorem ListMySessions_lists:
  assumes "quiet w" and "db_ok (w_db w)" and "run_state (ListMySessions ctx) w = (Inr (OK200 ss), w')"
  shows "\<exists>a. caller (w_db w) ctx = Inr a \<and> w_db w' = w_db w \<and>
    session_list (w_db w) (acc_ID a) (Unix (w_now w))
      (map (\<lambda>s. \<lparr>ses_FamilyID = as_FamilyId s, ses_IssuedAt = as_IssuedAt s, ses_ExpiresAt = as_ExpiresAt s\<rparr>) ss)"
proof (cases "caller (w_db w) ctx")
  case (Inl m)
  with assms show ?thesis by (auto simp: ListMySessions_def listSessionsUnauthorized_def)
next
  case (Inr a)
  have eta: "\<lparr>ses_FamilyID = ses_FamilyID s, ses_IssuedAt = ses_IssuedAt s, ses_ExpiresAt = ses_ExpiresAt s\<rparr> = s"
    for s :: Session by simp
  from Inr assms have "map (\<lambda>s. \<lparr>ses_FamilyID = as_FamilyId s, ses_IssuedAt = as_IssuedAt s, ses_ExpiresAt = as_ExpiresAt s\<rparr>) ss =
      sql_select_sessions (acc_ID a) (Unix (w_now w)) (w_db w)" and "w_db w' = w_db w"
    by (auto simp: ListMySessions_def o_def eta simp del: Session.surjective)
  with Inr select_sessions [OF assms(2)] show ?thesis by simp
qed

lemma sample_sessions:
  "fst (run_state (ListMySessions (sample_claims 3)) (sample_world sample_db)) =
     Inr (OK200 [\<lparr>as_FamilyId = ''f1'', as_IssuedAt = 100, as_ExpiresAt = 1000\<rparr>])"
  by code_simp

theorem ListMySessions_lists_witness:
  "session_list sample_db 3 200 [\<lparr>ses_FamilyID = ''f1'', ses_IssuedAt = 100, ses_ExpiresAt = 1000\<rparr>]"
  using ListMySessions_lists [OF _ _ result_pair [OF sample_sessions]]
  by (simp add: sample_account_def sample_callers(3) [unfolded sample_account_def] Unix_def)

text \<open>Revoking a session. RevokeMySession answers 204 exactly when the family has a token
  of the caller; then that family is gone from the caller's session list, at every time, the other
  entries and their order stay, and nobody else's list changes. A 404 changes nothing.\<close>

theorem RevokeMySession_removes:
  assumes "quiet w" and "db_ok (w_db w)" and "caller (w_db w) ctx = Inr a"
    and "run_state (RevokeMySession ctx f) w = (res, w')"
  shows "if \<exists>j t. token_of (w_db w) j = Some t \<and> rt_FamilyID t = f \<and> rt_AccountID t = acc_ID a
    then res = Inr NoContent204 \<and> (\<forall>i now. sql_select_sessions i now (w_db w') =
      (if i = acc_ID a then filter (\<lambda>s. ses_FamilyID s \<noteq> f) (sql_select_sessions i now (w_db w))
       else sql_select_sessions i now (w_db w)))
    else res = Inr (refuse NotFound404 ''not_found'' ''session not found'') \<and> w_db w' = w_db w"
proof -
  have rows: "(\<exists>j t. token_of (w_db w) j = Some t \<and> rt_FamilyID t = f \<and> rt_AccountID t = acc_ID a) \<longleftrightarrow>
      (\<exists>r \<in> set (refresh_tokens (w_db w)). tr_family_id r = f \<and> tr_account_id r = acc_ID a)"
    using ex_token_of [OF assms(2)] by (simp add: token_of_row_def)
  have lists: "sql_select_sessions i now (revoke_where (\<lambda>t. rt_FamilyID t = f \<and> rt_AccountID t = acc_ID a) d) =
      (if i = acc_ID a then filter (\<lambda>s. ses_FamilyID s \<noteq> f) (sql_select_sessions i now d)
       else sql_select_sessions i now d)" for i now d
  proof (cases "i = acc_ID a")
    case True
    then have "live_tokens i now (revoke_where (\<lambda>t. rt_FamilyID t = f \<and> rt_AccountID t = acc_ID a) d) =
        filter (\<lambda>t. tr_family_id t \<noteq> f) (live_tokens i now d)" by (simp add: live_tokens_revoke)
    from select_sessions_filter [OF this] True show ?thesis by simp
  next
    case False
    then show ?thesis by (simp add: sql_select_sessions_def live_tokens_revoke)
  qed
  show ?thesis
  proof (cases "\<exists>r \<in> set (refresh_tokens (w_db w)). tr_family_id r = f \<and> tr_account_id r = acc_ID a")
    case True
    with assms have "res = Inr NoContent204"
      and "w_db w' = revoke_where (\<lambda>t. rt_FamilyID t = f \<and> rt_AccountID t = acc_ID a) (w_db w)"
      by (auto simp: RevokeMySession_def)
    with True rows show ?thesis by (simp add: lists)
  next
    case False
    then have same: "revoke_where (\<lambda>t. rt_FamilyID t = f \<and> rt_AccountID t = acc_ID a) (w_db w) = w_db w"
      by (intro revoke_where_none) (auto simp: token_of_row_def)
    have "run_state (store_RevokeFamilyForAccount f (acc_ID a)) w = (Inl ErrNotFound, w)"
      unfolding run_RevokeFamilyForAccount [OF assms(1)] same if_not_P [OF False] by simp
    with assms have "res = Inr (refuse NotFound404 ''not_found'' ''session not found'') \<and> w_db w' = w_db w"
      by (auto simp: RevokeMySession_def simp del: run_RevokeFamilyForAccount)
    then show ?thesis unfolding rows if_not_P [OF False] .
  qed
qed

theorem RevokeMySession_removes_witness:
  "sql_select_sessions 3 200 (w_db (snd (run_state (RevokeMySession (sample_claims 3) ''f1'')
     (sample_world sample_db)))) = []"
proof -
  have "sql_select_sessions 3 200 sample_db = [\<lparr>ses_FamilyID = ''f1'', ses_IssuedAt = 100, ses_ExpiresAt = 1000\<rparr>]"
    by code_simp
  moreover have "\<exists>j t. token_of sample_db j = Some t \<and> rt_FamilyID t = ''f1'' \<and> rt_AccountID t = 3"
    using sample_lookups(5) by (intro exI [of _ "''j1''"]) (simp add: sample_token_def)
  ultimately show ?thesis
    using RevokeMySession_removes [OF _ _ _ prod.collapse [symmetric], of "sample_world sample_db" "sample_claims 3"
        "sample_account 3 ''pl@x'' False" "''f1''"]
    by (simp add: sample_account_def sample_callers(3) [unfolded sample_account_def])
qed

text \<open>Purge. A 200 of PurgeRefreshTokens means an active admin asked; it deletes exactly the
  tokens that have expired by the server's clock, revoked or not, reports how many, and changes
  nobody's session list, now or later.\<close>

theorem PurgeRefreshTokens_deletes:
  assumes "quiet w" and "db_ok (w_db w)" and "run_state (PurgeRefreshTokens ctx) w = (Inr (OK200 n), w')"
  shows "(\<exists>a. admin_caller (w_db w) ctx = Inr a) \<and>
    n + length (refresh_tokens (w_db w')) = length (refresh_tokens (w_db w)) \<and>
    (\<forall>j. token_of (w_db w') j = (case token_of (w_db w) j of None \<Rightarrow> None
       | Some t \<Rightarrow> if rt_ExpiresAt t \<le> Unix (w_now w) then None else Some t)) \<and>
    (\<forall>a now. Unix (w_now w) \<le> now \<longrightarrow> sql_select_sessions a now (w_db w') = sql_select_sessions a now (w_db w))"
proof (cases "admin_caller (w_db w) ctx")
  case (Inl e)
  with assms show ?thesis by (auto simp: PurgeRefreshTokens_def admin_refusal_def split: if_splits)
next
  case (Inr a)
  let ?c = "Unix (w_now w)"
  from Inr assms(1,3) have n: "n = length (filter (\<lambda>t. tr_expires_at t \<le> ?c) (refresh_tokens (w_db w)))"
    and w': "w_db w' = purge_tokens ?c (w_db w)"
    using assms(2) by (auto simp: PurgeRefreshTokens_def)
  have "n + length (refresh_tokens (w_db w')) = length (refresh_tokens (w_db w))"
    using sum_length_filter_compl [of "\<lambda>t. tr_expires_at t \<le> ?c" "refresh_tokens (w_db w)"]
    by (simp add: n w' purge_tokens_def)
  moreover have "sql_select_sessions a now (w_db w') = sql_select_sessions a now (w_db w)" if "?c \<le> now" for a now
    using live_tokens_purge [OF that] by (simp add: sql_select_sessions_def w')
  ultimately show ?thesis using Inr assms(2) by (simp add: w')
qed

lemma sample_purge:
  "fst (run_state (PurgeRefreshTokens (sample_claims 1)) ((sample_world sample_db)\<lparr>w_now := 2000000000000\<rparr>)) = Inr (OK200 2)"
  by code_simp

theorem PurgeRefreshTokens_deletes_witness:
  "token_of (w_db (snd (run_state (PurgeRefreshTokens (sample_claims 1))
     ((sample_world sample_db)\<lparr>w_now := 2000000000000\<rparr>)))) ''j1'' = None"
  using PurgeRefreshTokens_deletes [OF _ _ result_pair [OF sample_purge]]
  by (simp add: Unix_def sample_token_def sample_lookups(5) [unfolded sample_token_def])

end
