(* ===== verification/Migrations.thy ===== *)
theory Migrations
  imports World
begin

text \<open>
  internal/database/migrations.go: the seven scripts that build the schema. A script is the list
  of its statements, a statement a function on the tables that exist, \<open>Inl\<close> an SQL error; a
  table that does not exist is \<open>None\<close>. The runner, package sqlitemigration, is a parameter with
  its documented behaviour \<open>migrate_ok\<close>. The CREATE INDEX statements of 0005 have no effect on
  the contents and are left out.
\<close>

section \<open>Tables under construction\<close>

record OldGameRow =
  og_id :: int
  og_code :: string
  og_is_active :: int

text \<open>The games table has three columns until 0007 adds the others.\<close>

datatype games_table = Games3 "OldGameRow list" | Games7 "GameRow list"

record tables =
  tb_meta :: bool
  tb_accounts :: "AccountRow list option"
  tb_games :: "games_table option"
  tb_games_new :: "OldGameRow list option"
  tb_roles :: "RoleRow list option"
  tb_tokens :: "TokenRow list option"

type_synonym statement = "tables \<Rightarrow> sql_error + tables"

fun run_script :: "statement list \<Rightarrow> statement" where
  "run_script [] t = Inr t"
| "run_script (s # ss) t = (case s t of Inl e \<Rightarrow> Inl e | Inr t' \<Rightarrow> run_script ss t')"

lemma run_script_append:
  "run_script (xs @ ys) t = (case run_script xs t of Inl e \<Rightarrow> Inl e | Inr t' \<Rightarrow> run_script ys t')"
  by (induction xs arbitrary: t) (simp_all split: sum.split)

section \<open>0001 to 0005\<close>

definition create_meta :: statement where
  "create_meta t = (if tb_meta t then Inl ResultError else Inr (t\<lparr>tb_meta := True\<rparr>))"

definition create_accounts :: statement where
  "create_accounts t =
     (if tb_accounts t \<noteq> None then Inl ResultError else Inr (t\<lparr>tb_accounts := Some []\<rparr>))"

definition create_games :: statement where
  "create_games t = (if tb_games t \<noteq> None then Inl ResultError else Inr (t\<lparr>tb_games := Some (Games3 [])\<rparr>))"

definition create_roles :: statement where
  "create_roles t = (if tb_roles t \<noteq> None then Inl ResultError else Inr (t\<lparr>tb_roles := Some []\<rparr>))"

definition create_tokens :: statement where
  "create_tokens t = (if tb_tokens t \<noteq> None then Inl ResultError else Inr (t\<lparr>tb_tokens := Some []\<rparr>))"

text \<open>The CHECK of table games as 0003 created it.\<close>

definition old_code_check :: "string \<Rightarrow> bool" where
  "old_code_check code \<longleftrightarrow>
     2 \<le> sql_length code \<and>
     sql_glob code [OneOf [(97, 122)], Star] \<and>
     \<not> sql_glob code [Star, NoneOf [(97, 122), (48, 57), (46, 46), (95, 95), (45, 45)], Star]"

section \<open>0006\<close>

definition upper_byte :: "char \<Rightarrow> char" where
  "upper_byte c = (if 97 \<le> ord c \<and> ord c \<le> 122 then byte (ord c - 32) else c)"

definition sql_upper :: "string \<Rightarrow> string" where
  "sql_upper s = map upper_byte s"

definition create_games_new :: statement where
  "create_games_new t =
     (if tb_games_new t \<noteq> None then Inl ResultError else Inr (t\<lparr>tb_games_new := Some []\<rparr>))"

definition salvageable :: "OldGameRow \<Rightarrow> bool" where
  "salvageable g \<longleftrightarrow> 2 \<le> sql_length (og_code g) \<and>
     \<not> sql_glob (sql_upper (og_code g)) [Star, NoneOf [(65, 90)], Star]"

definition new_game_check :: "OldGameRow \<Rightarrow> bool" where
  "new_game_check g \<longleftrightarrow> game_code_check (og_code g) \<and> sql_bool (og_is_active g)"

text \<open>INSERT INTO games_new ... SELECT: all rows, or an error and none.\<close>

definition copy_games :: statement where
  "copy_games t = (case (tb_games t, tb_games_new t) of
     (Some (Games3 gs), Some new) \<Rightarrow>
       (let rows = map (\<lambda>g. g\<lparr>og_code := sql_upper (og_code g)\<rparr>) (filter salvageable gs)
        in if \<not> list_all new_game_check rows then Inl ResultConstraintCheck
           else if \<not> distinct (map og_id (new @ rows)) \<or> \<not> distinct (map og_code (new @ rows))
             then Inl ResultConstraintUnique
           else Inr (t\<lparr>tb_games_new := Some (new @ rows)\<rparr>))
   | _ \<Rightarrow> Inl ResultError)"

definition prune_roles :: statement where
  "prune_roles t = (case (tb_roles t, tb_games_new t) of
     (Some rs, Some new) \<Rightarrow>
       Inr (t\<lparr>tb_roles := Some (filter (\<lambda>r. \<not> rr_game_id r \<notin> set (map og_id new)) rs)\<rparr>)
   | _ \<Rightarrow> Inl ResultError)"

definition drop_games :: statement where
  "drop_games t = (if tb_games t = None then Inl ResultError else Inr (t\<lparr>tb_games := None\<rparr>))"

definition rename_games :: statement where
  "rename_games t = (case tb_games_new t of
     None \<Rightarrow> Inl ResultError
   | Some new \<Rightarrow> if tb_games t \<noteq> None then Inl ResultError
       else Inr (t\<lparr>tb_games := Some (Games3 new), tb_games_new := None\<rparr>))"

section \<open>0007\<close>

definition with_columns :: "OldGameRow \<Rightarrow> GameRow" where
  "with_columns g = \<lparr>gr_id = og_id g, gr_code = og_code g, gr_is_active = og_is_active g,
     gr_name = [], gr_status = ''draft'', gr_description = None\<rparr>"

definition add_game_columns :: statement where
  "add_game_columns t = (case tb_games t of
     Some (Games3 gs) \<Rightarrow> Inr (t\<lparr>tb_games := Some (Games7 (map with_columns gs))\<rparr>)
   | _ \<Rightarrow> Inl ResultError)"

section \<open>The schema\<close>

definition appID :: int where
  "appID = 0x65637634"

definition migrations :: "statement list list" where
  "migrations = [
     [create_meta],
     [create_accounts],
     [create_games],
     [create_roles],
     [create_tokens],
     [create_games_new, copy_games, prune_roles, drop_games, rename_games],
     [add_game_columns]]"

text \<open>
  A database file: its application id, its user_version and its tables. \<open>Migrate\<close> rejects a
  file of another application, accepts a file without application id if it is empty, and runs
  the scripts from the file's version on, each in its transaction. The behaviour is that of
  undisturbed calls; \<open>Some e\<close> is an error.
\<close>

record db_file =
  f_app :: int
  f_version :: nat
  f_tables :: tables

definition no_tables :: tables where
  "no_tables = \<lparr>tb_meta = False, tb_accounts = None, tb_games = None, tb_games_new = None,
     tb_roles = None, tb_tokens = None\<rparr>"

definition new_file :: db_file where
  "new_file = \<lparr>f_app = 0, f_version = 0, f_tables = no_tables\<rparr>"

type_synonym migrator = "int \<Rightarrow> statement list list \<Rightarrow> db_file \<Rightarrow> sql_error option \<times> db_file"

definition migrate_ok :: "migrator \<Rightarrow> bool" where
  "migrate_ok M \<longleftrightarrow> (\<forall>app ms f.
     (f_app f \<noteq> app \<and> f \<noteq> new_file \<longrightarrow> fst (M app ms f) \<noteq> None \<and> snd (M app ms f) = f) \<and>
     (f_app f = app \<or> f = new_file \<longrightarrow>
        (f_version f = length ms \<longrightarrow> M app ms f = (None, f\<lparr>f_app := app\<rparr>)) \<and>
        (f_version f < length ms \<longrightarrow>
           (case run_script (ms ! f_version f) (f_tables f) of
              Inl e \<Rightarrow> M app ms f = (Some e, f\<lparr>f_app := app\<rparr>)
            | Inr t \<Rightarrow> M app ms f = M app ms (f\<lparr>f_app := app, f_version := Suc (f_version f), f_tables := t\<rparr>)))))"

section \<open>The constraints at each version\<close>

definition games_part :: "nat \<Rightarrow> games_table option \<Rightarrow> bool" where
  "games_part v g = (case g of
     None \<Rightarrow> v < 3
   | Some (Games3 gs) \<Rightarrow> 3 \<le> v \<and> v < 7 \<and> rowids_ok og_id gs \<and> distinct (map og_code gs) \<and>
       list_all (\<lambda>g. sql_bool (og_is_active g) \<and>
         (if v < 6 then old_code_check (og_code g) else game_code_check (og_code g))) gs
   | Some (Games7 gs) \<Rightarrow> 7 \<le> v \<and> rowids_ok gr_id gs \<and> distinct (map gr_code gs) \<and> list_all games_check gs)"

fun game_ids :: "games_table option \<Rightarrow> int set" where
  "game_ids None = {}"
| "game_ids (Some (Games3 gs)) = og_id ` set gs"
| "game_ids (Some (Games7 gs)) = gr_id ` set gs"

definition accounts_part :: "nat \<Rightarrow> AccountRow list option \<Rightarrow> bool" where
  "accounts_part v a = (case a of None \<Rightarrow> v < 2
   | Some as \<Rightarrow> 2 \<le> v \<and> rowids_ok ar_id as \<and> list_all accounts_check as \<and> distinct (map ar_email as))"

definition account_ids :: "AccountRow list option \<Rightarrow> int set" where
  "account_ids a = (case a of None \<Rightarrow> {} | Some as \<Rightarrow> ar_id ` set as)"

definition roles_part :: "nat \<Rightarrow> int set \<Rightarrow> int set \<Rightarrow> RoleRow list option \<Rightarrow> bool" where
  "roles_part v gids aids r = (case r of None \<Rightarrow> v < 4
   | Some rs \<Rightarrow> 4 \<le> v \<and> rowids_ok rr_id rs \<and> list_all roles_check rs \<and>
       distinct (map (\<lambda>r. (rr_game_id r, rr_account_id r)) rs) \<and>
       distinct (map (\<lambda>r. (rr_game_id r, rr_handle r)) rs) \<and>
       rr_game_id ` set rs \<subseteq> gids \<and> rr_account_id ` set rs \<subseteq> aids)"

definition tokens_part :: "nat \<Rightarrow> int set \<Rightarrow> TokenRow list option \<Rightarrow> bool" where
  "tokens_part v aids k = (case k of None \<Rightarrow> v < 5
   | Some ts \<Rightarrow> 5 \<le> v \<and> rowids_ok tr_id ts \<and> list_all tokens_check ts \<and> distinct (map tr_jti ts) \<and>
       tr_account_id ` set ts \<subseteq> aids)"

definition tables_ok :: "nat \<Rightarrow> tables \<Rightarrow> bool" where
  "tables_ok v t \<longleftrightarrow> tb_meta t = (1 \<le> v) \<and> tb_games_new t = None \<and>
     accounts_part v (tb_accounts t) \<and> games_part v (tb_games t) \<and>
     roles_part v (game_ids (tb_games t)) (account_ids (tb_accounts t)) (tb_roles t) \<and>
     tokens_part v (account_ids (tb_accounts t)) (tb_tokens t)"

lemmas part_defs = accounts_part_def games_part_def roles_part_def tokens_part_def account_ids_def

text \<open>A database at version 7 is the one the store works on.\<close>

definition database_of :: "db_file \<Rightarrow> database" where
  "database_of f = \<lparr>
     accounts = (case tb_accounts (f_tables f) of None \<Rightarrow> [] | Some x \<Rightarrow> x),
     games = (case tb_games (f_tables f) of Some (Games7 x) \<Rightarrow> x | _ \<Rightarrow> []),
     game_account_role = (case tb_roles (f_tables f) of None \<Rightarrow> [] | Some x \<Rightarrow> x),
     refresh_tokens = (case tb_tokens (f_tables f) of None \<Rightarrow> [] | Some x \<Rightarrow> x),
     user_version = int (f_version f)\<rparr>"

lemma db_ok_database_of: "tables_ok 7 (f_tables f) \<Longrightarrow> db_ok (database_of f)"
  by (auto simp: tables_ok_def part_defs database_of_def db_ok_def accounts_ok_def games_ok_def
      roles_ok_def tokens_ok_def split: option.splits games_table.splits)

lemma tables_ok_new: "tables_ok 0 no_tables"
  by (simp add: tables_ok_def part_defs no_tables_def)

end
