(* ===== verification/MigrationTheorems.thy ===== *)
theory MigrationTheorems
  imports Migrations
begin

text \<open>
  The migrations succeed on every database that satisfies the constraints of its version, and
  what the rebuild of the games table keeps.
\<close>

interpretation old_game_rows: rowid_table og_id .

section \<open>Codes, old and new\<close>

definition old_code_char :: "char \<Rightarrow> bool" where
  "old_code_char c \<longleftrightarrow> in_class [(97, 122), (48, 57), (46, 46), (95, 95), (45, 45)] c"

definition lower_letter :: "char \<Rightarrow> bool" where
  "lower_letter c \<longleftrightarrow> 97 \<le> ord c \<and> ord c \<le> 122"

lemma old_code_chars:
  assumes "CHR 0x00 \<notin> set s" and "old_code_check s"
  shows "list_all old_code_char s"
proof -
  have "in_class [(97, 122), (48, 57), (46, 46), (95, 95), (45, 45)] = old_code_char"
    by (simp add: fun_eq_iff old_code_char_def)
  with assms show ?thesis
    unfolding old_code_check_def sql_glob_def c_text_id [OF assms(1)] glob_contains by simp
qed

lemma upper_byte_letter:
  "old_code_char c \<Longrightarrow> upper_letter (upper_byte c) \<longleftrightarrow> lower_letter c"
  by (auto simp: old_code_char_def in_class_def upper_byte_def upper_letter_def lower_letter_def byte_def)

lemma upper_byte_inj: "lower_letter c \<Longrightarrow> lower_letter d \<Longrightarrow> upper_byte c = upper_byte d \<Longrightarrow> c = d"
proof -
  assume l: "lower_letter c" "lower_letter d" and "upper_byte c = upper_byte d"
  then have "ord (byte (ord c - 32)) = ord (byte (ord d - 32))" by (simp add: upper_byte_def lower_letter_def)
  moreover from l have "ord c - 32 < 256" "ord d - 32 < 256" by (auto simp: lower_letter_def)
  ultimately have "ord c - 32 = ord d - 32" by (simp add: byte_def)
  with l have "ord c = ord d" unfolding lower_letter_def by linarith
  then show "c = d" by simp
qed

lemma upper_byte_zero: "CHR 0x00 \<notin> set s \<Longrightarrow> CHR 0x00 \<notin> set (sql_upper s)"
  by (auto simp: sql_upper_def upper_byte_def byte_def dest!: arg_cong [where f = ord] split: if_splits)

lemma upper_code:
  assumes "CHR 0x00 \<notin> set s" and "old_code_check s"
  shows "(\<not> sql_glob (sql_upper s) [Star, NoneOf [(65, 90)], Star]) \<longleftrightarrow> list_all lower_letter s"
proof -
  have "list_all upper_letter (sql_upper s) \<longleftrightarrow> list_all lower_letter s"
    using old_code_chars [OF assms] by (auto simp: sql_upper_def list_all_iff upper_byte_letter)
  then show ?thesis
    unfolding sql_glob_def c_text_id [OF upper_byte_zero [OF assms(1)]] glob_contains in_class_upper by simp
qed

lemma salvageable_iff:
  assumes "CHR 0x00 \<notin> set (og_code g)" and "old_code_check (og_code g)"
  shows "salvageable g \<longleftrightarrow> list_all lower_letter (og_code g)"
  using upper_code [OF assms] assms(2) by (simp add: salvageable_def old_code_check_def)

lemma upper_code_check:
  assumes "CHR 0x00 \<notin> set s" and "old_code_check s" and "list_all lower_letter s"
  shows "game_code_check (sql_upper s)"
proof -
  have all: "list_all upper_letter (sql_upper s)"
    using assms(3) old_code_chars [OF assms(1,2)] by (auto simp: sql_upper_def list_all_iff upper_byte_letter)
  have "list_all (\<lambda>c. ord c < 128) (c_text s)"
    using assms(3) by (auto simp: c_text_id [OF assms(1)] list_all_iff lower_letter_def)
  with assms(2) have "2 \<le> length s" by (simp add: old_code_check_def ascii_sql_length c_text_id [OF assms(1)])
  with all show ?thesis
    by (simp add: game_code_check_iff ValidCode_iff c_text_id [OF upper_byte_zero [OF assms(1)]])
      (simp add: sql_upper_def)
qed

lemma sql_upper_inj:
  "list_all lower_letter s \<Longrightarrow> list_all lower_letter t \<Longrightarrow> sql_upper s = sql_upper t \<Longrightarrow> s = t"
proof (induction s arbitrary: t)
  case (Cons c s)
  then obtain d t' where "t = d # t'" by (cases t) (auto simp: sql_upper_def)
  with Cons upper_byte_inj show ?case by (auto simp: sql_upper_def)
qed (simp add: sql_upper_def)

section \<open>The rebuild of the games table\<close>

definition salvaged :: "OldGameRow list \<Rightarrow> OldGameRow list" where
  "salvaged gs = map (\<lambda>g. g\<lparr>og_code := sql_upper (og_code g)\<rparr>)
     (filter (\<lambda>g. list_all lower_letter (og_code g)) gs)"

definition old_games_ok :: "OldGameRow list \<Rightarrow> bool" where
  "old_games_ok gs \<longleftrightarrow> rowids_ok og_id gs \<and> distinct (map og_code gs) \<and>
     (\<forall>g \<in> set gs. sql_bool (og_is_active g) \<and> old_code_check (og_code g) \<and> CHR 0x00 \<notin> set (og_code g))"

lemma old_games_ok_filter: "old_games_ok gs \<Longrightarrow> old_games_ok (filter P gs)"
  by (auto simp: old_games_ok_def old_game_rows.rowids_ok_filter distinct_map_filter)

lemma salvaged_ok:
  assumes "old_games_ok gs"
  shows "rowids_ok og_id (salvaged gs)" and "distinct (map og_code (salvaged gs))"
    and "list_all new_game_check (salvaged gs)"
proof -
  let ?l = "filter (\<lambda>g. list_all lower_letter (og_code g)) gs"
  have l: "old_games_ok ?l" by (rule old_games_ok_filter [OF assms])
  then show "rowids_ok og_id (salvaged gs)"
    by (auto simp: salvaged_def old_games_ok_def intro: old_game_rows.rowids_ok_map)
  have "inj_on sql_upper (set (map og_code ?l))"
    using sql_upper_inj by (auto intro!: inj_onI)
  moreover have "distinct (map og_code ?l)" using l by (simp add: old_games_ok_def)
  ultimately have "distinct (map sql_upper (map og_code ?l))"
    unfolding distinct_map [of sql_upper] by blast
  then show "distinct (map og_code (salvaged gs))" by (simp add: salvaged_def o_def)
  show "list_all new_game_check (salvaged gs)"
    using assms upper_code_check by (auto simp: salvaged_def old_games_ok_def list_all_iff new_game_check_def)
qed

lemma salvage_filter:
  "old_games_ok gs \<Longrightarrow> filter salvageable gs = filter (\<lambda>g. list_all lower_letter (og_code g)) gs"
  by (rule filter_cong) (auto simp: old_games_ok_def salvageable_iff)

lemma run_0006:
  assumes "old_games_ok gs" and "tb_games t = Some (Games3 gs)" and "tb_roles t = Some rs" and "tb_games_new t = None"
  shows "run_script (migrations ! 5) t = Inr (t\<lparr>tb_games := Some (Games3 (salvaged gs)),
    tb_roles := Some (filter (\<lambda>r. rr_game_id r \<in> og_id ` set (salvaged gs)) rs)\<rparr>)"
proof -
  have "distinct (map og_id (salvaged gs))"
    using salvaged_ok(1) [OF assms(1)] by (rule old_game_rows.rowids_ok_inj)
  with assms salvaged_ok(2,3) [OF assms(1)] show ?thesis
    by (simp add: migrations_def create_games_new_def copy_games_def salvage_filter [OF assms(1)] Let_def
        prune_roles_def drop_games_def rename_games_def flip: salvaged_def)
qed

section \<open>A database of version 5\<close>

definition old_games :: "OldGameRow list" where
  "old_games = [\<lparr>og_id = 1, og_code = ''alpha'', og_is_active = 1\<rparr>, \<lparr>og_id = 2, og_code = ''alpha-1'', og_is_active = 1\<rparr>]"

definition old_file :: db_file where
  "old_file = \<lparr>f_app = appID, f_version = 5, f_tables = \<lparr>tb_meta = True,
     tb_accounts = Some [\<lparr>ar_id = 1, ar_email = ''a@x'', ar_is_admin = 0, ar_is_active = 1, ar_hashed_secret = ''h''\<rparr>],
     tb_games = Some (Games3 old_games), tb_games_new = None,
     tb_roles = Some [\<lparr>rr_id = 1, rr_game_id = 1, rr_account_id = 1, rr_handle = ''GM'', rr_is_gm = 1, rr_is_active = 1\<rparr>,
       \<lparr>rr_id = 2, rr_game_id = 2, rr_account_id = 1, rr_handle = ''GM'', rr_is_gm = 1, rr_is_active = 1\<rparr>],
     tb_tokens = Some []\<rparr>\<rparr>"

lemma old_file_ok: "f_version old_file = 5" "tables_ok 5 (f_tables old_file)" "f_app old_file = appID"
  "tb_games (f_tables old_file) = Some (Games3 old_games)" "\<forall>g \<in> set old_games. CHR 0x00 \<notin> set (og_code g)"
  by code_simp+

section \<open>What the rebuild keeps\<close>

text \<open>C23. The rebuild. On a database that satisfies the constraints of version 5 and whose codes
  hold no NUL byte, migration 0006 cannot fail. It keeps exactly the games whose code is all
  lowercase letters, with their id and visibility and the code in upper case, exactly the roster
  rows of these games, and every account and token; the result satisfies the constraints of
  version 6, with no dangling reference.\<close>

theorem migration_0006_rebuilds:
  assumes "tables_ok 5 t" and "tb_games t = Some (Games3 gs)" and "tb_roles t = Some rs"
    and "\<forall>g \<in> set gs. CHR 0x00 \<notin> set (og_code g)"
  shows "\<exists>t'. run_script (migrations ! 5) t = Inr t' \<and> tables_ok 6 t' \<and>
    tb_games t' = Some (Games3 [g\<lparr>og_code := sql_upper (og_code g)\<rparr>. g \<leftarrow> gs, list_all lower_letter (og_code g)]) \<and>
    tb_roles t' = Some [r \<leftarrow> rs. \<exists>g \<in> set gs. og_id g = rr_game_id r \<and> list_all lower_letter (og_code g)] \<and>
    tb_accounts t' = tb_accounts t \<and> tb_tokens t' = tb_tokens t"
proof -
  from assms have ok: "old_games_ok gs"
    by (auto simp: tables_ok_def part_defs old_games_ok_def list_all_iff)
  let ?rs = "filter (\<lambda>r. rr_game_id r \<in> og_id ` set (salvaged gs)) rs"
  let ?t = "t\<lparr>tb_games := Some (Games3 (salvaged gs)), tb_roles := Some ?rs\<rparr>"
  have run: "run_script (migrations ! 5) t = Inr ?t"
    using assms by (intro run_0006 [OF ok]) (simp_all add: tables_ok_def)
  have games: "salvaged gs = [g\<lparr>og_code := sql_upper (og_code g)\<rparr>. g \<leftarrow> gs, list_all lower_letter (og_code g)]"
    by (induction gs) (simp_all add: salvaged_def)
  have ids: "i \<in> og_id ` set (salvaged gs) \<longleftrightarrow> (\<exists>g \<in> set gs. og_id g = i \<and> list_all lower_letter (og_code g))" for i
    by (auto simp: salvaged_def image_iff)
  have "tables_ok 6 ?t"
    using assms salvaged_ok [OF ok]
    by (auto simp: tables_ok_def part_defs list_all_iff new_game_check_def role_rows.rowids_ok_filter
        distinct_map_filter split: option.splits)
  with run games ids show ?thesis by simp
qed

theorem migration_0006_rebuilds_witness:
  "\<exists>t. run_script (migrations ! 5) (f_tables old_file) = Inr t \<and>
     tb_games t = Some (Games3 [\<lparr>og_id = 1, og_code = ''ALPHA'', og_is_active = 1\<rparr>])"
proof -
  have kept: "[g\<lparr>og_code := sql_upper (og_code g)\<rparr>. g \<leftarrow> old_games, list_all lower_letter (og_code g)] =
       [\<lparr>og_id = 1, og_code = ''ALPHA'', og_is_active = 1\<rparr>]"
    by code_simp
  obtain rs where "tb_roles (f_tables old_file) = Some rs"
    by (simp add: old_file_def)
  from migration_0006_rebuilds [OF old_file_ok(2,4) this old_file_ok(5)] show ?thesis
    unfolding kept by blast
qed

section \<open>All migrations\<close>

text \<open>Codes of the original games table without a NUL byte.\<close>

definition plain_codes :: "tables \<Rightarrow> bool" where
  "plain_codes t \<longleftrightarrow> (case tb_games t of
     Some (Games3 gs) \<Rightarrow> list_all (\<lambda>g. CHR 0x00 \<notin> set (og_code g)) gs | _ \<Rightarrow> True)"

lemma small_steps:
  assumes "tables_ok v t" and "v < 5"
  shows "\<exists>t'. run_script (migrations ! v) t = Inr t' \<and> tables_ok (Suc v) t' \<and> (plain_codes t \<longrightarrow> plain_codes t')"
proof -
  from assms(2) consider "v = 0" | "v = 1" | "v = 2" | "v = 3" | "v = 4" by linarith
  then show ?thesis
  proof cases
    case 1
    with assms(1) show ?thesis
      by (simp add: migrations_def create_meta_def tables_ok_def part_defs plain_codes_def split: option.splits games_table.splits)
  next
    case 2
    with assms(1) show ?thesis
      by (simp add: migrations_def create_accounts_def tables_ok_def part_defs plain_codes_def rowids_ok_def
          split: option.splits games_table.splits)
  next
    case 3
    with assms(1) show ?thesis
      by (simp add: migrations_def create_games_def tables_ok_def part_defs plain_codes_def rowids_ok_def
          split: option.splits games_table.splits)
  next
    case 4
    with assms(1) show ?thesis
      by (simp add: migrations_def create_roles_def tables_ok_def part_defs plain_codes_def rowids_ok_def
          split: option.splits games_table.splits)
  next
    case 5
    with assms(1) show ?thesis
      by (simp add: migrations_def create_tokens_def tables_ok_def part_defs plain_codes_def rowids_ok_def
          split: option.splits games_table.splits)
  qed
qed

lemma step_5:
  assumes "tables_ok 5 t" and "plain_codes t"
  shows "\<exists>t'. run_script (migrations ! 5) t = Inr t' \<and> tables_ok 6 t'"
proof -
  from assms(1) obtain gs rs where t: "tb_games t = Some (Games3 gs)" "tb_roles t = Some rs"
    by (auto simp: tables_ok_def part_defs split: option.splits games_table.splits)
  from assms t have ok: "old_games_ok gs"
    by (auto simp: tables_ok_def part_defs old_games_ok_def list_all_iff plain_codes_def)
  have "tables_ok 6 (t\<lparr>tb_games := Some (Games3 (salvaged gs)),
      tb_roles := Some (filter (\<lambda>r. rr_game_id r \<in> og_id ` set (salvaged gs)) rs)\<rparr>)"
    using assms(1) t salvaged_ok [OF ok]
    by (auto simp: tables_ok_def part_defs list_all_iff new_game_check_def role_rows.rowids_ok_filter
        distinct_map_filter split: option.splits)
  moreover have "tb_games_new t = None" using assms(1) by (simp add: tables_ok_def)
  ultimately show ?thesis using run_0006 [OF ok t] by blast
qed

lemma step_6:
  assumes "tables_ok 6 t"
  shows "\<exists>t'. run_script (migrations ! 6) t = Inr t' \<and> tables_ok 7 t'"
proof -
  from assms obtain gs where t: "tb_games t = Some (Games3 gs)"
    by (auto simp: tables_ok_def part_defs split: option.splits games_table.splits)
  have "rowids_ok gr_id (map with_columns gs) = rowids_ok og_id gs"
    by (simp add: rowids_ok_def o_def with_columns_def)
  with assms t show ?thesis
    by (auto simp: migrations_def add_game_columns_def tables_ok_def part_defs o_def list_all_iff games_check_def
        with_columns_def game_statuses_def image_image split: option.splits)
qed

lemma next_step:
  assumes "tables_ok v t" and "plain_codes t" and "v < 7"
  shows "\<exists>t'. run_script (migrations ! v) t = Inr t' \<and> tables_ok (Suc v) t' \<and> (v < 5 \<longrightarrow> plain_codes t')"
proof -
  from assms(3) consider "v < 5" | "v = 5" | "v = 6" by linarith
  then show ?thesis
  proof cases
    case 1
    with small_steps [OF assms(1)] assms(2) show ?thesis by blast
  next
    case 2
    with step_5 assms(1,2) show ?thesis by auto
  next
    case 3
    with step_6 assms(1) show ?thesis by auto
  qed
qed

lemma migrate_step:
  assumes "migrate_ok M" and "f_app f = app \<or> f = new_file" and "f_version f < length ms"
    and "run_script (ms ! f_version f) (f_tables f) = Inr t"
  shows "M app ms f = M app ms (f\<lparr>f_app := app, f_version := Suc (f_version f), f_tables := t\<rparr>)"
proof -
  have "f_app f = app \<or> f = new_file \<longrightarrow> f_version f < length ms \<longrightarrow>
      (case run_script (ms ! f_version f) (f_tables f) of
         Inl e \<Rightarrow> M app ms f = (Some e, f\<lparr>f_app := app\<rparr>)
       | Inr t \<Rightarrow> M app ms f = M app ms (f\<lparr>f_app := app, f_version := Suc (f_version f), f_tables := t\<rparr>))"
    using assms(1) unfolding migrate_ok_def by blast
  with assms(2-4) show ?thesis by simp
qed

lemma migrate_error:
  assumes "migrate_ok M" and "f_app f = app \<or> f = new_file" and "f_version f < length ms"
    and "run_script (ms ! f_version f) (f_tables f) = Inl e"
  shows "M app ms f = (Some e, f\<lparr>f_app := app\<rparr>)"
proof -
  have "f_app f = app \<or> f = new_file \<longrightarrow> f_version f < length ms \<longrightarrow>
      (case run_script (ms ! f_version f) (f_tables f) of
         Inl e \<Rightarrow> M app ms f = (Some e, f\<lparr>f_app := app\<rparr>)
       | Inr t \<Rightarrow> M app ms f = M app ms (f\<lparr>f_app := app, f_version := Suc (f_version f), f_tables := t\<rparr>))"
    using assms(1) unfolding migrate_ok_def by blast
  with assms(2-4) show ?thesis by simp
qed

lemma migrate_done:
  "migrate_ok M \<Longrightarrow> f_app f = app \<or> f = new_file \<Longrightarrow> f_version f = length ms \<Longrightarrow> M app ms f = (None, f\<lparr>f_app := app\<rparr>)"
  unfolding migrate_ok_def by blast

lemma length_migrations [simp]: "length migrations = 7"
  by (simp add: migrations_def)

text \<open>The runner the documentation describes, up to the reaction to a file that is too new.\<close>

fun run_pending :: "statement list list \<Rightarrow> db_file \<Rightarrow> sql_error option \<times> db_file" where
  "run_pending [] f = (None, f)"
| "run_pending (s # ss) f = (case run_script s (f_tables f) of
     Inl e \<Rightarrow> (Some e, f)
   | Inr t \<Rightarrow> run_pending ss (f\<lparr>f_version := Suc (f_version f), f_tables := t\<rparr>))"

definition run_migrations :: migrator where
  "run_migrations app ms f =
     (if (f_app f \<noteq> app \<and> f \<noteq> new_file) \<or> length ms < f_version f then (Some ResultError, f)
      else run_pending (drop (f_version f) ms) (f\<lparr>f_app := app\<rparr>))"

lemma db_file_swap:
  "f\<lparr>f_app := a, f_version := v, f_tables := t\<rparr> = f\<lparr>f_version := v, f_tables := t, f_app := a\<rparr>"
  for f :: db_file
  by simp

lemma run_migrations_ok: "migrate_ok run_migrations"
  by (auto simp: migrate_ok_def run_migrations_def db_file_swap Cons_nth_drop_Suc [symmetric] split: sum.split)

lemma migrate_unique:
  assumes "migrate_ok M"
  shows "f_app f = app \<or> f = new_file \<Longrightarrow> f_version f \<le> length ms \<Longrightarrow> M app ms f = run_migrations app ms f"
proof (induction "length ms - f_version f" arbitrary: f)
  case 0
  then show ?case
    using migrate_done [OF assms, of f app ms] by (simp add: run_migrations_def)
next
  case (Suc n)
  then have lt: "f_version f < length ms" by linarith
  note pending = Cons_nth_drop_Suc [OF lt, symmetric]
  show ?case
  proof (cases "run_script (ms ! f_version f) (f_tables f)")
    case (Inl e)
    with migrate_error [OF assms Suc.prems(1) lt] Suc.prems lt show ?thesis
      by (auto simp: run_migrations_def pending)
  next
    case (Inr t)
    let ?f = "f\<lparr>f_app := app, f_version := Suc (f_version f), f_tables := t\<rparr>"
    have "M app ms ?f = run_migrations app ms ?f"
      using Suc.hyps(2) lt by (intro Suc.hyps(1)) auto
    with migrate_step [OF assms Suc.prems(1) lt Inr] Inr Suc.prems lt show ?thesis
      by (auto simp: run_migrations_def db_file_swap pending)
  qed
qed

lemma migrate_from:
  assumes "migrate_ok M"
  shows "tables_ok (f_version f) (f_tables f) \<Longrightarrow> f_version f \<le> 7 \<Longrightarrow> f_app f = appID \<or> f = new_file \<Longrightarrow>
    f_version f < 6 \<longrightarrow> plain_codes (f_tables f) \<Longrightarrow>
    \<exists>f'. M appID migrations f = (None, f') \<and> f_app f' = appID \<and> f_version f' = 7 \<and> tables_ok 7 (f_tables f')"
proof (induction "7 - f_version f" arbitrary: f)
  case 0
  then have "M appID migrations f = (None, f\<lparr>f_app := appID\<rparr>)"
    by (intro migrate_done [OF assms]) auto
  with 0 show ?case by auto
next
  case (Suc n)
  then have lt: "f_version f < 7" by linarith
  have "\<exists>t'. run_script (migrations ! f_version f) (f_tables f) = Inr t' \<and> tables_ok (Suc (f_version f)) t' \<and>
      (f_version f < 5 \<longrightarrow> plain_codes t')"
  proof (cases "f_version f = 6")
    case True
    with step_6 Suc.prems(1) show ?thesis by auto
  next
    case False
    with lt Suc.prems next_step show ?thesis by simp
  qed
  then obtain t' where t': "run_script (migrations ! f_version f) (f_tables f) = Inr t'"
    "tables_ok (Suc (f_version f)) t'" "f_version f < 5 \<longrightarrow> plain_codes t'" by blast
  let ?f = "f\<lparr>f_app := appID, f_version := Suc (f_version f), f_tables := t'\<rparr>"
  have "M appID migrations f = M appID migrations ?f"
    using Suc.prems(3) lt t'(1) by (intro migrate_step [OF assms]) auto
  moreover have "\<exists>f'. M appID migrations ?f = (None, f') \<and> f_app f' = appID \<and> f_version f' = 7 \<and> tables_ok 7 (f_tables f')"
    using Suc.hyps(2) lt t'(2,3) by (intro Suc.hyps(1)) auto
  ultimately show ?case by metis
qed

text \<open>C22. The upgrade. Every database file of this application at a version up to 7 whose tables
  satisfy the constraints of that version, with no NUL byte in a game code of the original table (versions 3
  to 5), and a new empty file, is brought to version 7 by Migrate without an error, and the store then works on a database with the full schema invariant; a file at
  version 7 is left as it is.\<close>

theorem migrations_reach_schema:
  assumes "migrate_ok M" and "f_app f = appID \<or> f = new_file" and "f_version f \<le> 7"
    and "tables_ok (f_version f) (f_tables f)"
    and "\<forall>gs. tb_games (f_tables f) = Some (Games3 gs) \<longrightarrow> (\<forall>g \<in> set gs. CHR 0x00 \<notin> set (og_code g))"
  shows "\<exists>f'. M appID migrations f = (None, f') \<and> f_app f' = appID \<and> f_version f' = 7 \<and>
    db_ok (database_of f') \<and> (f_version f = 7 \<longrightarrow> f' = f)"
proof -
  have "plain_codes (f_tables f)"
    using assms(5) by (auto simp: plain_codes_def list_all_iff split: option.split games_table.split)
  with migrate_from [OF assms(1,4,3,2)] obtain f' where f': "M appID migrations f = (None, f')" "f_app f' = appID"
    "f_version f' = 7" "tables_ok 7 (f_tables f')" by blast
  moreover have "f' = f" if "f_version f = 7"
  proof -
    have "f_app f = appID" using assms(2) that by (auto simp: new_file_def)
    with migrate_done [OF assms(1,2), of migrations] that f'(1) show ?thesis by simp
  qed
  ultimately show ?thesis using db_ok_database_of by blast
qed

theorem migrations_reach_schema_witness:
  "\<exists>f. run_migrations appID migrations old_file = (None, f) \<and> f_version f = 7 \<and> db_ok (database_of f)"
  using migrations_reach_schema [OF run_migrations_ok, of old_file] old_file_ok by auto

end
