(* ===== verification/DatabaseFiles.thy ===== *)
theory DatabaseFiles
  imports Migrations
begin

text \<open>
  internal/database/database.go: creating and opening database files. The file system is a map
  from path names to nodes (how the operating system resolves a path is not modelled, so
  nothing is assumed about different names of one file); \<open>filepath.Join\<close> is written out. The
  SQLite driver and the migration runner are parameters, the record \<open>sqlite\<close>, with their
  documented behaviour in \<open>sqlite_ok\<close>.
\<close>

section \<open>filepath.Join\<close>

fun split_slash :: "string \<Rightarrow> string list" where
  "split_slash [] = [[]]"
| "split_slash (c # cs) = (if c = CHR ''/'' then [] # split_slash cs
     else case split_slash cs of [] \<Rightarrow> [[c]] | p # ps \<Rightarrow> (c # p) # ps)"

fun join_slash :: "string list \<Rightarrow> string" where
  "join_slash [] = []"
| "join_slash [p] = p"
| "join_slash (p # ps) = p @ CHR ''/'' # join_slash ps"

fun clean_parts :: "bool \<Rightarrow> string list \<Rightarrow> string list \<Rightarrow> string list" where
  "clean_parts rooted out [] = rev out"
| "clean_parts rooted out (p # ps) =
     (if p = [] \<or> p = ''.'' then clean_parts rooted out ps
      else if p = ''..'' then
        (if out \<noteq> [] \<and> hd out \<noteq> ''..'' then clean_parts rooted (tl out) ps
         else if rooted then clean_parts rooted out ps
         else clean_parts rooted (p # out) ps)
      else clean_parts rooted (p # out) ps)"

definition Clean :: "string \<Rightarrow> string" where
  "Clean path = (if path = [] then ''.''
     else let rooted = (hd path = CHR ''/'');
              body = join_slash (clean_parts rooted [] (split_slash path))
          in if rooted then CHR ''/'' # body else if body = [] then ''.'' else body)"

definition Join :: "string \<Rightarrow> string \<Rightarrow> string" where
  "Join dir name = (if dir = [] then Clean name else Clean (dir @ CHR ''/'' # name))"

section \<open>The file system\<close>

text \<open>
  A \<open>Database\<close> is what SQLite reads at a path: its application id, version and tables, whether a
  page is in the main file or still in its write-ahead log. \<open>Other\<close> is a file that is no SQLite
  database; \<open>fs_denied\<close> are the paths for which \<open>os.Stat\<close> fails with another error than "does not
  exist", \<open>fs_shared\<close> the databases to which another process holds a connection.
\<close>

datatype node = Directory | Database db_file | Other

record fs =
  fs_node :: "string \<Rightarrow> node option"
  fs_denied :: "string \<Rightarrow> bool"
  fs_shared :: "string \<Rightarrow> bool"

datatype stat = StatOK node | NotExist | StatError

definition Stat :: "fs \<Rightarrow> string \<Rightarrow> stat" where
  "Stat s p = (if fs_denied s p then StatError
     else case fs_node s p of None \<Rightarrow> NotExist | Some n \<Rightarrow> StatOK n)"

datatype db_error = DirMissing | DirStat | NotADirectory | FileExists | FileMissing | FileStat
  | FileIsDirectory | OpenFailed | ForeignKeysFailed | MigrateFailed | CloseFailed

section \<open>The SQLite packages\<close>

text \<open>
  Opening a connection with its flags, the foreign-key pragma, the migration runner, closing the
  connections. Beside a database SQLite keeps its write-ahead log, the shared-memory index of the
  log and, before the database is in WAL mode, a rollback journal: it makes, rewrites and removes
  these side files as it likes while a connection is open (\<open>sq_Side\<close> is what a transaction does
  to them), and removes them when the last connection is closed cleanly.
\<close>

datatype open_flag = OpenReadWrite | OpenCreate | OpenWAL | OpenURI

record sqlite =
  sq_OpenConn :: "string \<Rightarrow> open_flag list \<Rightarrow> fs \<Rightarrow> bool \<times> fs"
  sq_ForeignKeys :: "string \<Rightarrow> fs \<Rightarrow> bool"
  sq_Migrate :: migrator
  sq_Side :: "string \<Rightarrow> fs \<Rightarrow> fs"
  sq_Close :: "string \<Rightarrow> fs \<Rightarrow> bool \<times> fs"

definition side_files :: "string \<Rightarrow> string set" where
  "side_files p = {p @ ''-wal'', p @ ''-shm'', p @ ''-journal''}"

text \<open>At most the side files of the database at \<open>p\<close> have changed; no directory is among them.\<close>

definition aside :: "string \<Rightarrow> fs \<Rightarrow> fs \<Rightarrow> bool" where
  "aside p s s' \<longleftrightarrow> fs_denied s' = fs_denied s \<and> fs_shared s' = fs_shared s \<and>
     (\<forall>q. fs_node s' q = fs_node s q \<or>
        q \<in> side_files p \<and> fs_node s q \<noteq> Some Directory \<and> fs_node s' q \<in> {None, Some Other})"

definition sqlite_ok :: "sqlite \<Rightarrow> bool" where
  "sqlite_ok S \<longleftrightarrow> migrate_ok (sq_Migrate S) \<and>
     (\<forall>p flags s ok s'. sq_OpenConn S p flags s = (ok, s') \<longrightarrow>
        aside p s (s'\<lparr>fs_node := (fs_node s')(p := fs_node s p)\<rparr>) \<and>
        (fs_node s p \<noteq> None \<longrightarrow> fs_node s' p = fs_node s p) \<and>
        (fs_node s p = None \<and> OpenCreate \<notin> set flags \<longrightarrow> \<not> ok \<and> s' = s) \<and>
        (fs_node s p = None \<longrightarrow> fs_node s' p = Some (Database new_file) \<or> \<not> ok \<and> fs_node s' p = None)) \<and>
     (\<forall>p s. aside p s (sq_Side S p s)) \<and>
     (\<forall>p s ok s'. sq_Close S p s = (ok, s') \<longrightarrow> aside p s s' \<and>
        (ok \<and> \<not> fs_shared s p \<longrightarrow> (\<forall>q \<in> side_files p. fs_node s' q \<in> {None, Some Directory})))"

text \<open>\<open>sqlitemigration.Migrate\<close> on the file at a path; a file that is no database is an error.\<close>

definition migrate_at :: "sqlite \<Rightarrow> string \<Rightarrow> fs \<Rightarrow> db_error option \<times> fs" where
  "migrate_at S p s = (case fs_node s p of
     Some (Database f) \<Rightarrow> (case sq_Migrate S appID migrations f of (e, f') \<Rightarrow>
       (if e = None then None else Some MigrateFailed,
        sq_Side S p (s\<lparr>fs_node := (fs_node s)(p \<mapsto> Database f')\<rparr>)))
   | _ \<Rightarrow> (Some MigrateFailed, s))"

section \<open>Create and Open\<close>

definition FileName :: string where
  "FileName = ''ecv4.db''"

definition MemoryPath :: string where
  "MemoryPath = '':memory:''"

definition requireDir :: "string \<Rightarrow> fs \<Rightarrow> db_error option" where
  "requireDir dir s = (case Stat s dir of
     NotExist \<Rightarrow> Some DirMissing
   | StatError \<Rightarrow> Some DirStat
   | StatOK n \<Rightarrow> if n \<noteq> Directory then Some NotADirectory else None)"

text \<open>The private database of a connection to \<open>:memory:\<close> is no node of the file system.\<close>

definition CreateMemory :: "sqlite \<Rightarrow> fs \<Rightarrow> db_error + db_file" where
  "CreateMemory S s =
     (if \<not> fst (sq_OpenConn S MemoryPath [OpenReadWrite, OpenCreate] s) then Inl OpenFailed
      else if \<not> sq_ForeignKeys S MemoryPath s then Inl ForeignKeysFailed
      else case sq_Migrate S appID migrations new_file of
        (None, f) \<Rightarrow> Inr f | (Some _, _) \<Rightarrow> Inl MigrateFailed)"

definition Create :: "sqlite \<Rightarrow> string \<Rightarrow> fs \<Rightarrow> db_error option \<times> fs" where
  "Create S dir s =
     (if dir = MemoryPath then
        (case CreateMemory S s of
           Inl e \<Rightarrow> (Some e, s)
         | Inr _ \<Rightarrow> if fst (sq_Close S MemoryPath s) then (None, s) else (Some CloseFailed, s))
      else case requireDir dir s of Some e \<Rightarrow> (Some e, s) | None \<Rightarrow>
        let dbPath = Join dir FileName in
        case Stat s dbPath of
          StatOK _ \<Rightarrow> (Some FileExists, s)
        | StatError \<Rightarrow> (Some FileStat, s)
        | NotExist \<Rightarrow>
            (case sq_OpenConn S dbPath [OpenReadWrite, OpenCreate, OpenWAL, OpenURI] s of (ok, s1) \<Rightarrow>
               if \<not> ok then (Some OpenFailed, s1)
               else case (if \<not> sq_ForeignKeys S dbPath s1 then (Some ForeignKeysFailed, s1)
                          else migrate_at S dbPath s1) of
                 (err, s2) \<Rightarrow> (case sq_Close S dbPath s2 of (closed, s3) \<Rightarrow>
                   (if \<not> closed \<and> err = None then Some CloseFailed else err, s3))))"

text \<open>
  The pool's first connection runs the migrations and is prepared before it is handed out; if it
  cannot be had, the pool is closed.
\<close>

definition openPool :: "sqlite \<Rightarrow> string \<Rightarrow> open_flag list \<Rightarrow> fs \<Rightarrow> db_error option \<times> fs" where
  "openPool S dsn flags s =
     (case (case sq_OpenConn S dsn flags s of (ok, s1) \<Rightarrow>
              if \<not> ok then (Some OpenFailed, s1)
              else case migrate_at S dsn s1 of
                (Some e, s2) \<Rightarrow> (Some e, s2)
              | (None, s2) \<Rightarrow> (if sq_ForeignKeys S dsn s2 then None else Some ForeignKeysFailed, s2)) of
        (Some e, s2) \<Rightarrow> (Some e, snd (sq_Close S dsn s2))
      | (None, s2) \<Rightarrow> (None, s2))"

text \<open>A success is the path the pool serves.\<close>

definition Open :: "sqlite \<Rightarrow> string \<Rightarrow> fs \<Rightarrow> (db_error + string) \<times> fs" where
  "Open S dir s = (case requireDir dir s of Some e \<Rightarrow> (Inl e, s) | None \<Rightarrow>
     let dbPath = Join dir FileName in
     case Stat s dbPath of
       NotExist \<Rightarrow> (Inl FileMissing, s)
     | StatError \<Rightarrow> (Inl FileStat, s)
     | StatOK n \<Rightarrow>
         if n = Directory then (Inl FileIsDirectory, s)
         else case openPool S dbPath [OpenReadWrite, OpenWAL, OpenURI] s of
           (Some e, s1) \<Rightarrow> (Inl e, s1)
         | (None, s1) \<Rightarrow> (Inr dbPath, s1))"

text \<open>\<open>once.Do\<close>: the pool is closed by the first call, whose error every later call repeats.\<close>

definition closeFn :: "'e option \<Rightarrow> 'e \<Rightarrow> 'e \<times> 'e option" where
  "closeFn closed pool_Close = (case closed of
     None \<Rightarrow> (pool_Close, Some pool_Close) | Some e \<Rightarrow> (e, Some e))"

definition CreateSharedMemory :: "sqlite \<Rightarrow> string \<Rightarrow> nat \<Rightarrow> fs \<Rightarrow> (db_error + string) \<times> nat \<times> fs" where
  "CreateSharedMemory S name memCounter s =
     (let counter = (if name = [] then Suc memCounter else memCounter);
          name1 = (if name = [] then ''ecv4-mem-'' @ FormatInt (int counter) else name);
          uri = ''file:'' @ name1 @ ''?mode=memory&cache=shared''
      in case openPool S uri [OpenReadWrite, OpenCreate, OpenURI] s of
           (Some e, s1) \<Rightarrow> (Inl e, counter, s1)
         | (None, s1) \<Rightarrow> (Inr uri, counter, s1))"

end
