(* ===== verification/DatabaseTheorems.thy ===== *)
theory DatabaseTheorems
  imports MigrationTheorems DatabaseFiles Samples
begin

text \<open>
  What Create and Open promise: Create alone makes database files and never touches one that is
  there; Open never makes one and hands out only a database at the current schema.
\<close>

section \<open>The SQLite packages\<close>

lemma not_side [simp]: "p \<notin> side_files p" "p @ x # xs \<noteq> p"
  by (simp_all add: side_files_def)

lemma aside_refl [simp, intro]: "aside p s s"
  by (simp add: aside_def)

lemma aside_trans: "aside p s t \<Longrightarrow> aside p t u \<Longrightarrow> aside p s u"
  unfolding aside_def by (smt (verit) insertE singletonD)

lemma asideD:
  assumes "aside p s s'"
  shows "fs_denied s' = fs_denied s" and "fs_shared s' = fs_shared s"
    and "q \<notin> side_files p \<Longrightarrow> fs_node s' q = fs_node s q" and "fs_node s' p = fs_node s p"
    and "fs_node s q = Some Directory \<Longrightarrow> fs_node s' q = Some Directory"
    and "fs_node s' q = Some (Database f) \<Longrightarrow> fs_node s q = Some (Database f)"
proof -
  have one: "fs_node s' q = fs_node s q \<or>
      q \<in> side_files p \<and> fs_node s q \<noteq> Some Directory \<and> (fs_node s' q = None \<or> fs_node s' q = Some Other)" for q
    using assms by (auto simp: aside_def)
  show "fs_denied s' = fs_denied s" and "fs_shared s' = fs_shared s" using assms by (auto simp: aside_def)
  show "q \<notin> side_files p \<Longrightarrow> fs_node s' q = fs_node s q" using one [of q] by blast
  show "fs_node s' p = fs_node s p" using one [of p] by simp
  show "fs_node s q = Some Directory \<Longrightarrow> fs_node s' q = Some Directory" using one [of q] by auto
  show "fs_node s' q = Some (Database f) \<Longrightarrow> fs_node s q = Some (Database f)" using one [of q] by auto
qed

abbreviation with_file :: "string \<Rightarrow> db_file \<Rightarrow> fs \<Rightarrow> fs" where
  "with_file p f s \<equiv> s\<lparr>fs_node := (fs_node s)(p \<mapsto> Database f)\<rparr>"

lemma aside_with_file: "aside p s s' \<Longrightarrow> aside p (with_file p f s) (with_file p f s')"
  by (auto simp: aside_def)

lemma with_file_same: "fs_node s p = Some (Database f) \<Longrightarrow> with_file p f s = s"
  by (simp add: fun_upd_idem)

lemma sqlite_okD:
  assumes "sqlite_ok S"
  shows "migrate_ok (sq_Migrate S)" and "aside p s (sq_Side S p s)"
    and "aside p s (snd (sq_Close S p s))"
    and "sq_Close S p s = (True, s') \<Longrightarrow> \<not> fs_shared s p \<Longrightarrow> q \<in> side_files p \<Longrightarrow> fs_node s' q \<in> {None, Some Directory}"
  using assms unfolding sqlite_ok_def by (metis prod.collapse)+

lemma opened:
  assumes "sqlite_ok S" and "sq_OpenConn S p flags s = (ok, s')"
  shows "fs_node s p \<noteq> None \<Longrightarrow> aside p s s'"
    and "fs_node s p = None \<Longrightarrow> OpenCreate \<notin> set flags \<Longrightarrow> \<not> ok \<and> s' = s"
    and "fs_node s p = None \<Longrightarrow> \<not> ok \<and> aside p s s' \<or> aside p (with_file p new_file s) s'"
proof -
  let ?t = "s'\<lparr>fs_node := (fs_node s')(p := fs_node s p)\<rparr>"
  have t: "aside p s ?t" and n: "fs_node s p \<noteq> None \<longrightarrow> fs_node s' p = fs_node s p"
    "fs_node s p = None \<and> OpenCreate \<notin> set flags \<longrightarrow> \<not> ok \<and> s' = s"
    "fs_node s p = None \<longrightarrow> fs_node s' p = Some (Database new_file) \<or> \<not> ok \<and> fs_node s' p = None"
    using assms(1) [unfolded sqlite_ok_def, THEN conjunct2, THEN conjunct1, rule_format, OF assms(2)] by simp_all
  have same: "?t = s'" if "fs_node s' p = fs_node s p" using that by (simp add: fun_upd_idem)
  show "aside p s s'" if "fs_node s p \<noteq> None" using that n(1) t same by simp
  show "\<not> ok \<and> s' = s" if "fs_node s p = None" "OpenCreate \<notin> set flags" using that n(2) by simp
  show "\<not> ok \<and> aside p s s' \<or> aside p (with_file p new_file s) s'" if "fs_node s p = None"
  proof (cases "fs_node s' p = None")
    case True
    with that n(3) t same show ?thesis by simp
  next
    case False
    with that n(3) have "fs_node s' p = Some (Database new_file)" by auto
    then have "with_file p new_file ?t = s'" by (simp add: fun_upd_idem)
    with aside_with_file [OF t, of new_file] show ?thesis by simp
  qed
qed

lemma new_file_ok: "f_version new_file \<le> 7" "tables_ok (f_version new_file) (f_tables new_file)"
  using tables_ok_new by (simp_all add: new_file_def)

lemma new_database:
  assumes "migrate_ok M"
  shows "\<exists>f. M appID migrations new_file = (None, f) \<and> f_app f = appID \<and> f_version f = 7 \<and>
    database_of f = empty_db"
proof -
  let ?f = "\<lparr>f_app = appID, f_version = 7, f_tables = no_tables\<lparr>tb_meta := True, tb_accounts := Some [],
    tb_games := Some (Games7 []), tb_roles := Some [], tb_tokens := Some []\<rparr>\<rparr>"
  have "run_migrations appID migrations new_file = (None, ?f)"
    by code_simp
  moreover have "M appID migrations new_file = run_migrations appID migrations new_file"
    using new_file_ok(1) by (intro migrate_unique [OF assms]) auto
  ultimately show ?thesis by (intro exI [of _ ?f]) (simp add: database_of_def empty_db_def no_tables_def)
qed

lemma migrate_at_effect:
  assumes "sqlite_ok S" and "migrate_at S p s = (e, s')"
  shows "aside p s s' \<and> e \<noteq> None \<and> (\<forall>f. fs_node s p \<noteq> Some (Database f)) \<or>
    (\<exists>f m f'. fs_node s p = Some (Database f) \<and> sq_Migrate S appID migrations f = (m, f') \<and>
       (e = None \<longleftrightarrow> m = None) \<and> aside p (with_file p f' s) s')"
  using assms(2) sqlite_okD(2) [OF assms(1)]
  by (auto simp: migrate_at_def split: option.splits node.splits prod.splits if_splits)

section \<open>The effects of Create and Open\<close>

text \<open>Opening a pool migrates the database at its path or changes nothing but side files.\<close>

lemma openPool_effect:
  assumes "sqlite_ok S" and "fs_node s p \<noteq> None" and "openPool S p flags s = (e, s')"
  shows "aside p s s' \<and> e \<noteq> None \<or>
    (\<exists>f m f'. fs_node s p = Some (Database f) \<and> sq_Migrate S appID migrations f = (m, f') \<and>
       aside p (with_file p f' s) s' \<and> (e = None \<longrightarrow> m = None))"
proof -
  obtain ok s1 where o: "sq_OpenConn S p flags s = (ok, s1)" by fastforce
  obtain e2 s2 where m: "migrate_at S p s1 = (e2, s2)" by fastforce
  note s1 = opened(1) [OF assms(1) o assms(2)]
  note close = sqlite_okD(3) [OF assms(1), of p]
  show ?thesis
  proof (cases ok)
    case False
    with assms(3) o have "e \<noteq> None" "s' = snd (sq_Close S p s1)" by (auto simp: openPool_def)
    with aside_trans [OF s1 close] show ?thesis by simp
  next
    case ok: True
    have s': "(s' = s2 \<and> e = None \<or> s' = snd (sq_Close S p s2) \<and> e \<noteq> None) \<and> (e = None \<longrightarrow> e2 = None)"
      using assms(3) o ok m by (auto simp: openPool_def split: option.splits if_splits)
    then have s2: "aside p s2 s'" using close by auto
    show ?thesis
    proof (cases "\<exists>f. fs_node s p = Some (Database f)")
      case True
      then obtain f where f: "fs_node s p = Some (Database f)" by blast
      with asideD(4) [OF s1] have f1: "fs_node s1 p = Some (Database f)" by simp
      from migrate_at_effect [OF assms(1) m] f1 obtain k f' where k: "sq_Migrate S appID migrations f = (k, f')"
        "e2 = None \<longleftrightarrow> k = None" "aside p (with_file p f' s1) s2" by auto
      from aside_trans [OF aside_trans [OF aside_with_file [OF s1] k(3)] s2] f k(1,2) s' show ?thesis by auto
    next
      case False
      with asideD(4) [OF s1] migrate_at_effect [OF assms(1) m] have "aside p s1 s2" "e2 \<noteq> None" by auto
      with aside_trans [OF aside_trans [OF s1] s2] s' show ?thesis by auto
    qed
  qed
qed

lemma Open_effect:
  assumes "sqlite_ok S" and "Open S dir s = (r, s')"
  shows "aside (Join dir FileName) s s' \<and> (\<exists>e. r = Inl e) \<or>
     (\<exists>f e f'. fs_node s (Join dir FileName) = Some (Database f) \<and> sq_Migrate S appID migrations f = (e, f') \<and>
        aside (Join dir FileName) (with_file (Join dir FileName) f' s) s' \<and>
        (\<forall>pool. r = Inr pool \<longrightarrow> pool = Join dir FileName \<and> e = None))"
proof (cases "requireDir dir s = None \<and> (\<exists>n. Stat s (Join dir FileName) = StatOK n \<and> n \<noteq> Directory)")
  case False
  with assms(2) show ?thesis
    by (auto simp: Open_def Let_def split: option.splits stat.splits if_splits)
next
  case True
  let ?p = "Join dir FileName"
  from True obtain n where n: "fs_node s ?p \<noteq> None" "n \<noteq> Directory" and st: "Stat s ?p = StatOK n"
    by (auto simp: Stat_def split: if_splits option.splits)
  obtain e s1 where o: "openPool S ?p [OpenReadWrite, OpenWAL, OpenURI] s = (e, s1)" by fastforce
  with assms(2) True st n(2) have "s' = s1" "r = (case e of None \<Rightarrow> Inr ?p | Some x \<Rightarrow> Inl x)"
    by (cases e; simp add: Open_def Let_def)+
  with openPool_effect [OF assms(1) n(1) o] show ?thesis by (cases e) auto
qed

text \<open>Create adds at most the file at its path, new or migrated; when it succeeds and nobody else
  has the database open, no side file is left.\<close>

lemma Create_effect:
  assumes "sqlite_ok S" and "Create S dir s = (err, s')"
  shows "aside (Join dir FileName) s s' \<and> (err = None \<longrightarrow> dir = MemoryPath) \<or>
     fs_node s (Join dir FileName) = None \<and> fs_node s dir = Some Directory \<and>
     (\<exists>f. aside (Join dir FileName) (with_file (Join dir FileName) f s) s' \<and>
        (f = new_file \<and> err \<noteq> None \<or> (\<exists>e. sq_Migrate S appID migrations new_file = (e, f) \<and> (err = None \<longrightarrow> e = None)))) \<and>
     (err = None \<and> \<not> fs_shared s (Join dir FileName) \<longrightarrow>
        (\<forall>q \<in> side_files (Join dir FileName). fs_node s' q \<in> {None, Some Directory}))"
proof (cases "dir \<noteq> MemoryPath \<and> requireDir dir s = None \<and> Stat s (Join dir FileName) = NotExist")
  case False
  with assms(2) show ?thesis
    by (auto simp: Create_def Let_def split: option.splits stat.splits if_splits sum.splits)
next
  case True
  let ?p = "Join dir FileName" and ?flags = "[OpenReadWrite, OpenCreate, OpenWAL, OpenURI]"
  have none: "fs_node s ?p = None" and dir: "fs_node s dir = Some Directory"
    using True by (auto simp: requireDir_def Stat_def split: if_splits option.splits stat.splits)
  obtain ok s1 where o: "sq_OpenConn S ?p ?flags s = (ok, s1)" by fastforce
  obtain e2 s2 where m: "(if \<not> sq_ForeignKeys S ?p s1 then (Some ForeignKeysFailed, s1) else migrate_at S ?p s1) = (e2, s2)"
    by fastforce
  obtain c s3 where c: "sq_Close S ?p s2 = (c, s3)" by fastforce
  note close = sqlite_okD(3) [OF assms(1), of ?p s2, unfolded c snd_conv]
  show ?thesis
  proof (cases ok)
    case False
    with assms(2) True o have "s' = s1" "err = Some OpenFailed" by (auto simp: Create_def Let_def)
    with opened(3) [OF assms(1) o none] none dir show ?thesis by auto
  next
    case ok: True
    with opened(3) [OF assms(1) o none] have s1: "aside ?p (with_file ?p new_file s) s1" by blast
    have s': "s' = s3" "err = None \<longleftrightarrow> c \<and> e2 = None"
      using assms(2) True o ok m c by (auto simp: Create_def Let_def split: if_splits)
    have "\<exists>f. aside ?p (with_file ?p f s) s2 \<and>
        (f = new_file \<and> e2 \<noteq> None \<or> (\<exists>e. sq_Migrate S appID migrations new_file = (e, f) \<and> (e2 = None \<longrightarrow> e = None)))"
    proof (cases "sq_ForeignKeys S ?p s1")
      case False
      with m s1 show ?thesis by (intro exI [of _ new_file]) auto
    next
      case True
      with m have m: "migrate_at S ?p s1 = (e2, s2)" by simp
      from asideD(4) [OF s1] have "fs_node s1 ?p = Some (Database new_file)" by simp
      with migrate_at_effect [OF assms(1) m] obtain k f' where k: "sq_Migrate S appID migrations new_file = (k, f')"
        "e2 = None \<longleftrightarrow> k = None" "aside ?p (with_file ?p f' s1) s2" by auto
      from aside_trans [OF aside_with_file [OF s1] k(3)] k(1,2) show ?thesis by auto
    qed
    then obtain f where f: "aside ?p (with_file ?p f s) s2"
      "f = new_file \<and> e2 \<noteq> None \<or> (\<exists>e. sq_Migrate S appID migrations new_file = (e, f) \<and> (e2 = None \<longrightarrow> e = None))" by blast
    have "\<forall>q \<in> side_files ?p. fs_node s' q \<in> {None, Some Directory}" if "err = None \<and> \<not> fs_shared s ?p"
      using sqlite_okD(4) [OF assms(1), of ?p s2 s3] c s' that asideD(2) [OF f(1)] by simp
    moreover have "f = new_file \<and> err \<noteq> None \<or>
        (\<exists>e. sq_Migrate S appID migrations new_file = (e, f) \<and> (err = None \<longrightarrow> e = None))"
      using f(2) s'(2) by auto
    ultimately show ?thesis
      using aside_trans [OF f(1) close] none dir unfolding s'(1) by - (rule disjI2, intro conjI exI [of _ f], simp_all)
  qed
qed

text \<open>What migrating the file of a current or older database gives.\<close>

definition file_ok :: "db_file \<Rightarrow> bool" where
  "file_ok f \<longleftrightarrow> (f_app f = appID \<or> f = new_file) \<and> f_version f \<le> 7 \<and>
     tables_ok (f_version f) (f_tables f) \<and> plain_codes (f_tables f)"

lemma file_ok_new: "file_ok new_file"
  using new_file_ok by (simp add: file_ok_def plain_codes_def new_file_def no_tables_def)

lemma migrate_file:
  assumes "sqlite_ok S" and "file_ok f" and "sq_Migrate S appID migrations f = (e, f')"
  shows "e = None \<and> file_ok f' \<and> f_app f' = appID \<and> f_version f' = 7 \<and> (f_version f = 7 \<longrightarrow> f' = f)"
proof -
  note mig = sqlite_okD(1) [OF assms(1)]
  have "f' = f" if "f_version f = 7"
  proof -
    have "f_app f = appID" using assms(2) that by (auto simp: file_ok_def new_file_def)
    with migrate_done [OF mig, of f appID migrations] that assms(3) show ?thesis by simp
  qed
  moreover have "plain_codes t" if "tables_ok 7 t" for t
    using that by (auto simp: tables_ok_def part_defs plain_codes_def split: option.splits games_table.splits)
  ultimately show ?thesis
    using migrate_from [OF mig, of f] assms(2,3) by (auto simp: file_ok_def)
qed

section \<open>Create\<close>

text \<open>C24. Create. Whether it succeeds or fails, Create changes no file and no directory that
  exists, and adds at most ecv4.db in the directory given, SQLite's side files of that database
  apart. When it succeeds, that directory existed, the file did not, and it now holds the empty
  database at version 7 with this application's id; and unless another process has the database
  open, no side file is left.\<close>

theorem Create_makes_database:
  assumes "sqlite_ok S" and "Create S dir s = (err, s')" and "dir \<noteq> MemoryPath"
  shows "(\<forall>q n. fs_node s q = Some n \<and> q \<notin> side_files (Join dir FileName) \<longrightarrow> fs_node s' q = Some n) \<and>
    (\<forall>q. q \<noteq> Join dir FileName \<and> q \<notin> side_files (Join dir FileName) \<longrightarrow> fs_node s' q = fs_node s q) \<and>
    (\<forall>q. fs_node s q = Some Directory \<longrightarrow> fs_node s' q = Some Directory) \<and>
    (err = None \<longrightarrow> fs_node s dir = Some Directory \<and> fs_node s (Join dir FileName) = None \<and>
       (\<exists>f. fs_node s' (Join dir FileName) = Some (Database f) \<and> f_app f = appID \<and> f_version f = 7 \<and>
          database_of f = empty_db) \<and>
       (\<not> fs_shared s (Join dir FileName) \<longrightarrow>
          (\<forall>q \<in> side_files (Join dir FileName). fs_node s' q = None \<or> fs_node s' q = Some Directory)))"
proof -
  let ?p = "Join dir FileName"
  have changed: "(q \<notin> side_files ?p \<and> fs_node s q = Some n \<longrightarrow> fs_node s' q = Some n) \<and>
      (q \<noteq> ?p \<and> q \<notin> side_files ?p \<longrightarrow> fs_node s' q = fs_node s q) \<and>
      (fs_node s q = Some Directory \<longrightarrow> fs_node s' q = Some Directory)"
    if "aside ?p (with_file ?p f s) s'" "fs_node s ?p = None" for f q n
    using asideD(3,5) [OF that(1), of q] that(2) by (auto split: if_splits)
  from new_database [OF sqlite_okD(1) [OF assms(1)]] obtain g where g: "sq_Migrate S appID migrations new_file = (None, g)"
    "f_app g = appID \<and> f_version g = 7 \<and> database_of g = empty_db" by blast
  from Create_effect [OF assms(1,2)] assms(3) show ?thesis
  proof (elim disjE conjE exE)
    assume a: "aside ?p s s'" "err = None \<longrightarrow> dir = MemoryPath"
    with assms(3) asideD(3,5) [OF a(1)] show ?thesis by auto
  next
    fix f assume a: "aside ?p (with_file ?p f s) s'" "f = new_file" "err \<noteq> None" "fs_node s ?p = None"
    with changed [OF a(1,4)] show ?thesis by blast
  next
    fix f e assume a: "aside ?p (with_file ?p f s) s'" "sq_Migrate S appID migrations new_file = (e, f)"
      "fs_node s ?p = None" "fs_node s dir = Some Directory"
      "err = None \<and> \<not> fs_shared s ?p \<longrightarrow> (\<forall>q \<in> side_files ?p. fs_node s' q \<in> {None, Some Directory})"
    with asideD(4) [OF a(1)] g have "fs_node s' ?p = Some (Database g)" by simp
    with changed [OF a(1,3)] a(3-5) g(2) show ?thesis by auto
  qed
qed

text \<open>Packages whose side files come and go: the log and its index appear with a transaction and
  disappear with the connection.\<close>

definition sample_sqlite :: sqlite where
  "sample_sqlite = \<lparr>
     sq_OpenConn = (\<lambda>p flags s. case fs_node s p of
        Some n \<Rightarrow> (True, s)
      | None \<Rightarrow> if OpenCreate \<in> set flags then (True, s\<lparr>fs_node := (fs_node s)(p \<mapsto> Database new_file)\<rparr>) else (False, s)),
     sq_ForeignKeys = (\<lambda>_ _. True), sq_Migrate = run_migrations,
     sq_Side = (\<lambda>p s. s\<lparr>fs_node := (\<lambda>q. if (q = p @ ''-wal'' \<or> q = p @ ''-shm'') \<and> fs_node s q \<noteq> Some Directory
        then Some Other else fs_node s q)\<rparr>),
     sq_Close = (\<lambda>p s. (True, s\<lparr>fs_node := (\<lambda>q. if (q = p @ ''-wal'' \<or> q = p @ ''-shm'' \<or> q = p @ ''-journal'') \<and>
        fs_node s q \<noteq> Some Directory then None else fs_node s q)\<rparr>))\<rparr>"

lemma sample_sqlite_ok: "sqlite_ok sample_sqlite"
  by (auto simp: sqlite_ok_def sample_sqlite_def run_migrations_ok aside_def side_files_def
      split: option.splits if_splits)

definition empty_disk :: fs where
  "empty_disk = \<lparr>fs_node = [''/srv/'' \<mapsto> Directory, ''/tmp'' \<mapsto> Other], fs_denied = (\<lambda>_. False), fs_shared = (\<lambda>_. False)\<rparr>"

lemma sample_create: "fst (Create sample_sqlite ''/srv/'' empty_disk) = None"
  by code_simp

lemma sample_path: "Join ''/srv/'' FileName = ''/srv/ecv4.db''"
  by code_simp

theorem Create_makes_database_witness:
  "(\<exists>f. fs_node (snd (Create sample_sqlite ''/srv/'' empty_disk)) ''/srv/ecv4.db'' = Some (Database f) \<and>
     database_of f = empty_db) \<and> fs_node (snd (Create sample_sqlite ''/srv/'' empty_disk)) ''/srv/ecv4.db-wal'' \<noteq> Some Other"
  using Create_makes_database [OF sample_sqlite_ok prod.collapse [symmetric], of "''/srv/''" empty_disk]
    sample_create sample_path
  by (auto simp: MemoryPath_def empty_disk_def side_files_def)

section \<open>Open\<close>

text \<open>C25. Open. Whatever happens, Open changes at most the database at its path and SQLite's side
  files of it, and brings no other file into existence; a database of another application is
  refused, its application id, version and tables left as they were. When it hands out a pool,
  the file was there, and if it had a version up to 7 and its tables satisfied the constraints of
  that version (with no NUL byte in a code of the original table) the pool serves a database at version 7 with the full
  schema invariant; a current database is served as it is.\<close>

theorem Open_serves_current:
  assumes "sqlite_ok S" and "Open S dir s = (r, s')"
  shows "(\<forall>q. q \<notin> side_files (Join dir FileName) \<and> (q \<noteq> Join dir FileName \<or> fs_node s q = None) \<longrightarrow>
       fs_node s' q = fs_node s q) \<and>
    (\<forall>f. fs_node s (Join dir FileName) = Some (Database f) \<and> f_app f \<noteq> appID \<and> f \<noteq> new_file \<longrightarrow>
       (\<exists>e. r = Inl e) \<and> fs_node s' (Join dir FileName) = Some (Database f)) \<and>
    (\<forall>pool. r = Inr pool \<longrightarrow> pool = Join dir FileName \<and> (\<exists>f f'. fs_node s pool = Some (Database f) \<and>
       fs_node s' pool = Some (Database f') \<and>
       (f_version f \<le> 7 \<and> tables_ok (f_version f) (f_tables f) \<and> plain_codes (f_tables f) \<longrightarrow>
          f_version f' = 7 \<and> db_ok (database_of f') \<and> (f_version f = 7 \<longrightarrow> f' = f))))"
proof -
  let ?p = "Join dir FileName"
  note mig = sqlite_okD(1) [OF assms(1)]
  have foreign: "fst (sq_Migrate S appID migrations f) \<noteq> None \<and> snd (sq_Migrate S appID migrations f) = f"
    if "f_app f \<noteq> appID" "f \<noteq> new_file" for f
    using mig that unfolding migrate_ok_def by blast
  have served: "f_version f' = 7 \<and> db_ok (database_of f') \<and> (f_version f = 7 \<longrightarrow> f' = f)"
    if M: "sq_Migrate S appID migrations f = (None, f')" and "f_version f \<le> 7" "tables_ok (f_version f) (f_tables f)"
      "plain_codes (f_tables f)" for f f'
  proof -
    have "f_app f = appID \<or> f = new_file" using foreign [of f] M by auto
    with that have "file_ok f" by (simp add: file_ok_def)
    from migrate_file [OF assms(1) this M] db_ok_database_of [of f'] show ?thesis by (auto simp: file_ok_def)
  qed
  from Open_effect [OF assms] show ?thesis
  proof (elim conjE disjE exE)
    fix e assume a: "aside ?p s s'" "r = Inl e"
    then show ?thesis using asideD(3,4) [OF a(1)] by auto
  next
    fix f e f'
    assume f: "fs_node s ?p = Some (Database f)" and M: "sq_Migrate S appID migrations f = (e, f')"
      and s': "aside ?p (with_file ?p f' s) s'"
      and r: "\<forall>pool. r = Inr pool \<longrightarrow> pool = ?p \<and> e = None"
    have node: "fs_node s' ?p = Some (Database f')" "q \<noteq> ?p \<Longrightarrow> q \<notin> side_files ?p \<Longrightarrow> fs_node s' q = fs_node s q" for q
      using asideD(3) [OF s', of q] asideD(4) [OF s'] by simp_all
    have "(\<exists>e. r = Inl e) \<and> f' = f" if "f_app f \<noteq> appID \<and> f \<noteq> new_file"
      using foreign [of f] that M r by (cases r) auto
    with f M node r served show ?thesis by auto
  qed
qed

definition old_disk :: fs where
  "old_disk = \<lparr>fs_node = [''data'' \<mapsto> Directory, ''data/ecv4.db'' \<mapsto> Database old_file],
     fs_denied = (\<lambda>_. False), fs_shared = (\<lambda>_. False)\<rparr>"

lemma sample_open: "fst (Open sample_sqlite ''data'' old_disk) = Inr ''data/ecv4.db''"
  by code_simp

theorem Open_serves_current_witness:
  "\<exists>f. fs_node (snd (Open sample_sqlite ''data'' old_disk)) ''data/ecv4.db'' = Some (Database f) \<and>
     f_version f = 7 \<and> db_ok (database_of f)"
proof -
  have "plain_codes (f_tables old_file)" by code_simp
  moreover have "fs_node old_disk ''data/ecv4.db'' = Some (Database old_file)" by (simp add: old_disk_def)
  ultimately show ?thesis
    using Open_serves_current [OF sample_sqlite_ok result_pair [OF sample_open]] old_file_ok by auto
qed

section \<open>Create, then Open\<close>

text \<open>Packages none of whose calls fails without a reason.\<close>

definition sqlite_works :: "sqlite \<Rightarrow> bool" where
  "sqlite_works S \<longleftrightarrow> sqlite_ok S \<and> (\<forall>p s. sq_ForeignKeys S p s) \<and> (\<forall>p s. fst (sq_Close S p s)) \<and>
     (\<forall>p flags s. fs_node s p \<noteq> None \<or> OpenCreate \<in> set flags \<longrightarrow> fst (sq_OpenConn S p flags s))"

lemma sqlite_worksD:
  assumes "sqlite_works S" and "fs_node s p \<noteq> None \<or> OpenCreate \<in> set flags"
  shows "\<exists>s'. sq_OpenConn S p flags s = (True, s')"
proof -
  have "fst (sq_OpenConn S p flags s)" using assms by (auto simp: sqlite_works_def)
  then show ?thesis by (cases "sq_OpenConn S p flags s") simp
qed

lemma Create_fresh:
  assumes "sqlite_works S" and "dir \<noteq> MemoryPath" and "fs_node s dir = Some Directory"
    and "fs_node s (Join dir FileName) = None" and "\<not> fs_denied s dir" and "\<not> fs_denied s (Join dir FileName)"
  shows "\<exists>s1 f. Create S dir s = (None, s1) \<and> aside (Join dir FileName) (with_file (Join dir FileName) f s) s1 \<and>
    file_ok f \<and> f_app f = appID \<and> f_version f = 7 \<and> database_of f = empty_db"
proof -
  let ?p = "Join dir FileName" and ?flags = "[OpenReadWrite, OpenCreate, OpenWAL, OpenURI]"
  have ok: "sqlite_ok S" and fk: "\<And>p s. sq_ForeignKeys S p s" "\<And>p s. fst (sq_Close S p s)"
    using assms(1) by (auto simp: sqlite_works_def)
  obtain s0 where o: "sq_OpenConn S ?p ?flags s = (True, s0)" using sqlite_worksD [OF assms(1), of s ?p ?flags] by auto
  then have s0: "aside ?p (with_file ?p new_file s) s0" using opened(3) [OF ok o assms(4)] by simp
  from asideD(4) [OF this] have n0: "fs_node s0 ?p = Some (Database new_file)" by simp
  obtain f where f: "sq_Migrate S appID migrations new_file = (None, f)" "f_app f = appID" "f_version f = 7"
    "database_of f = empty_db"
    using new_database [OF sqlite_okD(1) [OF ok]] by blast
  let ?s1 = "sq_Side S ?p (with_file ?p f s0)"
  obtain s2 where c: "sq_Close S ?p ?s1 = (True, s2)" using fk(2) [of ?p ?s1] by (cases "sq_Close S ?p ?s1") auto
  have "Create S dir s = (None, s2)"
    using assms(2-6) o n0 f(1) fk(1) c
    by (simp add: Create_def requireDir_def Stat_def Let_def migrate_at_def)
  moreover have "aside ?p (with_file ?p f s) s2"
    using aside_with_file [OF s0, of f] sqlite_okD(2) [OF ok, of ?p "with_file ?p f s0"] sqlite_okD(3) [OF ok, of ?p ?s1] c
    by (auto intro: aside_trans)
  ultimately show ?thesis
    using f migrate_file [OF ok file_ok_new f(1)] by auto
qed

lemma Open_current:
  assumes "sqlite_works S" and "fs_node s dir = Some Directory" and "fs_node s (Join dir FileName) = Some (Database f)"
    and "\<not> fs_denied s dir" and "\<not> fs_denied s (Join dir FileName)" and "f_app f = appID" and "f_version f = 7"
  shows "\<exists>s'. Open S dir s = (Inr (Join dir FileName), s') \<and> aside (Join dir FileName) s s'"
proof -
  let ?p = "Join dir FileName" and ?flags = "[OpenReadWrite, OpenWAL, OpenURI]"
  have ok: "sqlite_ok S" and fk: "\<And>p s. sq_ForeignKeys S p s"
    using assms(1) by (auto simp: sqlite_works_def)
  obtain s1 where o: "sq_OpenConn S ?p ?flags s = (True, s1)" using sqlite_worksD [OF assms(1), of s ?p ?flags] assms(3) by auto
  then have s1: "aside ?p s s1" using opened(1) [OF ok o] assms(3) by simp
  from asideD(4) [OF this] assms(3) have n1: "fs_node s1 ?p = Some (Database f)" by simp
  have "sq_Migrate S appID migrations f = (None, f)"
    using migrate_done [OF sqlite_okD(1) [OF ok], of f appID migrations] assms(6,7) by simp
  then have "openPool S ?p ?flags s = (None, sq_Side S ?p s1)"
    using o n1 fk by (simp add: openPool_def migrate_at_def with_file_same)
  then have "Open S dir s = (Inr ?p, sq_Side S ?p s1)"
    using assms(2-5) unfolding Open_def requireDir_def Stat_def Let_def by simp
  with aside_trans [OF s1 sqlite_okD(2) [OF ok]] show ?thesis by blast
qed

text \<open>Create, then Open. In a directory without ecv4.db, and with packages that work, Create
  succeeds; a second Create refuses and changes nothing; Open then serves the empty database.\<close>

theorem create_then_open:
  assumes "sqlite_works S" and "dir \<noteq> MemoryPath" and "fs_node s dir = Some Directory"
    and "fs_node s (Join dir FileName) = None" and "\<not> fs_denied s dir" and "\<not> fs_denied s (Join dir FileName)"
  shows "\<exists>s1 s2 f. Create S dir s = (None, s1) \<and> Create S dir s1 = (Some FileExists, s1) \<and>
    Open S dir s1 = (Inr (Join dir FileName), s2) \<and>
    fs_node s2 (Join dir FileName) = Some (Database f) \<and> database_of f = empty_db"
proof -
  let ?p = "Join dir FileName"
  obtain s1 f where s1: "Create S dir s = (None, s1)" "aside ?p (with_file ?p f s) s1"
    "f_app f = appID" "f_version f = 7" "database_of f = empty_db"
    using Create_fresh [OF assms] by blast
  have n1: "fs_node s1 ?p = Some (Database f)" "fs_node s1 dir = Some Directory" "fs_denied s1 = fs_denied s"
    using asideD(1,4) [OF s1(2)] asideD(5) [OF s1(2), of dir] assms(3,4) by (cases "dir = ?p"; simp)+
  then have "Create S dir s1 = (Some FileExists, s1)"
    using assms(2,5,6) by (auto simp: Create_def requireDir_def Stat_def Let_def)
  moreover obtain s2 where "Open S dir s1 = (Inr ?p, s2)" "aside ?p s1 s2"
    using Open_current [OF assms(1) n1(2,1)] n1(3) assms(5,6) s1(3,4) by auto
  ultimately show ?thesis using s1(1,5) asideD(4) [of ?p s1 s2] n1(1) by auto
qed

lemma sample_sqlite_works: "sqlite_works sample_sqlite"
  by (auto simp: sqlite_works_def sample_sqlite_ok) (auto simp: sample_sqlite_def split: option.split)

theorem create_then_open_witness:
  "\<exists>s s'. Create sample_sqlite ''/srv/'' empty_disk = (None, s) \<and> Open sample_sqlite ''/srv/'' s = (Inr ''/srv/ecv4.db'', s')"
  using create_then_open [OF sample_sqlite_works, of "''/srv/''" empty_disk]
  by (auto simp: sample_path empty_disk_def MemoryPath_def)

end
