(* ===== verification/HttpTheorems.thy ===== *)
theory HttpTheorems
  imports Http Samples
begin

text \<open>
  The properties of the HTTP layers: the bearer gate, the hidden route, what every answer and log
  line carries, the schema invariant for whole HTTP exchanges, and a login followed by a request
  with the token it returned.
\<close>

section \<open>Frames\<close>

context store_contract
begin

lemma obeys_answer [step_intros]: "obeys r h \<Longrightarrow> obeys r (answer f h)"
  unfolding answer_def by (intro step_intros)

lemma obeys_dispatch [step_intros]: "obeys r (dispatch L s ctx q)"
  by (cases q) (simp_all only: dispatch.simps, (intro step_intros)+)

lemma obeys_strictHandler [step_intros]: "obeys r (strictHandler L s i q u ctx)"
  unfolding strictHandler_def by (intro step_intros)

lemma obeys_requireBearer [step_intros]:
  "(\<And>ctx. obeys r (next ctx)) \<Longrightarrow> obeys r (requireBearer L ts q i a next)"
  unfolding requireBearer_def RequireBearerJWT_def by (intro step_intros)

lemma obeys_apiHandler [step_intros]: "obeys r (apiHandler L s i h)"
  unfolding apiHandler_def by (cases "hq_Routed h") (simp_all, (intro step_intros)+)

lemma obeys_RequestLogger: "obeys r (RequestLogger L s len h)"
  unfolding RequestLogger_def NewHTTPHandler_def hideRoute_def newRequestID_def by (intro step_intros)

end

text \<open>\<open>dispatch\<close> keeps the response that \<open>serve\<close> drops; the effects are the same.\<close>

lemma run_answer: "run_state (answer f h) w = (case run_state h w of
    (Inl e, w') \<Rightarrow> (Inl e, w') | (Inr x, w') \<Rightarrow> (Inr (map_response f x), w'))"
  by (simp add: answer_def split: prod.split sum.split)

lemma dispatch_serve: "snd (run_state (dispatch L s ctx q) w) = snd (run_state (serve L s ctx q) w)"
  by (cases q) (simp_all add: run_answer run_handler_def split: prod.split sum.split)

section \<open>The bearer gate\<close>

text \<open>The claims an Authorization header stands for at a time.\<close>

definition bearer_claims :: "libs \<Rightarrow> TokenService \<Rightarrow> int \<Rightarrow> string \<Rightarrow> Claims option" where
  "bearer_claims L ts now authz = (if authz \<noteq> [] \<and> HasPrefix authz BearerPrefix
     then verified_access L ts now (TrimSpace (TrimPrefix authz BearerPrefix)) else None)"

lemma run_newRequestID:
  "run_state newRequestID w = (r, w') \<Longrightarrow>
     w_db w' = w_db w \<and> w_sched w' = w_sched w \<and> w_now w' = w_now w \<and> w_later w' = w_later w \<and> w_shutdowns w' = w_shutdowns w"
  by (auto simp: newRequestID_def rand_Read_def split: list.splits)

lemma run_RequireBearerJWT:
  "run_state (RequireBearerJWT L ts i authz next) w =
    (case bearer_claims L ts (w_now w) authz of
       None \<Rightarrow> ((WriteError i 401 ''unauthorized''
           (if authz = [] then ''missing Authorization header''
            else if \<not> HasPrefix authz BearerPrefix then ''Authorization header must use Bearer scheme''
            else ''invalid access token''), (0, 0)),
         if authz \<noteq> [] \<and> HasPrefix authz BearerPrefix then tick w else w)
     | Some c \<Rightarrow> (case run_state (next (Some c)) (tick w) of (resp, w') \<Rightarrow>
         (if Impersonated c then (resp\<lparr>hs_Subject := Some (cl_Subject c)\<rparr>, (cl_Actor c, cl_UserID c))
          else (resp, (0, 0)), w')))"
  by (auto simp: RequireBearerJWT_def bearer_claims_def WithClaims_def SetImpersonation_def or_token_error_def
      split: option.split prod.split)

text \<open>A request to an operation that is not hidden.\<close>

definition reaches :: "Server \<Rightarrow> http_request \<Rightarrow> request \<Rightarrow> string option \<Rightarrow> bool" where
  "reaches s h q u \<longleftrightarrow> hq_Routed h = Routed q u \<and> (srv_shutdown s \<or> hq_Path h \<noteq> ''/admin/shutdown'')"

lemma run_RequestLogger:
  assumes "run_state (RequestLogger L s len h) w = ((rid, resp, line), w')"
  shows "\<exists>i w1 imp. w_db w1 = w_db w \<and> w_sched w1 = w_sched w \<and> w_now w1 = w_now w \<and> w_later w1 = w_later w \<and>
    w_shutdowns w1 = w_shutdowns w \<and> (hq_RequestId h \<noteq> [] \<longrightarrow> i = hq_RequestId h \<and> w1 = w) \<and>
    rid = (if i \<noteq> [] then Some i else None) \<and> run_state (NewHTTPHandler L s i h) w1 = ((resp, imp), w') \<and>
    log_requestId line = i \<and> log_status line = rec_status (write_response len resp new_recorder) \<and>
    log_level line = (if 500 \<le> log_status line then LevelError else LevelInfo) \<and>
    log_actor_subject line = (if fst imp \<noteq> 0 then Some imp else None)"
proof -
  obtain i w1 where 1: "run_state (if hq_RequestId h = [] then newRequestID else ret (hq_RequestId h)) w = (i, w1)"
    by fastforce
  obtain resp1 imp w2 where 2: "run_state (NewHTTPHandler L s i h) w1 = ((resp1, imp), w2)"
    by (metis surj_pair)
  have "w_db w1 = w_db w \<and> w_sched w1 = w_sched w \<and> w_now w1 = w_now w \<and> w_later w1 = w_later w \<and>
      w_shutdowns w1 = w_shutdowns w"
    using 1 run_newRequestID [of w i w1] by (auto split: if_splits)
  moreover have "i = hq_RequestId h \<and> w1 = w" if "hq_RequestId h \<noteq> []"
    using 1 that by simp
  ultimately show ?thesis
    using assms 1 2 by (intro exI [of _ i] exI [of _ w1] exI [of _ imp]) (auto simp: RequestLogger_def Let_def)
qed

text \<open>The id of a request that brings none: sixteen random bytes in hexadecimal digits.\<close>

lemma RequestLogger_mints:
  assumes "run_state (RequestLogger L s len h) w = ((rid, resp, line), w')" and "hq_RequestId h = []"
  shows "rid = (case w_entropy w of Some bytes # _ \<Rightarrow> Some (EncodeToString (fill 16 bytes)) | _ \<Rightarrow> None)"
proof -
  have "EncodeToString (fill 16 bytes) \<noteq> []" for bytes
    using length_EncodeToString [of "fill 16 bytes"] by (cases "fill 16 bytes") (auto simp: fill_def)
  then show ?thesis
    using assms
    by (auto simp: RequestLogger_def newRequestID_def drawn_def Let_def split: list.splits option.splits prod.splits)
qed

text \<open>C26. The bearer gate. A request to an operation that needs authentication, with a header
  that is missing, has another scheme or holds a token that does not verify, is answered 401
  with the error envelope and changes no table, under any schedule and before its body is even
  decoded. With a valid token the operation runs with exactly that token's claims, and its
  effects are those of the operation and nothing else; the four public operations never look
  at the header.\<close>

theorem bearer_gate:
  assumes "reaches s h q u" and "run_state (RequestLogger L s len h) w = ((rid, resp, line), w')"
  shows "case (if public q then Some None
               else map_option Some (bearer_claims L (srv_tokens s) (w_now w) (hq_Authorization h))) of
      None \<Rightarrow> hs_Status resp = 401 \<and> w_db w' = w_db w \<and> w_shutdowns w' = w_shutdowns w \<and>
        (\<exists>m. hs_Body resp = Envelope ''unauthorized'' m rid)
    | Some ctx \<Rightarrow> if u \<noteq> None then hs_Status resp = 400 \<and> w_db w' = w_db w
        else \<exists>w1. w_db w1 = w_db w \<and> w_sched w1 = w_sched w \<and> w' = snd (run_state (serve L s ctx q) w1)"
proof -
  from run_RequestLogger [OF assms(2)] obtain i w1 imp where 1: "w_db w1 = w_db w" "w_sched w1 = w_sched w"
    "w_now w1 = w_now w" "w_shutdowns w1 = w_shutdowns w" "rid = (if i \<noteq> [] then Some i else None)"
    and run: "run_state (NewHTTPHandler L s i h) w1 = ((resp, imp), w')" by blast
  let ?next = "strictHandler L s i q u"
  have api: "run_state (requireBearer L (srv_tokens s) q i (hq_Authorization h) ?next) w1 = ((resp, imp), w')"
    using run assms(1) by (auto simp: NewHTTPHandler_def hideRoute_def apiHandler_def reaches_def split: if_splits)
  have next_run: "if u \<noteq> None then hs_Status x = 400 \<and> w3 = w2
      else w3 = snd (run_state (serve L s ctx q) w2)" if "run_state (?next ctx) w2 = (x, w3)" for ctx x w2 w3
    using that dispatch_serve [of L s ctx q w2]
    by (auto simp: strictHandler_def RequestErrorHandlerFunc_def WriteError_def split: option.splits prod.splits)
  have tick: "w_db (tick v) = w_db v" "w_sched (tick v) = w_sched v" "w_shutdowns (tick v) = w_shutdowns v" for v
    by (simp_all add: tick_def split: list.split)
  show ?thesis
  proof (cases "public q")
    case True
    then obtain x where "run_state (?next None) w1 = (x, w')" "resp = x"
      using api by (auto simp: requireBearer_def split: prod.splits)
    with next_run [of None w1 x w'] True 1 show ?thesis by auto
  next
    case False
    note bearer = api [unfolded requireBearer_def, simplified False, simplified, unfolded run_RequireBearerJWT]
    show ?thesis
    proof (cases "bearer_claims L (srv_tokens s) (w_now w1) (hq_Authorization h)")
      case None
      with bearer False 1 tick show ?thesis by (auto simp: WriteError_def split: if_splits)
    next
      case (Some c)
      obtain x w3 where x: "run_state (?next (Some c)) (tick w1) = (x, w3)" by fastforce
      with bearer Some have "w' = w3" "hs_Status resp = hs_Status x" by (auto split: if_splits)
      with next_run [OF x] Some False 1 tick [of w1] show ?thesis by (auto intro!: exI [of _ "tick w1"])
    qed
  qed
qed

definition get_me :: "string \<Rightarrow> http_request" where
  "get_me authz = \<lparr>hq_Path = ''/me'', hq_Authorization = authz, hq_RequestId = ''trace-1'',
     hq_Routed = Routed Req_GetMe None\<rparr>"

definition purge_request :: http_request where
  "purge_request = \<lparr>hq_Path = ''/admin/refresh-tokens/purge'', hq_Authorization = ''Bearer refresh-j1'',
     hq_RequestId = ''trace-2'', hq_Routed = Routed Req_PurgeRefreshTokens None\<rparr>"

theorem bearer_gate_witness:
  "w_db (snd (run_state (RequestLogger sample_libs sample_server (\<lambda>_. 0) purge_request) busy_world)) = sample_db"
proof -
  have "bearer_claims sample_libs (srv_tokens sample_server) (w_now busy_world) (hq_Authorization purge_request) = None"
    by code_simp
  moreover obtain rid resp line w' where
    run: "run_state (RequestLogger sample_libs sample_server (\<lambda>_. 0) purge_request) busy_world = ((rid, resp, line), w')"
    by (metis surj_pair)
  moreover have "reaches sample_server purge_request Req_PurgeRefreshTokens None"
    by (simp add: reaches_def purge_request_def sample_server_def)
  from bearer_gate [OF this run] calculation show ?thesis by (simp add: busy_world_def)
qed

section \<open>What every exchange carries\<close>

lemma recorded_status: "rec_status (write_response len resp new_recorder) = hs_Status resp"
  by (simp add: write_response_def new_recorder_def WriteHeader_def Write_def Let_def)

text \<open>The parts of a response the layers below the log set.\<close>

definition marked :: "string \<Rightarrow> http_response \<times> impersonation \<Rightarrow> bool" where
  "marked i x \<longleftrightarrow> (case x of (resp, imp) \<Rightarrow>
     (\<forall>c m j. hs_Body resp = Envelope c m (Some j) \<longrightarrow> j = i \<and> i \<noteq> []) \<and>
     (if fst imp \<noteq> 0 then \<exists>subj. hs_Subject resp = Some subj \<and> ParseInt subj = Some (snd imp)
      else hs_Subject resp = None))"

lemma marked_WriteError: "marked i (WriteError i status c m, (0, 0))"
  by (simp add: marked_def WriteError_def)

lemma Visit_envelope: "hs_Subject (Visit x) = None \<and> (\<forall>c m j. hs_Body (Visit x) \<noteq> Envelope c m (Some j))"
  by (cases x) (simp_all add: visit_error_def)

lemma strict_marked: "marked i (fst (run_state (strictHandler L s i q u ctx) w), (0, 0))"
proof (cases u)
  case None
  obtain r w' where "run_state (dispatch L s ctx q) w = (r, w')" by fastforce
  with None Visit_envelope show ?thesis
    by (cases r) (auto simp: strictHandler_def marked_def ResponseErrorHandlerFunc_def WriteError_def)
qed (simp add: strictHandler_def RequestErrorHandlerFunc_def marked_WriteError)

lemma verified_subject: "verified_access L ts now raw = Some c \<Longrightarrow> ParseInt (cl_Subject c) = Some (cl_UserID c)"
  by (auto simp: verified_access_def split: option.splits)

lemma handler_marked: "marked i (fst (run_state (NewHTTPHandler L s i h) w))"
proof -
  have bearer: "marked i (fst (run_state (RequireBearerJWT L ts i a (strictHandler L s i q u)) w))" for ts a q u
  proof (cases "bearer_claims L ts (w_now w) a")
    case None
    then show ?thesis by (simp add: run_RequireBearerJWT marked_WriteError)
  next
    case (Some c)
    obtain x w' where x: "run_state (strictHandler L s i q u (Some c)) (tick w) = (x, w')" by fastforce
    have "ParseInt (cl_Subject c) = Some (cl_UserID c)"
      using Some verified_subject by (auto simp: bearer_claims_def split: if_splits)
    with Some x strict_marked [of i L s q u "Some c" "tick w"] show ?thesis
      by (auto simp: run_RequireBearerJWT marked_def Impersonated_def)
  qed
  have req: "marked i (fst (run_state (requireBearer L ts q i a (strictHandler L s i q u)) w))" for ts a q u
    using strict_marked [of i L s q u None w] bearer by (auto simp: requireBearer_def split: prod.split)
  have "marked i (fst (run_state (apiHandler L s i h) w))"
    using req by (cases "hq_Routed h") (auto simp: apiHandler_def marked_def)
  then show ?thesis by (simp add: NewHTTPHandler_def hideRoute_def http_NotFound_def marked_def)
qed

text \<open>C27. Traceability. Whatever the request and the schedule: a request id sent by the client is
  echoed; without one, sixteen bytes of the random source are drawn and their 32 hexadecimal
  digits are the id, and only if the source fails is there none. An envelope names no other id
  than the header; the log line has the answer's status, is an error exactly from 500 on, and
  carries the same id; a response is marked as impersonated exactly when the log names the real
  actor, and then the marked subject is the account logged. The tables keep the schema invariant.\<close>

theorem exchange_traceable:
  assumes "db_ok (w_db w)" and "rely keep_inv w"
    and "run_state (RequestLogger L s len h) w = ((rid, resp, line), w')"
  shows "(hq_RequestId h \<noteq> [] \<longrightarrow> rid = Some (hq_RequestId h)) \<and> rid \<noteq> Some [] \<and>
    (hq_RequestId h = [] \<longrightarrow> rid = (case w_entropy w of
       Some bytes # _ \<Rightarrow> Some (EncodeToString (fill 16 bytes)) | _ \<Rightarrow> None)) \<and>
    (rid = None \<longleftrightarrow> log_requestId line = []) \<and> (\<forall>i. rid = Some i \<longrightarrow> log_requestId line = i) \<and>
    (\<forall>c m j. hs_Body resp = Envelope c m (Some j) \<longrightarrow> rid = Some j) \<and>
    log_status line = hs_Status resp \<and> (log_level line = LevelError \<longleftrightarrow> 500 \<le> hs_Status resp) \<and>
    (case log_actor_subject line of
       None \<Rightarrow> hs_Subject resp = None
     | Some (actor, subject) \<Rightarrow> actor \<noteq> 0 \<and> (\<exists>t. hs_Subject resp = Some t \<and> ParseInt t = Some subject)) \<and>
    db_ok (w_db w')"
proof -
  have "db_ok (w_db w')"
    using obeysD [OF inv.obeys_RequestLogger assms(2,3)] assms(1) by (simp add: keep_inv_def)
  moreover from run_RequestLogger [OF assms(3)] obtain i w1 imp where
    "hq_RequestId h \<noteq> [] \<longrightarrow> i = hq_RequestId h" "rid = (if i \<noteq> [] then Some i else None)"
    and run: "run_state (NewHTTPHandler L s i h) w1 = ((resp, imp), w')"
    and "log_requestId line = i" "log_status line = rec_status (write_response len resp new_recorder)"
    "log_level line = (if 500 \<le> log_status line then LevelError else LevelInfo)"
    "log_actor_subject line = (if fst imp \<noteq> 0 then Some imp else None)" by blast
  moreover have "marked i (resp, imp)" using handler_marked [of i L s h w1] run by simp
  moreover note RequestLogger_mints [OF assms(3)]
  ultimately show ?thesis by (cases imp) (auto simp: marked_def recorded_status)
qed

theorem exchange_traceable_witness:
  "\<exists>resp line. fst (run_state (RequestLogger sample_libs sample_server (\<lambda>_. 0) purge_request) busy_world) =
     (Some ''trace-2'', resp, line) \<and> log_status line = hs_Status resp"
proof -
  have rely: "rely keep_inv busy_world" by (auto simp: rely_def busy_world_def keep_inv_def)
  obtain rid resp line w' where
    run: "run_state (RequestLogger sample_libs sample_server (\<lambda>_. 0) purge_request) busy_world = ((rid, resp, line), w')"
    by (metis surj_pair)
  from exchange_traceable [OF _ rely run] run show ?thesis by (simp add: busy_world_def purge_request_def)
qed

section \<open>The hidden route\<close>

text \<open>The hidden route. On a server without the development switch every request to
  /admin/shutdown, whatever its method, token or body, is answered exactly as a request to an
  unregistered path, and nobody is shut down.\<close>

theorem shutdown_hidden:
  assumes "\<not> srv_shutdown s" and "hq_Path h = ''/admin/shutdown''"
    and "run_state (RequestLogger L s len h) w = ((rid, resp, line), w')"
  shows "resp = http_NotFound \<and> w_db w' = w_db w \<and> w_shutdowns w' = w_shutdowns w \<and>
    run_state (RequestLogger L s len h) w = run_state (RequestLogger L s len
      (h\<lparr>hq_Authorization := a, hq_Routed := NoRoute 404 (''404 page not found'' @ [CHR 0x0A])\<rparr>)) w"
proof -
  have hidden: "NewHTTPHandler L s i r = ret (http_NotFound, (0, 0))" if "hq_Path r = ''/admin/shutdown''" for i r
    using assms(1) that by (simp add: NewHTTPHandler_def hideRoute_def)
  from run_RequestLogger [OF assms(3)] obtain i w1 imp where "w_db w1 = w_db w" "w_shutdowns w1 = w_shutdowns w"
    "run_state (NewHTTPHandler L s i h) w1 = ((resp, imp), w')" by blast
  then show ?thesis using assms(2) by (simp add: hidden RequestLogger_def)
qed

definition closed_server :: Server where
  "closed_server = sample_server\<lparr>srv_shutdown := False\<rparr>"

definition shutdown_request :: http_request where
  "shutdown_request = \<lparr>hq_Path = ''/admin/shutdown'', hq_Authorization = ''Bearer access3'', hq_RequestId = [],
     hq_Routed = Routed Req_ShutdownServer None\<rparr>"

theorem shutdown_hidden_witness:
  "fst (snd (fst (run_state (RequestLogger sample_libs closed_server (\<lambda>_. 0) shutdown_request) busy_world))) = http_NotFound"
proof -
  obtain rid resp line w' where
    run: "run_state (RequestLogger sample_libs closed_server (\<lambda>_. 0) shutdown_request) busy_world = ((rid, resp, line), w')"
    by (metis surj_pair)
  from shutdown_hidden [OF _ _ run] run show ?thesis by (simp add: closed_server_def shutdown_request_def)
qed

section \<open>Login, then a request\<close>

text \<open>A signed token is text without surrounding white space.\<close>

definition jwt_text_ok :: "libs \<Rightarrow> bool" where
  "jwt_text_ok L \<longleftrightarrow> (\<forall>c k raw. SignedString L c k = Some raw \<longrightarrow> TrimSpace raw = raw)"

lemma Login_access:
  assumes "quiet w" and "db_ok (w_db w)" and "run_state (Login L s (Some b)) w = (Inr (OK200 body), w')"
  shows "\<exists>a h. login_of (w_db w) (login_email L b) = Some (a, h) \<and> acc_IsActive a \<and>
    SignedString L (access_claims L (srv_tokens s) a (w_now w)) (ts_secret (srv_tokens s)) = Some (at_AccessToken body)"
proof (cases "login_of (w_db w) (login_email L b)")
  case None
  with assms show ?thesis by (auto simp: Login_def login_email_def loginUnauthorized_def)
next
  case (Some p)
  obtain a h where p: "p = (a, h)" by fastforce
  let ?w = "w\<lparr>w_compares := Suc (w_compares w)\<rparr>"
  from assms Some p have ok: "acc_IsActive a" and run: "run_state (login_session L s a) ?w = (Inr (OK200 body), w')"
    by (auto simp: Login_def login_email_def loginUnauthorized_def split: if_splits)
  from run have "SignedString L (access_claims L (srv_tokens s) a (w_now ?w)) (ts_secret (srv_tokens s)) =
      Some (at_AccessToken body)"
    by (cases "SignedString L (access_claims L (srv_tokens s) a (w_now ?w)) (ts_secret (srv_tokens s))")
      (auto simp: login_session_def run_IssueAccess_account auth_tokens_def split: sum.splits prod.splits)
  with Some p ok show ?thesis by simp
qed

text \<open>Login, then use. The access token of a successful login, sent back in the Authorization
  header, lets its holder in as the account that logged in: until the token expires, and while
  that account is active, GET /me answers 200 with its id, email and roles.\<close>

theorem login_then_me:
  assumes "jwt_ok L" and "jwt_text_ok L" and "quiet w" and "db_ok (w_db w)"
    and "run_state (Login L s (Some b)) w = (Inr (OK200 body), w1)"
    and "login_of (w_db w) (login_email L b) = Some (a, h)" and "int64 (acc_ID a)" and "is_ascii (acc_Email a)"
    and "quiet w2" and "db_ok (w_db w2)" and "account_of (w_db w2) (acc_ID a) = Some a2" and "acc_IsActive a2"
    and "w_now w2 < Unix (w_now w + ts_accessTTL (srv_tokens s)) * 1000000000"
  shows "\<exists>line w3. run_state (RequestLogger L s len (get_me (''Bearer '' @ at_AccessToken body))) w2 =
    ((Some ''trace-1'', \<lparr>hs_Status = 200, hs_Subject = None, hs_Body = Payload (P_User
       \<lparr>usr_Id = acc_ID a, usr_Username = acc_Email a2, usr_Roles = accountRoles a2\<rparr>)\<rparr>, line), w3)"
proof -
  let ?raw = "at_AccessToken body" and ?ts = "srv_tokens s"
  let ?c = "\<lparr>cl_Subject = FormatInt (acc_ID a), cl_UserID = acc_ID a, cl_Username = acc_Email a, cl_Roles = accountRoles a,
      cl_ExpiresAt = Some (Unix (w_now w + ts_accessTTL ?ts) * 1000000000), cl_Actor = 0\<rparr>"
  from Login_access [OF assms(3-5)] assms(6)
  have signed: "SignedString L (with_registered (registered L (acc_ID a) accessAudience (w_now w)
      (w_now w + ts_accessTTL ?ts)) (acc_Email a) (accountRoles a) [] 0) (ts_secret ?ts) = Some ?raw"
    by (auto simp: access_claims_def)
  have roles: "list_all is_ascii (accountRoles a)" by (simp add: accountRoles_def)
  have "TrimSpace ?raw = ?raw" using assms(2) signed unfolding jwt_text_ok_def by blast
  then have bearer: "bearer_claims L ?ts (w_now w2) (''Bearer '' @ ?raw) = Some ?c"
    using verified_minted [OF assms(1,7,8) roles signed, of "w_now w2"] assms(13)
    by (simp add: bearer_claims_def BearerPrefix_def HasPrefix_append [of "''Bearer ''", simplified]
        TrimPrefix_append [of "''Bearer ''", simplified])
  have "acc_ID a2 = acc_ID a"
    using assms(11) by (auto simp: account_of_def account_of_row_def dest: find_Some_mem)
  moreover have "caller (w_db (tick w2)) (Some ?c) = Inr a2"
    using assms(11,12) by (simp add: caller_def)
  ultimately show ?thesis
    using assms(9,10) bearer
    by (simp add: RequestLogger_def NewHTTPHandler_def hideRoute_def apiHandler_def get_me_def requireBearer_def
        run_RequireBearerJWT strictHandler_def run_answer GetMe_def Impersonated_def Let_def)
qed

lemma sample_text_ok: "jwt_text_ok sample_libs"
proof -
  have "list_all (\<lambda>(c, k, raw). plain_text raw) sample_table"
    by code_simp
  then show ?thesis
    by (auto simp: TrimSpace_plain jwt_text_ok_def sample_libs_def table_libs_def table_sign_def list_all_iff dest!: find_Some_mem)
qed

definition player_login :: LoginRequest where
  "player_login = \<lparr>lr_Username = '' PL@x'', lr_Password = ''plpassword''\<rparr>"

lemma sample_player_login:
  "fst (run_state (Login sample_libs sample_server (Some player_login)) (sample_world sample_db)) =
     Inr (OK200 (auth_tokens sample_server ''access3'' ''refresh-AB''))"
  by code_simp

theorem login_then_me_witness:
  "\<exists>line w3. run_state (RequestLogger sample_libs sample_server (\<lambda>_. 0) (get_me ''Bearer access3'')) (sample_world sample_db) =
     ((Some ''trace-1'', \<lparr>hs_Status = 200, hs_Subject = None, hs_Body = Payload (P_User
       \<lparr>usr_Id = 3, usr_Username = ''pl@x'', usr_Roles = [''player'']\<rparr>)\<rparr>, line), w3)"
proof -
  have login: "login_of sample_db (login_email sample_libs player_login) = Some (sample_account 3 ''pl@x'' False, ''plpassword'')"
    unfolding sample_libs_def by code_simp
  have w: "w_now (sample_world sample_db) < Unix (w_now (sample_world sample_db) + ts_accessTTL (srv_tokens sample_server)) * 1000000000"
    by code_simp
  have roles: "accountRoles (sample_account 3 ''pl@x'' False) = [''player'']"
    by code_simp
  from login_then_me [OF sample_libs_ok(1) sample_text_ok _ _ result_pair [OF sample_player_login] _ _ _ _ _ _ _ w,
      of "sample_account 3 ''pl@x'' False" "''plpassword''" "sample_account 3 ''pl@x'' False" "\<lambda>_. 0"]
  show ?thesis
    by (simp add: login int64_def is_ascii_def sample_account_def auth_tokens_def roles [unfolded sample_account_def]
        sample_lookups(7) [unfolded sample_account_def])
qed

end
