(* ===== verification/ResponseTypes.thy ===== *)
theory ResponseTypes
  imports HttpTheorems
begin

text \<open>
  The types of the answers. The API description gives every operation its status codes and every
  body its type: the enumerations of game status, role and token type, the patterns of codes and
  handles, the minimum of a lifetime. The handlers copy these fields out of the database, so the
  proof is a type-preservation argument: \<open>typed\<close> is an invariant of the tables under every
  statement the handlers send, and \<open>yields P m\<close> says that the result of a program started on
  typed tables satisfies \<open>P\<close> and leaves them typed, whatever fails and whoever interferes.
\<close>

section \<open>Typed tables\<close>

definition typed :: "database \<Rightarrow> bool" where
  "typed d \<longleftrightarrow> (\<forall>g \<in> set (games d). ValidCode (gr_code g) \<and> GameStatus_Valid (gr_status g)) \<and>
     (\<forall>r \<in> set (game_account_role d). ValidHandle (rr_handle r)) \<and> 0 \<le> user_version d"

definition keep_typed :: "database \<Rightarrow> database \<Rightarrow> bool" where
  "keep_typed d d' \<longleftrightarrow> (typed d \<longrightarrow> typed d')"

lemma typed_frame [simp]:
  "typed (d\<lparr>accounts := rows\<rparr>) = typed d" "typed (d\<lparr>refresh_tokens := tokens\<rparr>) = typed d"
  by (simp_all add: typed_def)

interpretation typed_accounts: account_store keep_typed
  by unfold_locales
    (auto simp: keep_typed_def stmt_ok_def sql_insert_account_def sql_update_accounts_def Let_def
      split: if_splits)

interpretation typed_tokens: token_store keep_typed
  by unfold_locales
    (auto simp: keep_typed_def stmt_ok_def sql_insert_refresh_token_def sql_revoke_def
      sql_purge_def Let_def split: if_splits)

section \<open>Results on typed tables\<close>

definition sound :: "world \<Rightarrow> bool" where
  "sound w \<longleftrightarrow> typed (w_db w) \<and> rely keep_typed w"

definition yields :: "('a \<Rightarrow> bool) \<Rightarrow> (world, 'a) state \<Rightarrow> bool" where
  "yields P m \<longleftrightarrow> (\<forall>w. sound w \<longrightarrow> P (fst (run_state m w)) \<and> sound (snd (run_state m w)))"

text \<open>The result of a method: an error, or a value of the type.\<close>

fun good :: "('a \<Rightarrow> bool) \<Rightarrow> 'e + 'a \<Rightarrow> bool" where
  "good P (Inl e) = True"
| "good P (Inr x) = P x"

abbreviation anything :: "'a \<Rightarrow> bool" where
  "anything \<equiv> \<lambda>_. True"

named_theorems yields_intros

lemma yieldsD: "yields P m \<Longrightarrow> sound w \<Longrightarrow> run_state m w = (x, w') \<Longrightarrow> P x \<and> sound w'"
  unfolding yields_def by (metis fst_conv snd_conv)

lemma sound_guar: "guar keep_typed w w' \<Longrightarrow> sound w \<Longrightarrow> sound w'"
  by (auto simp: sound_def guar_def rely_def keep_typed_def)

lemma yields_any: "obeys keep_typed m \<Longrightarrow> yields anything m"
  by (auto simp: yields_def obeys_def state_io_rel_def intro: sound_guar)

lemma good_anything [simp]: "good anything x"
  by (cases x) simp_all

lemma yields_good: "obeys keep_typed m \<Longrightarrow> yields (good anything) m"
  using yields_any [of m] by (simp add: yields_def)

lemma yields_ret: "P x \<Longrightarrow> yields P (ret x)"
  by (simp add: yields_def)

lemma yields_bind:
  assumes "yields Q m" and "\<And>x. Q x \<Longrightarrow> yields P (f x)"
  shows "yields P (State_Monad.bind m f)"
  using assms by (auto simp: yields_def split: prod.split)

lemma yields_if [yields_intros]:
  "(b \<Longrightarrow> yields P m) \<Longrightarrow> (\<not> b \<Longrightarrow> yields P n) \<Longrightarrow> yields P (if b then m else n)"
  by simp

lemma yields_sum [yields_intros]:
  "(\<And>x. v = Inl x \<Longrightarrow> yields P (f x)) \<Longrightarrow> (\<And>y. v = Inr y \<Longrightarrow> yields P (g y)) \<Longrightarrow>
   yields P (case v of Inl x \<Rightarrow> f x | Inr y \<Rightarrow> g y)"
  by (cases v) auto

lemma yields_option [yields_intros]:
  "(v = None \<Longrightarrow> yields P f) \<Longrightarrow> (\<And>y. v = Some y \<Longrightarrow> yields P (g y)) \<Longrightarrow>
   yields P (case v of None \<Rightarrow> f | Some y \<Rightarrow> g y)"
  by (cases v) auto

lemma yields_prod [yields_intros]:
  "(\<And>x y. v = (x, y) \<Longrightarrow> yields P (f x y)) \<Longrightarrow> yields P (case v of (x, y) \<Rightarrow> f x y)"
  by (cases v) auto

lemma yields_or_return:
  assumes "yields (good Q) m" and "\<And>x. Q x \<Longrightarrow> yields (good P) (f x)"
  shows "yields (good P) (or_return m f)"
  unfolding or_return_def using assms
  by (intro yields_bind [OF assms(1)] yields_sum yields_ret) auto

lemma yields_stop [yields_intros]: "yields (good P) (ret (Inl e))"
  by (simp add: yields_ret)

lemma yields_respond [yields_intros]: "P x \<Longrightarrow> yields (good P) (respond x)"
  by (simp add: respond_def yields_ret)

section \<open>Statements\<close>

text \<open>A statement that keeps the tables typed, and what its result is like on typed tables.\<close>

lemma yields_Execute:
  assumes "\<And>d x d'. typed d \<Longrightarrow> stmt d = Inr (x, d') \<Longrightarrow> P x \<and> typed d'"
  shows "yields (good P) (Execute stmt)"
  unfolding yields_def
proof (intro allI impI)
  fix w assume w: "sound w"
  obtain b s where t: "statement_turn (w_sched w) = (b, s)" by fastforce
  with w have s: "sound (w\<lparr>w_sched := s\<rparr>)"
    using typed_accounts.statement_turn_subset [of "w_sched w"] by (auto simp: sound_def rely_def)
  show "good P (fst (run_state (Execute stmt) w)) \<and> sound (snd (run_state (Execute stmt) w))"
  proof (cases "b \<or> (\<exists>e. stmt (w_db w) = Inl e)")
    case True
    with s t show ?thesis by (auto simp: Execute_def Let_def)
  next
    case False
    then obtain x d where x: "\<not> b" "stmt (w_db w) = Inr (x, d)" by (cases "stmt (w_db w)") auto
    with assms [OF _ x(2)] w s t show ?thesis
      by (auto simp: Execute_def Let_def sound_def rely_def)
  qed
qed

lemma yields_select: "(\<And>d. typed d \<Longrightarrow> P (q d)) \<Longrightarrow> yields (good P) (Execute (select q))"
  by (rule yields_Execute) auto

lemma yields_update: "stmt_ok keep_typed stmt \<Longrightarrow> yields (good anything) (Execute stmt)"
  by (rule yields_Execute) (auto simp: stmt_ok_def keep_typed_def)

lemma yields_with_conn: "yields (good P) m \<Longrightarrow> yields (good P) (with_conn m)"
  unfolding with_conn_def
  by (intro yields_bind [of anything] yields_any typed_accounts.res_pool_Get yields_option yields_ret) simp_all

lemma yields_transaction:
  assumes "yields (good P) body"
  shows "yields (good P) (ImmediateTransaction body)"
  unfolding yields_def
proof (intro allI impI)
  fix w assume w: "sound w"
  let ?e = "Execute (select (\<lambda>_. ()))"
  obtain x w1 where 1: "run_state ?e w = (x, w1)" by fastforce
  obtain y w2 where 2: "run_state body w1 = (y, w2)" by fastforce
  obtain z w3 where 3: "run_state ?e w2 = (z, w3)" by fastforce
  have e: "yields anything ?e" by (intro yields_any typed_accounts.res_select)
  from yieldsD [OF e w 1] have w1: "sound w1" by simp
  from yieldsD [OF assms w1 2] have w2: "good P y" "sound w2" by simp_all
  from yieldsD [OF e w2(2) 3] have w3: "sound w3" by simp
  have "sound (w2\<lparr>w_db := w_db w1\<rparr>)" "sound (w3\<lparr>w_db := w_db w1\<rparr>)"
    using w1 w2(2) w3 by (simp_all add: sound_def rely_def)
  with 1 2 3 w1 w2 w3
  show "good P (fst (run_state (ImmediateTransaction body) w)) \<and>
      sound (snd (run_state (ImmediateTransaction body) w))"
    by (cases x; cases y; cases z) (simp_all add: ImmediateTransaction_def)
qed

section \<open>The methods of the store\<close>

definition game_typed :: "Game \<Rightarrow> bool" where
  "game_typed g \<longleftrightarrow> ValidCode (game_Code g) \<and> GameStatus_Valid (game_Status g)"

definition member_typed :: "Member \<Rightarrow> bool" where
  "member_typed m \<longleftrightarrow> ValidHandle (mem_Handle m)"

definition membership_typed :: "GameMembership \<Rightarrow> bool" where
  "membership_typed m \<longleftrightarrow> ValidCode (gm_Code m) \<and> ValidHandle (gm_Handle m)"

text \<open>One statement whose result the method only converts.\<close>

lemma yields_query:
  assumes "yields (good Q) m" and "\<And>x. Q x \<Longrightarrow> good P (f x)" and "\<And>e. good P (g e)"
  shows "yields (good P) (with_conn (do { r \<leftarrow> m; ret (case r of Inl e \<Rightarrow> g e | Inr x \<Rightarrow> f x) }))"
  using assms(2,3)
  by (intro yields_with_conn yields_bind [OF assms(1)] yields_ret) (auto split: sum.split)

lemma good_found_row: "(\<And>r. r \<in> set rows \<Longrightarrow> P (scan r)) \<Longrightarrow> good P (found_row scan rows)"
  by (simp add: found_row_def)

lemma typed_game: "typed d \<Longrightarrow> g \<in> set (games d) \<Longrightarrow> game_typed (scanGame g)"
  by (simp add: typed_def game_typed_def scanGame_def)

lemma typed_role: "typed d \<Longrightarrow> r \<in> set (game_account_role d) \<Longrightarrow> ValidHandle (rr_handle r)"
  by (simp add: typed_def)

lemma yields_game_reads:
  "yields (good game_typed) (store_GameByID i a b)"
  "yields (good (list_all game_typed)) (store_ListGames a b s)"
  "yields (good (list_all membership_typed)) (store_GamesForAccount a)"
  "yields (good (list_all member_typed)) (store_MembersForGame g)"
  "yields (good member_typed) (store_MemberForGame g a)"
  "yields (good (\<lambda>v. 0 \<le> v)) store_SchemaVersion"
proof -
  show "yields (good game_typed) (store_GameByID i a b)"
    unfolding store_GameByID_def
    by (rule yields_query [OF yields_select [where P = "\<lambda>rows. \<forall>g \<in> set rows. game_typed (scanGame g)"]])
      (auto simp: sql_game_by_id_def intro: typed_game good_found_row split: if_splits)
  show "yields (good (list_all game_typed)) (store_ListGames a b s)"
    unfolding store_ListGames_def
    by (rule yields_query [OF yields_select [where P = "\<lambda>rows. \<forall>g \<in> set rows. game_typed (scanGame g)"]])
      (auto simp: sql_list_games_def list_all_iff intro: typed_game split: if_splits)
  show "yields (good (list_all membership_typed)) (store_GamesForAccount a)"
    unfolding store_GamesForAccount_def
    by (rule yields_query [OF yields_select [where P = "list_all membership_typed"]])
      (auto simp: sql_select_memberships_def list_all_iff membership_typed_def typed_def)
  show "yields (good (list_all member_typed)) (store_MembersForGame g)"
    unfolding store_MembersForGame_def
    by (rule yields_query [OF yields_select [where P = "\<lambda>rows. \<forall>r \<in> set rows. ValidHandle (rr_handle r)"]])
      (auto simp: list_all_iff member_typed_def member_of_row_def typed_role)
  show "yields (good member_typed) (store_MemberForGame g a)"
    unfolding store_MemberForGame_def
    by (rule yields_query [OF yields_select [where P = "\<lambda>rows. \<forall>r \<in> set rows. ValidHandle (rr_handle r)"]])
      (auto simp: member_typed_def member_of_row_def typed_role intro!: good_found_row)
  show "yields (good (\<lambda>v. 0 \<le> v)) store_SchemaVersion"
    unfolding store_SchemaVersion_def
    by (rule yields_query [OF yields_select [where P = "\<lambda>v. 0 \<le> v"]]) (auto simp: typed_def)
qed

lemma draft_valid: "GameStatus_Valid ''draft''"
  by (simp add: GameStatus_Valid_def status_defs)

lemma yields_CreateGame_store:
  assumes "ValidCode code"
  shows "yields (good game_typed) (store_CreateGame code name descr)"
  unfolding store_CreateGame_def
proof (rule yields_query)
  show "yields (good anything) (Execute (sql_insert_game code name descr))"
    using assms draft_valid
    by (intro yields_Execute) (auto simp: sql_insert_game_def Let_def typed_def split: if_splits)
qed (use assms draft_valid in \<open>simp_all add: game_typed_def\<close>)

definition update_typed :: "GameUpdate \<Rightarrow> bool" where
  "update_typed u \<longleftrightarrow> (case gu_Status u of None \<Rightarrow> True | Some s \<Rightarrow> GameStatus_Valid s)"

lemma typed_update_game:
  assumes "update_typed u" and "buildGameUpdate u = (sets, args)"
  shows "stmt_ok keep_typed (sql_update_game sets args i)"
  using assms(1)
  by (auto simp: stmt_ok_def keep_typed_def sql_update_game_def Let_def typed_def update_typed_def
      buildGameUpdate_row [OF assms(2)] split: if_splits option.splits)

lemma yields_UpdateGame_store:
  assumes "update_typed u"
  shows "yields (good game_typed) (store_UpdateGame i u)"
proof -
  obtain sets args where build: "buildGameUpdate u = (sets, args)" by fastforce
  have read: "yields (good (\<lambda>rows. \<forall>g \<in> set rows. game_typed (scanGame g)))
      (Execute (select (\<lambda>d. filter (\<lambda>g. gr_id g = i) (games d))))"
    by (rule yields_select) (auto intro: typed_game)
  have merged: "game_typed (merge_game u (g\<lparr>game_ID := i\<rparr>))" if "game_typed g" for g
    using that assms by (auto simp: game_typed_def merge_game_def update_typed_def split: option.splits)
  show ?thesis
    unfolding store_UpdateGame_def build prod.case
    by (intro yields_if yields_with_conn yields_transaction yields_bind [OF read] yields_sum yields_ret
        yields_bind [OF yields_update [OF typed_update_game [OF assms build]]])
      (auto intro: merged)
qed

lemma numbered_handle: "ValidHandle (''player_'' @ FormatInt (int n + 1))"
  using digits_all [of "nat (int n + 1)"]
  by (auto simp: ValidHandle_iff FormatInt_def handle_char_def letter_def upper_letter_def list_all_iff)

lemma yields_existsInt: "yields (good anything) (existsInt q)"
  unfolding existsInt_def by (rule yields_select) simp

lemma yields_insert_new_member:
  assumes "ValidHandle h"
  shows "yields (good member_typed) (insert_new_member g a h m)"
proof -
  have insert: "yields (good anything) (Execute (sql_insert_member g a h i))" for i
    using assms
    by (intro yields_Execute) (auto simp: sql_insert_member_def Let_def typed_def split: if_splits)
  show ?thesis
    unfolding insert_new_member_def
    by (intro yields_bind [OF yields_existsInt] yields_bind [OF insert] yields_sum yields_if yields_ret)
      (auto simp: member_typed_def assms split: sum.split)
qed

lemma yields_AddMember:
  assumes "h = [] \<or> ValidHandle h"
  shows "yields (good member_typed) (store_AddMember g a h m)"
proof -
  have count: "yields (good anything)
      (Execute (select (\<lambda>d. length (filter (\<lambda>r. rr_game_id r = g) (game_account_role d)))))"
    by (rule yields_select) simp
  show ?thesis
    unfolding store_AddMember_def
    by (intro yields_with_conn yields_transaction yields_bind [OF yields_existsInt] yields_bind [OF count]
        yields_sum yields_if yields_insert_new_member numbered_handle yields_ret) (use assms in auto)
qed

definition rename_typed :: "MemberUpdate \<Rightarrow> bool" where
  "rename_typed u \<longleftrightarrow> (case mu_Handle u of None \<Rightarrow> True | Some h \<Rightarrow> ValidHandle h)"

lemma typed_update_member:
  assumes "rename_typed u" and "buildMemberUpdate u = (sets, args)"
  shows "stmt_ok keep_typed (sql_update_member sets args g a)"
  using assms(1)
  by (auto simp: stmt_ok_def keep_typed_def sql_update_member_def Let_def typed_def rename_typed_def
      buildMemberUpdate_row [OF assms(2)] split: if_splits option.splits)

lemma yields_apply_member_update:
  assumes "rename_typed u" and "member_typed m"
  shows "yields (good member_typed) (apply_member_update g a u m)"
proof -
  obtain sets args where build: "buildMemberUpdate u = (sets, args)" by fastforce
  show ?thesis
    unfolding apply_member_update_def build prod.case
    by (intro yields_bind [OF yields_update [OF typed_update_member [OF assms(1) build]]] yields_ret)
      (use assms in \<open>auto simp: member_typed_def merge_member_def rename_typed_def split: sum.split option.splits\<close>)
qed

lemma yields_UpdateMember:
  assumes "rename_typed u"
  shows "yields (good member_typed) (store_UpdateMember g a u)"
proof -
  have read: "yields (good (\<lambda>rows. \<forall>r \<in> set rows. ValidHandle (rr_handle r)))
      (Execute (select (\<lambda>d. filter (role_at g a) (game_account_role d))))"
    by (rule yields_select) (auto dest: typed_role)
  show ?thesis
    unfolding store_UpdateMember_def Let_def
    by (intro yields_with_conn yields_transaction yields_bind [OF read] yields_bind [OF yields_existsInt]
        yields_sum yields_option yields_if yields_apply_member_update yields_ret)
      (use assms in \<open>auto simp: member_typed_def member_of_row_def\<close>)
qed

section \<open>Programs whose result is not constrained\<close>

lemma yields_untyped:
  "yields (good anything) (store_AccountByID i)" "yields (good anything) store_ListAccounts"
  "yields (good anything) (store_Credentials e)" "yields (good anything) (store_RefreshTokenByJTI j)"
  "yields (good anything) (store_SessionsForAccount i n)"
  "yields (good anything) (store_CreateAccount e b c h)"
  "yields (good anything) (store_UpdateAccountByID i au)"
  "yields (good anything) (store_RevokeFamily f)" "yields (good anything) (store_RevokeAllForAccount i)"
  "yields (good anything) (store_RevokeFamilyForAccount f i)" "yields (good anything) (store_RevokeRefreshToken j)"
  "yields (good anything) (store_PurgeExpiredRefreshTokens n)"
  "yields (good anything) (IssueAccess L ts i u rs)" "yields (good anything) (IssueImpersonation L ts i u rs act)"
  "yields (good anything) NewTokenID" "yields (good anything) (issueRefresh L s i f)"
  "yields (good anything) (HashSecret L p)" "yields (good anything) (chosen_secret sec)"
  "yields (good anything) (VerifyRefresh L ts raw)"
  "yields (good anything) (authenticatedAccount ctx)" "yields (good anything) (requireAdmin ctx)"
  "yields (good anything) (active_gm account g)"
  by (rule yields_good, intro step_intros)+

lemma yields_unit:
  "yields anything clock_now" "yields anything (bcrypt_compare L h p)" "yields anything trigger_shutdown"
  by (rule yields_any, intro step_intros)+

lemmas yields_methods = yields_untyped yields_game_reads yields_CreateGame_store yields_UpdateGame_store
  yields_AddMember yields_UpdateMember

lemmas yields_steps = yields_methods [THEN yields_bind] yields_unit [THEN yields_bind]
  yields_methods [THEN yields_or_return]

section \<open>The types of the API\<close>

text \<open>The statuses the generated response types of an operation carry.\<close>

fun declared :: "request \<Rightarrow> nat set" where
  "declared Req_GetHealth = {200}"
| "declared Req_GetVersion = {200}"
| "declared (Req_Login b) = {200, 401}"
| "declared (Req_RefreshToken b) = {200, 401}"
| "declared (Req_Logout b) = {204, 401}"
| "declared Req_ShutdownServer = {202, 401, 403, 404}"
| "declared Req_PurgeRefreshTokens = {200, 401, 403}"
| "declared Req_GetMe = {200, 401}"
| "declared Req_ListMyGames = {200, 401}"
| "declared (Req_ChangeMyPassword b) = {204, 400, 401}"
| "declared Req_ListMySessions = {200, 401}"
| "declared (Req_RevokeMySession f) = {204, 401, 404}"
| "declared (Req_GetAccount i) = {200, 401, 403, 404}"
| "declared Req_ListAccounts = {200, 401, 403}"
| "declared (Req_CreateAccount b) = {201, 400, 401, 403, 409}"
| "declared (Req_UpdateAccount i b) = {200, 400, 401, 403, 404}"
| "declared (Req_CreateImpersonation b) = {200, 400, 401, 403, 404, 409}"
| "declared (Req_ListGames st) = {200, 401}"
| "declared (Req_GetGame g) = {200, 401, 403, 404}"
| "declared (Req_ListGameMembers g) = {200, 401, 403, 404}"
| "declared (Req_CreateGame b) = {201, 400, 401, 403, 409}"
| "declared (Req_UpdateGame g b) = {200, 400, 401, 403, 404, 409}"
| "declared (Req_AddGameMember g b) = {201, 400, 401, 403, 404, 409}"
| "declared (Req_UpdateGameMember g a b) = {200, 400, 401, 403, 404, 409}"
| "declared Req_ListTurns = {200, 401, 403, 404}"
| "declared Req_GetTurn = {200, 401, 403, 404}"
| "declared Req_ValidateOrders = {200, 400, 401, 403, 404}"
| "declared Req_SubmitOrders = {201, 400, 401, 403, 404, 409}"
| "declared Req_GetOrderSubmission = {200, 401, 403, 404}"

definition role_names :: "string set" where
  "role_names = {Admin, ''gm'', Player}"

definition account_schema :: "ApiAccount \<Rightarrow> bool" where
  "account_schema a \<longleftrightarrow> set (aa_Roles a) \<subseteq> role_names"

definition game_schema :: "ApiGame \<Rightarrow> bool" where
  "game_schema g \<longleftrightarrow> ValidCode (ag_Code g) \<and> GameStatus_Valid (ag_Status g)"

definition member_schema :: "ApiMember \<Rightarrow> bool" where
  "member_schema m \<longleftrightarrow> ValidHandle (am_Handle m)"

definition tokens_schema :: "AuthTokensBody \<Rightarrow> bool" where
  "tokens_schema t \<longleftrightarrow> at_TokenType t = ''Bearer'' \<and> 1 \<le> at_ExpiresInSeconds t"

fun schema :: "payload \<Rightarrow> bool" where
  "schema (P_Version v) = (0 \<le> vr_SchemaVersion v)"
| "schema (P_Tokens t) = tokens_schema t"
| "schema (P_User u) = (set (usr_Roles u) \<subseteq> role_names)"
| "schema (P_MyGames ms) = list_all (\<lambda>m. ValidCode (mg_Code m) \<and> ValidHandle (mg_Handle m)) ms"
| "schema (P_Account a) = account_schema a"
| "schema (P_Accounts as) = list_all account_schema as"
| "schema (P_Created c) = account_schema (ca_Account c)"
| "schema (P_Impersonation r) = (ir_TokenType r = ''Bearer'' \<and> 1 \<le> ir_ExpiresInSeconds r)"
| "schema (P_Games gs) = list_all game_schema gs"
| "schema (P_Game g) = game_schema g"
| "schema (P_Members ms) = list_all member_schema ms"
| "schema (P_Member m) = member_schema m"
| "schema x = True"

definition error_codes :: "(nat \<times> string) list" where
  "error_codes = [(400, ''bad_request''), (401, ''unauthorized''), (403, ''forbidden''), (404, ''not_found''),
     (409, ''conflict''), (500, ''internal''), (501, ''not_implemented'')]"

fun body_schema :: "nat \<Rightarrow> http_body \<Rightarrow> bool" where
  "body_schema status (Payload x) = (status \<in> {200, 201} \<and> schema x)"
| "body_schema status NoBody = (status \<in> {202, 204})"
| "body_schema status (Envelope code message i) = ((status, code) \<in> set error_codes)"
| "body_schema status (Plain t) = False"

text \<open>A response of a handler: its status is one of \<open>sts\<close>, its body has the property \<open>T\<close>, the code of
  a refusal is that of its status.\<close>

fun answered :: "nat set \<Rightarrow> ('a \<Rightarrow> bool) \<Rightarrow> 'a response \<Rightarrow> bool" where
  "answered sts T (OK200 x) = (200 \<in> sts \<and> T x)"
| "answered sts T (Created201 x) = (201 \<in> sts \<and> T x)"
| "answered sts T Accepted202 = (202 \<in> sts)"
| "answered sts T NoContent204 = (204 \<in> sts)"
| "answered sts T (BadRequest400 e) = (400 \<in> sts \<and> er_Code e = ''bad_request'')"
| "answered sts T (Unauthorized401 e) = (401 \<in> sts \<and> er_Code e = ''unauthorized'')"
| "answered sts T (Forbidden403 e) = (403 \<in> sts \<and> er_Code e = ''forbidden'')"
| "answered sts T (NotFound404 e) = (404 \<in> sts \<and> er_Code e = ''not_found'')"
| "answered sts T (Conflict409 e) = (409 \<in> sts \<and> er_Code e = ''conflict'')"

lemma answered_visit:
  "answered sts T x \<Longrightarrow> (\<And>y. T y \<Longrightarrow> schema (f y)) \<Longrightarrow>
   hs_Status (Visit (map_response f x)) \<in> sts \<and>
   body_schema (hs_Status (Visit (map_response f x))) (hs_Body (Visit (map_response f x)))"
  by (cases x) (simp_all add: visit_error_def error_codes_def)

section \<open>The handlers\<close>

lemmas refusal_defs = refuse_def loginUnauthorized_def refreshUnauthorized_def unauthorized_def
  myGamesUnauthorized_def changePasswordUnauthorized_def changePasswordBadRequest_def
  listSessionsUnauthorized_def revokeSessionUnauthorized_def createAccountBadRequest_def
  updateAccountBadRequest_def impersonationBadRequest_def impersonationConflict_def
  listGamesUnauthorized_def getGameUnauthorized_def listMembersUnauthorized_def
  createGameBadRequest_def updateGameUnauthorized_def updateGameBadRequest_def updateGameForbidden_def
  updateGameNotFound_def updateGameConflict_def addMemberUnauthorized_def addMemberBadRequest_def
  addMemberForbidden_def addMemberNotFound_def addMemberConflict_def updateMemberUnauthorized_def
  updateMemberBadRequest_def updateMemberForbidden_def updateMemberNotFound_def updateMemberConflict_def

lemma yields_authenticated [yields_intros]:
  assumes "\<And>msg. P (unauth msg)" and "\<And>account. yields (good P) (body account)"
  shows "yields (good P) (authenticated ctx unauth body)"
  unfolding authenticated_def by (intro yields_steps yields_intros assms)

lemma yields_admin_only [yields_intros]:
  assumes "{401, 403} \<subseteq> sts" and "\<And>account. yields (good (answered sts T)) (body account)"
  shows "yields (good (answered sts T)) (admin_only ctx body)"
  unfolding admin_only_def
  by (intro yields_steps yields_intros assms) (use assms(1) in \<open>auto simp: forbiddenBody_def unauthorizedBody_def\<close>)

lemma roles_named: "set (accountRoles a) \<subseteq> role_names"
  by (simp add: accountRoles_def role_names_def)

lemma apiAccount_schema: "account_schema (apiAccount a)"
  using roles_named by (simp add: account_schema_def apiAccount_def)

lemma apiGame_schema: "game_typed g \<Longrightarrow> game_schema (apiGame g)"
  by (simp add: game_typed_def game_schema_def apiGame_def)

lemma apiMember_schema: "member_typed m \<Longrightarrow> member_schema (apiMember m)"
  by (simp add: member_typed_def member_schema_def apiMember_def)

lemma session_handlers:
  assumes "1000000000 \<le> ts_accessTTL (srv_tokens s)"
  shows "yields (good (answered {200, 401} tokens_schema)) (Login L s b)"
    and "yields (good (answered {200, 401} tokens_schema)) (RefreshToken_handler L s rb)"
    and "yields (good (answered {204, 401} anything)) (Logout L s ctx lb)"
    and "yields (good (answered {202, 401, 403, 404} anything)) (ShutdownServer s ctx)"
    and "yields (good (answered {200, 401, 403} anything)) (PurgeRefreshTokens ctx)"
proof -
  have tokens: "tokens_schema (auth_tokens s x y)" for x y
    using assms by (simp add: tokens_schema_def auth_tokens_def whole_seconds_def)
  show "yields (good (answered {200, 401} tokens_schema)) (Login L s b)"
    unfolding Login_def login_session_def by (intro yields_steps yields_intros) (simp_all add: refusal_defs tokens)
  show "yields (good (answered {200, 401} tokens_schema)) (RefreshToken_handler L s rb)"
    unfolding RefreshToken_handler_def rotate_def
    by (intro yields_steps yields_intros) (simp_all add: refusal_defs tokens)
  show "yields (good (answered {204, 401} anything)) (Logout L s ctx lb)"
    unfolding Logout_def by (intro yields_steps yields_intros) (simp_all add: refusal_defs)
  show "yields (good (answered {202, 401, 403, 404} anything)) (ShutdownServer s ctx)"
    unfolding ShutdownServer_def by (intro yields_steps yields_intros) (simp_all add: refusal_defs)
  show "yields (good (answered {200, 401, 403} anything)) (PurgeRefreshTokens ctx)"
    unfolding PurgeRefreshTokens_def by (intro yields_steps yields_intros) (simp_all add: refusal_defs)
qed

lemma caller_handlers:
  shows "yields (good (answered {200, 401} (\<lambda>u. set (usr_Roles u) \<subseteq> role_names))) (GetMe ctx)"
    and "yields (good (answered {200, 401} (list_all (\<lambda>m. ValidCode (mg_Code m) \<and> ValidHandle (mg_Handle m)))))
      (ListMyGames ctx)"
    and "yields (good (answered {204, 400, 401} anything)) (ChangeMyPassword L ctx pw)"
    and "yields (good (answered {200, 401} anything)) (ListMySessions ctx)"
    and "yields (good (answered {204, 401, 404} anything)) (RevokeMySession ctx f)"
  unfolding GetMe_def ListMyGames_def ChangeMyPassword_def ListMySessions_def RevokeMySession_def
  by ((intro yields_steps yields_intros;
      simp add: refusal_defs roles_named list.pred_map o_def list_all_iff membership_typed_def)+)

lemma account_handlers:
  shows "yields (good (answered {200, 401, 403, 404} account_schema)) (GetAccount ctx i)"
    and "yields (good (answered {200, 401, 403} (list_all account_schema))) (ListAccounts ctx)"
    and "yields (good (answered {201, 400, 401, 403, 409} (\<lambda>c. account_schema (ca_Account c)))) (CreateAccount L ctx cb)"
    and "yields (good (answered {200, 400, 401, 403, 404} account_schema)) (UpdateAccount L ctx i ub)"
    and "yields (good (answered {200, 400, 401, 403, 404, 409}
      (\<lambda>r. ir_TokenType r = ''Bearer'' \<and> 1 \<le> ir_ExpiresInSeconds r))) (CreateImpersonation L s ctx target)"
  unfolding GetAccount_def ListAccounts_def CreateAccount_def UpdateAccount_def apply_account_update_def
    CreateImpersonation_def Let_def
  by ((intro yields_steps yields_intros;
      simp add: refusal_defs apiAccount_schema list_all_iff impersonationTTL_def whole_seconds_def)+)

lemma game_read_handlers:
  shows "yields (good (answered {200, 401} (list_all game_schema))) (ListGames ctx st)"
    and "yields (good (answered {200, 401, 403, 404} game_schema)) (GetGame ctx g)"
    and "yields (good (answered {200, 401, 403, 404} (list_all member_schema))) (ListGameMembers ctx g)"
  unfolding ListGames_def GetGame_def ListGameMembers_def
  by ((intro yields_steps yields_intros;
      auto simp add: refusal_defs list_all_iff intro: apiGame_schema apiMember_schema)+)

text \<open>A planned change is typed, and a refusal of the planning is one the operation declares.\<close>

lemma plan_parts_answered:
  "plan_status adm gm c st = Inl x \<Longrightarrow> answered {200, 400, 401, 403, 404, 409} T x"
  "plan_name adm gm game nm = Inl x \<Longrightarrow> answered {200, 400, 401, 403, 404, 409} T x"
  "plan_description adm gm game ds = Inl x \<Longrightarrow> answered {200, 400, 401, 403, 404, 409} T x"
  "plan_visibility adm game v = Inl x \<Longrightarrow> answered {200, 400, 401, 403, 404, 409} T x"
  "plan_active stand m act = Inl y \<Longrightarrow> answered {200, 400, 401, 403, 404, 409} U y"
  "plan_gm stand m act = Inl y \<Longrightarrow> answered {200, 400, 401, 403, 404, 409} U y"
  "plan_handle stand m h = Inl y \<Longrightarrow> answered {200, 400, 401, 403, 404, 409} U y"
  by (auto simp: plan_status_def plan_name_def plan_description_def plan_visibility_def plan_active_def
      plan_gm_def plan_handle_def Let_def refusal_defs split: if_splits option.splits)

lemma plan_game_answered:
  assumes "plan_game_update adm gm game body = Inl x"
  shows "answered {200, 400, 401, 403, 404, 409} T x"
proof (cases "game_Status game = Archived \<and>
    (ugr_Name body \<noteq> None \<or> ugr_Description body \<noteq> None \<or> ugr_IsActive body \<noteq> None)")
  case True
  with assms show ?thesis by (auto simp: plan_game_update_def Let_def refusal_defs)
next
  case False
  with assms show ?thesis
    unfolding plan_game_update_def Let_def
    by (simp only: if_False split: sum.splits) (auto dest: plan_parts_answered simp del: answered.simps)
qed

lemma plan_game_typed:
  assumes "plan_game_update adm gm game body = Inr upd"
  shows "update_typed upd"
  using plan_game_status_ok [OF assms]
  by (auto simp: status_ok_def update_typed_def GameStatus_Valid_iff split: option.splits)

lemma requested_handle_answered:
  "requested_handle h = Inl x \<Longrightarrow> answered {201, 400, 401, 403, 404, 409} T x"
  by (auto simp: requested_handle_def Let_def refusal_defs split: if_splits option.splits)

lemma plan_member_answered:
  assumes "plan_member_update st m body = Inl x"
  shows "answered {200, 400, 401, 403, 404, 409} T x"
  using assms unfolding plan_member_update_def
  by (simp only: split: sum.splits) (auto dest: plan_parts_answered simp del: answered.simps)

lemma plan_handle_typed: "plan_handle st m req = Inr (Some h) \<Longrightarrow> ValidHandle h"
  by (auto simp: plan_handle_def Let_def split: option.splits if_splits)

lemma plan_member_typed: "plan_member_update st m body = Inr upd \<Longrightarrow> rename_typed upd"
  by (auto simp: plan_member_update_def rename_typed_def dest: plan_handle_typed split: sum.splits option.splits)

lemma yields_add_role_gate:
  "yields (good (\<lambda>r. case r of None \<Rightarrow> True | Some x \<Rightarrow> answered {201, 400, 401, 403, 404, 409} T x))
     (add_role_gate account g)"
  unfolding add_role_gate_def
  by (intro yields_steps yields_intros yields_ret) (auto simp: refusal_defs split: sum.splits)

lemma game_write_handlers:
  shows "yields (good (answered {201, 400, 401, 403, 409} game_schema)) (CreateGame ctx cb)"
    and "yields (good (answered {200, 400, 401, 403, 404, 409} game_schema)) (UpdateGame ctx g ub)"
    and "yields (good (answered {201, 400, 401, 403, 404, 409} member_schema)) (AddGameMember ctx g ab)"
    and "yields (good (answered {200, 400, 401, 403, 404, 409} member_schema)) (UpdateGameMember ctx g a mb)"
proof -
  show "yields (good (answered {201, 400, 401, 403, 409} game_schema)) (CreateGame ctx cb)"
    unfolding CreateGame_def Let_def
    by (intro yields_steps yields_intros) (simp_all add: refusal_defs apiGame_schema)
  show "yields (good (answered {200, 400, 401, 403, 404, 409} game_schema)) (UpdateGame ctx g ub)"
    unfolding UpdateGame_def
    by (intro yields_steps yields_intros; (erule plan_game_answered plan_game_typed)?)
      (simp_all add: refusal_defs apiGame_schema)
  show "yields (good (answered {201, 400, 401, 403, 404, 409} member_schema)) (AddGameMember ctx g ab)"
    unfolding AddGameMember_def add_to_roster_def Let_def
    by (intro yields_steps yields_add_role_gate [THEN yields_or_return] yields_intros;
        (erule requested_handle_answered requested_handle_check)?)
      (simp_all add: refusal_defs apiMember_schema)
  show "yields (good (answered {200, 400, 401, 403, 404, 409} member_schema)) (UpdateGameMember ctx g a mb)"
    unfolding UpdateGameMember_def apply_roster_update_def
    by (intro yields_steps yields_intros; (erule plan_member_answered plan_member_typed)?)
      (simp_all add: refusal_defs apiMember_schema)
qed

section \<open>Every answer\<close>

lemma yields_answer:
  assumes "yields (good (answered sts T)) h" and "\<And>y. T y \<Longrightarrow> schema (f y)"
  shows "yields (good (\<lambda>x. hs_Status (Visit x) \<in> sts \<and> body_schema (hs_Status (Visit x)) (hs_Body (Visit x))))
    (answer f h)"
proof -
  have "good (\<lambda>x. hs_Status (Visit x) \<in> sts \<and> body_schema (hs_Status (Visit x)) (hs_Body (Visit x)))
      (case r of Inl e \<Rightarrow> Inl e | Inr x \<Rightarrow> Inr (map_response f x))" if "good (answered sts T) r" for r :: "go_error + 'a response"
    using that answered_visit [of sts T _ f] assms(2) by (cases r) auto
  then show ?thesis
    unfolding answer_def by (intro yields_bind [OF assms(1)] yields_ret)
qed

lemma public_handlers:
  shows "yields (good (answered {200} anything)) (GetHealth L)"
    and "yields (good (answered {200} (\<lambda>v. 0 \<le> vr_SchemaVersion v))) (GetVersion L)"
  unfolding GetHealth_def GetVersion_def by ((intro yields_steps yields_intros; simp)+)

lemma missing_handlers:
  shows "yields (good P) ListTurns" and "yields (good P) GetTurn" and "yields (good P) ValidateOrders"
    and "yields (good P) SubmitOrders" and "yields (good P) GetOrderSubmission"
  unfolding ListTurns_def GetTurn_def ValidateOrders_def SubmitOrders_def GetOrderSubmission_def
  by (rule yields_stop)+

lemma dispatch_typed:
  assumes "1000000000 \<le> ts_accessTTL (srv_tokens s)"
  shows "yields (good (\<lambda>x. hs_Status (Visit x) \<in> declared q \<and> body_schema (hs_Status (Visit x)) (hs_Body (Visit x))))
    (dispatch L s ctx q)"
  by (cases q; simp only: dispatch.simps declared.simps,
      rule yields_answer [OF session_handlers(1) [OF assms]] yields_answer [OF session_handlers(2) [OF assms]]
        yields_answer [OF session_handlers(3) [OF assms]] yields_answer [OF session_handlers(4) [OF assms]]
        yields_answer [OF session_handlers(5) [OF assms]] caller_handlers [THEN yields_answer]
        account_handlers [THEN yields_answer] game_read_handlers [THEN yields_answer]
        game_write_handlers [THEN yields_answer] public_handlers [THEN yields_answer]
        missing_handlers [THEN yields_answer]; simp)

text \<open>C3. Type preservation. On tables whose codes, handles and statuses have the types of the API,
  and with others who keep it so, every answer of an operation, under every schedule of failures
  and interference, has a status the operation declares, or is the envelope of a 500 or 501 (of a
  400 if the request could not be decoded); its body has the declared type: the code of an error
  is that of its status, game codes, handles, statuses, roles and token types are values of their
  types, and a lifetime is at least one second. The tables are typed again afterwards.\<close>

theorem answers_typed:
  assumes "typed (w_db w)" and "rely keep_typed w" and "1000000000 \<le> ts_accessTTL (srv_tokens s)"
    and "run_state (strictHandler L s i q undecodable ctx) w = (resp, w')"
  shows "hs_Status resp \<in> (case undecodable of None \<Rightarrow> declared q \<union> {500, 501} | Some err \<Rightarrow> {400}) \<and>
    body_schema (hs_Status resp) (hs_Body resp) \<and> typed (w_db w')"
proof (cases undecodable)
  case None
  obtain r v where run: "run_state (dispatch L s ctx q) w = (r, v)" by fastforce
  from assms(1,2) have "sound w" by (simp add: sound_def)
  note r = yieldsD [OF dispatch_typed [OF assms(3)] this run]
  show ?thesis
  proof (cases r)
    case (Inl e)
    with None run r assms(4) show ?thesis
      by (auto simp: strictHandler_def ResponseErrorHandlerFunc_def WriteError_def error_codes_def sound_def
          split: if_splits)
  next
    case (Inr x)
    with None run r assms(4) show ?thesis by (auto simp: strictHandler_def sound_def)
  qed
next
  case (Some err)
  with assms(1,4) show ?thesis
    by (auto simp: strictHandler_def RequestErrorHandlerFunc_def WriteError_def error_codes_def)
qed

lemma busy_world_typed: "typed (w_db busy_world)" "rely keep_typed busy_world"
  by (auto simp: busy_world_def rely_def keep_typed_def revoke_where_def typed_def sample_world_def sample_db_def
      ValidCode_iff ValidHandle_iff upper_letter_def handle_char_def letter_def GameStatus_Valid_def status_defs)

theorem answers_typed_witness:
  "\<exists>resp w'. run_state (strictHandler sample_libs sample_server ''id'' (Req_ListGames None) None (sample_claims 1))
      busy_world = (resp, w') \<and> hs_Status resp \<in> {200, 401, 500, 501} \<and>
    body_schema (hs_Status resp) (hs_Body resp) \<and> typed (w_db w')"
proof -
  obtain resp w' where run: "run_state (strictHandler sample_libs sample_server ''id'' (Req_ListGames None) None
      (sample_claims 1)) busy_world = (resp, w')" by fastforce
  from answers_typed [OF busy_world_typed _ this] run show ?thesis
    by (auto simp: sample_server_def sample_tokens_def)
qed

end
