(* ===== verification/Reaper.thy ===== *)
theory Reaper
  imports HandlersContract
begin

text \<open>
  internal/cli/reaper.go: the background goroutine that purges expired refresh tokens. What its
  \<open>select\<close> finds ready, a tick of the ticker or the cancelled context, is the input of the loop, a
  list of \<open>wake\<close>s of any length. A tick carries whether the context is cancelled by the end of
  the sweep it starts.
\<close>

datatype wake = Tick bool | Done

datatype sweep_log = SweepFailed | Purged nat

definition sweep :: "bool \<Rightarrow> (world, sweep_log list) state" where
  "sweep cancelled = do {
     now \<leftarrow> clock_now;
     r \<leftarrow> store_PurgeExpiredRefreshTokens (Unix now);
     ret (case r of
        Inl err \<Rightarrow> if \<not> cancelled then [SweepFailed] else []
      | Inr purged \<Rightarrow> if purged > 0 then [Purged purged] else [])
   }"

text \<open>The value tells whether the goroutine has returned.\<close>

fun reaper_loop :: "wake list \<Rightarrow> (world, sweep_log list \<times> bool) state" where
  "reaper_loop [] = ret ([], False)"
| "reaper_loop (Done # ws) = ret ([], True)"
| "reaper_loop (Tick cancelled # ws) = do {
     l \<leftarrow> sweep cancelled;
     x \<leftarrow> reaper_loop ws;
     ret (l @ fst x, snd x)
   }"

definition runRefreshTokenReaper :: "int \<Rightarrow> bool \<Rightarrow> wake list \<Rightarrow> (world, sweep_log list \<times> bool) state" where
  "runRefreshTokenReaper interval cancelled ws =
     (if interval \<le> 0 then ret ([], True)
      else do {
        l \<leftarrow> sweep cancelled;
        x \<leftarrow> reaper_loop ws;
        ret (l @ fst x, snd x)
      })"

end
