(* ===== verification/Dotenv.thy ===== *)
theory Dotenv
  imports GoStrings
begin

text \<open>
  internal/dotenv and the start of the two main functions: the environment files. An
  environment is a finite map of variables. The package godotenv is a parameter: loading a file
  sets the variables the environment does not have yet, or fails without a change
  (\<open>godotenv_ok\<close>).
\<close>

type_synonym env = "string \<rightharpoonup> string"

datatype load_error = ErrMissingEnvironment | ErrUnknownEnvironment | LoadFailed string

definition env_files :: "string \<Rightarrow> string list" where
  "env_files e = [''.env.'' @ e @ ''.local'', ''.env.local'', ''.env.'' @ e, ''.env'']"

text \<open>The loop over the files; \<open>regular\<close> is the outcome of \<open>os.Stat\<close> and \<open>IsRegular\<close>.\<close>

fun load_files ::
  "(string \<Rightarrow> env \<Rightarrow> bool \<times> env) \<Rightarrow> (string \<Rightarrow> bool) \<Rightarrow> string list \<Rightarrow> env \<Rightarrow> load_error option \<times> env" where
  "load_files godotenv regular [] vars = (None, vars)"
| "load_files godotenv regular (path # paths) vars =
     (if \<not> regular path then load_files godotenv regular paths vars
      else case godotenv path vars of
        (False, vars') \<Rightarrow> (Some (LoadFailed path), vars')
      | (True, vars') \<Rightarrow> load_files godotenv regular paths vars')"

definition Load ::
  "(string \<Rightarrow> env \<Rightarrow> bool \<times> env) \<Rightarrow> (string \<Rightarrow> bool) \<Rightarrow> string \<Rightarrow> env \<Rightarrow> load_error option \<times> env" where
  "Load godotenv regular e vars =
     (if e = [] then (Some ErrMissingEnvironment, vars)
      else if e \<noteq> ''development'' \<and> e \<noteq> ''test'' \<and> e \<noteq> ''production''
        then (Some ErrUnknownEnvironment, vars)
      else load_files godotenv regular (env_files e) vars)"

text \<open>\<open>os.Getenv\<close> gives the empty string for a variable that is not set; the program stops with
  exit code 1 when loading fails.\<close>

definition Getenv :: "env \<Rightarrow> string \<Rightarrow> string" where
  "Getenv vars v = (case vars v of None \<Rightarrow> [] | Some s \<Rightarrow> s)"

definition main_env ::
  "(string \<Rightarrow> env \<Rightarrow> bool \<times> env) \<Rightarrow> (string \<Rightarrow> bool) \<Rightarrow> string \<Rightarrow> env \<Rightarrow> (nat + string) \<times> env" where
  "main_env godotenv regular var vars =
     (let e = (if Getenv vars var = [] then ''development'' else Getenv vars var)
      in case Load godotenv regular e vars of
           (Some _, vars') \<Rightarrow> (Inl 1, vars')
         | (None, vars') \<Rightarrow> (Inr e, vars'))"

definition godotenv_ok :: "(string \<Rightarrow> env option) \<Rightarrow> (string \<Rightarrow> env \<Rightarrow> bool \<times> env) \<Rightarrow> bool" where
  "godotenv_ok contents godotenv \<longleftrightarrow> (\<forall>path vars. godotenv path vars =
     (case contents path of None \<Rightarrow> (False, vars) | Some m \<Rightarrow> (True, m ++ vars)))"

end
