(* ===== verification/ServerTheorems.thy ===== *)
theory ServerTheorems
  imports Reaper Dotenv Samples
begin

text \<open>
  The properties of the server process around the handlers: the reaper and the environment files.
\<close>

section \<open>The reaper\<close>

text \<open>The number of rows the log lines report.\<close>

fun purged_total :: "sweep_log list \<Rightarrow> nat" where
  "purged_total [] = 0"
| "purged_total (Purged n # ls) = n + purged_total ls"
| "purged_total (SweepFailed # ls) = purged_total ls"

lemma purged_total_append [simp]: "purged_total (xs @ ys) = purged_total xs + purged_total ys"
  by (induction xs rule: purged_total.induct) auto

text \<open>What a number of sweeps may do at the clock readings \<open>ts\<close>.\<close>

definition pruned :: "int set \<Rightarrow> database \<Rightarrow> database \<Rightarrow> bool" where
  "pruned ts d d' \<longleftrightarrow> accounts d' = accounts d \<and> games d' = games d \<and>
     game_account_role d' = game_account_role d \<and>
     (\<exists>P. refresh_tokens d' = filter P (refresh_tokens d) \<and>
        (\<forall>r \<in> set (refresh_tokens d). \<not> P r \<longrightarrow> (\<exists>t \<in> ts. tr_expires_at r \<le> Unix t)))"

lemma pruned_refl: "pruned ts d d"
  by (auto simp: pruned_def intro!: exI [of _ "\<lambda>_. True"])

lemma pruned_trans:
  assumes "pruned ts d e" and "pruned ts' e f" and "ts \<subseteq> us" and "ts' \<subseteq> us"
  shows "pruned us d f"
proof -
  from assms(1) obtain P where P: "refresh_tokens e = filter P (refresh_tokens d)"
    "\<forall>r \<in> set (refresh_tokens d). \<not> P r \<longrightarrow> (\<exists>t \<in> ts. tr_expires_at r \<le> Unix t)"
    by (auto simp: pruned_def)
  from assms(2) obtain Q where Q: "refresh_tokens f = filter Q (refresh_tokens e)"
    "\<forall>r \<in> set (refresh_tokens e). \<not> Q r \<longrightarrow> (\<exists>t \<in> ts'. tr_expires_at r \<le> Unix t)"
    by (auto simp: pruned_def)
  have "refresh_tokens f = filter (\<lambda>r. P r \<and> Q r) (refresh_tokens d)"
    by (simp add: P(1) Q(1))
  moreover have "\<forall>r \<in> set (refresh_tokens d). \<not> (P r \<and> Q r) \<longrightarrow> (\<exists>t \<in> us. tr_expires_at r \<le> Unix t)"
  proof (intro ballI impI)
    fix r assume "r \<in> set (refresh_tokens d)" "\<not> (P r \<and> Q r)"
    with P Q(2) have "(\<exists>t \<in> ts. tr_expires_at r \<le> Unix t) \<or> (\<exists>t \<in> ts'. tr_expires_at r \<le> Unix t)"
      by (cases "P r") auto
    with assms(3,4) show "\<exists>t \<in> us. tr_expires_at r \<le> Unix t" by blast
  qed
  ultimately show ?thesis using assms(1,2) unfolding pruned_def by auto
qed

lemma run_purge_calm:
  assumes "calm w" and "run_state (store_PurgeExpiredRefreshTokens c) w = (r, w')"
  shows "calm w' \<and> w_now w' = w_now w \<and> w_later w' = w_later w \<and>
    (case r of Inl e \<Rightarrow> w_db w' = w_db w
     | Inr n \<Rightarrow> n = length (filter (\<lambda>t. tr_expires_at t \<le> c) (refresh_tokens (w_db w))) \<and>
         w_db w' = purge_tokens c (w_db w))"
proof -
  have "w_now w' = w_now w \<and> w_later w' = w_later w"
    using assms(2) by (auto simp: store_PurgeExpiredRefreshTokens_def with_conn_def pool_Get_def Execute_def Let_def
        split: prod.splits option.splits sum.splits if_splits)
  moreover have "calm w'" using calm_run(2) [OF inv.obeys_Purge assms] .
  moreover have "case r of Inl e \<Rightarrow> w_db w' = w_db w
     | Inr n \<Rightarrow> n = length (filter (\<lambda>t. tr_expires_at t \<le> c) (refresh_tokens (w_db w))) \<and>
         w_db w' = purge_tokens c (w_db w)"
    using assms(2) unfolding store_PurgeExpiredRefreshTokens_def
  proof (rule calm_with_conn [OF assms(1)])
    fix w1
    assume w1: "w_db w1 = w_db w" and run: "run_state (Execute (sql_purge c) \<bind>
      (\<lambda>r. ret (case r of Inl e \<Rightarrow> Inl (ErrSQL e) | Inr changes \<Rightarrow> Inr changes))) w1 = (r, w')"
    obtain y w2 where ex: "run_state (Execute (sql_purge c)) w1 = (y, w2)" by fastforce
    from ex show ?thesis
      by (rule run_Execute_cases)
        (use run ex w1 in \<open>auto simp: sql_purge_def purge_tokens_def\<close>)
  qed simp
  ultimately show ?thesis by simp
qed

lemma pruned_purge: "pruned {t} d (purge_tokens (Unix t) d)"
  by (auto simp: pruned_def purge_tokens_def intro!: exI [of _ "\<lambda>r. \<not> tr_expires_at r \<le> Unix t"])

lemma run_sweep:
  assumes "calm w" and "run_state (sweep c) w = (l, w')"
  shows "calm w' \<and> readings w' \<subseteq> readings w \<and> pruned {w_now w} (w_db w) (w_db w') \<and>
    purged_total l + length (refresh_tokens (w_db w')) = length (refresh_tokens (w_db w)) \<and>
    (quiet w \<longrightarrow> quiet w' \<and> SweepFailed \<notin> set l \<and> (\<forall>r \<in> set (refresh_tokens (w_db w')). Unix (w_now w) < tr_expires_at r))"
proof -
  let ?c = "Unix (w_now w)"
  obtain r w1 where p: "run_state (store_PurgeExpiredRefreshTokens ?c) (tick w) = (r, w1)" by fastforce
  have "calm (tick w)" using assms(1) by (simp add: calm_def)
  note e = run_purge_calm [OF this p]
  have l: "l = (case r of Inl err \<Rightarrow> if \<not> c then [SweepFailed] else [] | Inr n \<Rightarrow> if n > 0 then [Purged n] else [])"
    and w': "w' = w1"
    using assms(2) p by (auto simp: sweep_def)
  have read: "readings w1 \<subseteq> readings w" using e tick_readings [of w] by (simp add: readings_def)
  show ?thesis
  proof (cases r)
    case (Inl err)
    have "\<not> quiet w" using p Inl by auto
    with Inl e l w' read show ?thesis by (simp add: pruned_refl)
  next
    case (Inr n)
    have total: "purged_total l = n" using l Inr by simp
    have "n + length (refresh_tokens (w_db w')) = length (refresh_tokens (w_db w))"
      using Inr e w' sum_length_filter_compl [of "\<lambda>t. tr_expires_at t \<le> ?c" "refresh_tokens (w_db w)"]
      by (simp add: purge_tokens_def)
    moreover have "quiet w \<Longrightarrow> quiet w'" using p w' by auto
    moreover have "SweepFailed \<notin> set l" using l Inr by simp
    ultimately show ?thesis
      using Inr e w' read total pruned_purge [of "w_now w" "w_db w"] by (auto simp: purge_tokens_def)
  qed
qed

lemma run_reaper_loop:
  "calm w \<Longrightarrow> run_state (reaper_loop ws) w = ((l, b), w') \<Longrightarrow>
   pruned (readings w) (w_db w) (w_db w') \<and> b = (Done \<in> set ws) \<and>
   purged_total l + length (refresh_tokens (w_db w')) = length (refresh_tokens (w_db w)) \<and>
   (quiet w \<longrightarrow> SweepFailed \<notin> set l)"
proof (induction ws arbitrary: w l b rule: reaper_loop.induct)
  case (3 c ws)
  obtain l1 w1 where s: "run_state (sweep c) w = (l1, w1)" by fastforce
  obtain l2 b2 where r: "run_state (reaper_loop ws) w1 = ((l2, b2), w')" and "l = l1 @ l2" "b = b2"
    using "3.prems"(2) s by (auto split: prod.splits)
  note e = run_sweep [OF "3.prems"(1) s]
  from e have "calm w1" by (rule conjunct1)
  note f = "3.IH" [OF this r]
  have "{w_now w} \<subseteq> readings w" by (simp add: readings_def)
  with e f have "pruned (readings w) (w_db w) (w_db w')" by (blast intro: pruned_trans)
  moreover have "purged_total l + length (refresh_tokens (w_db w')) = length (refresh_tokens (w_db w))"
    using e f unfolding \<open>l = l1 @ l2\<close> purged_total_append by linarith
  moreover have "quiet w \<longrightarrow> SweepFailed \<notin> set l"
    using e f unfolding \<open>l = l1 @ l2\<close> set_append by blast
  moreover have "b = (Done \<in> set (Tick c # ws))" using f \<open>b = b2\<close> by simp
  ultimately show ?case by blast
qed (auto simp: pruned_refl)

text \<open>C38. The reaper. In a world whose calls may fail but where nobody else writes, and for every
  sequence of ticks: the reaper deletes only refresh tokens that have expired by one of its clock
  readings and changes nothing else; its log lines account for every deleted row; a failing sweep
  does not stop it, only the cancelled context does. Without failures the first sweep already
  leaves no token that had expired at the start. A non-positive interval disables it.\<close>

theorem reaper_prunes:
  assumes "calm w" and "run_state (runRefreshTokenReaper interval c ws) w = ((l, returned), w')"
  shows "if interval \<le> 0 then l = [] \<and> returned \<and> w' = w
    else pruned (readings w) (w_db w) (w_db w') \<and> (returned \<longleftrightarrow> Done \<in> set ws) \<and>
      purged_total l + length (refresh_tokens (w_db w')) = length (refresh_tokens (w_db w)) \<and>
      (quiet w \<longrightarrow> SweepFailed \<notin> set l \<and> (\<forall>r \<in> set (refresh_tokens (w_db w')). Unix (w_now w) < tr_expires_at r))"
proof (cases "interval \<le> 0")
  case True
  with assms(2) show ?thesis by (simp add: runRefreshTokenReaper_def)
next
  case False
  obtain l1 w1 where s: "run_state (sweep c) w = (l1, w1)" by fastforce
  obtain l2 where r: "run_state (reaper_loop ws) w1 = ((l2, returned), w')" and l: "l = l1 @ l2"
    using assms(2) s False by (auto simp: runRefreshTokenReaper_def split: prod.splits)
  note e = run_sweep [OF assms(1) s]
  from e have f: "pruned (readings w1) (w_db w1) (w_db w') \<and> returned = (Done \<in> set ws) \<and>
     purged_total l2 + length (refresh_tokens (w_db w')) = length (refresh_tokens (w_db w1)) \<and>
     (quiet w1 \<longrightarrow> SweepFailed \<notin> set l2)"
    using run_reaper_loop [OF _ r] by blast
  have "{w_now w} \<subseteq> readings w" by (simp add: readings_def)
  with e f have "pruned (readings w) (w_db w) (w_db w')" by (blast intro: pruned_trans)
  moreover have "purged_total l + length (refresh_tokens (w_db w')) = length (refresh_tokens (w_db w))"
    using e f unfolding l purged_total_append by linarith
  moreover have "set (refresh_tokens (w_db w')) \<subseteq> set (refresh_tokens (w_db w1))"
    using f by (auto simp: pruned_def)
  moreover have "quiet w \<longrightarrow> SweepFailed \<notin> set l"
    using e f unfolding l set_append by blast
  ultimately show ?thesis using e f False by (simp add: subset_iff)
qed

definition reaping_world :: world where
  "reaping_world = (sample_world sample_db)\<lparr>w_sched := [Fine, Fine, Fault], w_later := [2000000000000, 3000000000000]\<rparr>"

lemma sample_reaping:
  "fst (run_state (runRefreshTokenReaper 900 False [Tick False, Tick False, Done]) reaping_world) =
     ([SweepFailed, Purged 2], True)"
  by code_simp

theorem reaper_prunes_witness:
  "refresh_tokens (w_db (snd (run_state (runRefreshTokenReaper 900 False [Tick False, Tick False, Done])
     reaping_world))) = []"
proof -
  have "calm reaping_world" "length (refresh_tokens (w_db reaping_world)) = 2"
    by (simp_all add: calm_def reaping_world_def sample_db_def)
  with reaper_prunes [OF _ result_pair [OF sample_reaping]] show ?thesis by simp
qed

section \<open>Environment files\<close>

lemma load_files_precedence:
  assumes "godotenv_ok contents godotenv"
  shows "load_files godotenv regular paths vars = (None, vars') \<Longrightarrow>
    vars' v = (case vars v of Some x \<Rightarrow> Some x
      | None \<Rightarrow> (case find (\<lambda>p. regular p \<and> the (contents p) v \<noteq> None) paths of None \<Rightarrow> None
          | Some p \<Rightarrow> the (contents p) v)) \<and>
    (\<forall>p \<in> set paths. regular p \<longrightarrow> contents p \<noteq> None)"
proof (induction paths arbitrary: vars)
  case Nil
  then show ?case by (auto split: option.split)
next
  case (Cons p paths)
  show ?case
  proof (cases "regular p")
    case False
    with Cons.IH [of vars] Cons.prems show ?thesis by (cases "vars v") simp_all
  next
    case True
    with Cons.prems assms obtain m where m: "contents p = Some m"
      and rest: "load_files godotenv regular paths (m ++ vars) = (None, vars')"
      by (auto simp: godotenv_ok_def split: option.splits)
    from Cons.IH [OF rest] True m show ?thesis
      by (cases "vars v"; cases "m v") (simp_all add: map_add_def)
  qed
qed

text \<open>Precedence. When the environment files load, a variable has the value of the process
  environment if it is set there, else that of the first file that sets it in the order
  .env.E.local, .env.local, .env.E, .env, for the three known environments E and no other; a
  file that is present has been read without error.\<close>

theorem dotenv_precedence:
  assumes "godotenv_ok contents godotenv" and "Load godotenv regular e vars = (None, vars')"
  shows "e \<in> {''development'', ''test'', ''production''} \<and>
    (\<forall>v. vars' v = (case vars v of Some x \<Rightarrow> Some x
      | None \<Rightarrow> (case find (\<lambda>p. regular p \<and> the (contents p) v \<noteq> None)
            [''.env.'' @ e @ ''.local'', ''.env.local'', ''.env.'' @ e, ''.env''] of None \<Rightarrow> None
          | Some p \<Rightarrow> the (contents p) v))) \<and>
    (\<forall>p \<in> set [''.env.'' @ e @ ''.local'', ''.env.local'', ''.env.'' @ e, ''.env'']. regular p \<longrightarrow> contents p \<noteq> None)"
proof -
  from assms(2) have e: "e \<in> {''development'', ''test'', ''production''}"
    and run: "load_files godotenv regular (env_files e) vars = (None, vars')"
    by (auto simp: Load_def split: if_splits)
  with load_files_precedence [OF assms(1) run] show ?thesis unfolding env_files_def by blast
qed

definition dev_files :: "string \<Rightarrow> env option" where
  "dev_files p = (if p = ''.env'' then Some [''ADDR'' \<mapsto> ''base'', ''LEVEL'' \<mapsto> ''base'']
     else if p = ''.env.local'' then Some [''ADDR'' \<mapsto> ''mine''] else None)"

definition dev_godotenv :: "string \<Rightarrow> env \<Rightarrow> bool \<times> env" where
  "dev_godotenv p vars = (case dev_files p of None \<Rightarrow> (False, vars) | Some m \<Rightarrow> (True, m ++ vars))"

lemma dev_load: "fst (Load dev_godotenv (\<lambda>p. dev_files p \<noteq> None) ''development'' [''TERM'' \<mapsto> ''vt'']) = None"
  by (simp add: Load_def env_files_def dev_godotenv_def dev_files_def)

theorem dotenv_precedence_witness:
  "snd (Load dev_godotenv (\<lambda>p. dev_files p \<noteq> None) ''development'' [''TERM'' \<mapsto> ''vt'']) ''ADDR'' = Some ''mine''"
proof -
  have "godotenv_ok dev_files dev_godotenv" by (simp add: godotenv_ok_def dev_godotenv_def)
  from dotenv_precedence [OF this result_pair [OF dev_load]]
  show ?thesis by (simp add: dev_files_def)
qed

end
