(* ===== verification/ServerProcess.thy ===== *)
theory ServerProcess
  imports HandlersContract DatabaseFiles
begin

text \<open>
  internal/cli/server.go: the signing key, the start of the server, and its running process, in
  which the main goroutine, the reaper, the listener and the request handlers interleave. The
  process is a step relation; an event is one step of a goroutine or of the environment. What
  the standard library decides (when the listener fails, how \<open>Shutdown\<close> ends) is a choice of
  the relation. The answers to requests and the sweeps are modelled in Handlers and Reaper;
  here they only count as users of the pool.
\<close>

section \<open>The signing key\<close>

datatype secret_error = KeyTooShort nat | KeyMissing | KeyNotGenerated

text \<open>The flag of a success tells whether the warning about an ephemeral key is logged.\<close>

definition resolveJWTSecret :: "string \<Rightarrow> string \<Rightarrow> (world, secret_error + (string \<times> bool)) state" where
  "resolveJWTSecret env configured =
     (if configured \<noteq> [] then
        ret (if length configured < 32 then Inl (KeyTooShort (length configured)) else Inr (configured, False))
      else if env = ''production'' then ret (Inl KeyMissing)
      else do {
        r \<leftarrow> rand_Read;
        ret (case r of None \<Rightarrow> Inl KeyNotGenerated | Some bytes \<Rightarrow> Inr (fill 32 bytes, True))
      })"

section \<open>The start\<close>

datatype start_error = KeyError secret_error | OpenDatabase db_error

text \<open>
  Everything of \<open>runServer\<close> before the goroutines start: the server and the path of the database
  it serves. \<open>dummy\<close> is the package variable \<open>dummyHash\<close>.
\<close>

definition startServer ::
  "sqlite \<Rightarrow> string \<Rightarrow> string \<Rightarrow> string \<Rightarrow> string \<Rightarrow> bool \<Rightarrow> fs \<Rightarrow> (world, (start_error + (Server \<times> string)) \<times> fs) state" where
  "startServer S dummy env dbDir jwtSecret development s = do {
     k \<leftarrow> resolveJWTSecret env jwtSecret;
     ret (case k of
       Inl e \<Rightarrow> (Inl (KeyError e), s)
     | Inr (secret, _) \<Rightarrow>
         let tokens = \<lparr>ts_secret = secret, ts_accessTTL = 15 * 60 * 1000000000, ts_refreshTTL = 24 * 3600 * 1000000000\<rparr>
         in case Open S dbDir s of
              (Inl e, s') \<Rightarrow> (Inl (OpenDatabase e), s')
            | (Inr path, s') \<Rightarrow>
                (Inr (NewServer tokens dummy (if development then [WithShutdown] else []), path), s'))
   }"

section \<open>The running process\<close>

datatype run_error = ShutdownFailed | ServeFailed

datatype serve_result = ErrServerClosed | ServeError

text \<open>
  The main goroutine: at the \<open>select\<close>, in \<open>srv.Shutdown\<close>, in \<open>reaper.Wait\<close>, running its deferred
  calls, returned. From the first return statement on, the result is fixed.
\<close>

datatype main_pc = AtSelect | Draining | Joining "run_error option" | Deferred "run_error option"
  | Returned "run_error option"

datatype reaper_pc = ReaperStart | Sweeping | ReaperIdle | ReaperDone

datatype listener_pc = Starting | Serving | Exited

record process =
  p_main :: main_pc
  p_reaper :: reaper_pc
  p_listener :: listener_pc
  p_errCh :: "serve_result option"
  p_cancelled :: bool
  p_shutdown :: bool
  p_connected :: bool
  p_inflight :: nat
  p_pool_open :: bool

text \<open>
  \<open>p_cancelled\<close> is the context \<open>srvCtx\<close>, \<open>p_shutdown\<close> tells that \<open>srv.Shutdown\<close> has been called,
  \<open>p_inflight\<close> counts the requests being handled. \<open>p_connected\<close> tells that clients may have
  connections: net/http goes on serving the ones it has accepted when the listener has failed,
  and while and after \<open>Shutdown\<close> gives up; only a \<open>Shutdown\<close> that found every connection closed
  ends them.
\<close>

definition started :: process where
  "started = \<lparr>p_main = AtSelect, p_reaper = ReaperStart, p_listener = Starting, p_errCh = None,
     p_cancelled = False, p_shutdown = False, p_connected = False, p_inflight = 0, p_pool_open = True\<rparr>"

text \<open>
  The first five events are the environment's: a signal, requests that begin and end, the
  shutdown route of the development server (WithShutdown), and the ticker of the reaper. The
  parameters are the switch \<open>--development\<close> and whether the reap interval is positive.
\<close>

datatype event = Signal | Accept | HandlerDone | ShutdownRoute | TickFires
  | ReaperStarts | SweepEnds | ReaperStops
  | Listening | ListenFails | ListenerClosed
  | SelectDone | SelectErr | Drained bool | DrainTimeout | Joined | PoolClosed

inductive server_step :: "bool \<Rightarrow> bool \<Rightarrow> process \<Rightarrow> event \<Rightarrow> process \<Rightarrow> bool"
  for development reaping :: bool where
  Signal: "server_step development reaping p Signal (p\<lparr>p_cancelled := True\<rparr>)"
| Accept: "p_connected p \<Longrightarrow>
    server_step development reaping p Accept (p\<lparr>p_inflight := Suc (p_inflight p)\<rparr>)"
| HandlerDone: "p_inflight p = Suc n \<Longrightarrow>
    server_step development reaping p HandlerDone (p\<lparr>p_inflight := n\<rparr>)"
| ShutdownRoute: "development \<Longrightarrow> p_inflight p > 0 \<Longrightarrow>
    server_step development reaping p ShutdownRoute (p\<lparr>p_cancelled := True\<rparr>)"
| TickFires: "p_reaper p = ReaperIdle \<Longrightarrow>
    server_step development reaping p TickFires (p\<lparr>p_reaper := Sweeping\<rparr>)"
| ReaperStarts: "p_reaper p = ReaperStart \<Longrightarrow>
    server_step development reaping p ReaperStarts (p\<lparr>p_reaper := (if reaping then Sweeping else ReaperDone)\<rparr>)"
| SweepEnds: "p_reaper p = Sweeping \<Longrightarrow>
    server_step development reaping p SweepEnds (p\<lparr>p_reaper := ReaperIdle\<rparr>)"
| ReaperStops: "p_reaper p = ReaperIdle \<Longrightarrow> p_cancelled p \<Longrightarrow>
    server_step development reaping p ReaperStops (p\<lparr>p_reaper := ReaperDone\<rparr>)"
| Listening: "p_listener p = Starting \<Longrightarrow> \<not> p_shutdown p \<Longrightarrow>
    server_step development reaping p Listening (p\<lparr>p_listener := Serving, p_connected := True\<rparr>)"
| ListenFails: "p_listener p \<noteq> Exited \<Longrightarrow>
    server_step development reaping p ListenFails (p\<lparr>p_listener := Exited, p_errCh := Some ServeError\<rparr>)"
| ListenerClosed: "p_listener p \<noteq> Exited \<Longrightarrow> p_shutdown p \<Longrightarrow>
    server_step development reaping p ListenerClosed (p\<lparr>p_listener := Exited, p_errCh := Some ErrServerClosed\<rparr>)"
| SelectDone: "p_main p = AtSelect \<Longrightarrow> p_cancelled p \<Longrightarrow>
    server_step development reaping p SelectDone (p\<lparr>p_main := Draining, p_shutdown := True\<rparr>)"
| SelectErr: "p_main p = AtSelect \<Longrightarrow> p_errCh p = Some r \<Longrightarrow>
    server_step development reaping p SelectErr (p\<lparr>p_errCh := None, p_cancelled := True,
      p_main := Joining (if r \<noteq> ErrServerClosed then Some ServeFailed else None)\<rparr>)"
| Drained: "p_main p = Draining \<Longrightarrow> p_inflight p = 0 \<Longrightarrow>
    server_step development reaping p (Drained ok) (p\<lparr>p_connected := False, p_main := Joining (if ok then None else Some ShutdownFailed)\<rparr>)"
| DrainTimeout: "p_main p = Draining \<Longrightarrow>
    server_step development reaping p DrainTimeout (p\<lparr>p_main := Joining (Some ShutdownFailed)\<rparr>)"
| Joined: "p_main p = Joining e \<Longrightarrow> p_reaper p = ReaperDone \<Longrightarrow>
    server_step development reaping p Joined (p\<lparr>p_main := Deferred e\<rparr>)"
| PoolClosed: "p_main p = Deferred e \<Longrightarrow>
    server_step development reaping p PoolClosed
      (p\<lparr>p_cancelled := True, p_pool_open := False, p_main := Returned e\<rparr>)"

inductive server_run :: "bool \<Rightarrow> bool \<Rightarrow> process \<Rightarrow> event list \<Rightarrow> process \<Rightarrow> bool"
  for development reaping :: bool where
  Nil: "server_run development reaping p [] p"
| Cons: "server_step development reaping p e q \<Longrightarrow> server_run development reaping q es r \<Longrightarrow>
    server_run development reaping p (e # es) r"

inductive_simps server_run_simps [simp]:
  "server_run d k p [] q"
  "server_run d k p (e # es) q"

inductive_cases server_stepE: "server_step d k p e q"

end
