(* ===== verification/ProcessTheorems.thy ===== *)
theory ProcessTheorems
  imports ServerProcess DatabaseTheorems Samples
begin

text \<open>
  The properties of the server process: the signing key it starts with, what the pool is still
  used for when it is closed, and that a stopped server returns.
\<close>

section \<open>The invariant of the process\<close>

text \<open>
  The main goroutine is past \<open>reaper.Wait\<close> only when the reaper has returned, the pool is closed
  exactly when it has returned itself, and a return without error means that nothing was served
  any more.
\<close>

fun past_join :: "main_pc \<Rightarrow> bool" where
  "past_join (Deferred e) = True"
| "past_join (Returned e) = True"
| "past_join m = False"

fun outcome :: "main_pc \<Rightarrow> run_error option option" where
  "outcome (Joining e) = Some e"
| "outcome (Deferred e) = Some e"
| "outcome (Returned e) = Some e"
| "outcome m = None"

definition process_inv :: "process \<Rightarrow> bool" where
  "process_inv p \<longleftrightarrow>
     (past_join (p_main p) \<longrightarrow> p_reaper p = ReaperDone) \<and>
     (p_pool_open p \<longleftrightarrow> (\<forall>e. p_main p \<noteq> Returned e)) \<and>
     (p_main p \<noteq> AtSelect \<longrightarrow> p_cancelled p) \<and>
     (p_main p = AtSelect \<longrightarrow> \<not> p_shutdown p) \<and>
     (p_main p = Draining \<longrightarrow> p_shutdown p) \<and>
     (p_errCh p \<noteq> None \<longrightarrow> p_listener p = Exited) \<and>
     (p_errCh p = Some ErrServerClosed \<longrightarrow> p_shutdown p) \<and>
     (outcome (p_main p) = Some None \<longrightarrow> p_inflight p = 0 \<and> p_shutdown p \<and> \<not> p_connected p)"

lemma process_inv_started: "process_inv started"
  by (simp add: process_inv_def started_def)

lemma process_inv_step: "server_step d k p e q \<Longrightarrow> process_inv p \<Longrightarrow> process_inv q"
  by (induction rule: server_step.induct) (auto simp: process_inv_def split: if_splits)

lemma process_inv_run: "server_run d k p es q \<Longrightarrow> process_inv p \<Longrightarrow> process_inv q"
  by (induction rule: server_run.induct) (auto intro: process_inv_step)

section \<open>Closing the pool\<close>

text \<open>C31. The pool outlives its users. In every run of the server process, the pool is closed
  only after the reaper has returned, so no sweep is running then or will ever run, and runServer
  has returned. If it returned without an error, no request is being handled at that time and
  none ever begins afterwards.\<close>

theorem pool_outlives_users:
  assumes "server_run development reaping started es p" and "\<not> p_pool_open p"
    and "server_run development reaping p es' q"
  shows "p_reaper q = ReaperDone \<and> p_main q = p_main p \<and>
    (\<exists>e. p_main p = Returned e \<and> (e = None \<longrightarrow> p_inflight q = 0))"
proof -
  have inv: "process_inv p"
    using process_inv_run [OF assms(1) process_inv_started] .
  with assms(2) obtain e where e: "p_main p = Returned e" by (auto simp: process_inv_def)
  have "server_run development reaping s es' q \<Longrightarrow> p_main s = Returned e \<Longrightarrow> p_main q = Returned e" for es' s q
    by (induction rule: server_run.induct) (auto elim!: server_stepE)
  from this [OF assms(3) e] process_inv_run [OF assms(3) inv] e show ?thesis
    by (auto simp: process_inv_def)
qed

definition stopped_run :: "event list" where
  "stopped_run = [ReaperStarts, Listening, Accept, Signal, SelectDone, SweepEnds, HandlerDone, Drained True,
     ListenerClosed, ReaperStops, Joined, PoolClosed]"

definition run_end :: "run_error option \<Rightarrow> nat \<Rightarrow> process" where
  "run_end e n = \<lparr>p_main = Returned e, p_reaper = ReaperDone, p_listener = Exited,
     p_errCh = Some ErrServerClosed, p_cancelled = True, p_shutdown = True, p_connected = (e \<noteq> None),
     p_inflight = n, p_pool_open = False\<rparr>"

lemmas step_rules = server_step.Signal server_step.Accept server_step.HandlerDone server_step.ReaperStarts
  server_step.SweepEnds server_step.ReaperStops server_step.Listening server_step.ListenerClosed
  server_step.SelectDone server_step.Drained server_step.DrainTimeout server_step.Joined server_step.PoolClosed

lemma server_run_step:
  "server_step d k p e q' \<Longrightarrow> q' = q \<Longrightarrow> server_run d k q es r \<Longrightarrow> server_run d k p (e # es) r"
  by (auto intro: server_run.Cons)

lemma sample_stop: "server_run False True started stopped_run (run_end None 0)"
  unfolding stopped_run_def started_def run_end_def
  by (rule server_run_step, rule step_rules, simp_all del: server_run_simps)+ (rule server_run.Nil)

theorem pool_outlives_users_witness:
  "p_reaper (run_end None 0) = ReaperDone \<and>
   \<not> (\<exists>es q. server_run False True (run_end None 0) es q \<and> (p_inflight q \<noteq> 0 \<or> p_reaper q = Sweeping))"
  using pool_outlives_users [OF sample_stop] by (fastforce simp: run_end_def)

text \<open>A request that outlasts the ten seconds of \<open>srv.Shutdown\<close> is still being handled when the
  pool is closed; runServer then returns an error.\<close>

lemma undrained_request:
  "server_run False True started [ReaperStarts, Listening, Accept, Signal, SelectDone, SweepEnds, DrainTimeout,
     ListenerClosed, ReaperStops, Joined, PoolClosed] (run_end (Some ShutdownFailed) 1)"
  unfolding started_def run_end_def
  by (rule server_run_step, rule step_rules, simp_all del: server_run_simps)+ (rule server_run.Nil)

text \<open>When the listener fails, runServer returns and closes the pool without a \<open>srv.Shutdown\<close>; on a
  connection accepted before, a client can then still begin a request.\<close>

lemma request_on_closed_pool:
  "\<exists>p. server_run False False started [ReaperStarts, Listening, ListenFails, SelectErr, Joined, PoolClosed, Accept] p \<and>
     p_main p = Returned (Some ServeFailed) \<and> \<not> p_pool_open p \<and> p_inflight p = 1"
  unfolding started_def
  by (intro exI conjI)
    ((rule server_run_step, rule step_rules server_step.ListenFails server_step.SelectErr, simp_all del: server_run_simps)+,
      rule server_run.Nil, simp_all)

section \<open>Stopping\<close>

text \<open>The steps a goroutine has left, the tick of the ticker and a new request aside.\<close>

definition remaining :: "process \<Rightarrow> nat" where
  "remaining p =
     (case p_main p of AtSelect \<Rightarrow> 4 | Draining \<Rightarrow> 3 | Joining e \<Rightarrow> 2 | Deferred e \<Rightarrow> 1 | Returned e \<Rightarrow> 0) +
     (case p_reaper p of ReaperStart \<Rightarrow> 3 | Sweeping \<Rightarrow> 2 | ReaperIdle \<Rightarrow> 1 | ReaperDone \<Rightarrow> 0) +
     (case p_listener p of Starting \<Rightarrow> 2 | Serving \<Rightarrow> 1 | Exited \<Rightarrow> 0) + p_inflight p"

fun outside :: "event \<Rightarrow> bool" where
  "outside Signal = True"
| "outside Accept = True"
| "outside ShutdownRoute = True"
| "outside TickFires = True"
| "outside e = False"

fun work :: "event \<Rightarrow> nat" where
  "work Accept = 1"
| "work TickFires = 1"
| "work e = 0"

lemma remaining_step:
  "server_step d k p e q \<Longrightarrow> remaining q + (if outside e then 0 else 1) \<le> remaining p + work e"
  by (induction rule: server_step.induct)
    (auto simp: remaining_def split: main_pc.splits reaper_pc.splits listener_pc.splits)

lemma remaining_run:
  "server_run d k p es q \<Longrightarrow> remaining q + length (filter (\<lambda>e. \<not> outside e) es) \<le> remaining p + sum_list (map work es)"
  by (induction rule: server_run.induct) (auto dest!: remaining_step split: if_splits)

lemma cancelled_step: "server_step d k p e q \<Longrightarrow> p_cancelled p \<Longrightarrow> p_cancelled q"
  by (induction rule: server_step.induct) auto

text \<open>A cancelled process that has not returned can always move on by itself.\<close>

lemma cancelled_progress:
  assumes "process_inv p" and "p_cancelled p" and "\<forall>e. p_main p \<noteq> Returned e"
  shows "\<exists>e q. \<not> outside e \<and> e \<noteq> HandlerDone \<and> server_step d k p e q"
proof (cases "p_main p")
  case AtSelect
  with assms(2) show ?thesis by (intro exI [of _ SelectDone]) (auto intro: server_step.SelectDone)
next
  case Draining
  then show ?thesis by (intro exI [of _ DrainTimeout]) (auto intro: server_step.DrainTimeout)
next
  case (Joining e)
  show ?thesis
  proof (cases "p_reaper p")
    case ReaperStart
    then show ?thesis by (intro exI [of _ ReaperStarts]) (auto intro: server_step.ReaperStarts)
  next
    case Sweeping
    then show ?thesis by (intro exI [of _ SweepEnds]) (auto intro: server_step.SweepEnds)
  next
    case ReaperIdle
    with assms(2) show ?thesis by (intro exI [of _ ReaperStops]) (auto intro: server_step.ReaperStops)
  next
    case ReaperDone
    with Joining show ?thesis by (intro exI [of _ Joined]) (auto intro: server_step.Joined)
  qed
next
  case (Deferred e)
  then show ?thesis by (intro exI [of _ PoolClosed]) (auto intro: server_step.PoolClosed)
next
  case (Returned e)
  with assms(3) show ?thesis by simp
qed

text \<open>C32. A stopped server returns. Once srvCtx is cancelled, by a signal, by the shutdown route or
  after the listener failed, the process cannot get stuck: in every later state runServer has
  returned or some goroutine of the server can make a step that needs neither a client nor the
  ticker; and the number of all steps is bounded: at most nine and one for each request in
  flight, each request accepted and each tick of the reaper's ticker.\<close>

theorem stopped_server_returns:
  assumes "server_run development reaping started es p" and "p_cancelled p"
    and "server_run development reaping p es' q"
  shows "((\<exists>e. p_main q = Returned e) \<or>
      (\<exists>e r. e \<notin> {Signal, Accept, HandlerDone, ShutdownRoute, TickFires} \<and> server_step development reaping q e r)) \<and>
    length [e \<leftarrow> es'. e \<notin> {Signal, Accept, ShutdownRoute, TickFires}] \<le>
      9 + p_inflight p + length [e \<leftarrow> es'. e \<in> {Accept, TickFires}]"
proof -
  have inv: "process_inv q"
    using process_inv_run [OF assms(3) process_inv_run [OF assms(1) process_inv_started]] .
  have "p_cancelled q" using assms(3,2) by (induction rule: server_run.induct) (auto dest: cancelled_step)
  have out: "outside e \<longleftrightarrow> e \<in> {Signal, Accept, ShutdownRoute, TickFires}" for e
    by (cases e) auto
  have work: "work e = (if e \<in> {Accept, TickFires} then 1 else 0)" for e
    by (cases e) auto
  have "sum_list (map work es') = length [e \<leftarrow> es'. e \<in> {Accept, TickFires}]"
    by (induction es') (simp_all add: work)
  moreover have "remaining p \<le> 9 + p_inflight p"
    by (simp add: remaining_def split: main_pc.split reaper_pc.split listener_pc.split)
  ultimately have "length [e \<leftarrow> es'. e \<notin> {Signal, Accept, ShutdownRoute, TickFires}] \<le>
      9 + p_inflight p + length [e \<leftarrow> es'. e \<in> {Accept, TickFires}]"
    using remaining_run [OF assms(3)] by (simp add: out)
  moreover have "(\<exists>e. p_main q = Returned e) \<or> (\<exists>e r. \<not> outside e \<and> e \<noteq> HandlerDone \<and> server_step development reaping q e r)"
    using cancelled_progress [OF inv \<open>p_cancelled q\<close>] by blast
  ultimately show ?thesis by (simp add: out) blast
qed

definition cancelled_sample :: process where
  "cancelled_sample = \<lparr>p_main = AtSelect, p_reaper = ReaperIdle, p_listener = Serving, p_errCh = None,
     p_cancelled = True, p_shutdown = False, p_connected = True, p_inflight = 1, p_pool_open = True\<rparr>"

definition draining_sample :: process where
  "draining_sample = cancelled_sample\<lparr>p_main := Draining, p_shutdown := True, p_inflight := 0\<rparr>"

lemma sample_cancelled: "server_run False True started [ReaperStarts, SweepEnds, Listening, Accept, Signal] cancelled_sample"
  unfolding started_def cancelled_sample_def
  by (rule server_run_step, rule step_rules, simp_all del: server_run_simps)+ (rule server_run.Nil)

lemma sample_draining: "server_run False True cancelled_sample [SelectDone, TickFires, SweepEnds, HandlerDone] draining_sample"
  unfolding draining_sample_def cancelled_sample_def
  by (rule server_run_step, rule step_rules server_step.TickFires, simp_all del: server_run_simps)+ (rule server_run.Nil)

theorem stopped_server_returns_witness:
  "\<exists>e r. e \<notin> {Signal, Accept, HandlerDone, ShutdownRoute, TickFires} \<and> server_step False True draining_sample e r"
proof -
  have "p_cancelled cancelled_sample" by (simp add: cancelled_sample_def)
  from stopped_server_returns [OF sample_cancelled this sample_draining] show ?thesis
    by (simp add: draining_sample_def)
qed

section \<open>The signing key\<close>

text \<open>C33. The signing key. A server never starts with an HMAC key of fewer than 32 bytes; in
  production the key is the configured one, so it survives a restart, and without a configured
  key a production server does not start; every other refusal is a configured key that is too
  short, or random bytes that cannot be had.\<close>

theorem signing_key:
  assumes "run_state (startServer S dummy env dbDir secret development s) w = ((r, s'), w')"
  shows "case r of
      Inr (srv, path) \<Rightarrow> 32 \<le> length (ts_secret (srv_tokens srv)) \<and>
        (secret \<noteq> [] \<longrightarrow> ts_secret (srv_tokens srv) = secret) \<and>
        (env = ''production'' \<longrightarrow> secret \<noteq> []) \<and> srv_shutdown srv = development \<and>
        path = Join dbDir FileName
    | Inl (KeyError e) \<Rightarrow> s' = s \<and> (case e of
        KeyTooShort n \<Rightarrow> secret \<noteq> [] \<and> length secret = n \<and> n < 32
      | KeyMissing \<Rightarrow> secret = [] \<and> env = ''production''
      | KeyNotGenerated \<Rightarrow> secret = [] \<and> env \<noteq> ''production'')
    | Inl (OpenDatabase e) \<Rightarrow> secret = [] \<and> env \<noteq> ''production'' \<or> 32 \<le> length secret"
proof -
  have path: "path = Join dbDir FileName" if "Open S dbDir s = (Inr path, s1)" for path s1
    using that by (auto simp: Open_def Let_def split: option.splits stat.splits if_splits prod.splits)
  have fill: "32 \<le> length (fill 32 x)" for x by (simp add: fill_def)
  show ?thesis
    using assms
    by (auto simp: startServer_def resolveJWTSecret_def NewServer_def WithShutdown_def Let_def path fill
        split: sum.splits option.splits prod.splits if_splits)
qed


definition strong_key :: string where
  "strong_key = replicate 32 (CHR ''k'')"

theorem signing_key_witness:
  "\<exists>srv s w. run_state (startServer sample_sqlite ''dummy'' ''production'' ''data'' strong_key False old_disk)
     (sample_world sample_db) = ((Inr (srv, ''data/ecv4.db''), s), w) \<and>
     ts_secret (srv_tokens srv) = strong_key \<and> \<not> srv_shutdown srv"
proof -
  let ?run = "run_state (startServer sample_sqlite ''dummy'' ''production'' ''data'' strong_key False old_disk) (sample_world sample_db)"
  obtain s where "Open sample_sqlite ''data'' old_disk = (Inr ''data/ecv4.db'', s)"
    using sample_open by (metis prod.collapse)
  then obtain srv where run: "?run = ((Inr (srv, ''data/ecv4.db''), s), sample_world sample_db)"
    by (simp add: startServer_def resolveJWTSecret_def strong_key_def Let_def)
  from signing_key [OF run] run show ?thesis by (auto simp: strong_key_def)
qed

end
