(* ===== verification/CliDatabase.thy ===== *)
theory CliDatabase
  imports HandlersContract DatabaseFiles Dotenv
begin

text \<open>
  internal/cli/account.go, game.go and the command closures of cli.go: the offline verbs, which
  work on the database file itself. A verb runs on a host: the file system, the world of the
  store, the environment and the lines written to the standard output. The parsing of flags is
  third-party; a parsed command line is a value of \<open>command\<close>, in which a flag that
  \<open>isFlagSet\<close> tests is an option. A nil error is \<open>None\<close>.
\<close>

section \<open>The host\<close>

record host =
  h_fs :: fs
  h_world :: world
  h_env :: env
  h_out :: "string list"

datatype cli_error = Usage string | NoAccount string | NoGame string | CodeExists string
  | AlreadyMember string string | HandleInUse string string | Failed go_error | DatabaseError db_error

definition say :: "string \<Rightarrow> (host, unit) state" where
  "say line = State (\<lambda>h. ((), h\<lparr>h_out := h_out h @ [line]\<rparr>))"

definition in_world :: "(world, 'a) state \<Rightarrow> (host, 'a) state" where
  "in_world m = State (\<lambda>h. case run_state m (h_world h) of (x, w) \<Rightarrow> (x, h\<lparr>h_world := w\<rparr>))"

definition get_env :: "string \<Rightarrow> (host, string) state" where
  "get_env v = State (\<lambda>h. (Getenv (h_env h) v, h))"

text \<open>The tables of a file at version 7, as the store reads and writes them.\<close>

definition put_tables :: "database \<Rightarrow> db_file \<Rightarrow> db_file" where
  "put_tables d f = f\<lparr>f_tables := (f_tables f)\<lparr>tb_accounts := Some (accounts d), tb_games := Some (Games7 (games d)),
     tb_roles := Some (game_account_role d), tb_tokens := Some (refresh_tokens d)\<rparr>\<rparr>"

definition file_at :: "fs \<Rightarrow> string \<Rightarrow> db_file" where
  "file_at s p = (case fs_node s p of Some (Database f) \<Rightarrow> f | _ \<Rightarrow> new_file)"

text \<open>
  \<open>database.Open\<close>, the use of the store on its pool, and the deferred \<open>closeDB\<close>, whose error the
  verbs ignore. The store's writes go to the file that was opened.
\<close>

definition with_database :: "sqlite \<Rightarrow> string \<Rightarrow> (world, 'a) state \<Rightarrow> (host, db_error + 'a) state" where
  "with_database S dbDir body = State (\<lambda>h. case Open S dbDir (h_fs h) of
     (Inl e, s) \<Rightarrow> (Inl e, h\<lparr>h_fs := s\<rparr>)
   | (Inr p, s) \<Rightarrow>
       (case run_state body ((h_world h)\<lparr>w_db := database_of (file_at s p)\<rparr>) of (x, w) \<Rightarrow>
         let s1 = sq_Side S p (s\<lparr>fs_node := (fs_node s)(p \<mapsto> Database (put_tables (w_db w) (file_at s p)))\<rparr>)
         in (Inr x, h\<lparr>h_fs := snd (sq_Close S p s1), h_world := w\<rparr>)))"

section \<open>Formatting\<close>

text \<open>Columns are padded in bytes, which is what Go does for the ASCII texts in them.\<close>

definition format_bool :: "bool \<Rightarrow> string" where
  "format_bool b = (if b then ''true'' else ''false'')"

definition pad_left :: "nat \<Rightarrow> string \<Rightarrow> string" where
  "pad_left n s = replicate (n - length s) (CHR '' '') @ s"

definition pad_right :: "nat \<Rightarrow> string \<Rightarrow> string" where
  "pad_right n s = s @ replicate (n - length s) (CHR '' '')"

definition id_width :: "int list \<Rightarrow> nat" where
  "id_width ids = fold (\<lambda>i m. if length (FormatInt i) > m then length (FormatInt i) else m) ids (length ''ID'')"

section \<open>Accounts\<close>

definition secret_warning :: string where
  "secret_warning =
     ''WARNING: only the hash is stored; this secret is shown once and cannot be recovered. Save it now.''"

definition createAccount ::
  "libs \<Rightarrow> sqlite \<Rightarrow> string \<Rightarrow> string \<Rightarrow> string \<Rightarrow> 64 word option \<Rightarrow> bool \<Rightarrow> bool \<Rightarrow> (host, cli_error option) state" where
  "createAccount L S dbDir email0 secret0 seed isActive isAdmin =
     (let email = ToLower (unicode_lower L) (TrimSpace email0) in
      if email = [] then ret (Some (Usage ''account create requires --email''))
      else do {
        gen \<leftarrow> in_world (if secret0 = [] then GenerateSecret seed else ret (Inr secret0));
        case gen of Inl e \<Rightarrow> ret (Some (Failed e)) | Inr secret \<Rightarrow> do {
          hash \<leftarrow> in_world (HashSecret L secret);
          case hash of Inl e \<Rightarrow> ret (Some (Failed e)) | Inr hashedSecret \<Rightarrow> do {
            r \<leftarrow> with_database S dbDir (store_CreateAccount email isAdmin isActive hashedSecret);
            case r of Inl e \<Rightarrow> ret (Some (DatabaseError e))
            | Inr (Inl e) \<Rightarrow> ret (Some (Failed e))
            | Inr (Inr i) \<Rightarrow> do {
                say (''created account '' @ FormatInt i @ '' '' @ email @ '' (is_active='' @ format_bool isActive @
                  '', is_admin='' @ format_bool isAdmin @ '')'');
                (if secret0 = [] then do { say (''generated secret: '' @ secret); say secret_warning } else ret ());
                (if \<not> isActive then say ''note: account is inactive and cannot log in (created with --is-inactive)''
                 else ret ());
                ret None
              }
          }
        }
      })"

definition account_line :: "nat \<Rightarrow> Account \<Rightarrow> string" where
  "account_line idWidth a = pad_left idWidth (FormatInt (acc_ID a)) @ ''  '' @ pad_right 8 (format_bool (acc_IsActive a)) @
     ''  '' @ pad_right 8 (format_bool (acc_IsAdmin a)) @ ''  '' @ acc_Email a"

fun say_all :: "string list \<Rightarrow> (host, unit) state" where
  "say_all [] = ret ()"
| "say_all (l # ls) = do { say l; say_all ls }"

definition listAccounts :: "sqlite \<Rightarrow> string \<Rightarrow> (host, cli_error option) state" where
  "listAccounts S dbDir = do {
     r \<leftarrow> with_database S dbDir store_ListAccounts;
     case r of Inl e \<Rightarrow> ret (Some (DatabaseError e))
     | Inr (Inl e) \<Rightarrow> ret (Some (Failed e))
     | Inr (Inr as) \<Rightarrow>
         if length as = 0 then do { say ''no accounts''; ret None }
         else let idWidth = id_width (map acc_ID as) in do {
           say (pad_left idWidth ''ID'' @ ''  '' @ pad_right 8 ''ACTIVE'' @ ''  '' @ pad_right 8 ''ADMIN'' @ ''  EMAIL'');
           say_all (map (account_line idWidth) as);
           ret None
         }
   }"

text \<open>The new hash and the passphrase that was generated for it, if any.\<close>

definition new_secret_hash ::
  "libs \<Rightarrow> string option \<Rightarrow> bool \<Rightarrow> 64 word option \<Rightarrow> (world, go_error + (string option \<times> string)) state" where
  "new_secret_hash L secret generate seed = (case secret of
     Some s \<Rightarrow> do {
       h \<leftarrow> HashSecret L s;
       ret (case h of Inl e \<Rightarrow> Inl e | Inr hash \<Rightarrow> Inr (Some hash, []))
     }
   | None \<Rightarrow>
       if generate then do {
         g \<leftarrow> GenerateSecret seed;
         case g of Inl e \<Rightarrow> ret (Inl e) | Inr gen \<Rightarrow> do {
           h \<leftarrow> HashSecret L gen;
           ret (case h of Inl e \<Rightarrow> Inl e | Inr hash \<Rightarrow> Inr (Some hash, gen))
         }
       }
       else ret (Inr (None, [])))"

text \<open>\<open>secret\<close> is the value of --secret when \<open>secretProvided\<close>.\<close>

definition updateAccount ::
  "libs \<Rightarrow> sqlite \<Rightarrow> string \<Rightarrow> string \<Rightarrow> bool option \<Rightarrow> bool option \<Rightarrow> string option \<Rightarrow> bool \<Rightarrow> 64 word option \<Rightarrow>
   (host, cli_error option) state" where
  "updateAccount L S dbDir email0 isActive isAdmin secret generate seed =
     (let email = ToLower (unicode_lower L) (TrimSpace email0) in
      if email = [] then ret (Some (Usage ''account update requires --email''))
      else if secret \<noteq> None \<and> generate then ret (Some (Usage ''use either --secret or --generate-secret, not both''))
      else do {
        x \<leftarrow> in_world (new_secret_hash L secret generate seed);
        case x of Inl e \<Rightarrow> ret (Some (Failed e)) | Inr (hashedSecret, generatedSecret) \<Rightarrow>
          let upd = \<lparr>au_IsAdmin = isAdmin, au_IsActive = isActive, au_HashedSecret = hashedSecret\<rparr> in
          if isAdmin = None \<and> isActive = None \<and> hashedSecret = None
          then ret (Some (Usage ''nothing to update: set --is-active, --is-admin, --secret, or --generate-secret''))
          else do {
            r \<leftarrow> with_database S dbDir (store_UpdateAccountByEmail email upd);
            case r of Inl e \<Rightarrow> ret (Some (DatabaseError e))
            | Inr (Inl e) \<Rightarrow> ret (Some (if e = ErrNotFound then NoAccount email else Failed e))
            | Inr (Inr _) \<Rightarrow> do {
                say (''updated account '' @ email);
                (case isActive of None \<Rightarrow> ret () | Some b \<Rightarrow> say (''  is_active='' @ format_bool b));
                (case isAdmin of None \<Rightarrow> ret () | Some b \<Rightarrow> say (''  is_admin='' @ format_bool b));
                (if generatedSecret \<noteq> [] then do {
                   say (''  generated secret: '' @ generatedSecret); say (''  '' @ secret_warning) }
                 else if hashedSecret \<noteq> None then say ''  secret updated''
                 else ret ());
                ret None
              }
          }
      })"

section \<open>Games\<close>

text \<open>\<open>Quote\<close> is the \<open>%q\<close> of package fmt.\<close>

definition printGame :: "(string \<Rightarrow> string) \<Rightarrow> Game \<Rightarrow> (host, unit) state" where
  "printGame Quote g = do {
     say (''created game '' @ FormatInt (game_ID g) @ '' '' @ game_Code g @ '' '' @ Quote (game_Name g) @
       '' (status='' @ game_Status g @ '', is_active='' @ format_bool (game_IsActive g) @ '')'');
     (case game_Description g of None \<Rightarrow> ret () | Some d \<Rightarrow> say (''  description: '' @ d))
   }"

definition createGame ::
  "(string \<Rightarrow> string) \<Rightarrow> sqlite \<Rightarrow> string \<Rightarrow> string \<Rightarrow> string \<Rightarrow> string option \<Rightarrow> (host, cli_error option) state" where
  "createGame Quote S dbDir code0 name0 description0 =
     (let code = TrimSpace code0; name = TrimSpace name0; description = map_option TrimSpace description0 in
      if \<not> ValidCode code then ret (Some (Usage ErrInvalidCode))
      else if name = [] then ret (Some (Usage ''game create requires --name''))
      else do {
        r \<leftarrow> with_database S dbDir (store_CreateGame code name description);
        case r of Inl e \<Rightarrow> ret (Some (DatabaseError e))
        | Inr (Inl e) \<Rightarrow> ret (Some (if e = ErrConflict then CodeExists code else Failed e))
        | Inr (Inr game) \<Rightarrow> do { printGame Quote game; ret None }
      })"

definition game_line :: "nat \<Rightarrow> Game \<Rightarrow> string" where
  "game_line idWidth g = pad_left idWidth (FormatInt (game_ID g)) @ ''  '' @ pad_right 8 (format_bool (game_IsActive g)) @
     ''  '' @ pad_right 10 (game_Status g) @ ''  '' @ pad_right 10 (game_Code g) @ ''  '' @ game_Name g"

definition listGames :: "sqlite \<Rightarrow> string \<Rightarrow> (host, cli_error option) state" where
  "listGames S dbDir = do {
     r \<leftarrow> with_database S dbDir (store_ListGames 0 True None);
     case r of Inl e \<Rightarrow> ret (Some (DatabaseError e))
     | Inr (Inl e) \<Rightarrow> ret (Some (Failed e))
     | Inr (Inr gs) \<Rightarrow>
         if length gs = 0 then do { say ''no games''; ret None }
         else let idWidth = id_width (map game_ID gs) in do {
           say (pad_left idWidth ''ID'' @ ''  '' @ pad_right 8 ''ACTIVE'' @ ''  '' @ pad_right 10 ''STATUS'' @
             ''  '' @ pad_right 10 ''CODE'' @ ''  NAME'');
           say_all (map (game_line idWidth) gs);
           ret None
         }
   }"

text \<open>The three calls of \<open>addMember\<close> on the store.\<close>

definition add_to_game ::
  "string \<Rightarrow> string \<Rightarrow> string \<Rightarrow> bool \<Rightarrow> (world, cli_error + (Game \<times> Account \<times> Member)) state" where
  "add_to_game code email handle isGM = do {
     g \<leftarrow> store_GameByCode code;
     case g of Inl e \<Rightarrow> ret (Inl (if e = ErrNotFound then NoGame code else Failed e)) | Inr game \<Rightarrow> do {
       a \<leftarrow> store_AccountByEmail email;
       case a of Inl e \<Rightarrow> ret (Inl (if e = ErrNotFound then NoAccount email else Failed e)) | Inr account \<Rightarrow> do {
         m \<leftarrow> store_AddMember (game_ID game) (acc_ID account) handle isGM;
         ret (case m of
           Inl e \<Rightarrow> Inl (if e = ErrMemberExists then AlreadyMember email code
                          else if e = ErrHandleTaken then HandleInUse handle code
                          else if e = ErrNotFound then NoAccount email
                          else Failed e)
         | Inr member \<Rightarrow> Inr (game, account, member))
       }
     }
   }"

definition addMember ::
  "libs \<Rightarrow> sqlite \<Rightarrow> string \<Rightarrow> string \<Rightarrow> string \<Rightarrow> string \<Rightarrow> bool \<Rightarrow> (host, cli_error option) state" where
  "addMember L S dbDir code0 email0 handle0 isGM =
     (let code = TrimSpace code0; email = ToLower (unicode_lower L) (TrimSpace email0); handle = TrimSpace handle0 in
      if \<not> ValidCode code then ret (Some (Usage ErrInvalidCode))
      else if email = [] then ret (Some (Usage ''game add-member requires --email''))
      else if handle \<noteq> [] \<and> \<not> ValidHandle handle then ret (Some (Usage ErrInvalidHandle))
      else do {
        r \<leftarrow> with_database S dbDir (add_to_game code email handle isGM);
        case r of Inl e \<Rightarrow> ret (Some (DatabaseError e))
        | Inr (Inl e) \<Rightarrow> ret (Some e)
        | Inr (Inr (game, account, member)) \<Rightarrow> do {
            say (''added member to game '' @ FormatInt (game_ID game) @ '' '' @ game_Code game @ '': account '' @
              FormatInt (acc_ID account) @ '' '' @ email @ '', handle '' @ mem_Handle member @
              '' (is_gm='' @ format_bool (mem_IsGM member) @ '', is_active='' @ format_bool (mem_IsActive member) @ '')'');
            ret None
          }
      })"

section \<open>Commands\<close>

definition seedDevelopmentAdmin :: "(string \<Rightarrow> string) \<Rightarrow> libs \<Rightarrow> sqlite \<Rightarrow> string \<Rightarrow> string \<Rightarrow> (host, cli_error option) state" where
  "seedDevelopmentAdmin Quote L S env path =
     (if path = MemoryPath then do {
        say ''skipping --development admin seed: the in-memory database is not persisted''; ret None }
      else if env \<noteq> ''development'' then do {
        say (''skipping --development admin seed: ECV4_ENV is '' @ Quote env @ '', not development''); ret None }
      else do {
        email \<leftarrow> get_env ''ECV4_DEVELOPMENT_ADMIN_EMAIL'';
        secret \<leftarrow> get_env ''ECV4_DEVELOPMENT_ADMIN_SECRET'';
        if email = [] \<or> secret = [] then do {
          say ''skipping --development admin seed: set ECV4_DEVELOPMENT_ADMIN_EMAIL and ECV4_DEVELOPMENT_ADMIN_SECRET to seed one'';
          ret None }
        else do {
          say ''seeding development admin account...'';
          createAccount L S path email secret None True True }
      })"

definition databaseCreate ::
  "(string \<Rightarrow> string) \<Rightarrow> libs \<Rightarrow> sqlite \<Rightarrow> string \<Rightarrow> bool \<Rightarrow> string list \<Rightarrow> (host, cli_error option) state" where
  "databaseCreate Quote L S env development args = (case args of
     [path] \<Rightarrow> do {
       err \<leftarrow> State (\<lambda>h. case Create S path (h_fs h) of (e, s) \<Rightarrow> (e, h\<lparr>h_fs := s\<rparr>));
       case err of Some e \<Rightarrow> ret (Some (DatabaseError e)) | None \<Rightarrow> do {
         say (if path = MemoryPath then ''verified migrations against an in-memory database (nothing persisted)''
              else ''created '' @ Join path FileName);
         if development then seedDevelopmentAdmin Quote L S env path else ret None
       }
     }
   | _ \<Rightarrow> ret (Some (Usage ''create requires exactly one PATH argument'')))"

text \<open>
  A command line, flags parsed: the environment, the switch --development, the database directory
  and the verb with its flags. \<open>exec\<close> is the choice of the Exec closure.
\<close>

datatype command =
  VersionCmd
| DatabaseCreate "string list"
| AccountCreate string string "64 word option" bool bool
| AccountUpdate_cmd string "bool option" "bool option" "string option" bool "64 word option"
| AccountResetPassword string "string option" bool "64 word option"
| AccountList
| GameCreate string string "string option"
| GameList
| GameAddMember string string string bool
| GameAssignGM string string string

fun exec ::
  "(string \<Rightarrow> string) \<Rightarrow> libs \<Rightarrow> sqlite \<Rightarrow> string \<Rightarrow> bool \<Rightarrow> string \<Rightarrow> command \<Rightarrow> (host, cli_error option) state" where
  "exec Quote L S env development dbDir VersionCmd = do { say (semver_Short L (Version L)); ret None }"
| "exec Quote L S env development dbDir (DatabaseCreate args) = databaseCreate Quote L S env development args"
| "exec Quote L S env development dbDir (AccountCreate email secret seed isInactive isAdmin) =
     createAccount L S dbDir email secret seed (\<not> isInactive) isAdmin"
| "exec Quote L S env development dbDir (AccountUpdate_cmd email isActive isAdmin secret generate seed) =
     updateAccount L S dbDir email isActive isAdmin secret generate seed"
| "exec Quote L S env development dbDir (AccountResetPassword email secret generate seed) =
     updateAccount L S dbDir email None None secret (generate \<or> secret = None) seed"
| "exec Quote L S env development dbDir AccountList = listAccounts S dbDir"
| "exec Quote L S env development dbDir (GameCreate code name description) =
     createGame Quote S dbDir code name description"
| "exec Quote L S env development dbDir GameList = listGames S dbDir"
| "exec Quote L S env development dbDir (GameAddMember code email handle isGM) =
     addMember L S dbDir code email handle isGM"
| "exec Quote L S env development dbDir (GameAssignGM code email handle) =
     addMember L S dbDir code email handle True"

end
