(* ===== verification/CliContract.thy ===== *)
theory CliContract
  imports CliDatabase DatabaseTheorems
begin

text \<open>
  What the offline verbs rest on: the use of the store on a file that was opened keeps the file's
  constraints, and on a current file it is exactly the run of the store's method on the tables
  of that file. SQLite's side files of the database are left free throughout (\<open>aside\<close>).
\<close>

section \<open>Tables in and out of a file\<close>

lemma put_tables_simps [simp]:
  "f_app (put_tables d f) = f_app f" "f_version (put_tables d f) = f_version f"
  by (simp_all add: put_tables_def)

lemma database_of_put: "f_version f = 7 \<Longrightarrow> user_version d = 7 \<Longrightarrow> database_of (put_tables d f) = d"
  by (simp add: database_of_def put_tables_def)

lemma file_ok_put:
  assumes "file_ok f" and "f_app f = appID" and "f_version f = 7" and "db_ok d"
  shows "file_ok (put_tables d f)"
  using assms
  by (auto simp: file_ok_def put_tables_def tables_ok_def part_defs plain_codes_def db_ok_def accounts_ok_def
      games_ok_def roles_ok_def tokens_ok_def)

lemma put_same:
  assumes "file_ok f" and "f_version f = 7"
  shows "put_tables (database_of f) f = f"
proof -
  have "tables_ok 7 (f_tables f)" using assms by (simp add: file_ok_def)
  then show ?thesis
    by (cases f; cases "f_tables f")
      (auto simp: put_tables_def database_of_def tables_ok_def part_defs split: option.splits games_table.splits)
qed

section \<open>Every verb keeps every file\<close>

definition disk_ok :: "fs \<Rightarrow> bool" where
  "disk_ok s \<longleftrightarrow> (\<forall>p f. fs_node s p = Some (Database f) \<longrightarrow> file_ok f)"

text \<open>The steps of a verb whose database is at \<open>p\<close>. Of the file system they may change the database and
  its side files, and what is no database and no side file they leave; if \<open>ok\<close>, they keep every
  database file well-formed.\<close>

definition fs_guar :: "bool \<Rightarrow> string \<Rightarrow> fs \<Rightarrow> fs \<Rightarrow> bool" where
  "fs_guar ok p s s' \<longleftrightarrow> (\<forall>q. q \<noteq> p \<and> q \<notin> side_files p \<longrightarrow> fs_node s' q = fs_node s q) \<and>
     (\<forall>q. fs_node s q = Some Directory \<longrightarrow> fs_node s' q = Some Directory) \<and>
     (fs_node s p = Some Other \<longrightarrow> fs_node s' p = Some Other) \<and> (fs_node s p \<noteq> None \<longrightarrow> fs_node s' p \<noteq> None) \<and>
     (ok \<and> disk_ok s \<longrightarrow> disk_ok s')"

definition host_guar :: "string \<Rightarrow> host \<Rightarrow> host \<Rightarrow> bool" where
  "host_guar p h h' \<longleftrightarrow> set (w_sched (h_world h')) \<subseteq> set (w_sched (h_world h)) \<and>
     fs_guar (rely keep_inv (h_world h)) p (h_fs h) (h_fs h')"

lemma fs_guar_refl [simp]: "fs_guar ok p s s"
  by (simp add: fs_guar_def)

lemma fs_guar_trans: "fs_guar ok p s t \<Longrightarrow> fs_guar ok p t u \<Longrightarrow> fs_guar ok p s u"
  unfolding fs_guar_def by metis

lemma fs_guar_weaken: "fs_guar ok p s t \<Longrightarrow> (ok' \<and> disk_ok s \<Longrightarrow> ok) \<Longrightarrow> fs_guar ok' p s t"
  unfolding fs_guar_def by blast

lemma rely_subset: "rely r w \<Longrightarrow> set (w_sched w') \<subseteq> set (w_sched w) \<Longrightarrow> rely r w'"
  by (auto simp: rely_def)

interpretation host: step_order "host_guar p" for p
proof
  show "host_guar p h h" for h by (simp add: host_guar_def)
  show "host_guar p h k" if "host_guar p h i" "host_guar p i k" for h i k
    using that unfolding host_guar_def
    by (auto elim!: fs_guar_trans intro: fs_guar_weaken [where ok = "rely keep_inv (h_world i)"] rely_subset)
qed

lemma host_say [step_intros]: "state_io_rel (host_guar p) (say l)"
  by (simp add: state_io_rel_def say_def host_guar_def)

lemma host_say_all [step_intros]: "state_io_rel (host_guar p) (say_all ls)"
  by (induction ls) (auto intro!: step_intros)

lemma host_get_env [step_intros]: "state_io_rel (host_guar p) (get_env v)"
  by (simp add: state_io_rel_def get_env_def host_guar_def)

lemma host_in_world [step_intros]:
  assumes "obeys keep_inv m"
  shows "state_io_rel (host_guar p) (in_world m)"
  using assms
  by (auto simp: state_io_rel_def obeys_def guar_def in_world_def host_guar_def split: prod.split)
    (metis snd_conv subsetD)

lemma migrated_ok: "sqlite_ok S \<Longrightarrow> sq_Migrate S appID migrations f = (e, f') \<Longrightarrow> file_ok f \<Longrightarrow> file_ok f'"
  using migrate_file by blast

lemma fs_guar_aside: "aside p s s' \<Longrightarrow> fs_guar ok p s s'"
  using asideD(3,4,5,6) [of p s s'] unfolding fs_guar_def disk_ok_def by metis

lemma fs_guar_write:
  assumes "fs_node s p = None \<or> (\<exists>g. fs_node s p = Some (Database g))" and "ok \<Longrightarrow> disk_ok s \<Longrightarrow> file_ok f"
  shows "fs_guar ok p s (with_file p f s)"
  using assms by (auto simp: fs_guar_def disk_ok_def)

lemma fs_guar_Open:
  assumes "sqlite_ok S" and "Open S dir s = (r, s')"
  shows "fs_guar ok (Join dir FileName) s s'"
  using Open_effect [OF assms]
proof (elim conjE disjE exE)
  fix f e f'
  assume f: "fs_node s (Join dir FileName) = Some (Database f)" "sq_Migrate S appID migrations f = (e, f')"
    and s': "aside (Join dir FileName) (with_file (Join dir FileName) f' s) s'"
  have "file_ok f'" if "disk_ok s"
    using that f migrated_ok [OF assms(1) f(2)] by (auto simp: disk_ok_def)
  with f(1) show ?thesis by - (rule fs_guar_trans [OF fs_guar_write fs_guar_aside [OF s']]; auto)
qed (rule fs_guar_aside)

lemma fs_guar_Create:
  assumes "sqlite_ok S" and "Create S dir s = (err, s')"
  shows "fs_guar ok (Join dir FileName) s s'"
  using Create_effect [OF assms]
proof (elim conjE disjE exE)
  fix f
  assume s': "aside (Join dir FileName) (with_file (Join dir FileName) f s) s'" and "f = new_file"
    and "fs_node s (Join dir FileName) = None"
  with file_ok_new show ?thesis by - (rule fs_guar_trans [OF fs_guar_write fs_guar_aside [OF s']]; simp)
next
  fix f e
  assume s': "aside (Join dir FileName) (with_file (Join dir FileName) f s) s'"
    and m: "sq_Migrate S appID migrations new_file = (e, f)" and "fs_node s (Join dir FileName) = None"
  with migrated_ok [OF assms(1) m file_ok_new] show ?thesis
    by - (rule fs_guar_trans [OF fs_guar_write fs_guar_aside [OF s']]; simp)
qed (rule fs_guar_aside)

lemma host_guar_fs:
  assumes "set (w_sched w') \<subseteq> set (w_sched (h_world h))" and "fs_guar (rely keep_inv (h_world h)) p (h_fs h) s'"
  shows "host_guar p h (h\<lparr>h_fs := s', h_world := w'\<rparr>)"
  using assms by (simp add: host_guar_def)

lemma host_with_database:
  assumes "sqlite_ok S" and "obeys keep_inv m"
  shows "state_io_rel (host_guar (Join dir FileName)) (with_database S dir m)"
  unfolding state_io_rel_def
proof
  fix h :: host
  let ?p = "Join dir FileName"
  obtain r s where o: "Open S dir (h_fs h) = (r, s)" by fastforce
  note eff = Open_effect [OF assms(1) o] and guar = fs_guar_Open [OF assms(1) o]
  show "host_guar ?p h (snd (run_state (with_database S dir m) h))"
  proof (cases r)
    case (Inl e)
    with o host_guar_fs [OF subset_refl guar] show ?thesis by (simp add: with_database_def)
  next
    case (Inr p)
    with eff obtain f f' where f: "fs_node (h_fs h) ?p = Some (Database f)" "p = ?p"
      "sq_Migrate S appID migrations f = (None, f')" "aside ?p (with_file ?p f' (h_fs h)) s"
      by auto
    then have node: "fs_node s ?p = Some (Database f')" using asideD(4) [OF f(4)] by simp
    let ?w = "(h_world h)\<lparr>w_db := database_of f'\<rparr>"
    obtain x w where x: "run_state m ?w = (x, w)" by fastforce
    have "guar keep_inv ?w w" using assms(2) x by (auto simp: obeys_def state_io_rel_def dest: spec [of _ ?w])
    then have inv: "set (w_sched w) \<subseteq> set (w_sched (h_world h))"
      "rely keep_inv (h_world h) \<Longrightarrow> db_ok (database_of f') \<Longrightarrow> db_ok (w_db w)"
      by (auto simp: guar_def rely_def keep_inv_def)
    have stored: "file_ok (put_tables (w_db w) f')" if "rely keep_inv (h_world h)" "disk_ok (h_fs h)"
    proof -
      have "file_ok f" using that(2) f(1) by (simp add: disk_ok_def)
      from migrate_file [OF assms(1) this f(3)] have f': "file_ok f'" "f_app f' = appID" "f_version f' = 7" by auto
      then have "db_ok (database_of f')" by (intro db_ok_database_of) (simp add: file_ok_def)
      with inv(2) that(1) f' show ?thesis by (intro file_ok_put)
    qed
    let ?s1 = "with_file ?p (put_tables (w_db w) f') s"
    let ?s2 = "snd (sq_Close S ?p (sq_Side S ?p ?s1))"
    have a: "aside ?p ?s1 ?s2"
      using sqlite_okD(2,3) [OF assms(1)] by (rule aside_trans)
    let ?ok = "rely keep_inv (h_world h) \<and> disk_ok (h_fs h)"
    have "fs_guar ?ok ?p s ?s1" using stored node by (intro fs_guar_write) auto
    then have "fs_guar ?ok ?p (h_fs h) ?s2" by (rule fs_guar_trans [OF guar fs_guar_trans [OF _ fs_guar_aside [OF a]]])
    then have "host_guar ?p h (h\<lparr>h_fs := ?s2, h_world := w\<rparr>)"
      using inv(1) by (intro host_guar_fs) (auto elim: fs_guar_weaken)
    with Inr o x f(2) node show ?thesis by (simp add: with_database_def file_at_def)
  qed
qed

lemma host_create:
  assumes "sqlite_ok S"
  shows "state_io_rel (host_guar (Join dir FileName)) (State (\<lambda>h. case Create S dir (h_fs h) of (e, s) \<Rightarrow> (e, h\<lparr>h_fs := s\<rparr>)))"
  unfolding state_io_rel_def
proof
  fix h :: host
  obtain e s where c: "Create S dir (h_fs h) = (e, s)" by fastforce
  with host_guar_fs [OF subset_refl fs_guar_Create [OF assms c]]
  show "host_guar (Join dir FileName) h (snd (run_state (State (\<lambda>h. case Create S dir (h_fs h) of
      (e, s) \<Rightarrow> (e, h\<lparr>h_fs := s\<rparr>))) h))"
    by simp
qed

section \<open>Verbs on a current file\<close>

lemma run_in_world [simp]: "run_state (in_world m) h = (case run_state m (h_world h) of (x, w) \<Rightarrow> (x, h\<lparr>h_world := w\<rparr>))"
  by (simp add: in_world_def split: prod.split)

lemma run_say [simp]: "run_state (say l) h = ((), h\<lparr>h_out := h_out h @ [l]\<rparr>)"
  by (simp add: say_def)

lemma run_say_all [simp]: "run_state (say_all ls) h = ((), h\<lparr>h_out := h_out h @ ls\<rparr>)"
  by (induction ls arbitrary: h) simp_all

text \<open>A current database that can be opened.\<close>

definition current :: "string \<Rightarrow> fs \<Rightarrow> db_file \<Rightarrow> bool" where
  "current dir s f \<longleftrightarrow> fs_node s dir = Some Directory \<and> fs_node s (Join dir FileName) = Some (Database f) \<and>
     \<not> fs_denied s dir \<and> \<not> fs_denied s (Join dir FileName) \<and> file_ok f \<and> f_app f = appID \<and> f_version f = 7"

lemma current_db_ok: "current dir s f \<Longrightarrow> db_ok (database_of f)"
  by (auto simp: current_def file_ok_def intro: db_ok_database_of)

definition store_in :: "string \<Rightarrow> db_file \<Rightarrow> database \<Rightarrow> fs \<Rightarrow> fs" where
  "store_in dir f d s = s\<lparr>fs_node := (fs_node s)(Join dir FileName \<mapsto> Database (put_tables d f))\<rparr>"

text \<open>Beside the side files of the database, the store's run is the whole effect.\<close>

abbreviation stored_in :: "string \<Rightarrow> db_file \<Rightarrow> database \<Rightarrow> fs \<Rightarrow> fs \<Rightarrow> bool" where
  "stored_in dir f d s s' \<equiv> aside (Join dir FileName) (store_in dir f d s) s'"

lemma run_with_database:
  assumes "sqlite_works S" and "current dir (h_fs h) f"
  shows "\<exists>s'. stored_in dir f (w_db (snd (run_state m ((h_world h)\<lparr>w_db := database_of f\<rparr>)))) (h_fs h) s' \<and>
    run_state (with_database S dir m) h =
      (case run_state m ((h_world h)\<lparr>w_db := database_of f\<rparr>) of (x, w) \<Rightarrow> (Inr x, h\<lparr>h_fs := s', h_world := w\<rparr>))"
proof -
  let ?p = "Join dir FileName"
  obtain s where s: "Open S dir (h_fs h) = (Inr ?p, s)" "aside ?p (h_fs h) s"
    using assms(2) Open_current [OF assms(1), of "h_fs h" dir f] by (auto simp: current_def)
  then have node: "fs_node s ?p = Some (Database f)" using asideD(4) [OF s(2)] assms(2) by (simp add: current_def)
  obtain x w where m: "run_state m ((h_world h)\<lparr>w_db := database_of f\<rparr>) = (x, w)" by fastforce
  let ?s1 = "with_file ?p (put_tables (w_db w) f) s"
  have "sqlite_ok S" using assms(1) by (simp add: sqlite_works_def)
  note side = sqlite_okD(2,3) [OF this]
  have "aside ?p (with_file ?p (put_tables (w_db w) f) (h_fs h)) (snd (sq_Close S ?p (sq_Side S ?p ?s1)))"
    by (rule aside_trans [OF aside_with_file [OF s(2)] aside_trans [OF side]])
  with s(1) node m show ?thesis by (auto simp: with_database_def file_at_def store_in_def)
qed

definition files_after :: "sqlite \<Rightarrow> string \<Rightarrow> (world, 'a) state \<Rightarrow> host \<Rightarrow> fs" where
  "files_after S dir m h = h_fs (snd (run_state (with_database S dir m) h))"

lemma with_database_runs:
  assumes "sqlite_works S" and "current dir (h_fs h) f"
  shows "run_state (with_database S dir m) h =
    (case run_state m ((h_world h)\<lparr>w_db := database_of f\<rparr>) of
       (x, w) \<Rightarrow> (Inr x, h\<lparr>h_fs := files_after S dir m h, h_world := w\<rparr>))"
  using run_with_database [OF assms, of m] by (auto simp: files_after_def split: prod.splits)

lemma store_in_same [simp]: "current dir s f \<Longrightarrow> store_in dir f (database_of f) s = s"
  by (cases s) (auto simp: store_in_def current_def put_same fun_upd_idem)

lemma current_store_in:
  assumes "current dir s f" and "db_ok d"
  shows "current dir (store_in dir f d s) (put_tables d f)"
  using assms file_ok_put [of f d] by (auto simp: current_def store_in_def)

lemma current_aside:
  assumes "current dir s f" and "aside (Join dir FileName) s s'"
  shows "current dir s' f"
  using assms(1) asideD(1,4) [OF assms(2)] asideD(5) [OF assms(2), of dir] by (simp add: current_def)

section \<open>The store methods only the verbs use\<close>

lemma account_where_email: "account_where ''email'' (SText e) = (\<lambda>r. ar_email r = e)"
  by (auto simp: account_where_def fun_eq_iff)

lemma email_selects:
  assumes "db_ok d" and "login_of d e = Some (a, h)" and "r \<in> set (accounts d)"
  shows "ar_email r = e \<longleftrightarrow> ar_id r = acc_ID a"
proof -
  from assms(2) obtain q where q: "q \<in> set (accounts d)" "ar_email q = e" "a = account_of_row q"
    by (auto simp: login_of_def dest: find_Some_mem)
  with assms(1,3) show ?thesis
    using distinct_map_unique [OF db_okD(3) [OF assms(1)] assms(3) q(1)]
      distinct_map_unique [OF acct_rows.rowids_ok_inj [OF db_okD(1) [OF assms(1)]] assms(3) q(1)]
    by (auto simp: account_of_row_def)
qed

lemma login_id_inj:
  assumes "db_ok d" and "login_of d e = Some (a, h)" and "login_of d e' = Some (b, k)" and "acc_ID b = acc_ID a"
  shows "e' = e"
proof -
  from assms(3) obtain r where "r \<in> set (accounts d)" "ar_email r = e'" "b = account_of_row r"
    by (auto simp: login_of_def dest: find_Some_mem)
  with email_selects [OF assms(1,2)] assms(4) show ?thesis by (auto simp: account_of_row_def)
qed

lemma run_UpdateAccountByEmail [simp]:
  assumes "quiet w" and "db_ok (w_db w)" and "\<not> account_update_empty u"
  shows "run_state (store_UpdateAccountByEmail e u) w =
    (case login_of (w_db w) e of None \<Rightarrow> (Inl ErrNotFound, w)
     | Some (a, _) \<Rightarrow> (Inr (), w\<lparr>w_db := update_account (acc_ID a) u (w_db w)\<rparr>))"
proof -
  obtain sets args where b: "buildAccountUpdate u = (sets, args)" by fastforce
  from build_sets_nonempty(1) [OF b] assms(3) have sets: "sets \<noteq> []" by simp
  let ?rows = "map (\<lambda>r. if ar_email r = e then update_columns set_account_column sets args r else r) (accounts (w_db w))"
  show ?thesis
  proof (cases "login_of (w_db w) e")
    case None
    then have no: "\<forall>r \<in> set (accounts (w_db w)). ar_email r \<noteq> e" by (auto simp: login_of_mem)
    then have "?rows = accounts (w_db w)" by (auto intro: map_idI)
    with no None assms sets show ?thesis
      by (simp add: store_UpdateAccountByEmail_def updateAccountWhere_def b sql_update_accounts_def Let_def
          account_where_email filter_empty_conv db_okD(2))
  next
    case (Some p)
    obtain a h where p: "p = (a, h)" by fastforce
    have rows: "?rows = accounts (update_account (acc_ID a) u (w_db w))"
      using email_selects [OF assms(2) Some [unfolded p]]
      by (auto simp: update_account_def buildAccountUpdate_row [OF b] merge_account_row_def)
    have "list_all accounts_check (accounts (update_account (acc_ID a) u (w_db w)))"
      using db_okD(2) [OF assms(2)]
      by (auto simp: update_account_def merge_account_row_def list_all_iff accounts_check_def split: option.split)
    moreover have "filter (\<lambda>r. ar_email r = e) (accounts (w_db w)) \<noteq> []"
      using Some login_of_mem [of "w_db w" e] by (auto simp: filter_empty_conv)
    moreover have "(w_db w)\<lparr>accounts := ?rows\<rparr> = update_account (acc_ID a) u (w_db w)"
      unfolding rows by (simp add: update_account_def)
    ultimately show ?thesis
      using assms Some p sets rows
      by (simp add: store_UpdateAccountByEmail_def updateAccountWhere_def b sql_update_accounts_def Let_def
          account_where_email)
  qed
qed

definition game_coded :: "database \<Rightarrow> string \<Rightarrow> Game option" where
  "game_coded d code = map_option scanGame (find (\<lambda>g. gr_code g = code) (games d))"

lemma run_GameByCode [simp]:
  assumes "quiet w" and "db_ok (w_db w)"
  shows "run_state (store_GameByCode code) w = (or_missing (game_coded (w_db w) code), w)"
  using assms by (auto simp: store_GameByCode_def filter_id_keys(4) game_coded_def split: option.split)

lemma game_coded_id:
  assumes "db_ok d" and "game_coded d code = Some g"
  shows "game_of d (game_ID g) = Some g" and "game_Code g = code"
proof -
  from assms(2) obtain q where q: "q \<in> set (games d)" "gr_code q = code" "g = scanGame q"
    by (auto simp: game_coded_def dest: find_Some_mem)
  with find_key [OF game_rows.rowids_ok_inj [OF db_okD(4) [OF assms(1)]] q(1)]
  show "game_of d (game_ID g) = Some g" "game_Code g = code"
    by (simp_all add: game_of_def scanGame_def)
qed

end
