(* ===== verification/CliTheorems.thy ===== *)
theory CliTheorems
  imports CliContract ServerProcess
begin

text \<open>
  The properties of the offline verbs: no verb damages a file, what creating and updating an
  account and adding a member do, and the way from an empty directory to the first login.
\<close>

section \<open>All verbs\<close>






section \<open>Accounts\<close>

lemma quiet_outcome:
  assumes "quiet w" and "run_state m w = (x, w')" and "obeys (=) m"
  shows "quiet w' \<and> w_db w' = w_db w"
proof -
  have "guar (=) w (snd (run_state m w))"
    using assms(3) unfolding obeys_def state_io_rel_def by blast
  with assms(1,2) show ?thesis by (simp add: guar_def quiet_def del: quiet_sched)
qed

text \<open>The secret an account gets: the one given, or a generated one, which is printed.\<close>

lemma createAccount_effect:
  assumes "sqlite_works S" and "current dir (h_fs h) f" and "quiet (h_world h)"
    and "run_state (createAccount L S dir email0 secret0 seed act adm) h = (err, h')"
  shows "case err of
      None \<Rightarrow> \<exists>email secret salt hash. email = ToLower (unicode_lower L) (TrimSpace email0) \<and> email \<noteq> [] \<and>
        8 \<le> length secret \<and> (if secret0 \<noteq> [] then secret = secret0 else ''generated secret: '' @ secret \<in> set (h_out h')) \<and>
        GenerateFromPassword L secret salt = Some hash \<and> login_of (database_of f) email = None \<and>
        stored_in dir f (add_account email adm act hash (database_of f)) (h_fs h) (h_fs h')
    | Some e \<Rightarrow> aside (Join dir FileName) (h_fs h) (h_fs h') \<and> h_out h' = h_out h"
proof (cases "ToLower (unicode_lower L) (TrimSpace email0) = []")
  case True
  with assms(4) show ?thesis by (auto simp: createAccount_def Let_def)
next
  case email: False
  let ?email = "ToLower (unicode_lower L) (TrimSpace email0)"
  let ?m = "if secret0 = [] then GenerateSecret seed else ret (Inr secret0) :: (world, go_error + string) state"
  obtain x w1 where 1: "run_state ?m (h_world h) = (x, w1)" by fastforce
  have "obeys (=) ?m" by (auto intro: unchanged.obeys_GenerateSecret unchanged.res_ret)
  from quiet_outcome [OF assms(3) 1 this] have q1: "quiet w1" by simp
  show ?thesis
  proof (cases x)
    case (Inl e)
    with email 1 assms(4) show ?thesis by (auto simp: createAccount_def Let_def)
  next
    case x: (Inr secret)
    obtain y w2 where 2: "run_state (HashSecret L secret) w1 = (y, w2)" by fastforce
    from quiet_outcome [OF q1 2] unchanged.obeys_HashSecret have q2: "quiet w2" by simp
    show ?thesis
    proof (cases y)
      case (Inl e)
      with email 1 x 2 assms(4) show ?thesis by (auto simp: createAccount_def Let_def)
    next
      case y: (Inr hash)
      with 2 have hash: "8 \<le> length secret" "\<exists>salt. GenerateFromPassword L secret salt = Some hash"
        by (auto simp: run_HashSecret MinSecretLength_def split: if_splits prod.splits option.splits)
      have given: "secret0 \<noteq> [] \<longrightarrow> secret = secret0" using 1 x by auto
      let ?d = "add_account ?email adm act hash (database_of f)"
      let ?w = "snd (run_state (store_CreateAccount ?email adm act hash) (w2\<lparr>w_db := database_of f\<rparr>))"
      from run_with_database [OF assms(1), of dir "h\<lparr>h_world := w2\<rparr>" f "store_CreateAccount ?email adm act hash"] assms(2)
      obtain s where s: "stored_in dir f (w_db ?w) (h_fs h) s"
        "run_state (with_database S dir (store_CreateAccount ?email adm act hash)) (h\<lparr>h_world := w2\<rparr>) =
          (case run_state (store_CreateAccount ?email adm act hash) (w2\<lparr>w_db := database_of f\<rparr>) of
             (x, w) \<Rightarrow> (Inr x, h\<lparr>h_fs := s, h_world := w\<rparr>))"
        by auto
      then have "err = Some (Failed ErrConflict) \<and> aside (Join dir FileName) (h_fs h) (h_fs h') \<and> h_out h' = h_out h \<or>
          err = None \<and> login_of (database_of f) ?email = None \<and>
          (secret0 = [] \<longrightarrow> ''generated secret: '' @ secret \<in> set (h_out h')) \<and> stored_in dir f ?d (h_fs h) (h_fs h')"
        using email 1 x 2 y assms(2,4) q2
        by (cases "login_of (database_of f) ?email") (auto simp: createAccount_def Let_def split: if_splits)
      with hash email given show ?thesis by (elim disjE) auto
    qed
  qed
qed

lemma exec_create_fresh:
  assumes "sqlite_works S" and "dir \<noteq> MemoryPath"
    and "fs_node (h_fs h) dir = Some Directory" and "fs_node (h_fs h) (Join dir FileName) = None"
    and "\<not> fs_denied (h_fs h) dir" and "\<not> fs_denied (h_fs h) (Join dir FileName)"
    and "run_state (exec Quote L S env False dbDir (DatabaseCreate [dir])) h = (e1, h1)"
  shows "e1 = None \<and> h_world h1 = h_world h \<and> (\<exists>f. current dir (h_fs h1) f \<and> database_of f = empty_db)"
proof -
  obtain s1 f where s1: "Create S dir (h_fs h) = (None, s1)"
    "aside (Join dir FileName) (with_file (Join dir FileName) f (h_fs h)) s1" "file_ok f" "f_app f = appID" "f_version f = 7"
    "database_of f = empty_db"
    using Create_fresh [OF assms(1-6)] by blast
  then have "e1 = None" "h_fs h1 = s1" "h_world h1 = h_world h"
    using assms(7) by (auto simp: databaseCreate_def)
  moreover have "current dir (with_file (Join dir FileName) f (h_fs h)) f"
    using s1 assms(3-6) by (auto simp: current_def)
  ultimately show ?thesis using s1(2,6) by (auto intro: current_aside)
qed

text \<open>C35. From an empty directory to the first login. With packages that work (SQLite, bcrypt),
  \<open>database create\<close> without --development succeeds in an accessible directory, not named :memory:,
  without a database. If \<open>database account create\<close>
  without --is-inactive then succeeds there in an undisturbed run, a server given a key of at
  least 32 bytes starts on that directory, and its database holds this one account: an
  undisturbed login with any spelling of its email and the secret given or printed is not
  refused, and a login with another email, or a secret that does not match, is.\<close>

theorem bootstrap_then_login:
  assumes "sqlite_works S" and "bcrypt_ok L" and "dir \<noteq> MemoryPath"
    and "fs_node (h_fs h) dir = Some Directory" and "fs_node (h_fs h) (Join dir FileName) = None"
    and "\<not> fs_denied (h_fs h) dir" and "\<not> fs_denied (h_fs h) (Join dir FileName)"
    and "run_state (exec Quote L S env False dbDir (DatabaseCreate [dir])) h = (e1, h1)"
    and "h_fs g = h_fs h1" and "quiet (h_world g)"
    and "run_state (exec Quote L S env1 dev1 dir (AccountCreate email secret seed False admin)) g = (None, h2)"
    and "32 \<le> length key"
    and "run_state (startServer S dummy env2 dir key dev2 (h_fs h2)) w = (r, w')"
  shows "e1 = None \<and> (\<exists>srv s used hash salt. r = (Inr (srv, Join dir FileName), s) \<and> ts_secret (srv_tokens srv) = key \<and>
    (if secret \<noteq> [] then used = secret else ''generated secret: '' @ used \<in> set (h_out h2)) \<and>
    GenerateFromPassword L used salt = Some hash \<and> CompareHashAndPassword L hash used \<and>
    (\<forall>w2 b. quiet w2 \<and> w_db w2 = database_of (file_at s (Join dir FileName)) \<longrightarrow>
       (fst (run_state (Login L srv (Some b)) w2) = Inr (loginUnauthorized ''invalid username or password'')) =
       (ToLower (unicode_lower L) (TrimSpace (lr_Username b)) \<noteq> ToLower (unicode_lower L) (TrimSpace email) \<or>
        \<not> CompareHashAndPassword L hash (lr_Password b))))"
proof -
  let ?p = "Join dir FileName" and ?email = "ToLower (unicode_lower L) (TrimSpace email)"
  from exec_create_fresh [OF assms(1,3-8)] assms(9) obtain f where e1: "e1 = None" and cur: "current dir (h_fs g) f"
    and f: "database_of f = empty_db" by auto
  have run: "run_state (createAccount L S dir email secret seed True admin) g = (None, h2)"
    using assms(11) by simp
  from createAccount_effect [OF assms(1) cur assms(10) run] obtain used salt hash where a: "if secret \<noteq> [] then used = secret else ''generated secret: '' @ used \<in> set (h_out h2)"
    "GenerateFromPassword L used salt = Some hash"
    "stored_in dir f (add_account ?email admin True hash (database_of f)) (h_fs g) (h_fs h2)" by auto
  let ?d = "add_account ?email admin True hash empty_db"
  have fresh: "login_of empty_db e = None" for e by (simp add: login_of_def empty_db_def)
  have ok: "db_ok ?d" using current_db_ok [OF cur] f fresh by simp
  have "current dir (store_in dir f ?d (h_fs g)) (put_tables ?d f)" using current_store_in [OF cur ok] .
  with a(3) f have cur2: "current dir (h_fs h2) (put_tables ?d f)" by (auto intro: current_aside)
  then obtain s where s: "Open S dir (h_fs h2) = (Inr ?p, s)" "aside ?p (h_fs h2) s"
    using Open_current [OF assms(1), of "h_fs h2" dir "put_tables ?d f"] by (auto simp: current_def)
  from current_aside [OF cur2 s(2)] have node: "fs_node s ?p = Some (Database (put_tables ?d f))" by (simp add: current_def)
  have "f_version f = 7" using cur by (simp add: current_def)
  with node have stored: "database_of (file_at s ?p) = ?d"
    by (simp add: file_at_def database_of_put add_account_def empty_db_def)
  from s(1) obtain srv where r: "r = (Inr (srv, ?p), s)" "ts_secret (srv_tokens srv) = key"
    using assms(12,13) by (cases "key = []") (auto simp: startServer_def resolveJWTSecret_def NewServer_def WithShutdown_def Let_def)
  have "(fst (run_state (Login L srv (Some b)) w2) = Inr (loginUnauthorized ''invalid username or password'')) =
       (ToLower (unicode_lower L) (TrimSpace (lr_Username b)) \<noteq> ?email \<or> \<not> CompareHashAndPassword L hash (lr_Password b))"
    if "quiet w2" "w_db w2 = ?d" for w2 b
    using Login_effect [OF that(1) _ prod.collapse [symmetric], of L srv b] that(2) ok fresh
    by (auto simp: login_email_def loginUnauthorized_def split: if_splits)
  moreover have "CompareHashAndPassword L hash used" using assms(2) a(2) by (auto simp: bcrypt_ok_def)
  ultimately show ?thesis
    using e1 r a(1,2) stored
    by (intro conjI exI [of _ srv] exI [of _ s] exI [of _ used] exI [of _ hash] exI [of _ salt]) auto
qed

section \<open>Updating an account\<close>

lemma new_secret_hash_result:
  assumes "quiet w" and "run_state (new_secret_hash L secret generate seed) w = (x, w')"
  shows "quiet w' \<and> (\<forall>new gen. x = Inr (new, gen) \<longrightarrow>
    (new = None \<longleftrightarrow> secret = None \<and> \<not> generate) \<and>
    (\<forall>hash. new = Some hash \<longrightarrow> (\<exists>used salt. GenerateFromPassword L used salt = Some hash \<and> 8 \<le> length used \<and>
       (case secret of Some s \<Rightarrow> used = s \<and> gen = [] | None \<Rightarrow> used = gen))))"
proof -
  have "obeys (=) (new_secret_hash L secret generate seed)"
    unfolding new_secret_hash_def
    by (intro unchanged.res_option unchanged.res_bind unchanged.res_ret unchanged.res_if unchanged.res_sum
        unchanged.obeys_HashSecret unchanged.obeys_GenerateSecret)
  from quiet_outcome [OF assms this] have "quiet w'" by simp
  moreover have hashed: "8 \<le> length p \<and> (\<exists>salt. GenerateFromPassword L p salt = Some hash)"
    if "run_state (HashSecret L p) v = (Inr hash, v')" for p v hash v'
    using that by (auto simp: run_HashSecret MinSecretLength_def split: if_splits prod.splits option.splits)
  ultimately show ?thesis
    using assms(2) by (auto simp: new_secret_hash_def split: option.splits if_splits prod.splits sum.splits dest!: hashed)
qed

text \<open>C36. Updating an account offline. On a database file at the current version, with packages that
  work and in an undisturbed run, \<open>database account update\<close> and \<open>reset-password\<close> either change
  nothing and print nothing, or change exactly the account with the given email: the flags
  that were given, and the secret if one was given or asked for, which is at least eight bytes
  long and printed when it was generated. Every other account, every game and roster stays as it
  is, and so does every refresh token: the sessions of the account survive a new password. (SQLite's
  side files of the database may come and go; a file at an older version is migrated first,
  which is not part of this claim.)\<close>

theorem cli_account_update:
  assumes "sqlite_works S" and "current dir (h_fs h) f" and "quiet (h_world h)" and "d = database_of f"
    and "run_state (updateAccount L S dir email0 isActive isAdmin secret generate seed) h = (err, h')"
    and "email = ToLower (unicode_lower L) (TrimSpace email0)"
  shows "case err of
      Some e \<Rightarrow> aside (Join dir FileName) (h_fs h) (h_fs h') \<and> h_out h' = h_out h \<and> (\<forall>m. e = NoAccount m \<longrightarrow> m = email \<and> login_of d email = None)
    | None \<Rightarrow> \<exists>a old upd d'. login_of d email = Some (a, old) \<and>
        stored_in dir f d' (h_fs h) (h_fs h') \<and> games d' = games d \<and> game_account_role d' = game_account_role d \<and>
        refresh_tokens d' = refresh_tokens d \<and>
        (\<forall>e. e \<noteq> email \<longrightarrow> login_of d' e = login_of d e) \<and>
        login_of d' email = Some (merge_account upd a, case au_HashedSecret upd of None \<Rightarrow> old | Some new \<Rightarrow> new) \<and>
        au_IsAdmin upd = isAdmin \<and> au_IsActive upd = isActive \<and>
        (au_HashedSecret upd = None \<longleftrightarrow> secret = None \<and> \<not> generate) \<and>
        (\<forall>hash. au_HashedSecret upd = Some hash \<longrightarrow> (\<exists>used salt. GenerateFromPassword L used salt = Some hash \<and>
           8 \<le> length used \<and> (case secret of Some s \<Rightarrow> used = s | None \<Rightarrow> ''  generated secret: '' @ used \<in> set (h_out h'))))"
proof -
  let ?email = "ToLower (unicode_lower L) (TrimSpace email0)"
  have d: "db_ok d" using current_db_ok [OF assms(2)] assms(4) by simp
  obtain x w1 where 1: "run_state (new_secret_hash L secret generate seed) (h_world h) = (x, w1)" by fastforce
  note hash = new_secret_hash_result [OF assms(3) 1]
  show ?thesis
  proof (cases "email \<noteq> [] \<and> \<not> (secret \<noteq> None \<and> generate) \<and>
      (\<exists>new gen. x = Inr (new, gen) \<and> \<not> (isAdmin = None \<and> isActive = None \<and> new = None))")
    case False
    with assms(5,6) 1 show ?thesis
      by (auto simp: updateAccount_def Let_def split: if_splits sum.splits prod.splits)
  next
    case True
    then obtain new gen where x: "x = Inr (new, gen)" "\<not> (isAdmin = None \<and> isActive = None \<and> new = None)" by blast
    let ?upd = "\<lparr>au_IsAdmin = isAdmin, au_IsActive = isActive, au_HashedSecret = new\<rparr>"
    let ?m = "store_UpdateAccountByEmail email ?upd"
    from run_with_database [OF assms(1), of dir "h\<lparr>h_world := w1\<rparr>" f ?m] assms(2,4)
    obtain s where s: "stored_in dir f (w_db (snd (run_state ?m (w1\<lparr>w_db := d\<rparr>)))) (h_fs h) s"
      "run_state (with_database S dir ?m) (h\<lparr>h_world := w1\<rparr>) =
        (case run_state ?m (w1\<lparr>w_db := d\<rparr>) of (x, w) \<Rightarrow> (Inr x, h\<lparr>h_fs := s, h_world := w\<rparr>))"
      by auto
    have m: "run_state ?m (w1\<lparr>w_db := d\<rparr>) = (case login_of d email of None \<Rightarrow> (Inl ErrNotFound, w1\<lparr>w_db := d\<rparr>)
        | Some (a, _) \<Rightarrow> (Inr (), w1\<lparr>w_db := update_account (acc_ID a) ?upd d\<rparr>))"
      using hash x(2) d by (auto simp: account_update_empty_def split: option.split)
    note run = s [unfolded m]
    show ?thesis
    proof (cases "login_of d email")
      case None
      with run True 1 x assms(2,4-6) show ?thesis by (auto simp: updateAccount_def Let_def)
    next
      case (Some p)
      obtain a old where p: "p = (a, old)" by fastforce
      let ?d = "update_account (acc_ID a) ?upd d"
      have "err = None \<and> stored_in dir f ?d (h_fs h) (h_fs h') \<and>
          (gen \<noteq> [] \<longrightarrow> ''  generated secret: '' @ gen \<in> set (h_out h'))"
        using run True 1 x assms(5,6) Some p by (auto simp: updateAccount_def Let_def split: option.splits if_splits)
      moreover have "login_of ?d e = login_of d e" if "e \<noteq> email" for e
        using login_id_inj [OF d Some [unfolded p], of e] that by (cases "login_of d e") auto
      moreover have "login_of ?d email = Some (merge_account ?upd a, case new of None \<Rightarrow> old | Some s \<Rightarrow> s)"
        using Some p by simp
      moreover have "\<exists>used salt. GenerateFromPassword L used salt = Some s \<and> 8 \<le> length used \<and>
          (case secret of Some s \<Rightarrow> used = s | None \<Rightarrow> ''  generated secret: '' @ used \<in> set (h_out h'))"
        if "new = Some s" for s
        using hash x(1) that calculation(1) by (cases secret) fastforce+
      ultimately show ?thesis
        using Some p hash x(1) by (auto intro!: exI [of _ ?upd] exI [of _ ?d])
    qed
  qed
qed

section \<open>Adding a member\<close>

lemma run_add_to_game:
  assumes "quiet w" and "db_ok (w_db w)" and "hdl = [] \<or> ValidHandle hdl"
  shows "run_state (add_to_game code email hdl gm) w =
    (case game_coded (w_db w) code of None \<Rightarrow> (Inl (NoGame code), w) | Some g \<Rightarrow>
     (case login_of (w_db w) email of None \<Rightarrow> (Inl (NoAccount email), w) | Some (a, _) \<Rightarrow>
       let h' = default_handle (w_db w) (game_ID g) hdl in
       if member_of (w_db w) (game_ID g) (acc_ID a) \<noteq> None then (Inl (AlreadyMember email code), w)
       else if handle_used (w_db w) (game_ID g) h' then (Inl (HandleInUse hdl code), w)
       else (Inr (g, a, new_member (acc_ID a) h' gm), w\<lparr>w_db := add_member (game_ID g) (acc_ID a) h' gm (w_db w)\<rparr>)))"
proof (cases "game_coded (w_db w) code")
  case None
  with assms show ?thesis by (simp add: add_to_game_def)
next
  case g: (Some g)
  show ?thesis
  proof (cases "login_of (w_db w) email")
    case None
    with g assms show ?thesis by (simp add: add_to_game_def)
  next
    case (Some p)
    obtain a k where p: "p = (a, k)" by fastforce
    from Some p obtain r where "r \<in> set (accounts (w_db w))" "a = account_of_row r"
      by (auto simp: login_of_def dest: find_Some_mem)
    then have acct: "account_of (w_db w) (acc_ID a) \<noteq> None"
      unfolding account_of_mem by (auto simp: account_of_row_def)
    from game_coded_id(1) [OF assms(2) g] have "game_of (w_db w) (game_ID g) \<noteq> None" by simp
    from run_AddMember [OF assms(1) this default_handle_check [OF assms(3)], of "acc_ID a" gm] g Some p assms acct
    show ?thesis by (auto simp: add_to_game_def Let_def)
  qed
qed

text \<open>C37. Adding a member offline. On a database file at the current version, with packages that work
  and in an undisturbed run, \<open>database game add-member\<close> succeeds exactly when its arguments are
  well-formed, the game and the account exist, the account is no member yet and the handle, or
  player_N for the N-th member when none is given, is free in the game; it then adds exactly that
  one active member, whatever the game's status. Every failure leaves the file as it is and names
  its cause. (SQLite's side files of the database may come and go; a file at an older version is
  migrated first, which is not part of this claim.)\<close>

theorem cli_add_member:
  assumes "sqlite_works S" and "current dir (h_fs h) f" and "quiet (h_world h)" and "d = database_of f"
    and "run_state (addMember L S dir code0 email0 handle0 gm) h = (err, h')"
    and "code = TrimSpace code0" and "email = ToLower (unicode_lower L) (TrimSpace email0)" and "hdl = TrimSpace handle0"
  shows "case err of
      None \<Rightarrow> \<exists>g a secret h1. game_coded d code = Some g \<and> game_of d (game_ID g) = Some g \<and>
        login_of d email = Some (a, secret) \<and> member_of d (game_ID g) (acc_ID a) = None \<and>
        h1 = (if hdl = [] then ''player_'' @ FormatInt (int (count_members d (game_ID g)) + 1) else hdl) \<and>
        ValidHandle h1 \<and> \<not> handle_used d (game_ID g) h1 \<and>
        stored_in dir f (add_member (game_ID g) (acc_ID a) h1 gm d) (h_fs h) (h_fs h')
    | Some e \<Rightarrow> aside (Join dir FileName) (h_fs h) (h_fs h') \<and> h_out h' = h_out h \<and>
        (case e of
           Usage m \<Rightarrow> \<not> ValidCode code \<or> email = [] \<or> (hdl \<noteq> [] \<and> \<not> ValidHandle hdl)
         | NoGame m \<Rightarrow> game_coded d code = None
         | NoAccount m \<Rightarrow> login_of d email = None
         | AlreadyMember m n \<Rightarrow> \<exists>g a k. game_coded d code = Some g \<and> login_of d email = Some (a, k) \<and>
             member_of d (game_ID g) (acc_ID a) \<noteq> None
         | HandleInUse m n \<Rightarrow> \<exists>g. game_coded d code = Some g \<and> handle_used d (game_ID g) (default_handle d (game_ID g) hdl)
         | _ \<Rightarrow> False)"
proof (cases "ValidCode code \<and> email \<noteq> [] \<and> (hdl = [] \<or> ValidHandle hdl)")
  case False
  with assms(5-8) show ?thesis by (auto simp: addMember_def Let_def split: if_splits)
next
  case True
  have d: "db_ok d" using current_db_ok [OF assms(2)] assms(4) by simp
  obtain x w where x: "run_state (add_to_game code email hdl gm) ((h_world h)\<lparr>w_db := d\<rparr>) = (x, w)" by fastforce
  from run_with_database [OF assms(1,2), of "add_to_game code email hdl gm"] x assms(4)
  obtain s where run: "stored_in dir f (w_db w) (h_fs h) s"
    "run_state (with_database S dir (add_to_game code email hdl gm)) h = (Inr x, h\<lparr>h_fs := s, h_world := w\<rparr>)"
    by auto
  have valid: "ValidHandle (default_handle d g hdl)" for g
    using True by (intro default_handle_valid) simp
  show ?thesis
    using run True assms(2-8) valid d game_coded_id(1) [OF d, of code]
      x [unfolded run_add_to_game [of "(h_world h)\<lparr>w_db := d\<rparr>" hdl code email gm, simplified, OF assms(3) d conjunct2 [OF conjunct2 [OF True]]]]
    by (auto simp: addMember_def Let_def default_handle_def split: option.splits if_splits)
qed

section \<open>Sample runs\<close>

definition quote :: "string \<Rightarrow> string" where
  "quote s = quoted s"

definition fresh_host :: host where
  "fresh_host = \<lparr>h_fs = empty_disk, h_world = sample_world empty_db, h_env = Map.empty, h_out = []\<rparr>"

definition created_host :: host where
  "created_host = snd (run_state (exec quote sample_libs sample_sqlite ''development'' False ''.'' (DatabaseCreate [''/srv/''])) fresh_host)"

definition boss :: command where
  "boss = AccountCreate ''Boss@X'' ''long enough'' None False True"

lemma lower_plain: "plain_text s \<Longrightarrow> ToLower uni (TrimSpace s) = map lower_byte s"
  by (simp add: TrimSpace_plain ToLower_def) (auto simp: plain_text_def is_ascii_def list_all_iff)

lemma boss_email: "ToLower (unicode_lower sample_libs) (TrimSpace ''Boss@X'') = ''boss@x''"
proof -
  have "map lower_byte ''Boss@X'' = ''boss@x''" by code_simp
  then show ?thesis by (simp add: lower_plain plain_text_def)
qed

lemma fresh_disk: "''/srv/'' \<noteq> MemoryPath" "fs_node (h_fs fresh_host) ''/srv/'' = Some Directory"
  "fs_node (h_fs fresh_host) (Join ''/srv/'' FileName) = None" "\<not> fs_denied (h_fs fresh_host) ''/srv/''"
  "\<not> fs_denied (h_fs fresh_host) (Join ''/srv/'' FileName)"
  by (simp_all add: fresh_host_def empty_disk_def MemoryPath_def sample_path)

lemma sample_hash: "8 \<le> length p \<Longrightarrow> length p \<le> 72 \<Longrightarrow> w_entropy w = Some salt # es \<Longrightarrow>
    run_state (HashSecret sample_libs p) w = (Inr p, w\<lparr>w_entropy := es\<rparr>)"
  by (simp add: HashSecret_def rand_Read_def MinSecretLength_def sample_libs_def table_libs_def)

lemma created_current: "h_world created_host = sample_world empty_db"
  "\<exists>f. current ''/srv/'' (h_fs created_host) f \<and> database_of f = empty_db"
  using exec_create_fresh [OF sample_sqlite_works fresh_disk prod.collapse [symmetric]]
  unfolding created_host_def by (auto simp: fresh_host_def)

lemma sample_boss: "fst (run_state (exec quote sample_libs sample_sqlite ''production'' False ''/srv/'' boss) created_host) = None"
proof -
  obtain f where f: "current ''/srv/'' (h_fs created_host) f" "database_of f = empty_db"
    using created_current(2) by blast
  have "w_entropy (h_world created_host) = Some ''AAAAAAAAAAAAAAAA'' # tl (w_entropy (sample_world empty_db))"
    using created_current(1) by (simp add: sample_world_def)
  moreover have "login_of empty_db e = None" for e by (simp add: login_of_def empty_db_def)
  moreover have "quiet (h_world created_host)" using created_current(1) by simp
  ultimately show ?thesis
    by (simp add: boss_def createAccount_def Let_def boss_email sample_hash with_database_runs [OF sample_sqlite_works, of "''/srv/''" _ f] f)
qed

definition boss_host :: host where
  "boss_host = snd (run_state (exec quote sample_libs sample_sqlite ''production'' False ''/srv/'' boss) created_host)"

theorem bootstrap_then_login_witness:
  "\<exists>srv. fst (fst (run_state (startServer sample_sqlite ''dummy'' ''production'' ''/srv/'' (replicate 32 (CHR ''k'')) False
       (h_fs boss_host)) (sample_world empty_db))) = Inr (srv, ''/srv/ecv4.db'')"
proof -
  let ?key = "replicate 32 (CHR ''k'')"
  obtain r w' where start: "run_state (startServer sample_sqlite ''dummy'' ''production'' ''/srv/'' ?key False
       (h_fs boss_host)) (sample_world empty_db) = (r, w')" by fastforce
  have created: "run_state (exec quote sample_libs sample_sqlite ''development'' False ''.'' (DatabaseCreate [''/srv/''])) fresh_host =
      (fst (run_state (exec quote sample_libs sample_sqlite ''development'' False ''.'' (DatabaseCreate [''/srv/''])) fresh_host), created_host)"
    by (simp add: created_host_def)
  have booted: "run_state (exec quote sample_libs sample_sqlite ''production'' False ''/srv/''
      (AccountCreate ''Boss@X'' ''long enough'' None False True)) created_host = (None, boss_host)"
    using result_pair [OF sample_boss] by (simp add: boss_host_def boss_def del: exec.simps)
  have "quiet (h_world created_host)" "32 \<le> length ?key" using created_current(1) by simp_all
  from bootstrap_then_login [OF sample_sqlite_works sample_libs_ok(2) fresh_disk created refl this(1) booted this(2) start]
  obtain srv s where "r = (Inr (srv, Join ''/srv/'' FileName), s)" by blast
  then show ?thesis using start by (simp add: sample_path)
qed

definition current_file :: db_file where
  "current_file = put_tables sample_db \<lparr>f_app = appID, f_version = 7, f_tables = no_tables\<lparr>tb_meta := True\<rparr>\<rparr>"

definition live_host :: host where
  "live_host = \<lparr>h_fs = \<lparr>fs_node = [''data'' \<mapsto> Directory, ''data/ecv4.db'' \<mapsto> Database current_file], fs_denied = (\<lambda>_. False),
     fs_shared = (\<lambda>_. False)\<rparr>, h_world = sample_world empty_db, h_env = Map.empty, h_out = []\<rparr>"

lemma sample_current: "current ''data'' (h_fs live_host) current_file" "database_of current_file = sample_db"
  "quiet (h_world live_host)"
  by code_simp+



definition reset_root :: "(host, cli_error option) state" where
  "reset_root = updateAccount sample_libs sample_sqlite ''data'' ''ROOT@x'' None (Some False) (Some ''new secret'') False None"

lemma reset_email: "''root@x'' = ToLower (unicode_lower sample_libs) (TrimSpace ''ROOT@x'')"
proof -
  have "map lower_byte ''ROOT@x'' = ''root@x''" by code_simp
  then show ?thesis by (simp add: lower_plain plain_text_def)
qed

lemma root_login: "login_of sample_db ''root@x'' = Some (sample_account 1 ''root@x'' True, ''adminpass'')"
  by code_simp

lemma sample_reset: "fst (run_state reset_root live_host) = None"
proof -
  have "w_entropy (h_world live_host) = Some ''AAAAAAAAAAAAAAAA'' # tl (w_entropy (sample_world empty_db))"
    by (simp add: live_host_def sample_world_def)
  then show ?thesis
    using sample_current(3)
    by (simp add: reset_root_def updateAccount_def Let_def new_secret_hash_def reset_email [symmetric] sample_hash
        with_database_runs [OF sample_sqlite_works, of "''data''" _ current_file] sample_current(1,2) account_update_empty_def root_login)
qed

theorem cli_account_update_witness:
  "\<exists>a d. stored_in ''data'' current_file d (h_fs live_host) (h_fs (snd (run_state reset_root live_host))) \<and>
     login_of d ''root@x'' = Some (a, ''new secret'') \<and> \<not> acc_IsAdmin a"
proof -
  have hash: "GenerateFromPassword sample_libs s salt = Some h \<Longrightarrow> h = s" for s salt h
    by (auto simp: sample_libs_def table_libs_def split: if_splits)
  from cli_account_update [OF sample_sqlite_works sample_current(1,3) sample_current(2) [symmetric] result_pair [OF sample_reset [unfolded reset_root_def]] reset_email,
      folded reset_root_def]
  obtain a d where "stored_in ''data'' current_file d (h_fs live_host) (h_fs (snd (run_state reset_root live_host)))"
    "login_of d ''root@x'' = Some (a\<lparr>acc_IsAdmin := False\<rparr>, ''new secret'')"
    by (auto simp: merge_account_def dest!: hash)
  then show ?thesis by (intro exI [of _ "a\<lparr>acc_IsAdmin := False\<rparr>"] exI [of _ d]) simp
qed

definition seat_root :: "(host, cli_error option) state" where
  "seat_root = addMember sample_libs sample_sqlite ''data'' ''ALPHA'' ''root@x'' [] True"

lemma seat_code: "''ALPHA'' = TrimSpace ''ALPHA''"
  by (simp add: TrimSpace_plain plain_text_def)

lemma seat_handle: "[] = TrimSpace []"
  by (simp add: TrimSpace_plain plain_text_def)

lemma seat_game: "game_coded sample_db ''ALPHA'' = Some sample_game"
  by code_simp

lemma seat_third: "default_handle sample_db 1 [] = ''player_3''" "\<not> handle_used sample_db 1 ''player_3''"
  by code_simp+

lemma seat_email: "''root@x'' = ToLower (unicode_lower sample_libs) (TrimSpace ''root@x'')"
proof -
  have "map lower_byte ''root@x'' = ''root@x''" by code_simp
  then show ?thesis by (simp add: lower_plain plain_text_def)
qed

lemma sample_seat: "fst (run_state seat_root live_host) = None"
proof -
  have "ValidCode ''ALPHA''" by (simp add: ValidCode_iff upper_letter_def)
  moreover have "quiet ((h_world live_host)\<lparr>w_db := sample_db\<rparr>)" using sample_current(3) by simp
  ultimately show ?thesis
    using seat_third sample_current(1,2)
    by (simp add: seat_root_def addMember_def Let_def seat_code [symmetric] seat_handle [symmetric] root_login seat_email [symmetric]
        with_database_runs [OF sample_sqlite_works sample_current(1)] run_add_to_game seat_game sample_game_def sample_account_def)
qed

theorem cli_add_member_witness:
  "\<exists>d. stored_in ''data'' current_file d (h_fs live_host) (h_fs (snd (run_state seat_root live_host))) \<and>
     member_of d 1 1 = Some (new_member 1 ''player_3'' True)"
proof -
  from cli_add_member [OF sample_sqlite_works sample_current(1,3) sample_current(2) [symmetric]
      result_pair [OF sample_seat [unfolded seat_root_def]] seat_code seat_email seat_handle, folded seat_root_def]
  have "stored_in ''data'' current_file (add_member 1 1 (default_handle sample_db 1 []) True sample_db) (h_fs live_host)
      (h_fs (snd (run_state seat_root live_host)))"
    using seat_game root_login by (simp add: default_handle_def sample_game_def sample_account_def)
  then show ?thesis by (intro exI conjI) (assumption, simp add: seat_third)
qed

end
