(* ===== verification/Earl.thy ===== *)
theory Earl
  imports Dotenv
begin

text \<open>
  cmd/earl/main.go, the command line client: one HTTP request with the bearer token of a tokens
  file, and the re-authentication and the single retry after a 401. It runs on a machine: files,
  standard input and output, and a network whose state \<open>'n\<close> is left open, so that a server can be
  put behind it. The packages net/http, net/url and encoding/json are the parameters of
  \<open>earl_libs\<close>; an error is its text. The parsing of flags is third-party: its result is a \<open>client\<close>,
  a method and the remaining arguments.
\<close>

section \<open>Strings\<close>

definition TrimLeft :: "string \<Rightarrow> char set \<Rightarrow> string" where
  "TrimLeft s cutset = dropWhile (\<lambda>c. c \<in> cutset) s"

definition TrimRight :: "string \<Rightarrow> char set \<Rightarrow> string" where
  "TrimRight s cutset = rev (TrimLeft (rev s) cutset)"

definition upper :: "char \<Rightarrow> char" where
  "upper c = (if 97 \<le> ord c \<and> ord c \<le> 122 then byte (ord c - 32) else c)"

section \<open>The machine\<close>

text \<open>
  A regular file has its bytes, its permission bits and the error texts of an open for reading
  and for writing, if they fail; \<open>Special\<close> is anything else a path can name, with what reading it
  and writing it give. \<open>m_create\<close> is the error of creating a file at a path. \<open>m_quota\<close> limits what
  the device takes: with \<open>Some (n, e)\<close> a longer write stops after \<open>n\<close> bytes with the error \<open>e\<close>.
\<close>

record earl_file =
  fl_Content :: string
  fl_Mode :: nat
  fl_ReadError :: "string option"
  fl_WriteError :: "string option"

datatype node = File earl_file | Special "string + string" "string option"

record http_call =
  call_Method :: string
  call_URL :: string
  call_Header :: "(string \<times> string) list"
  call_Body :: "string option"

record 'n machine =
  m_files :: "string \<rightharpoonup> node"
  m_create :: "string \<Rightarrow> string option"
  m_quota :: "(nat \<times> string) option"
  m_stdin :: "string + string"
  m_stdout :: "string list"
  m_stderr :: "string list"
  m_calls :: "http_call list"
  m_net :: 'n

text \<open>
  A reply as far as the client reads it: the status code, the status line without the protocol,
  and the body or the error of reading it. \<open>m_calls\<close> lists the calls of \<open>http.Client.Do\<close> so far; no
  code reads it. A call is one step of the network, with the reply that \<open>Do\<close> returns in the end:
  the default client follows redirects within it, so a server that redirects can see, or send to
  other hosts, more requests than there are calls.
\<close>

record reply =
  rp_StatusCode :: nat
  rp_Status :: string
  rp_Body :: "string + string"

text \<open>The tokens file.\<close>

record authn =
  an_AccessToken :: string
  an_ExpiresInSeconds :: int
  an_RefreshToken :: string
  an_TokenType :: string

definition no_authn :: authn where
  "no_authn = \<lparr>an_AccessToken = [], an_ExpiresInSeconds = 0, an_RefreshToken = [], an_TokenType = []\<rparr>"

text \<open>
  \<open>request_error\<close> is the error of \<open>http.NewRequestWithContext\<close> for a method and an URL. The
  encoders have no error: \<open>json.Marshal\<close> has none for structs and maps of strings and integers.
\<close>

record 'n earl_libs =
  request_error :: "string \<Rightarrow> string \<Rightarrow> string option"
  http_Do :: "http_call \<Rightarrow> ('n, string + reply) state"
  json_MarshalIndent :: "authn \<Rightarrow> string"
  json_Unmarshal :: "string \<Rightarrow> string + authn"
  json_Marshal :: "(string \<times> string) list \<Rightarrow> string"
  json_Indent :: "string \<Rightarrow> string option"

record client =
  c_baseURL :: string
  c_authnPath :: string
  c_email :: string
  c_secret :: string

datatype read_result = NotExist | ReadError string | ReadOk string

definition os_ReadFile :: "string \<Rightarrow> ('n machine, read_result) state" where
  "os_ReadFile path = State (\<lambda>m. (case m_files m path of
       None \<Rightarrow> NotExist
     | Some (File f) \<Rightarrow> (case fl_ReadError f of Some e \<Rightarrow> ReadError e | None \<Rightarrow> ReadOk (fl_Content f))
     | Some (Special (Inl e) w) \<Rightarrow> ReadError e
     | Some (Special (Inr d) w) \<Rightarrow> ReadOk d, m))"

text \<open>
  \<open>os.WriteFile\<close> opens with truncation and then writes; only a file it creates gets \<open>perm\<close>.
\<close>

definition written :: "(nat \<times> string) option \<Rightarrow> string \<Rightarrow> string option \<times> string" where
  "written quota data = (case quota of
       None \<Rightarrow> (None, data)
     | Some (n, e) \<Rightarrow> if length data \<le> n then (None, data) else (Some e, take n data))"

definition os_WriteFile :: "string \<Rightarrow> string \<Rightarrow> nat \<Rightarrow> ('n machine, string option) state" where
  "os_WriteFile path data perm = State (\<lambda>m. case written (m_quota m) data of (err, content) \<Rightarrow>
     (case m_files m path of
        None \<Rightarrow>
          (case m_create m path of
             Some e \<Rightarrow> (Some e, m)
           | None \<Rightarrow> (err, m\<lparr>m_files := (m_files m)(path \<mapsto>
               File \<lparr>fl_Content = content, fl_Mode = perm, fl_ReadError = None, fl_WriteError = None\<rparr>)\<rparr>))
      | Some (File f) \<Rightarrow>
          (case fl_WriteError f of
             Some e \<Rightarrow> (Some e, m)
           | None \<Rightarrow> (err, m\<lparr>m_files := (m_files m)(path \<mapsto> File (f\<lparr>fl_Content := content\<rparr>))\<rparr>))
      | Some (Special r w) \<Rightarrow> (w, m)))"

definition print_out :: "string \<Rightarrow> ('n machine, unit) state" where
  "print_out line = State (\<lambda>m. ((), m\<lparr>m_stdout := m_stdout m @ [line]\<rparr>))"

definition print_err :: "string \<Rightarrow> ('n machine, unit) state" where
  "print_err line = State (\<lambda>m. ((), m\<lparr>m_stderr := m_stderr m @ [line]\<rparr>))"

definition Do :: "'n earl_libs \<Rightarrow> http_call \<Rightarrow> ('n machine, string + reply) state" where
  "Do E call = State (\<lambda>m. case run_state (http_Do E call) (m_net m) of (r, n) \<Rightarrow>
     (r, m\<lparr>m_calls := m_calls m @ [call], m_net := n\<rparr>))"

section \<open>Requests\<close>

text \<open>Building a request, sending it and reading the whole body; \<open>what\<close> names it in the errors.\<close>

definition send :: "'n earl_libs \<Rightarrow> string \<Rightarrow> string \<Rightarrow> string option \<Rightarrow> string \<Rightarrow>
    ('n machine, string + (nat \<times> string \<times> string)) state" where
  "send E method url body token = (case request_error E method url of
     Some e \<Rightarrow> ret (Inl (''build request: '' @ e))
   | None \<Rightarrow> do {
       resp \<leftarrow> Do E \<lparr>call_Method = method, call_URL = url,
         call_Header = (if token \<noteq> [] then [(''Authorization'', ''Bearer '' @ token)] else []) @
           [(''Accept'', ''application/json'')] @
           (if body \<noteq> None then [(''Content-Type'', ''application/json'')] else []),
         call_Body = body\<rparr>;
       ret (case resp of
         Inl e \<Rightarrow> Inl (method @ '' '' @ url @ '': '' @ e)
       | Inr r \<Rightarrow> (case rp_Body r of
             Inl e \<Rightarrow> Inl (''read response body: '' @ e)
           | Inr b \<Rightarrow> Inr (rp_StatusCode r, rp_Status r, b)))
     })"

definition authPost :: "'n earl_libs \<Rightarrow> client \<Rightarrow> string \<Rightarrow> (string \<times> string) list \<Rightarrow>
    ('n machine, string + authn) state" where
  "authPost E c path reqBody =
     (let payload = json_Marshal E reqBody; url = TrimRight (c_baseURL c) {CHR ''/''} @ path in
      case request_error E ''POST'' url of
        Some e \<Rightarrow> ret (Inl (''build '' @ path @ '' request: '' @ e))
      | None \<Rightarrow> do {
          resp \<leftarrow> Do E \<lparr>call_Method = ''POST'', call_URL = url,
            call_Header = [(''Content-Type'', ''application/json''), (''Accept'', ''application/json'')],
            call_Body = Some payload\<rparr>;
          ret (case resp of
            Inl e \<Rightarrow> Inl (''POST '' @ url @ '': '' @ e)
          | Inr r \<Rightarrow> (case rp_Body r of
              Inl e \<Rightarrow> Inl (''read '' @ path @ '' response: '' @ e)
            | Inr respBody \<Rightarrow>
                if rp_StatusCode r \<noteq> 200
                then Inl (path @ '' returned '' @ rp_Status r @ '': '' @ TrimSpace respBody)
                else case json_Unmarshal E respBody of
                  Inl e \<Rightarrow> Inl (''decode '' @ path @ '' response: '' @ e)
                | Inr tokens \<Rightarrow>
                    if an_AccessToken tokens = [] then Inl (path @ '' response had no accessToken'')
                    else Inr tokens))
        })"

section \<open>The tokens file\<close>

text \<open>The flag tells whether there is a token.\<close>

definition loadAuthn :: "'n earl_libs \<Rightarrow> string \<Rightarrow> ('n machine, string + (authn \<times> bool)) state" where
  "loadAuthn E authnPath =
     (if TrimSpace authnPath = [] then ret (Inr (no_authn, False))
      else do {
        r \<leftarrow> os_ReadFile authnPath;
        ret (case r of
          NotExist \<Rightarrow> Inr (no_authn, False)
        | ReadError e \<Rightarrow> Inl (''read authn file: '' @ e)
        | ReadOk data \<Rightarrow> (case json_Unmarshal E data of
            Inl e \<Rightarrow> Inl (''parse authn file '' @ authnPath @ '': '' @ e)
          | Inr a \<Rightarrow>
              if an_AccessToken a = [] then Inl (''authn file '' @ authnPath @ '' has no accessToken'')
              else Inr (a, True)))
      })"

definition saveAuthn :: "'n earl_libs \<Rightarrow> string \<Rightarrow> authn \<Rightarrow> ('n machine, string option) state" where
  "saveAuthn E authnPath tokens = do {
     err \<leftarrow> os_WriteFile authnPath (json_MarshalIndent E tokens @ [CHR 0x0A]) 384;
     ret (case err of None \<Rightarrow> None | Some e \<Rightarrow> Some (''write authn file '' @ authnPath @ '': '' @ e))
   }"

section \<open>Re-authentication\<close>

text \<open>Storing the tokens a POST returned: the new access token and how it was had.\<close>

definition keep_tokens :: "'n earl_libs \<Rightarrow> client \<Rightarrow> authn \<Rightarrow> string \<Rightarrow> ('n machine, string + (string \<times> string)) state" where
  "keep_tokens E c tokens source = do {
     werr \<leftarrow> saveAuthn E (c_authnPath c) tokens;
     ret (case werr of Some e \<Rightarrow> Inl e | None \<Rightarrow> Inr (an_AccessToken tokens, source))
   }"

definition reauth_login :: "'n earl_libs \<Rightarrow> client \<Rightarrow> string option \<Rightarrow> ('n machine, string + (string \<times> string)) state" where
  "reauth_login E c refreshErr =
     (if c_email c = [] \<or> c_secret c = [] then
        ret (Inl (case refreshErr of
            Some e \<Rightarrow> ''refresh failed ('' @ e @ '') and EARL_AUTHN_EMAIL/EARL_AUTHN_SECRET not set for a fresh login''
          | None \<Rightarrow> ''no refresh token and EARL_AUTHN_EMAIL/EARL_AUTHN_SECRET not set for a fresh login''))
      else do {
        r \<leftarrow> authPost E c ''/auth/login'' [(''username'', c_email c), (''password'', c_secret c)];
        case r of
          Inl lerr \<Rightarrow> ret (Inl (case refreshErr of
              Some e \<Rightarrow> ''refresh failed ('' @ e @ '') and login failed: '' @ lerr
            | None \<Rightarrow> ''login failed: '' @ lerr))
        | Inr tokens \<Rightarrow> keep_tokens E c tokens ''login''
      })"

definition reauth :: "'n earl_libs \<Rightarrow> client \<Rightarrow> authn \<Rightarrow> ('n machine, string + (string \<times> string)) state" where
  "reauth E c current =
     (if an_RefreshToken current \<noteq> [] then do {
        r \<leftarrow> authPost E c ''/auth/refresh'' [(''refreshToken'', an_RefreshToken current)];
        case r of
          Inr tokens \<Rightarrow> keep_tokens E c tokens ''refresh''
        | Inl rerr \<Rightarrow> reauth_login E c (Some rerr)
      }
      else reauth_login E c None)"

section \<open>The command\<close>

definition isAuthEndpoint :: "string \<Rightarrow> bool" where
  "isAuthEndpoint path = HasPrefix (CHR ''/'' # TrimLeft path {CHR ''/''}) ''/auth/''"

definition resolveBody :: "string \<Rightarrow> ('n machine, string + string) state" where
  "resolveBody arg =
     (if arg = ''-'' then State (\<lambda>m. (case m_stdin m of
          Inl e \<Rightarrow> Inl (''read body from stdin: '' @ e) | Inr b \<Rightarrow> Inr b, m))
      else State (\<lambda>m. (case m_files m arg of
          Some (File f) \<Rightarrow> (case fl_ReadError f of
              Some e \<Rightarrow> Inl (''read body file '' @ arg @ '': '' @ e)
            | None \<Rightarrow> Inr (fl_Content f))
        | _ \<Rightarrow> Inr arg, m)))"

definition prettyJSON :: "'n earl_libs \<Rightarrow> string \<Rightarrow> string" where
  "prettyJSON E b = (case json_Indent E b of None \<Rightarrow> b | Some out \<Rightarrow> out)"

definition show_response :: "'n earl_libs \<Rightarrow> nat \<times> string \<times> string \<Rightarrow> ('n machine, string option) state" where
  "show_response E r = (case r of (status, statusLine, respBody) \<Rightarrow> do {
     print_out statusLine;
     (if length respBody > 0 then print_out (prettyJSON E respBody) else ret ());
     ret None
   })"

definition request_url :: "client \<Rightarrow> string \<Rightarrow> string" where
  "request_url c path = TrimRight (c_baseURL c) {CHR ''/''} @ ''/'' @ TrimLeft path {CHR ''/''}"

text \<open>The request with the tokens that were loaded, and the answer to a 401.\<close>

definition exchange :: "'n earl_libs \<Rightarrow> client \<Rightarrow> string \<Rightarrow> string \<Rightarrow> string option \<Rightarrow> authn \<Rightarrow> bool \<Rightarrow>
    ('n machine, string option) state" where
  "exchange E c method path body a haveToken = do {
     x \<leftarrow> send E method (request_url c path) body (an_AccessToken a);
     case x of Inl e \<Rightarrow> ret (Some e) | Inr (status, statusLine, respBody) \<Rightarrow>
       if status = 401 \<and> haveToken \<and> \<not> isAuthEndpoint path then do {
         r \<leftarrow> reauth E c a;
         case r of
           Inl rerr \<Rightarrow> do {
             print_err (''earl: access token rejected and re-auth failed: '' @ rerr);
             show_response E (status, statusLine, respBody)
           }
         | Inr (token, source) \<Rightarrow> do {
             print_err (''earl: access token rejected; re-authenticated via '' @ source);
             y \<leftarrow> send E method (request_url c path) body token;
             case y of Inl e \<Rightarrow> ret (Some e) | Inr z \<Rightarrow> show_response E z
           }
       }
       else show_response E (status, statusLine, respBody)
   }"

definition doRequest :: "'n earl_libs \<Rightarrow> client \<Rightarrow> string \<Rightarrow> string list \<Rightarrow> ('n machine, string option) state" where
  "doRequest E c method args =
     (if length args < 1 then ret (Some (map lower_byte method @ '' requires a PATH argument''))
      else if length args > 2 then ret (Some ''too many arguments: want <PATH> [BODY]'')
      else do {
        b \<leftarrow> (if length args = 2 then do {
            r \<leftarrow> resolveBody (args ! 1);
            ret (case r of Inl e \<Rightarrow> Inl e | Inr d \<Rightarrow> Inr (Some d))
          } else ret (Inr None));
        case b of Inl e \<Rightarrow> ret (Some e) | Inr body \<Rightarrow> do {
          l \<leftarrow> loadAuthn E (c_authnPath c);
          case l of Inl e \<Rightarrow> ret (Some e)
          | Inr (a, haveToken) \<Rightarrow> exchange E c method (args ! 0) body a haveToken
        }
      })"

text \<open>The five subcommands share the closure that calls \<open>doRequest\<close> with the method in capitals.\<close>

definition earl_methods :: "string list" where
  "earl_methods = [''get'', ''post'', ''put'', ''patch'', ''delete'']"

text \<open>A failure is reported with the usage text, which the flag library renders.\<close>

definition earl :: "'n earl_libs \<Rightarrow> string \<Rightarrow> client \<Rightarrow> string \<Rightarrow> string list \<Rightarrow> ('n machine, string option) state" where
  "earl E usage c subcommand args = do {
     err \<leftarrow> doRequest E c (map upper subcommand) args;
     (case err of None \<Rightarrow> ret () | Some e \<Rightarrow> do { print_err usage; print_err (''error: '' @ e) });
     ret err
   }"

end
