(* ===== verification/EarlTheorems.thy ===== *)
theory EarlTheorems
  imports Earl
begin

text \<open>
  The client: which requests one invocation sends, and what it may do to the tokens file.
\<close>

section \<open>The calls\<close>

definition request_call :: "string \<Rightarrow> string \<Rightarrow> string option \<Rightarrow> string \<Rightarrow> http_call" where
  "request_call method url body token = \<lparr>call_Method = method, call_URL = url,
     call_Header = (if token \<noteq> [] then [(''Authorization'', ''Bearer '' @ token)] else []) @
       [(''Accept'', ''application/json'')] @
       (if body \<noteq> None then [(''Content-Type'', ''application/json'')] else []),
     call_Body = body\<rparr>"

definition auth_call :: "'n earl_libs \<Rightarrow> client \<Rightarrow> string \<Rightarrow> (string \<times> string) list \<Rightarrow> http_call" where
  "auth_call E c path form = \<lparr>call_Method = ''POST'', call_URL = TrimRight (c_baseURL c) {CHR ''/''} @ path,
     call_Header = [(''Content-Type'', ''application/json''), (''Accept'', ''application/json'')],
     call_Body = Some (json_Marshal E form)\<rparr>"

definition refresh_call :: "'n earl_libs \<Rightarrow> client \<Rightarrow> authn \<Rightarrow> http_call" where
  "refresh_call E c a = auth_call E c ''/auth/refresh'' [(''refreshToken'', an_RefreshToken a)]"

definition login_call :: "'n earl_libs \<Rightarrow> client \<Rightarrow> http_call" where
  "login_call E c = auth_call E c ''/auth/login'' [(''username'', c_email c), (''password'', c_secret c)]"

text \<open>The server granted tokens in answer to a call.\<close>

definition granted :: "'n earl_libs \<Rightarrow> http_call \<Rightarrow> authn \<Rightarrow> bool" where
  "granted E call tokens \<longleftrightarrow> an_AccessToken tokens \<noteq> [] \<and>
     (\<exists>n n' r body. run_state (http_Do E call) n = (Inr r, n') \<and> rp_StatusCode r = 200 \<and>
        rp_Body r = Inr body \<and> json_Unmarshal E body = Inr tokens)"

definition after_call :: "http_call \<Rightarrow> 'n \<Rightarrow> 'n machine \<Rightarrow> 'n machine" where
  "after_call call n m = m\<lparr>m_calls := m_calls m @ [call], m_net := n\<rparr>"

lemma after_call_simps [simp]:
  "m_calls (after_call call n m) = m_calls m @ [call]" "m_net (after_call call n m) = n"
  "m_files (after_call call n m) = m_files m" "m_quota (after_call call n m) = m_quota m"
  "m_create (after_call call n m) = m_create m" "m_stdout (after_call call n m) = m_stdout m"
  "m_stderr (after_call call n m) = m_stderr m" "m_stdin (after_call call n m) = m_stdin m"
  by (simp_all add: after_call_def)

lemma run_Do [simp]:
  "run_state (Do E call) m = (case run_state (http_Do E call) (m_net m) of (r, n) \<Rightarrow> (r, after_call call n m))"
  by (simp add: Do_def after_call_def)

lemma send_cases:
  assumes "run_state (send E method url body token) m = (x, m')"
  obtains (unsent) e where "x = Inl e" and "m' = m"
  | (sent) resp n where "run_state (http_Do E (request_call method url body token)) (m_net m) = (resp, n)"
    and "m' = after_call (request_call method url body token) n m"
    and "\<And>z. x = Inr z \<Longrightarrow> \<exists>r. resp = Inr r \<and> rp_StatusCode r = fst z"
proof (cases "request_error E method url")
  case None
  let ?call = "request_call method url body token"
  obtain resp n where do: "run_state (http_Do E ?call) (m_net m) = (resp, n)" by fastforce
  have "run_state (send E method url body token) m = ((case resp of
      Inl e \<Rightarrow> Inl (method @ '' '' @ url @ '': '' @ e)
    | Inr r \<Rightarrow> (case rp_Body r of Inl e \<Rightarrow> Inl (''read response body: '' @ e)
        | Inr b \<Rightarrow> Inr (rp_StatusCode r, rp_Status r, b))), after_call ?call n m)"
    using None do by (simp add: send_def request_call_def)
  with assms have "m' = after_call ?call n m"
    and "x = Inr z \<Longrightarrow> \<exists>r. resp = Inr r \<and> rp_StatusCode r = fst z" for z
    by (auto split: sum.splits)
  with do show thesis by (rule sent)
next
  case (Some e)
  with assms show thesis by (intro unsent) (auto simp: send_def)
qed

lemma authPost_cases:
  assumes "run_state (authPost E c path form) m = (x, m')"
  obtains (unsent) e where "x = Inl e" and "m' = m"
  | (sent) resp n where "run_state (http_Do E (auth_call E c path form)) (m_net m) = (resp, n)"
    and "m' = after_call (auth_call E c path form) n m"
    and "\<And>tokens. x = Inr tokens \<Longrightarrow> granted E (auth_call E c path form) tokens"
proof (cases "request_error E ''POST'' (TrimRight (c_baseURL c) {CHR ''/''} @ path)")
  case None
  let ?call = "auth_call E c path form"
  obtain resp n where do: "run_state (http_Do E ?call) (m_net m) = (resp, n)" by fastforce
  with None assms have m': "m' = after_call ?call n m"
    by (auto simp: authPost_def Let_def simp flip: auth_call_def)
  have "granted E ?call tokens" if x: "x = Inr tokens" for tokens
  proof (cases resp)
    case (Inl e)
    with None do assms x show ?thesis by (simp add: authPost_def Let_def flip: auth_call_def)
  next
    case (Inr r)
    with None do assms x have "rp_StatusCode r = 200 \<and> (\<exists>b. rp_Body r = Inr b \<and> json_Unmarshal E b = Inr tokens) \<and>
        an_AccessToken tokens \<noteq> []"
      by (simp add: authPost_def Let_def split: sum.splits if_splits flip: auth_call_def)
    with do Inr show ?thesis unfolding granted_def by blast
  qed
  with do m' show thesis by (rule sent)
next
  case (Some e)
  with assms show thesis by (intro unsent) (auto simp: authPost_def Let_def)
qed

section \<open>The tokens file\<close>

text \<open>What a machine holds at the authn path, as far as the client reads it.\<close>

definition stored :: "'n earl_libs \<Rightarrow> ('n, 'a) machine_scheme \<Rightarrow> string \<Rightarrow> authn option" where
  "stored E m path = (if TrimSpace path = [] then None
     else case (case m_files m path of Some (File f) \<Rightarrow> (if fl_ReadError f = None then Some (fl_Content f) else None)
         | Some (Special (Inr d) w) \<Rightarrow> Some d | _ \<Rightarrow> None) of
       None \<Rightarrow> None
     | Some d \<Rightarrow> (case json_Unmarshal E d of Inl e \<Rightarrow> None | Inr a \<Rightarrow> if an_AccessToken a = [] then None else Some a))"

text \<open>The files after tokens were written to the authn path.\<close>

definition rewritten :: "'n earl_libs \<Rightarrow> 'n machine \<Rightarrow> string \<Rightarrow> authn \<Rightarrow> string \<rightharpoonup> node" where
  "rewritten E m path tokens = m_files (snd (run_state (os_WriteFile path
     (json_MarshalIndent E tokens @ [CHR 0x0A]) 384) m))"

lemma rewritten_frame: "m_files m' = m_files m \<Longrightarrow> m_quota m' = m_quota m \<Longrightarrow> m_create m' = m_create m \<Longrightarrow>
    rewritten E m' path tokens = rewritten E m path tokens"
  by (simp add: rewritten_def os_WriteFile_def split: prod.split option.split node.split)

lemma rewritten_file:
  "m_files m path = Some (File f) \<Longrightarrow> rewritten E m path tokens = (if fl_WriteError f = None
     then (m_files m)(path \<mapsto> File (f\<lparr>fl_Content := snd (written (m_quota m) (json_MarshalIndent E tokens @ [CHR 0x0A]))\<rparr>))
     else m_files m)"
  "m_files m path = Some (Special r v) \<Longrightarrow> rewritten E m path tokens = m_files m"
  by (auto simp: rewritten_def os_WriteFile_def split: prod.split option.split)

lemma loadAuthn_run:
  assumes "run_state (loadAuthn E path) m = (Inr (a, have), m')"
  shows "m' = m \<and> (if have then stored E m path = Some a \<and> m_files m path \<noteq> None \<and> an_AccessToken a \<noteq> []
    else a = no_authn)"
  using assms
  by (auto simp: loadAuthn_def os_ReadFile_def stored_def
      split: if_splits option.splits node.splits sum.splits read_result.splits)

text \<open>What a run leaves alone.\<close>

definition same_io :: "'n machine \<Rightarrow> 'n machine \<Rightarrow> bool" where
  "same_io m m' \<longleftrightarrow> m_quota m' = m_quota m \<and> m_create m' = m_create m \<and> m_stdout m' = m_stdout m \<and>
     m_stderr m' = m_stderr m"

lemma WriteFile_frame:
  assumes "run_state (os_WriteFile path data perm) m = (e, m')"
  shows "m_calls m' = m_calls m \<and> m_net m' = m_net m \<and> same_io m m'"
proof -
  obtain err content where "written (m_quota m) data = (err, content)" by fastforce
  with assms show ?thesis
    by (auto simp: os_WriteFile_def same_io_def split: option.splits node.splits)
qed

lemma keep_tokens_run:
  assumes "run_state (keep_tokens E c tokens source) m = (x, m')"
  shows "m_files m' = rewritten E m (c_authnPath c) tokens \<and> m_calls m' = m_calls m \<and> m_net m' = m_net m \<and>
    same_io m m' \<and> (\<forall>y. x = Inr y \<longrightarrow> y = (an_AccessToken tokens, source))"
proof -
  obtain err m1 where w: "run_state (os_WriteFile (c_authnPath c) (json_MarshalIndent E tokens @ [CHR 0x0A]) 384) m = (err, m1)"
    by fastforce
  with assms have "m' = m1" and "\<forall>y. x = Inr y \<longrightarrow> y = (an_AccessToken tokens, source)"
    by (auto simp: keep_tokens_def saveAuthn_def split: option.splits)
  with WriteFile_frame [OF w] w show ?thesis by (simp add: rewritten_def)
qed

text \<open>The calls of a re-authentication, and its outcome.\<close>

definition reauth_result :: "'n earl_libs \<Rightarrow> client \<Rightarrow> 'n machine \<Rightarrow> http_call list \<Rightarrow>
    string + (string \<times> string) \<Rightarrow> 'n machine \<Rightarrow> bool" where
  "reauth_result E c m calls x m' \<longleftrightarrow> m_calls m' = m_calls m @ calls \<and> same_io m m' \<and>
     (m_files m' = m_files m \<and> (\<exists>e. x = Inl e) \<or>
      (\<exists>call \<in> set calls. \<exists>tokens. granted E call tokens \<and> m_files m' = rewritten E m (c_authnPath c) tokens \<and>
         ((\<exists>e. x = Inl e) \<or> (\<exists>source. x = Inr (an_AccessToken tokens, source)))))"

lemma authPost_keep:
  assumes "run_state (do {
      r \<leftarrow> authPost E c path form;
      case r of Inl e \<Rightarrow> f e | Inr tokens \<Rightarrow> keep_tokens E c tokens source
    }) m = (x, m')"
  obtains (kept) "reauth_result E c m [auth_call E c path form] x m'"
  | (unsent) e where "run_state (f e) m = (x, m')"
  | (refused) e n where "run_state (f e) (after_call (auth_call E c path form) n m) = (x, m')"
proof -
  obtain r m1 where 1: "run_state (authPost E c path form) m = (r, m1)" by fastforce
  then show thesis
  proof (cases rule: authPost_cases)
    case (unsent e)
    with 1 assms show thesis by (intro that(2)) auto
  next
    case (sent resp n)
    show thesis
    proof (cases r)
      case (Inl e)
      with 1 sent assms show thesis by (intro that(3)) auto
    next
      case (Inr tokens)
      with 1 sent(2) assms have "run_state (keep_tokens E c tokens source) (after_call (auth_call E c path form) n m) = (x, m')"
        by simp
      note kept = keep_tokens_run [OF this]
      have "rewritten E (after_call (auth_call E c path form) n m) (c_authnPath c) tokens =
          rewritten E m (c_authnPath c) tokens" by (rule rewritten_frame) simp_all
      with kept sent(3) [OF Inr] show thesis
        by (intro that(1)) (cases x; force simp: reauth_result_def same_io_def)
    qed
  qed
qed

definition reauth_calls :: "'n earl_libs \<Rightarrow> client \<Rightarrow> authn \<Rightarrow> http_call list \<Rightarrow> bool" where
  "reauth_calls E c a calls \<longleftrightarrow> (\<exists>refresh login.
     calls = (if refresh then [refresh_call E c a] else []) @ (if login then [login_call E c] else []) \<and>
     (refresh \<longrightarrow> an_RefreshToken a \<noteq> []) \<and> (login \<longrightarrow> c_email c \<noteq> [] \<and> c_secret c \<noteq> []))"

lemma reauth_callsI:
  assumes "login \<longrightarrow> c_email c \<noteq> [] \<and> c_secret c \<noteq> []"
  shows "reauth_calls E c a (if login then [login_call E c] else [])"
    and "an_RefreshToken a \<noteq> [] \<Longrightarrow> reauth_calls E c a (refresh_call E c a # (if login then [login_call E c] else []))"
proof -
  have "(if login then [login_call E c] else []) =
      (if False then [refresh_call E c a] else []) @ (if login then [login_call E c] else [])" by simp
  with assms show "reauth_calls E c a (if login then [login_call E c] else [])"
    unfolding reauth_calls_def by blast
  have "refresh_call E c a # (if login then [login_call E c] else []) =
      (if True then [refresh_call E c a] else []) @ (if login then [login_call E c] else [])" by simp
  with assms show "an_RefreshToken a \<noteq> [] \<Longrightarrow>
      reauth_calls E c a (refresh_call E c a # (if login then [login_call E c] else []))"
    unfolding reauth_calls_def by blast
qed

lemma reauth_result_none: "run_state (ret (Inl e)) m = (x, m') \<Longrightarrow> reauth_result E c m [] x m'"
  by (auto simp: reauth_result_def same_io_def)

lemma reauth_result_refused:
  assumes "reauth_result E c (after_call call n m) calls x m'"
  shows "reauth_result E c m (call # calls) x m'"
proof -
  have "rewritten E (after_call call n m) (c_authnPath c) tokens = rewritten E m (c_authnPath c) tokens" for tokens
    by (rule rewritten_frame) simp_all
  with assms show ?thesis by (auto simp: reauth_result_def same_io_def)
qed

lemma reauth_login_run:
  assumes "run_state (reauth_login E c re) m = (x, m')"
  shows "\<exists>login. reauth_result E c m (if login then [login_call E c] else []) x m' \<and>
    (login \<longrightarrow> c_email c \<noteq> [] \<and> c_secret c \<noteq> [])"
proof (cases "c_email c = [] \<or> c_secret c = []")
  case True
  with assms show ?thesis
    by (intro exI [of _ False]) (auto simp: reauth_login_def intro: reauth_result_none)
next
  case False
  with assms have "run_state (do {
      r \<leftarrow> authPost E c ''/auth/login'' [(''username'', c_email c), (''password'', c_secret c)];
      case r of Inl lerr \<Rightarrow> ret (Inl (case re of
              Some e \<Rightarrow> ''refresh failed ('' @ e @ '') and login failed: '' @ lerr
            | None \<Rightarrow> ''login failed: '' @ lerr))
      | Inr tokens \<Rightarrow> keep_tokens E c tokens ''login''
    }) m = (x, m')" unfolding reauth_login_def by (simp only: if_False)
  then show ?thesis
  proof (cases rule: authPost_keep)
    case kept
    with False show ?thesis by (intro exI [of _ True]) (simp add: login_call_def)
  next
    case (unsent e)
    with reauth_result_none [OF this] show ?thesis by (intro exI [of _ False]) simp
  next
    case (refused e n)
    with reauth_result_refused [OF reauth_result_none [OF refused]] False show ?thesis
      by (intro exI [of _ True]) (simp add: login_call_def)
  qed
qed

lemma reauth_run:
  assumes "run_state (reauth E c a) m = (x, m')"
  shows "\<exists>calls. reauth_result E c m calls x m' \<and> reauth_calls E c a calls"
proof (cases "an_RefreshToken a = []")
  case True
  with assms have "run_state (reauth_login E c None) m = (x, m')" by (simp add: reauth_def)
  from reauth_login_run [OF this] show ?thesis unfolding reauth_calls_def by force
next
  case False
  with assms have "run_state (do {
      r \<leftarrow> authPost E c ''/auth/refresh'' [(''refreshToken'', an_RefreshToken a)];
      case r of Inl rerr \<Rightarrow> reauth_login E c (Some rerr) | Inr tokens \<Rightarrow> keep_tokens E c tokens ''refresh''
    }) m = (x, m')" unfolding reauth_def by (simp only: if_True simp_thms)
  then show ?thesis
  proof (cases rule: authPost_keep)
    case kept
    with reauth_callsI(2) [of False c a E] False show ?thesis by (auto simp: refresh_call_def)
  next
    case (unsent e)
    from reauth_login_run [OF this] reauth_callsI(1) show ?thesis by blast
  next
    case (refused e n)
    from reauth_login_run [OF this] obtain login where
      "reauth_result E c m (refresh_call E c a # (if login then [login_call E c] else [])) x m'"
      "login \<longrightarrow> c_email c \<noteq> [] \<and> c_secret c \<noteq> []"
      by (auto dest!: reauth_result_refused simp flip: refresh_call_def)
    with reauth_callsI(2) False show ?thesis by blast
  qed
qed

section \<open>One invocation\<close>

lemma show_response_run:
  "run_state (show_response E z) m = (None, m\<lparr>m_stdout := m_stdout m @ fst (snd z) #
     (if snd (snd z) = [] then [] else [prettyJSON E (snd (snd z))])\<rparr>)"
  by (auto simp: show_response_def print_out_def split: prod.split)

text \<open>
  The exchanges of one request with the tokens \<open>a\<close>: it is sent at most once with them; a retry
  with other tokens follows a 401 and a re-authentication; the files change only by tokens that
  were granted in it.
\<close>

definition exchanged :: "'n earl_libs \<Rightarrow> client \<Rightarrow> string \<Rightarrow> string \<Rightarrow> string option \<Rightarrow> authn \<Rightarrow> bool \<Rightarrow>
    'n machine \<Rightarrow> http_call list \<Rightarrow> 'n machine \<Rightarrow> bool" where
  "exchanged E c method path body a have m sent m' \<longleftrightarrow>
     (let q = request_call method (request_url c path) body in
      m_calls m' = m_calls m @ sent \<and>
      (sent \<in> {[], [q (an_AccessToken a)]} \<and> m_files m' = m_files m \<or>
       have \<and> \<not> isAuthEndpoint path \<and>
       (\<exists>r n calls retry. run_state (http_Do E (q (an_AccessToken a))) (m_net m) = (Inr r, n) \<and> rp_StatusCode r = 401 \<and>
          reauth_calls E c a calls \<and> sent = q (an_AccessToken a) # calls @ retry \<and>
          (retry = [] \<and> m_files m' = m_files m \<or>
           (\<exists>call \<in> set calls. \<exists>tokens. granted E call tokens \<and> retry \<in> {[], [q (an_AccessToken tokens)]} \<and>
              m_files m' = rewritten E m (c_authnPath c) tokens)))))"

lemma exchanged_cases:
  assumes "exchanged E c method path body a have m sent m'"
  obtains (plain) "sent = [] \<or> sent = [request_call method (request_url c path) body (an_AccessToken a)]"
    and "m_files m' = m_files m"
  | (rejected) r n calls retry where "have" and "\<not> isAuthEndpoint path"
    and "run_state (http_Do E (request_call method (request_url c path) body (an_AccessToken a))) (m_net m) = (Inr r, n)"
    and "rp_StatusCode r = 401" and "reauth_calls E c a calls"
    and "sent = request_call method (request_url c path) body (an_AccessToken a) # calls @ retry"
    and "retry = [] \<and> m_files m' = m_files m \<or>
           (\<exists>call \<in> set calls. \<exists>tokens. granted E call tokens \<and>
              retry \<in> {[], [request_call method (request_url c path) body (an_AccessToken tokens)]} \<and>
              m_files m' = rewritten E m (c_authnPath c) tokens)"
  using assms unfolding exchanged_def Let_def by blast

lemma exchanged_rejectedI:
  assumes "have" and "\<not> isAuthEndpoint path"
    and "run_state (http_Do E (request_call method (request_url c path) body (an_AccessToken a))) (m_net m) = (Inr r, n)"
    and "rp_StatusCode r = 401" and "reauth_calls E c a calls"
    and "m_calls m' = m_calls m @ request_call method (request_url c path) body (an_AccessToken a) # calls @ retry"
    and "retry = [] \<and> m_files m' = m_files m \<or>
           (\<exists>call \<in> set calls. \<exists>tokens. granted E call tokens \<and>
              retry \<in> {[], [request_call method (request_url c path) body (an_AccessToken tokens)]} \<and>
              m_files m' = rewritten E m (c_authnPath c) tokens)"
  shows "\<exists>sent. exchanged E c method path body a have m sent m'"
  using assms unfolding exchanged_def Let_def by blast

lemma exchange_run:
  assumes "run_state (exchange E c method path body a have) m = (err, m')"
  shows "\<exists>sent. exchanged E c method path body a have m sent m'"
proof -
  let ?q = "request_call method (request_url c path) body"
  obtain x m1 where 1: "run_state (send E method (request_url c path) body (an_AccessToken a)) m = (x, m1)" by fastforce
  then show ?thesis
  proof (cases rule: send_cases)
    case (unsent e)
    with 1 assms show ?thesis by (intro exI [of _ "[]"]) (auto simp: exchange_def exchanged_def Let_def)
  next
    case (sent resp n)
    show ?thesis
    proof (cases "\<exists>z. x = Inr z \<and> fst z = 401 \<and> have \<and> \<not> isAuthEndpoint path")
      case False
      have "m_calls m' = m_calls m1 \<and> m_files m' = m_files m1"
        using False 1 assms by (auto simp: exchange_def show_response_run split: sum.splits prod.splits if_splits)
      with sent(2) show ?thesis
        by (intro exI [of _ "[?q (an_AccessToken a)]"]) (simp add: exchanged_def Let_def)
    next
      case True
      then obtain line b where z: "x = Inr (401, line, b)" "have" "\<not> isAuthEndpoint path" by auto
      with sent(3) obtain r where r: "resp = Inr r" "rp_StatusCode r = 401" by fastforce
      obtain y m2 where 2: "run_state (reauth E c a) m1 = (y, m2)" by fastforce
      then obtain calls where calls: "reauth_result E c m1 calls y m2" "reauth_calls E c a calls"
        using reauth_run by blast
      have files: "rewritten E m1 (c_authnPath c) tokens = rewritten E m (c_authnPath c) tokens" for tokens
        using sent(2) by (intro rewritten_frame) simp_all
      show ?thesis
      proof (cases y)
        case (Inl rerr)
        have "m_calls m' = m_calls m2 \<and> m_files m' = m_files m2"
          using Inl 1 2 z assms by (auto simp: exchange_def show_response_run print_err_def)
        moreover have "m_calls m2 = m_calls m @ ?q (an_AccessToken a) # calls @ []"
          using calls(1) sent(2) by (simp add: reauth_result_def)
        moreover have "m_files m2 = m_files m \<or> (\<exists>call \<in> set calls. \<exists>tokens. granted E call tokens \<and>
            m_files m2 = rewritten E m (c_authnPath c) tokens)"
          using calls(1) sent(2) files by (auto simp: reauth_result_def)
        ultimately show ?thesis
          using z sent(1) r calls(2) by (intro exchanged_rejectedI [where calls = calls and retry = "[]"]) auto
      next
        case (Inr p)
        with calls(1) files obtain call tokens source where t: "call \<in> set calls" "granted E call tokens"
          "m_files m2 = rewritten E m (c_authnPath c) tokens" "p = (an_AccessToken tokens, source)"
          by (auto simp: reauth_result_def)
        let ?m = "m2\<lparr>m_stderr := m_stderr m2 @ [''earl: access token rejected; re-authenticated via '' @ source]\<rparr>"
        obtain v m3 where 3: "run_state (send E method (request_url c path) body (an_AccessToken tokens)) ?m = (v, m3)"
          by fastforce
        have "m_calls m' = m_calls m3 \<and> m_files m' = m_files m3"
          using 1 2 3 Inr t z assms by (auto simp: exchange_def show_response_run print_err_def split: sum.splits)
        moreover have "m_calls m2 = m_calls m @ ?q (an_AccessToken a) # calls"
          using calls(1) sent(2) by (simp add: reauth_result_def)
        moreover from 3 have "m_files m3 = m_files m2 \<and>
            (m_calls m3 = m_calls m2 \<or> m_calls m3 = m_calls m2 @ [?q (an_AccessToken tokens)])"
          by (cases rule: send_cases) auto
        ultimately show ?thesis
          using calls(2) sent(1) r z t
          by (intro exchanged_rejectedI [where calls = calls and
                retry = "if m_calls m3 = m_calls m2 then [] else [?q (an_AccessToken tokens)]"]) auto
      qed
    qed
  qed
qed

lemma earl_run:
  assumes "run_state (earl E usage c sub args) m = (err, m')"
  shows "(m_calls m' = m_calls m \<and> m_files m' = m_files m) \<or>
    (\<exists>body a have sent m1. (if have then stored E m (c_authnPath c) = Some a \<and> m_files m (c_authnPath c) \<noteq> None
        else a = no_authn) \<and>
      exchanged E c (map upper sub) (args ! 0) body a have m sent m1 \<and> m_calls m' = m_calls m1 \<and> m_files m' = m_files m1)"
proof -
  let ?verb = "map upper sub"
  obtain r m1 where 1: "run_state (doRequest E c ?verb args) m = (r, m1)" by fastforce
  have same: "m_calls m' = m_calls m1 \<and> m_files m' = m_files m1"
    using 1 assms by (auto simp: earl_def print_err_def split: option.splits)
  define body_of :: "('a machine, string + string option) state" where "body_of =
    (if length args = 2 then do {
        r \<leftarrow> resolveBody (args ! 1);
        ret (case r of Inl e \<Rightarrow> Inl e | Inr d \<Rightarrow> Inr (Some d))
      } else ret (Inr None))"
  obtain b m2 where b: "run_state body_of m = (b, m2)" by fastforce
  then have m2: "m2 = m" by (auto simp: body_of_def resolveBody_def split: if_splits)
  show ?thesis
  proof (cases "length args < 1 \<or> length args > 2 \<or> (\<exists>e. b = Inl e)")
    case True
    with 1 b m2 have "m1 = m" by (auto simp: doRequest_def simp flip: body_of_def split: if_splits)
    with same show ?thesis by simp
  next
    case False
    then obtain body where body: "b = Inr body" by (cases b) auto
    obtain l m3 where l: "run_state (loadAuthn E (c_authnPath c)) m = (l, m3)" by fastforce
    have run: "run_state (doRequest E c ?verb args) m = (case l of Inl e \<Rightarrow> (Some e, m3)
        | Inr (a, haveToken) \<Rightarrow> run_state (exchange E c ?verb (args ! 0) body a haveToken) m3)"
      using False b m2 body l
      by (auto simp: doRequest_def simp flip: body_of_def split: sum.split prod.split)
    show ?thesis
    proof (cases l)
      case (Inl e)
      have "m3 = m" using l Inl by (auto simp: loadAuthn_def os_ReadFile_def split: if_splits)
      with Inl run 1 same show ?thesis by simp
    next
      case (Inr p)
      obtain a have' where p: "p = (a, have')" by fastforce
      with Inr l loadAuthn_run have a: "m3 = m"
        "if have' then stored E m (c_authnPath c) = Some a \<and> m_files m (c_authnPath c) \<noteq> None else a = no_authn"
        by (metis (mono_tags, lifting))+
      with Inr p run 1 exchange_run obtain sent where "exchanged E c ?verb (args ! 0) body a have' m sent m1"
        by (metis old.sum.simps(6) prod.simps(2))
      with a(2) same show ?thesis by blast
    qed
  qed
qed

text \<open>The calls of an exchange: the request, those of the re-authentication, the retry.\<close>

lemma exchanged_parts:
  assumes "exchanged E c method path body a have m sent m'"
  defines "q \<equiv> \<lambda>token. request_call method (request_url c path) body token"
  shows "\<exists>calls retry. (sent = [] \<or> sent = q (an_AccessToken a) # calls @ retry) \<and>
    reauth_calls E c a calls \<and> length retry \<le> 1 \<and>
    (calls = [] \<or> (\<exists>r n. run_state (http_Do E (q (an_AccessToken a))) (m_net m) = (Inr r, n) \<and> rp_StatusCode r = 401)) \<and>
    (\<forall>call \<in> set retry. \<exists>auth \<in> set calls. \<exists>tokens. granted E auth tokens \<and> call = q (an_AccessToken tokens)) \<and>
    (calls \<noteq> [] \<longrightarrow> have \<and> \<not> isAuthEndpoint path) \<and> m_calls m' = m_calls m @ sent"
proof -
  have calls: "m_calls m' = m_calls m @ sent" using assms(1) by (simp add: exchanged_def Let_def)
  have none: "reauth_calls E c a []" using reauth_callsI(1) [of False] by simp
  from assms(1) show ?thesis
  proof (cases rule: exchanged_cases)
    case plain
    with none calls show ?thesis unfolding q_def by (intro exI [of _ "[]"]) auto
  next
    case (rejected r n calls' retry)
    have "\<forall>call \<in> set retry. \<exists>auth \<in> set calls'. \<exists>tokens. granted E auth tokens \<and> call = q (an_AccessToken tokens)"
    proof (cases "retry = []")
      case False
      with rejected(7) obtain auth tokens where "auth \<in> set calls'" "granted E auth tokens"
        "retry = [q (an_AccessToken tokens)]" unfolding q_def by blast
      then show ?thesis by auto
    qed simp
    moreover have "length retry \<le> 1" using rejected(7) by auto
    ultimately show ?thesis
      using rejected(1-6) calls unfolding q_def by (intro exI [of _ calls'] exI [of _ retry]) auto
  qed
qed

lemma reauth_calls_urls:
  assumes "reauth_calls E c a calls"
  shows "length calls \<le> 2" and "call \<in> set calls \<Longrightarrow> \<exists>form. call = auth_call E c ''/auth/refresh'' form \<or>
    call = auth_call E c ''/auth/login'' form"
  using assms unfolding reauth_calls_def refresh_call_def login_call_def by (auto split: if_splits)

text \<open>C29. Bounded exchanges. One invocation makes at most four calls of http.Client.Do, all of them
  for URLs under the base URL (what the client sends to follow redirects belongs to the call):
  the request itself; only after a 401, at most one refresh with the stored refresh token and at
  most one login with the configured secret, both to their own endpoints; and at most one retry
  of the same request, with the access token that this refresh or login granted. Without a
  stored token, and for the endpoints under /auth, the one call is all there is, without a token
  in the first case.\<close>

theorem earl_exchanges:
  assumes "run_state (earl E usage c sub args) m = (err, m')"
  shows "\<exists>sent. m_calls m' = m_calls m @ sent \<and> length sent \<le> 4 \<and>
    list_all (\<lambda>call. prefix (TrimRight (c_baseURL c) {CHR ''/''} @ ''/'') (call_URL call)) sent \<and>
    (sent = [] \<or> (\<exists>body a calls retry.
       sent = request_call (map upper sub) (request_url c (args ! 0)) body (an_AccessToken a) # calls @ retry \<and>
       reauth_calls E c a calls \<and> length retry \<le> 1 \<and>
       (calls = [] \<or> (\<exists>r n. run_state (http_Do E (hd sent)) (m_net m) = (Inr r, n) \<and> rp_StatusCode r = 401)) \<and>
       (\<forall>call \<in> set retry. \<exists>auth \<in> set calls. \<exists>tokens. granted E auth tokens \<and>
          call = request_call (map upper sub) (request_url c (args ! 0)) body (an_AccessToken tokens)) \<and>
       (a = no_authn \<or> stored E m (c_authnPath c) = Some a) \<and>
       (stored E m (c_authnPath c) = None \<or> isAuthEndpoint (args ! 0) \<longrightarrow> calls = [])))"
proof -
  let ?q = "request_call (map upper sub) (request_url c (args ! 0))"
  have url: "prefix (TrimRight (c_baseURL c) {CHR ''/''} @ ''/'') (call_URL (?q body tok))" for body tok
    by (simp add: request_call_def request_url_def)
  have auth: "prefix (TrimRight (c_baseURL c) {CHR ''/''} @ ''/'') (call_URL call)"
    if "reauth_calls E c a calls" "call \<in> set calls" for a calls call
    using reauth_calls_urls(2) [OF that] by (auto simp: auth_call_def)
  have none: "reauth_calls E c a []" for a using reauth_callsI(1) [of False] by simp
  from earl_run [OF assms] show ?thesis
  proof (elim disjE exE conjE)
    fix body a have' sent m1
    assume a: "if have' then stored E m (c_authnPath c) = Some a \<and> m_files m (c_authnPath c) \<noteq> None else a = no_authn"
      and ex: "exchanged E c (map upper sub) (args ! 0) body a have' m sent m1"
      and same: "m_calls m' = m_calls m1"
    from exchanged_parts [OF ex] same obtain calls retry where s: "sent = [] \<or> sent = ?q body (an_AccessToken a) # calls @ retry"
      "reauth_calls E c a calls" "length retry \<le> 1"
      "calls = [] \<or> (\<exists>r n. run_state (http_Do E (?q body (an_AccessToken a))) (m_net m) = (Inr r, n) \<and> rp_StatusCode r = 401)"
      "\<forall>call \<in> set retry. \<exists>auth \<in> set calls. \<exists>tokens. granted E auth tokens \<and> call = ?q body (an_AccessToken tokens)"
      "calls \<noteq> [] \<longrightarrow> have' \<and> \<not> isAuthEndpoint (args ! 0)"
      and calls: "m_calls m' = m_calls m @ sent"
      by (elim exE conjE) simp
    show ?thesis
    proof (intro exI [of _ sent] conjI calls)
      show "length sent \<le> 4" using s reauth_calls_urls(1) [OF s(2)] by auto
      show "list_all (\<lambda>call. prefix (TrimRight (c_baseURL c) {CHR ''/''} @ ''/'') (call_URL call)) sent"
        using s(1,5) url auth [OF s(2)] by (fastforce simp: list_all_iff)
      have at: "stored E m (c_authnPath c) = None \<or> isAuthEndpoint (args ! 0) \<longrightarrow> calls = []"
        "a = no_authn \<or> stored E m (c_authnPath c) = Some a"
        using s(6) a by (auto split: if_splits)
      show "sent = [] \<or> (\<exists>body a calls retry. sent = ?q body (an_AccessToken a) # calls @ retry \<and>
          reauth_calls E c a calls \<and> length retry \<le> 1 \<and>
          (calls = [] \<or> (\<exists>r n. run_state (http_Do E (hd sent)) (m_net m) = (Inr r, n) \<and> rp_StatusCode r = 401)) \<and>
          (\<forall>call \<in> set retry. \<exists>auth \<in> set calls. \<exists>tokens. granted E auth tokens \<and> call = ?q body (an_AccessToken tokens)) \<and>
          (a = no_authn \<or> stored E m (c_authnPath c) = Some a) \<and>
          (stored E m (c_authnPath c) = None \<or> isAuthEndpoint (args ! 0) \<longrightarrow> calls = []))"
      proof (cases "sent = []")
        case False
        with s(1) have e: "sent = ?q body (an_AccessToken a) # calls @ retry" by blast
        then have "hd sent = ?q body (an_AccessToken a)" by (simp only: list.sel)
        note s(4) [folded this]
        then show ?thesis
          by - (rule disjI2, rule exI [of _ body], rule exI [of _ a], rule exI [of _ calls], rule exI [of _ retry],
            intro conjI e s(2,3,5) at)
      qed (rule disjI1)
    qed
  qed (simp add: none)
qed

text \<open>C30. The tokens file. An invocation changes at most one file, the tokens file, and that only
  when it is a regular file that held a usable token, the request with this token was answered
  401, and a 200 answer to a refresh or login sent in this invocation granted the tokens now
  written, with a non-empty access token. The permission bits stay what they were, whatever
  they were, and the content is a prefix of the encoded tokens: all of it unless the device
  refuses to take it.\<close>

theorem earl_tokens_file:
  assumes "run_state (earl E usage c sub args) m = (err, m')" and "m_files m' \<noteq> m_files m"
  shows "\<exists>f a r n body call tokens. m_files m (c_authnPath c) = Some (File f) \<and> stored E m (c_authnPath c) = Some a \<and>
    run_state (http_Do E (request_call (map upper sub) (request_url c (args ! 0)) body (an_AccessToken a))) (m_net m) =
      (Inr r, n) \<and> rp_StatusCode r = 401 \<and>
    call \<in> {refresh_call E c a, login_call E c} \<and> (\<exists>before after. m_calls m' = before @ call # after) \<and>
    granted E call tokens \<and> an_AccessToken tokens \<noteq> [] \<and>
    m_files m' = (m_files m)(c_authnPath c \<mapsto> File (f\<lparr>fl_Content :=
      take (case m_quota m of None \<Rightarrow> length (json_MarshalIndent E tokens) + 1 | Some q \<Rightarrow> fst q)
        (json_MarshalIndent E tokens @ [CHR 0x0A])\<rparr>))"
proof -
  let ?q = "request_call (map upper sub) (request_url c (args ! 0))"
  from earl_run [OF assms(1)] assms(2) obtain body a have' sent m1 where
    a: "if have' then stored E m (c_authnPath c) = Some a \<and> m_files m (c_authnPath c) \<noteq> None else a = no_authn"
    and ex: "exchanged E c (map upper sub) (args ! 0) body a have' m sent m1"
    and same: "m_calls m' = m_calls m1" "m_files m' = m_files m1" by blast
  from ex show ?thesis
  proof (cases rule: exchanged_cases)
    case plain
    with same assms(2) show ?thesis by simp
  next
    case (rejected r n calls retry)
    with same assms(2) obtain call tokens where g: "call \<in> set calls" "granted E call tokens"
      "m_files m' = rewritten E m (c_authnPath c) tokens" by auto
    have call: "call \<in> {refresh_call E c a, login_call E c}"
      using rejected(5) g(1) by (auto simp: reauth_calls_def split: if_splits)
    obtain f where f: "m_files m (c_authnPath c) = Some (File f)" "fl_WriteError f = None"
      using a rejected(1) g(3) assms(2)
      by (cases "the (m_files m (c_authnPath c))") (auto simp: rewritten_file split: if_splits)
    let ?data = "json_MarshalIndent E tokens @ [CHR 0x0A]"
    have "snd (written (m_quota m) ?data) =
        take (case m_quota m of None \<Rightarrow> length (json_MarshalIndent E tokens) + 1 | Some q \<Rightarrow> fst q) ?data"
      by (simp add: written_def split: option.split prod.split)
    with f g(3) have "m_files m' = (m_files m)(c_authnPath c \<mapsto> File (f\<lparr>fl_Content :=
        take (case m_quota m of None \<Rightarrow> length (json_MarshalIndent E tokens) + 1 | Some q \<Rightarrow> fst q) ?data\<rparr>))"
      by (simp only: rewritten_file(1) if_True simp_thms)
    moreover obtain before after where "calls = before @ call # after" using g(1) by (auto simp: in_set_conv_decomp)
    then have "m_calls m' = (m_calls m @ ?q body (an_AccessToken a) # before) @ call # after @ retry"
      using ex rejected(6) same(1) by (simp add: exchanged_def Let_def)
    moreover have "an_AccessToken tokens \<noteq> []" using g(2) by (simp add: granted_def)
    ultimately show ?thesis
      using a rejected(1,3,4) g(2) call f(1) by (intro exI conjI) (assumption | simp)+
  qed
qed

section \<open>A scripted network\<close>

definition scripted :: "http_call \<Rightarrow> (reply list, string + reply) state" where
  "scripted call = State (\<lambda>rs. case rs of [] \<Rightarrow> (Inl ''connection refused'', []) | r # rs \<Rightarrow> (Inr r, rs))"

definition sample_tokens_text :: "authn \<Rightarrow> string" where
  "sample_tokens_text a = an_AccessToken a @ ''|'' @ an_RefreshToken a"

definition sample_tokens_parse :: "string \<Rightarrow> string + authn" where
  "sample_tokens_parse s = (if CHR ''|'' \<notin> set s then Inl ''unexpected end of JSON input''
     else Inr \<lparr>an_AccessToken = takeWhile (\<lambda>x. x \<noteq> CHR ''|'') s, an_ExpiresInSeconds = 900,
       an_RefreshToken = takeWhile (\<lambda>x. x \<noteq> CHR 0x0A) (tl (dropWhile (\<lambda>x. x \<noteq> CHR ''|'') s)), an_TokenType = ''Bearer''\<rparr>)"

definition sample_earl :: "reply list earl_libs" where
  "sample_earl = \<lparr>request_error = (\<lambda>method url. None), http_Do = scripted, json_MarshalIndent = sample_tokens_text,
     json_Unmarshal = sample_tokens_parse, json_Marshal = (\<lambda>form. concat (map snd form)), json_Indent = (\<lambda>s. None)\<rparr>"

definition sample_client :: client where
  "sample_client = \<lparr>c_baseURL = ''http://h/'', c_authnPath = ''t'', c_email = [], c_secret = []\<rparr>"

definition sample_tokens_file :: earl_file where
  "sample_tokens_file = \<lparr>fl_Content = ''A1|R1'', fl_Mode = 420, fl_ReadError = None, fl_WriteError = None\<rparr>"

definition sample_machine :: "(nat \<times> string) option \<Rightarrow> reply list machine" where
  "sample_machine quota = \<lparr>m_files = [''t'' \<mapsto> File sample_tokens_file], m_create = (\<lambda>p. None), m_quota = quota,
     m_stdin = Inr [], m_stdout = [], m_stderr = [], m_calls = [],
     m_net = [\<lparr>rp_StatusCode = 401, rp_Status = ''401 Unauthorized'', rp_Body = Inr []\<rparr>,
       \<lparr>rp_StatusCode = 200, rp_Status = ''200 OK'', rp_Body = Inr ''A2|R2''\<rparr>,
       \<lparr>rp_StatusCode = 200, rp_Status = ''200 OK'', rp_Body = Inr ''me''\<rparr>]\<rparr>"

definition sample_invocation :: "(nat \<times> string) option \<Rightarrow> reply list machine" where
  "sample_invocation quota = snd (run_state (earl sample_earl ''usage'' sample_client ''get'' [''/me'']) (sample_machine quota))"

lemma sample_strings: "TrimSpace ''t'' \<noteq> []" "map upper ''get'' = ''GET''"
  by (simp add: TrimSpace_plain plain_text_def) code_simp

lemmas sample_earl_defs = sample_invocation_def earl_def doRequest_def loadAuthn_def os_ReadFile_def exchange_def send_def
  reauth_def authPost_def keep_tokens_def saveAuthn_def os_WriteFile_def written_def print_err_def print_out_def
  show_response_def prettyJSON_def request_url_def isAuthEndpoint_def TrimLeft_def TrimRight_def HasPrefix_def Let_def
  sample_earl_def scripted_def sample_tokens_text_def sample_tokens_parse_def sample_client_def sample_tokens_file_def
  sample_machine_def after_call_def request_call_def refresh_call_def auth_call_def

lemma sample_invocations:
  "m_calls (sample_invocation None) = [request_call ''GET'' ''http://h/me'' None ''A1'',
     refresh_call sample_earl sample_client \<lparr>an_AccessToken = ''A1'', an_ExpiresInSeconds = 900,
       an_RefreshToken = ''R1'', an_TokenType = ''Bearer''\<rparr>,
     request_call ''GET'' ''http://h/me'' None ''A2'']"
  "m_stdout (sample_invocation None) = [''200 OK'', ''me'']"
  "m_files (sample_invocation None) ''t'' = Some (File (sample_tokens_file\<lparr>fl_Content := ''A2|R2'' @ [CHR 0x0A]\<rparr>))"
  "m_files (sample_invocation (Some (3, ''no space left on device''))) ''t'' =
     Some (File (sample_tokens_file\<lparr>fl_Content := ''A2|''\<rparr>))"
  unfolding sample_invocation_def earl_def sample_strings(2)
  by (simp_all add: sample_earl_defs sample_strings(1))

lemma sample_started: "m_calls (sample_machine quota) = []" "m_quota (sample_machine quota) = quota"
  "m_files (sample_machine quota) = [''t'' \<mapsto> File sample_tokens_file]" "c_authnPath sample_client = ''t''"
  "TrimRight (c_baseURL sample_client) {CHR ''/''} = ''http://h''" "json_MarshalIndent sample_earl = sample_tokens_text"
  by (simp_all add: sample_machine_def sample_client_def TrimRight_def TrimLeft_def sample_earl_def)

theorem earl_exchanges_witness:
  "length (m_calls (sample_invocation None)) \<le> 4 \<and>
   list_all (\<lambda>call. prefix ''http://h/'' (call_URL call)) (m_calls (sample_invocation None))"
proof -
  have run: "run_state (earl sample_earl ''usage'' sample_client ''get'' [''/me'']) (sample_machine None) =
      (fst (run_state (earl sample_earl ''usage'' sample_client ''get'' [''/me'']) (sample_machine None)), sample_invocation None)"
    by (simp add: sample_invocation_def)
  from earl_exchanges [OF run] show ?thesis by (auto simp: sample_started)
qed

theorem earl_tokens_file_witness:
  "\<exists>call tokens. granted sample_earl call tokens \<and> m_files (sample_invocation (Some (3, ''no space left on device''))) =
     [''t'' \<mapsto> File (sample_tokens_file\<lparr>fl_Content := take 3 (sample_tokens_text tokens @ [CHR 0x0A])\<rparr>)]"
proof -
  let ?m = "sample_machine (Some (3, ''no space left on device''))"
  have run: "run_state (earl sample_earl ''usage'' sample_client ''get'' [''/me'']) ?m =
      (fst (run_state (earl sample_earl ''usage'' sample_client ''get'' [''/me'']) ?m),
       sample_invocation (Some (3, ''no space left on device'')))"
    by (simp add: sample_invocation_def)
  have "m_files (sample_invocation (Some (3, ''no space left on device''))) \<noteq> m_files ?m"
  proof
    assume "m_files (sample_invocation (Some (3, ''no space left on device''))) = m_files ?m"
    from fun_cong [OF this, of "''t''"] show False
      by (simp add: sample_invocations sample_started sample_tokens_file_def)
  qed
  from earl_tokens_file [OF run this] show ?thesis by (auto simp: sample_started)
qed

end
