(* ===== verification/EarlServer.thy ===== *)
theory EarlServer
  imports EarlTheorems HttpTheorems
begin

text \<open>
  The client and the server put together: the network of the client is the modelled server,
  whose state is the world. What encoding/json and the generated router make of the bytes is
  \<open>wire\<close>, with the round trips the recovery relies on as hypotheses.
\<close>

section \<open>The server behind the network\<close>







section \<open>Single exchanges\<close>





section \<open>A rotation that succeeds\<close>


lemma tick_more [simp]: "w_entropy (tick w) = w_entropy w"
  by (simp add: tick_def split: list.split)










section \<open>The client's run\<close>






section \<open>The recovery\<close>



section \<open>A sample session\<close>

















end
