(* ===== verification/Base64.thy ===== *)
theory Base64
  imports Prelude "HOL-Library.Word"
begin

unbundle bit_operations_syntax

text \<open>
  The base64 codec (package base64-js, webpack module 67526) that opens the JavaScript bundle
  the server embeds for its documentation page: internal/httputil/swaggerui/swagger-ui-bundle.js.
  The minified names are kept where they name something (\<open>i\<close> and \<open>a\<close> are the tables).

  JavaScript strings are lists of UTF-16 code units. The operators \<open><<\<close>, \<open>>>\<close>, \<open>&\<close>, \<open>|\<close>
  work on 32-bit signed integers (words here), and read \<open>undefined\<close> as 0. A write outside a
  \<open>Uint8Array\<close> is ignored, which is what \<open>xs[k := v]\<close> does.
\<close>

type_synonym js_string = "16 word list"

datatype js_error = Error_length | RangeError

definition code_units :: "string \<Rightarrow> js_string" where
  "code_units s = map of_char s"

definition alphabet :: js_string where
  "alphabet = code_units ''ABCDEFGHIJKLMNOPQRSTUVWXYZabcdefghijklmnopqrstuvwxyz0123456789+/''"

section \<open>The tables\<close>

text \<open>The table \<open>i\<close>: an index outside it is \<open>undefined\<close>, which string concatenation spells out.\<close>

definition i_table :: "js_string list" where
  "i_table = map (\<lambda>w. [alphabet ! w]) [0..<64]"

definition i_at :: "32 word \<Rightarrow> js_string" where
  "i_at k = (if unat k < 64 then i_table ! unat k else code_units ''undefined'')"

definition a_table :: "16 word \<rightharpoonup> 32 word" where
  "a_table = (fold (\<lambda>w m. m(alphabet ! w \<mapsto> of_nat w)) [0..<64] Map.empty)
     (of_char CHR ''-'' \<mapsto> 62, of_char CHR ''_'' \<mapsto> 63)"

definition a_at :: "js_string \<Rightarrow> nat \<Rightarrow> 32 word" where
  "a_at s k = (if k < length s then case a_table (s ! k) of None \<Rightarrow> 0 | Some w \<Rightarrow> w else 0)"

section \<open>Lengths\<close>

definition indexOf :: "'a list \<Rightarrow> 'a \<Rightarrow> int" where
  "indexOf s c = (let k = length (takeWhile (\<lambda>d. d \<noteq> c) s) in if k < length s then int k else -1)"

definition pad :: "16 word" where
  "pad = of_char CHR ''=''"

definition getLens :: "js_string \<Rightarrow> js_error + int \<times> int" where
  "getLens s =
     (let n = int (length s) in
      if n mod 4 > 0 then Inl Error_length
      else
        let i = indexOf s pad; i = (if i = -1 then n else i)
        in Inr (i, if i = n then 0 else 4 - i mod 4))"

definition byteLength :: "js_string \<Rightarrow> js_error + int" where
  "byteLength s =
     (case getLens s of
        Inl e \<Rightarrow> Inl e
      | Inr (i, a) \<Rightarrow> Inr (3 * (i + a) div 4 - a))"

section \<open>Decoding\<close>

function decode_quads :: "js_string \<Rightarrow> int \<Rightarrow> nat \<Rightarrow> nat \<Rightarrow> 8 word list \<Rightarrow> nat \<times> nat \<times> 8 word list" where
  "decode_quads s L i j C =
     (if int i < L then
        let v = push_bit 18 (a_at s i) OR push_bit 12 (a_at s (i + 1)) OR
                push_bit 6 (a_at s (i + 2)) OR a_at s (i + 3)
        in decode_quads s L (i + 4) (j + 3)
             (C[j := ucast (signed_drop_bit 16 v AND 255),
                j + 1 := ucast (signed_drop_bit 8 v AND 255),
                j + 2 := ucast (255 AND v)])
      else (i, j, C))"
  by pat_completeness auto
termination
  by (relation "measure (\<lambda>(s, L, i, j, C). nat (L - int i))") auto

declare decode_quads.simps [simp del]

definition decode_tail :: "js_string \<Rightarrow> int \<Rightarrow> nat \<times> nat \<times> 8 word list \<Rightarrow> 8 word list" where
  "decode_tail s x = (\<lambda>(i, j, C).
     if x = 2 then
       let v = push_bit 2 (a_at s i) OR signed_drop_bit 4 (a_at s (i + 1))
       in C[j := ucast (255 AND v)]
     else if x = 1 then
       let v = push_bit 10 (a_at s i) OR push_bit 4 (a_at s (i + 1)) OR
               signed_drop_bit 2 (a_at s (i + 2))
       in C[j := ucast (signed_drop_bit 8 v AND 255), j + 1 := ucast (255 AND v)]
     else C)"

definition toByteArray :: "js_string \<Rightarrow> js_error + 8 word list" where
  "toByteArray s =
     (case getLens s of
        Inl e \<Rightarrow> Inl e
      | Inr (w, x) \<Rightarrow>
          let n = 3 * (w + x) div 4 - x in
          if n < 0 then Inl RangeError
          else
            let C = replicate (nat n) 0; L = (if x > 0 then w - 4 else w)
            in Inr (decode_tail s x (decode_quads s L 0 0 C)))"

section \<open>Encoding\<close>

definition elem :: "8 word list \<Rightarrow> nat \<Rightarrow> 32 word" where
  "elem s k = (if k < length s then ucast (s ! k) else 0)"

function encodeChunk :: "8 word list \<Rightarrow> nat \<Rightarrow> nat \<Rightarrow> js_string" where
  "encodeChunk s x a =
     (if x < a then
        let u = (push_bit 16 (elem s x) AND 16711680) + (push_bit 8 (elem s (x + 1)) AND 65280) +
                (255 AND elem s (x + 2))
        in (i_at (signed_drop_bit 18 u AND 63) @ i_at (signed_drop_bit 12 u AND 63) @
            i_at (signed_drop_bit 6 u AND 63) @ i_at (63 AND u)) @ encodeChunk s (x + 3) a
      else [])"
  by pat_completeness auto
termination
  by (relation "measure (\<lambda>(s, x, a). a - x)") auto

declare encodeChunk.simps [simp del]

function encode_chunks :: "8 word list \<Rightarrow> nat \<Rightarrow> nat \<Rightarrow> js_string" where
  "encode_chunks s x C =
     (if x < C then encodeChunk s x (if x + 16383 > C then C else x + 16383) @ encode_chunks s (x + 16383) C
      else [])"
  by pat_completeness auto
termination
  by (relation "measure (\<lambda>(s, x, C). C - x)") auto

declare encode_chunks.simps [simp del]

definition encode_tail :: "8 word list \<Rightarrow> js_string" where
  "encode_tail s =
     (let a = length s; u = a mod 3 in
      if u = 1 then
        let v = elem s (a - 1)
        in i_at (signed_drop_bit 2 v) @ i_at (push_bit 4 v AND 63) @ code_units ''==''
      else if u = 2 then
        let v = push_bit 8 (elem s (a - 2)) + elem s (a - 1)
        in i_at (signed_drop_bit 10 v) @ i_at (signed_drop_bit 4 v AND 63) @
           i_at (push_bit 2 v AND 63) @ code_units ''=''
      else [])"

definition fromByteArray :: "8 word list \<Rightarrow> js_string" where
  "fromByteArray s = encode_chunks s 0 (length s - length s mod 3) @ encode_tail s"

section \<open>Word operators as arithmetic\<close>

named_theorems word_arith "bitwise operators on words as arithmetic on nat"

lemma signed_drop_bit_nonneg:
  fixes v :: "32 word"
  assumes "unat v < 2 ^ 31"
  shows "signed_drop_bit n v = drop_bit n v"
proof (rule bit_word_eqI)
  have "\<not> bit v k" if "31 \<le> k" for k
  proof -
    from that have "(2::nat) ^ 31 \<le> 2 ^ k" by (rule power_increasing) simp
    with assms have "unat v < 2 ^ k" by linarith
    then have "take_bit k (unat v) = unat v" by (simp add: take_bit_nat_eq_self)
    then have "\<not> bit (unat v) k" by (metis bit_take_bit_iff less_irrefl)
    then show ?thesis by (simp add: bit_unsigned_iff)
  qed
  then show "bit (signed_drop_bit n v) k = bit (drop_bit n v) k" if "k < LENGTH(32)" for k
    using that by (auto simp: bit_signed_drop_bit_iff bit_drop_bit_eq)
qed

lemma unat_signed_drop_bit [word_arith]:
  "unat (v :: 32 word) < 2147483648 \<Longrightarrow> unat (signed_drop_bit n v) = unat v div 2 ^ n"
  by (subst signed_drop_bit_nonneg, simp, subst unat_drop_bit_eq, subst drop_bit_eq_div, rule refl)

lemma unat_and_mask:
  "unat ((v :: 'a::len word) AND mask n) = unat v mod 2 ^ n"
  by (simp only: unsigned_take_bit_eq take_bit_eq_mod [of n "unat v"] flip: take_bit_eq_mask)

lemma unat_and_63 [word_arith]: "unat ((v :: 32 word) AND 63) = unat v mod 64"
  using unat_and_mask [of v 6] by (simp add: mask_eq_exp_minus_1)

lemma unat_and_255 [word_arith]: "unat ((v :: 32 word) AND 255) = unat v mod 256"
  using unat_and_mask [of v 8] by (simp add: mask_eq_exp_minus_1)

lemma and_63_commute [word_arith]: "63 AND (v :: 32 word) = v AND 63"
  and and_255_commute [word_arith]: "255 AND (v :: 32 word) = v AND 255"
  by (simp_all add: and.commute)

lemma unat_push_bit [word_arith]:
  "unat (v :: 32 word) * 2 ^ n < 4294967296 \<Longrightarrow> unat (push_bit n v) = unat v * 2 ^ n"
  by (simp only: unsigned_push_bit_eq push_bit_eq_mult [of n "unat v"] take_bit_nat_eq_self_iff) simp

lemma or_disjoint_nat:
  assumes "(b::nat) < 2 ^ n"
  shows "(a * 2 ^ n) OR b = a * 2 ^ n + b"
proof -
  from assms have b: "take_bit n b = b" by (simp add: take_bit_nat_eq_self)
  have "push_bit n a + take_bit n b = push_bit n a OR take_bit n b"
    by (rule disjunctive_add_eq_or) (auto simp: bit_eq_iff bit_and_iff bit_push_bit_iff bit_take_bit_iff)
  then show ?thesis unfolding b push_bit_eq_mult by simp
qed

lemma unat_or_shifted [word_arith]:
  fixes v w :: "32 word"
  assumes "unat v * 2 ^ n < 4294967296" and "unat w < 2 ^ n"
  shows "unat (push_bit n v OR w) = unat v * 2 ^ n + unat w"
  using assms by (simp only: unsigned_or_eq unat_push_bit or_disjoint_nat)

lemma and_high_byte: "push_bit 16 (v :: 32 word) AND 16711680 = push_bit 16 (v AND 255)"
  and and_low_byte: "push_bit 8 v AND 65280 = push_bit 8 (v AND 255)"
  using push_bit_and [of 16 v 255] push_bit_and [of 8 v 255] by simp_all

section \<open>Reference: groups of digits to the base 64 (RFC 4648, section 4)\<close>

definition b64_digit :: "nat \<Rightarrow> 16 word" where
  "b64_digit k = alphabet ! k"

definition sextets :: "nat \<Rightarrow> nat list" where
  "sextets n = [n div 262144, n div 4096 mod 64, n div 64 mod 64, n mod 64]"

fun base64 :: "8 word list \<Rightarrow> js_string" where
  "base64 (x # y # z # r) =
     map b64_digit (sextets (unat x * 65536 + unat y * 256 + unat z)) @ base64 r"
| "base64 [x, y] = map b64_digit (take 3 (sextets (unat x * 65536 + unat y * 256))) @ [pad]"
| "base64 [x] = map b64_digit (take 2 (sextets (unat x * 65536))) @ [pad, pad]"
| "base64 [] = []"

lemma length_alphabet [simp]: "length alphabet = 64"
  by (simp add: alphabet_def code_units_def)

lemma i_at_digit [word_arith]: "unat k < 64 \<Longrightarrow> i_at k = [b64_digit (unat k)]"
  by (simp add: i_at_def i_table_def b64_digit_def)

lemma length_base64: "length (base64 bs) = 4 * ((length bs + 2) div 3)"
  by (induction bs rule: base64.induct) (simp_all add: sextets_def, presburger)

lemma base64_append:
  "length bs mod 3 = 0 \<Longrightarrow> base64 (bs @ cs) = base64 bs @ base64 cs"
  by (induction bs rule: base64.induct) (simp_all add: sextets_def mod_Suc split: if_splits)

section \<open>The encoder computes the reference\<close>

lemma unat_byte: "unat (b :: 8 word) < 256"
  using unsigned_less [of b] by simp

lemma unat_elem: "unat (elem s k) = (if k < length s then unat (s ! k) else 0)"
  by (simp add: elem_def unsigned_ucast_eq take_bit_nat_eq_self less_trans [OF unat_byte])

lemma elem_bound: "unat (elem s k) < 256"
  using unat_byte [of "s ! k"] by (simp add: unat_elem)

lemma unat_add [word_arith]:
  "unat (v :: 32 word) + unat w < 4294967296 \<Longrightarrow> unat (v + w) = unat v + unat w"
  by (simp add: unat_add_lem [THEN iffD1])

lemma unat_group:
  fixes b0 b1 b2 :: "32 word"
  assumes b: "unat b0 < 256" "unat b1 < 256" "unat b2 < 256"
  shows "unat ((push_bit 16 b0 AND 16711680) + (push_bit 8 b1 AND 65280) + (255 AND b2)) =
    unat b0 * 65536 + unat b1 * 256 + unat b2"
  using b unfolding and_high_byte and_low_byte by (simp add: word_arith del: push_bit_and)

lemma encode_group:
  fixes u :: "32 word"
  assumes "unat u < 16777216"
  shows "i_at (signed_drop_bit 18 u AND 63) @ i_at (signed_drop_bit 12 u AND 63) @
      i_at (signed_drop_bit 6 u AND 63) @ i_at (63 AND u) = map b64_digit (sextets (unat u))"
  using assms by (simp add: word_arith sextets_def)

lemma encode_bytes:
  fixes b0 b1 b2 :: "32 word"
  assumes b: "unat b0 < 256" "unat b1 < 256" "unat b2 < 256"
  defines "u \<equiv> (push_bit 16 b0 AND 16711680) + (push_bit 8 b1 AND 65280) + (255 AND b2)"
  shows "i_at (signed_drop_bit 18 u AND 63) @ i_at (signed_drop_bit 12 u AND 63) @
      i_at (signed_drop_bit 6 u AND 63) @ i_at (63 AND u) =
    map b64_digit (sextets (unat b0 * 65536 + unat b1 * 256 + unat b2))"
  using unat_group [OF b] encode_group [of u] b unfolding u_def by simp

lemma take_three:
  assumes "x + 3 \<le> a" and "a \<le> length s"
  shows "take (a - x) (drop x s) = s ! x # s ! (x + 1) # s ! (x + 2) # take (a - (x + 3)) (drop (x + 3) s)"
proof -
  have "drop x s = s ! x # s ! (x + 1) # s ! (x + 2) # drop (x + 3) s"
    using assms by (simp add: Cons_nth_drop_Suc numeral_eq_Suc)
  moreover have "a - x = Suc (Suc (Suc (a - (x + 3))))"
    using assms(1) by simp
  ultimately show ?thesis by (simp only: take_Suc_Cons)
qed

lemma encodeChunk_base64:
  assumes "a \<le> length s" and "x \<le> a" and "(a - x) mod 3 = 0"
  shows "encodeChunk s x a = base64 (take (a - x) (drop x s))"
  using assms
proof (induction s x a rule: encodeChunk.induct)
  case (1 s x a)
  show ?case
  proof (cases "x < a")
    case True
    have "x + 3 \<le> a" using 1(4) True by presburger
    moreover have "(a - (x + 3)) mod 3 = 0" using 1(4) True by presburger
    ultimately show ?thesis
      using True 1(1) [OF True refl] 1(2)
      by (simp add: encodeChunk.simps [of s x] Let_def take_three encode_bytes unat_byte unat_elem)
  next
    case False
    then show ?thesis by (simp add: encodeChunk.simps [of s x])
  qed
qed

lemma encode_chunks_base64:
  assumes "C \<le> length s" and "x \<le> C" and "(C - x) mod 3 = 0"
  shows "encode_chunks s x C = base64 (take (C - x) (drop x s))"
  using assms
proof (induction s x C rule: encode_chunks.induct)
  case (1 s x C)
  show ?case
  proof (cases "x + 16383 < C")
    case True
    have m: "(C - (x + 16383)) mod 3 = 0" using 1(4) True by presburger
    have "take (C - x) (drop x s) =
        take 16383 (drop x s) @ take (C - (x + 16383)) (drop (x + 16383) s)"
      using take_add [of 16383 "C - (x + 16383)" "drop x s"] True by (simp add: add.commute)
    with True 1 m show ?thesis
      by (simp add: encode_chunks.simps [of s x] encodeChunk_base64 base64_append)
  next
    case False
    with 1(2-4) show ?thesis
      by (simp add: encode_chunks.simps [of s x] encode_chunks.simps [of s "x + 16383"] encodeChunk_base64)
  qed
qed

lemma two_bytes:
  fixes b c :: nat
  shows "(b * 65536 + c * 256) div 262144 = (b * 256 + c) div 1024"
    and "(b * 65536 + c * 256) div 4096 = (b * 256 + c) div 16"
    and "(b * 65536 + c * 256) div 64 mod 64 = (b * 256 + c) * 4 mod 64"
proof -
  have *: "b * 65536 + c * 256 = (b * 256 + c) * 256" by simp
  show "(b * 65536 + c * 256) div 262144 = (b * 256 + c) div 1024"
    and "(b * 65536 + c * 256) div 4096 = (b * 256 + c) div 16"
    and "(b * 65536 + c * 256) div 64 mod 64 = (b * 256 + c) * 4 mod 64"
    unfolding * using div_mult2_eq [of "(b * 256 + c) * 256" 256 1024]
      div_mult2_eq [of "(b * 256 + c) * 256" 256 16] div_mult_mult1 [of 64 "(b * 256 + c) * 4" 1]
    by (simp_all add: algebra_simps)
qed

lemma take_sextets_two:
  "take 3 (sextets (b * 65536 + c * 256)) =
    [(b * 256 + c) div 1024, (b * 256 + c) div 16 mod 64, (b * 256 + c) * 4 mod 64]"
  unfolding sextets_def two_bytes by simp

lemma encode_two:
  fixes b c :: "32 word"
  assumes "unat b < 256" and "unat c < 256"
  defines "v \<equiv> push_bit 8 b + c"
  shows "(i_at (signed_drop_bit 10 v) @ i_at (signed_drop_bit 4 v AND 63)) @ i_at (push_bit 2 v AND 63) =
    map b64_digit (take 3 (sextets (unat b * 65536 + unat c * 256)))"
proof -
  have v: "unat v = unat b * 256 + unat c"
    using assms(1,2) unfolding v_def by (simp add: word_arith)
  have "unat v < 65536" using assms(1,2) unfolding v by simp
  then show ?thesis
    unfolding take_sextets_two v [symmetric] by (simp add: word_arith mult.commute)
qed

lemma encode_tail_base64:
  "encode_tail s = base64 (drop (length s - length s mod 3) s)"
proof -
  let ?n = "length s - length s mod 3"
  consider "length s mod 3 = 0" | "length s mod 3 = 1" | "length s mod 3 = 2"
    by linarith
  then show ?thesis
  proof cases
    case 1
    then show ?thesis by (simp add: encode_tail_def)
  next
    case 2
    then have "length s > 0" by (cases s) auto
    with 2 have "drop ?n s = [s ! (length s - 1)]"
      by (simp add: Cons_nth_drop_Suc [symmetric])
    with 2 \<open>length s > 0\<close> show ?thesis
      using unat_byte [of "s ! (length s - 1)"]
      by (simp add: encode_tail_def Let_def word_arith unat_elem sextets_def pad_def code_units_def
          mult.commute)
  next
    case 3
    then have l: "length s > 1" by (cases s rule: remdups_adj.cases) auto
    with 3 have "drop ?n s = [s ! (length s - 2), s ! (length s - 1)]"
      by (simp add: Cons_nth_drop_Suc [symmetric] Suc_diff_Suc numeral_2_eq_2)
    moreover from l have "s \<noteq> []" by auto
    ultimately show ?thesis using 3 l
      by (simp add: encode_tail_def Let_def encode_two unat_byte unat_elem pad_def code_units_def
          flip: append_assoc)
  qed
qed

lemma fromByteArray_base64: "fromByteArray s = base64 s"
proof -
  let ?n = "length s - length s mod 3"
  have m: "?n mod 3 = 0" by presburger
  have "base64 (take ?n s @ drop ?n s) = base64 (take ?n s) @ base64 (drop ?n s)"
    using m by (intro base64_append) (simp only: length_take min.absorb2 diff_le_self)
  then have "base64 s = base64 (take ?n s) @ base64 (drop ?n s)"
    by (simp only: append_take_drop_id)
  with m show ?thesis
    by (simp add: fromByteArray_def encode_chunks_base64 encode_tail_base64)
qed

section \<open>The decoder inverts the reference\<close>

lemma unat_of_char: "unat (of_char c :: 16 word) = of_char c"
proof -
  have "unat (of_nat (of_char c) :: 16 word) = of_char c"
    using less_trans [OF nat_of_char_less_256, of 65536 c] by (simp add: unat_of_nat take_bit_eq_mod)
  then show ?thesis by (simp only: of_nat_of_char)
qed

lemma of_char_eq_iff_word [simp]: "(of_char c :: 16 word) = of_char d \<longleftrightarrow> c = d"
  by (metis unat_of_char of_char_eq_iff)

lemma distinct_alphabet: "distinct alphabet"
  by (simp add: alphabet_def code_units_def distinct_map inj_on_def)

lemma alphabet_lacks:
  "pad \<notin> set alphabet" "of_char CHR ''-'' \<notin> set alphabet" "of_char CHR ''_'' \<notin> set alphabet"
  by (simp_all add: alphabet_def code_units_def pad_def)

lemma fold_table:
  assumes "distinct xs" and "k < n" and "n \<le> length xs"
  shows "fold (\<lambda>w m. m(xs ! w \<mapsto> f w)) [0..<n] m0 (xs ! k) = Some (f k)"
  using assms(2,3)
proof (induction n)
  case (Suc n)
  then show ?case
    using assms(1) by (cases "k = n") (auto simp: nth_eq_iff_index_eq)
qed simp

lemma b64_digit_mem: "k < 64 \<Longrightarrow> b64_digit k \<in> set alphabet"
  by (simp add: b64_digit_def)

lemma b64_digit_special:
  assumes "k < 64"
  shows "b64_digit k \<noteq> pad" "b64_digit k \<noteq> of_char CHR ''-''" "b64_digit k \<noteq> of_char CHR ''_''"
  using b64_digit_mem [OF assms] alphabet_lacks by metis+

lemma a_table_digit: "k < 64 \<Longrightarrow> a_table (b64_digit k) = Some (of_nat k)"
  using fold_table [OF distinct_alphabet, of k 64 of_nat] b64_digit_special(2,3) [of k]
  unfolding a_table_def b64_digit_def by (simp del: of_char_Char)

lemma unat_value [word_arith]: "k < 64 \<Longrightarrow> unat (of_nat k :: 32 word) = k"
  by (simp add: unat_of_nat take_bit_nat_eq_self)

lemma a_at_append:
  "a_at (p @ q) (length p + k) = a_at q k"
  by (simp add: a_at_def nth_append)

lemma a_at_append0: "a_at (p @ q) (length p) = a_at q 0"
  using a_at_append [of p q 0] by simp

lemma a_at_digit [word_arith]:
  "k < length s \<Longrightarrow> s ! k = b64_digit d \<Longrightarrow> d < 64 \<Longrightarrow> a_at s k = of_nat d"
  by (simp add: a_at_def a_table_digit)

lemma unat_four:
  fixes a b c d :: "32 word"
  assumes "unat a < 64" and "unat b < 64" and "unat c < 64" and "unat d < 64"
  shows "unat (push_bit 18 a OR push_bit 12 b OR push_bit 6 c OR d) =
    unat a * 262144 + unat b * 4096 + unat c * 64 + unat d"
proof -
  have 1: "unat (push_bit 6 c OR d) = unat c * 64 + unat d"
    using assms by (simp add: unat_or_shifted)
  have 2: "unat (push_bit 12 b OR push_bit 6 c OR d) = unat b * 4096 + (unat c * 64 + unat d)"
    using assms by (subst unat_or_shifted) (simp_all add: 1)
  show ?thesis
    using assms by (subst unat_or_shifted) (simp_all add: 2)
qed

lemma decode_group:
  assumes "n < 16777216" and "take 4 s = map b64_digit (sextets n)"
  shows "unat (push_bit 18 (a_at s 0) OR push_bit 12 (a_at s 1) OR push_bit 6 (a_at s 2) OR a_at s 3) = n"
proof -
  from assms(2) obtain r where s: "s = map b64_digit (sextets n) @ r"
    by (metis append_take_drop_id)
  from assms(1) have v: "a_at s 0 = of_nat (n div 262144)" "a_at s 1 = of_nat (n div 4096 mod 64)"
      "a_at s 2 = of_nat (n div 64 mod 64)" "a_at s 3 = of_nat (n mod 64)"
    by (simp_all add: s a_at_def sextets_def a_table_digit)
  have "n div 4096 = n div 64 div 64" and "n div 262144 = n div 64 div 64 div 64"
    by (simp_all add: div_mult2_eq [symmetric])
  moreover from this(2) assms(1) have "n div 64 div 64 div 64 < 64"
    by (simp add: less_mult_imp_div_less)
  moreover have "n div 64 div 64 div 64 * 262144 + n div 64 div 64 mod 64 * 4096 +
      n div 64 mod 64 * 64 + n mod 64 = n"
    using div_mult_mod_eq [of n 64] div_mult_mod_eq [of "n div 64" 64]
      div_mult_mod_eq [of "n div 64 div 64" 64] by linarith
  ultimately show ?thesis
    unfolding v by (simp add: unat_four unat_value)
qed

lemma list_update_next:
  "(C @ x # y # R)[Suc (length C) := b] = C @ x # b # R"
  "(C @ x # y # z # R)[Suc (Suc (length C)) := b] = C @ x # y # b # R"
  by (simp_all add: list_update_append Suc_diff_le)

lemma base256:
  fixes x y z :: nat
  assumes "x < 256" and "y < 256" and "z < 256"
  shows "(x * 65536 + y * 256 + z) div 65536 = x"
    and "(x * 65536 + y * 256 + z) div 256 mod 256 = y"
    and "(x * 65536 + y * 256 + z) mod 256 = z"
proof -
  have split: "x * 65536 + y * 256 + z = z + (y + x * 256) * 256" by simp
  have d: "(x * 65536 + y * 256 + z) div 256 = y + x * 256"
    unfolding split using assms by (subst div_mult_self1) simp_all
  show "(x * 65536 + y * 256 + z) div 256 mod 256 = y"
    unfolding d using assms by simp
  show "(x * 65536 + y * 256 + z) mod 256 = z"
    unfolding split using assms by (simp only: mod_mult_self1) simp
  have "(x * 65536 + y * 256 + z) div 65536 = (y + x * 256) div 256"
    unfolding d [symmetric] by (simp add: div_mult2_eq [symmetric])
  with assms show "(x * 65536 + y * 256 + z) div 65536 = x"
    by simp
qed

lemma ucast_to_byte: "unat (w :: 32 word) = unat b \<Longrightarrow> ucast w = (b :: 8 word)"
  using unat_byte [of b] by (simp add: word_unat_eq_iff unsigned_ucast_eq take_bit_nat_eq_self)

lemma bytes_of_group:
  fixes v :: "32 word" and x y z :: "8 word"
  assumes "unat v = unat x * 65536 + unat y * 256 + unat z"
  shows "ucast (signed_drop_bit 16 v AND 255) = x" "ucast (signed_drop_bit 8 v AND 255) = y"
    "ucast (255 AND v) = z"
proof -
  have v: "unat v < 2147483648"
    using assms unat_byte [of x] unat_byte [of y] unat_byte [of z] by simp
  have "unat v div 65536 = unat x" and "unat v div 256 mod 256 = unat y" and "unat v mod 256 = unat z"
    using base256 [OF unat_byte [of x] unat_byte [of y] unat_byte [of z]] unfolding assms by simp_all
  then show "ucast (signed_drop_bit 16 v AND 255) = x" "ucast (signed_drop_bit 8 v AND 255) = y"
    "ucast (255 AND v) = z"
    using v unat_byte [of x] by (auto intro!: ucast_to_byte simp: word_arith)
qed

lemma decode_quads_base64:
  assumes "length bs mod 3 = 0" and "0 \<le> d" and "d < 4"
  shows "decode_quads (P @ base64 bs @ Q) (int (length P + length (base64 bs)) - d) (length P) (length C)
      (C @ replicate (length bs) 0 @ R) = (length P + length (base64 bs), length C + length bs, C @ bs @ R)"
  using assms(1)
proof (induction bs arbitrary: P C rule: base64.induct)
  case (1 x y z r)
  let ?n = "unat x * 65536 + unat y * 256 + unat z"
  define K where "K = map b64_digit (sextets ?n)"
  let ?X = "K @ base64 r @ Q"
  have K: "length K = 4" "base64 (x # y # z # r) = K @ base64 r" "length r mod 3 = 0"
    using "1.prems" by (simp_all add: K_def sextets_def mod_Suc split: if_splits)
  have n: "?n < 16777216"
    using unat_byte [of x] unat_byte [of y] unat_byte [of z] by simp
  have v: "unat (push_bit 18 (a_at (P @ ?X) (length P)) OR push_bit 12 (a_at (P @ ?X) (length P + 1)) OR
      push_bit 6 (a_at (P @ ?X) (length P + 2)) OR a_at (P @ ?X) (length P + 3)) = ?n"
    using decode_group [OF n, of ?X] K(1) unfolding a_at_append a_at_append0 by (simp add: K_def)
  have "decode_quads (P @ ?X) (int (length P + (4 + length (base64 r))) - d) (length P) (length C)
      (C @ 0 # 0 # 0 # replicate (length r) 0 @ R) =
    decode_quads (P @ ?X) (int (length P + (4 + length (base64 r))) - d) (length P + 4) (Suc (Suc (Suc (length C))))
      (C @ x # y # z # replicate (length r) 0 @ R)"
    using assms(2,3) bytes_of_group [OF v]
    by (subst decode_quads.simps) (simp add: Let_def list_update_next numeral_2_eq_2 numeral_3_eq_3)
  with "1.IH" [of "P @ K" "C @ [x, y, z]"] K show ?case
    by (simp add: add.assoc)
next
  case 4
  then show ?case using assms(2) by (simp add: decode_quads.simps)
qed simp_all

lemma digits_lack_pad: "\<forall>k\<in>set ks. k < 64 \<Longrightarrow> pad \<notin> set (map b64_digit ks)"
  by (induction ks) (auto simp: b64_digit_special(1) [THEN not_sym])

lemma base64_lacks_pad: "length bs mod 3 = 0 \<Longrightarrow> pad \<notin> set (base64 bs)"
proof (induction bs rule: base64.induct)
  case (1 x y z r)
  have "unat x * 65536 + unat y * 256 + unat z < 16777216"
    using unat_byte [of x] unat_byte [of y] unat_byte [of z] by simp
  then have "\<forall>k\<in>set (sextets (unat x * 65536 + unat y * 256 + unat z)). k < 64"
    by (simp add: sextets_def less_mult_imp_div_less)
  then have "pad \<notin> set (map b64_digit (sextets (unat x * 65536 + unat y * 256 + unat z)))"
    by (rule digits_lack_pad)
  moreover have "length r mod 3 = 0" using "1.prems" by simp
  ultimately show ?case using "1.IH" by simp
qed simp_all

lemma indexOf_absent: "c \<notin> set s \<Longrightarrow> indexOf s c = -1"
  by (induction s) (auto simp: indexOf_def Let_def)

lemma indexOf_first: "c \<notin> set p \<Longrightarrow> indexOf (p @ c # q) c = int (length p)"
proof -
  assume "c \<notin> set p"
  then have "takeWhile (\<lambda>d. d \<noteq> c) (p @ c # q) = p"
    by (subst takeWhile_append2) auto
  then show ?thesis by (simp add: indexOf_def)
qed

text \<open>Every byte list is a number of whole groups followed by at most two bytes.\<close>

lemma groups_and_tail:
  fixes bs :: "8 word list"
  obtains (none) p where "bs = p" "length p mod 3 = 0"
  | (one) p x where "bs = p @ [x]" "length p mod 3 = 0"
  | (two) p x y where "bs = p @ [x, y]" "length p mod 3 = 0"
proof (induction bs arbitrary: thesis rule: base64.induct)
  case (1 x y z r)
  show ?case
  proof (rule "1.IH")
    show thesis if "r = p" "length p mod 3 = 0" for p
      using "1.prems"(1) [of "x # y # z # p"] that by simp
    show thesis if "r = p @ [u]" "length p mod 3 = 0" for p u
      using "1.prems"(2) [of "x # y # z # p" u] that by simp
    show thesis if "r = p @ [u, v]" "length p mod 3 = 0" for p u v
      using "1.prems"(3) [of "x # y # z # p" u v] that by simp
  qed
next
  case (2 x y)
  then show ?case by (metis append_Nil list.size(3) mod_0)
next
  case (3 x)
  then show ?case by (metis append_Nil list.size(3) mod_0)
next
  case 4
  then show ?case by simp
qed

lemma length_base64_groups: "length p mod 3 = 0 \<Longrightarrow> length (base64 p) = 4 * (length p div 3)"
  unfolding length_base64 by (auto elim!: dvdE simp: dvd_eq_mod_eq_0 [symmetric])

lemma getLens_groups:
  assumes "length p mod 3 = 0"
  shows "getLens (base64 p) = Inr (int (length (base64 p)), 0)"
  using base64_lacks_pad [OF assms]
  by (simp add: getLens_def Let_def indexOf_absent length_base64)

lemma getLens_one:
  assumes "length p mod 3 = 0" and "a < 64" and "b < 64"
  shows "getLens (base64 p @ [b64_digit a, b64_digit b, pad, pad]) = Inr (int (length (base64 p)) + 2, 2)"
proof -
  have "pad \<notin> set (base64 p @ [b64_digit a, b64_digit b])"
    using base64_lacks_pad [OF assms(1)] b64_digit_special(1) [OF assms(2)] b64_digit_special(1) [OF assms(3)] by auto
  from indexOf_first [OF this, of "[pad]"] show ?thesis
    using length_base64_groups [OF assms(1)] by (simp add: getLens_def Let_def)
qed

lemma getLens_two:
  assumes "length p mod 3 = 0" and "a < 64" and "b < 64" and "c < 64"
  shows "getLens (base64 p @ [b64_digit a, b64_digit b, b64_digit c, pad]) = Inr (int (length (base64 p)) + 3, 1)"
proof -
  have "pad \<notin> set (base64 p @ [b64_digit a, b64_digit b, b64_digit c])"
    using base64_lacks_pad [OF assms(1)] b64_digit_special(1) [OF assms(2)] b64_digit_special(1) [OF assms(3)]
      b64_digit_special(1) [OF assms(4)] by auto
  from indexOf_first [OF this, of "[]"] show ?thesis
    using length_base64_groups [OF assms(1)] by (simp add: getLens_def Let_def)
qed

lemma a_at_tail:
  "k < length t \<Longrightarrow> t ! k = b64_digit a \<Longrightarrow> a < 64 \<Longrightarrow> a_at (p @ t) (length p + k) = of_nat a"
  by (simp add: a_at_append a_at_digit)

lemma decode_one:
  assumes "a_at s i = of_nat (unat x div 4)" and "a_at s (i + 1) = of_nat (unat x * 16 mod 64)"
  shows "decode_tail s 2 (i, length p, p @ [0]) = p @ [x]"
proof -
  let ?v = "push_bit 2 (of_nat (unat x div 4)) OR signed_drop_bit 4 (of_nat (unat x * 16 mod 64)) :: 32 word"
  have "unat x * 16 mod 64 div 16 = unat x mod 4"
    by (simp add: mult.commute [of _ 16] mult_mod_right [of 16 _ 4, simplified, symmetric])
  then have "unat ?v = unat x div 4 * 4 + unat x mod 4"
    using unat_byte [of x] by (simp add: unat_or_shifted unat_signed_drop_bit unat_value)
  then have "unat (255 AND ?v) = unat x"
    using unat_byte [of x] by (simp add: word_arith)
  then show ?thesis
    using assms by (simp add: decode_tail_def Let_def ucast_to_byte)
qed

lemma mult4_mod64_div4: "(n::nat) * 4 mod 64 div 4 = n mod 16"
  by (simp add: mult.commute [of _ 4] mult_mod_right [of 4 _ 16, simplified, symmetric])

lemma decode_two:
  fixes x y :: "8 word"
  defines "n \<equiv> unat x * 256 + unat y"
  assumes "a_at s i = of_nat (n div 1024)" and "a_at s (i + 1) = of_nat (n div 16 mod 64)"
    and "a_at s (i + 2) = of_nat (n * 4 mod 64)"
  shows "decode_tail s 1 (i, length p, p @ [0, 0]) = p @ [x, y]"
proof -
  let ?v = "push_bit 10 (of_nat (n div 1024)) OR push_bit 4 (of_nat (n div 16 mod 64)) OR
    signed_drop_bit 2 (of_nat (n * 4 mod 64)) :: 32 word"
  have n: "n < 65536" and d: "n div 1024 = n div 16 div 64"
    using unat_byte [of x] unat_byte [of y] by (simp_all add: n_def div_mult2_eq [symmetric])
  have 1: "unat (signed_drop_bit 2 (of_nat (n * 4 mod 64)) :: 32 word) = n mod 16"
    by (simp add: unat_signed_drop_bit unat_value mult4_mod64_div4)
  have 2: "unat (push_bit 4 (of_nat (n div 16 mod 64)) OR signed_drop_bit 2 (of_nat (n * 4 mod 64)) :: 32 word) =
      n div 16 mod 64 * 16 + n mod 16"
    by (subst unat_or_shifted) (simp_all add: 1 unat_value)
  have "unat ?v = n div 1024 * 1024 + (n div 16 mod 64 * 16 + n mod 16)"
    using n by (subst unat_or_shifted) (simp_all add: 2 unat_value)
  also have "\<dots> = n"
    unfolding d using div_mult_mod_eq [of n 16] div_mult_mod_eq [of "n div 16" 64] by linarith
  finally have "unat ?v = unat 0 * 65536 + unat x * 256 + unat y"
    by (simp add: n_def)
  note b = bytes_of_group [OF this]
  have "a_at s (Suc (Suc i)) = of_nat (n * 4 mod 64)" using assms(4) by simp
  then show ?thesis
    using assms(2,3) b(2,3) by (simp add: decode_tail_def Let_def list_update_append)
qed

lemma take_sextets_one: "take 2 (sextets (b * 65536)) = [b div 4, b * 16 mod 64]"
  using two_bytes(2) [of b 0] div_mult_mult1 [of 65536 b 4]
  by (simp add: sextets_def mult.commute)

lemma toByteArray_decoded:
  assumes "getLens s = Inr (w, x)" and "3 * (w + x) div 4 - x = int n"
    and "decode_quads s (if x > 0 then w - 4 else w) 0 0 (replicate n 0) = r"
  shows "toByteArray s = Inr (decode_tail s x r)"
  using assms(3)
  by (simp only: toByteArray_def assms(1) sum.case prod.case Let_def assms(2) nat_int) simp

lemma replicate_split:
  "replicate (n + 1) z = replicate n z @ [z]" "replicate (n + 2) z = replicate n z @ [z, z]"
  by (simp_all only: replicate_add) (simp_all add: numeral_2_eq_2)

lemma toByteArray_none:
  assumes "length p = 3 * q"
  shows "toByteArray (base64 p) = Inr p"
proof -
  have p: "length p mod 3 = 0" and l: "length (base64 p) = 4 * q"
    using assms by (simp_all add: length_base64_groups)
  have n: "3 * (4 * int q + 0) div 4 - 0 = 3 * int q" by presburger
  show ?thesis
    using getLens_groups [OF p] decode_quads_base64 [OF p, of 0 "[]" "[]" "[]" "[]"] n
    by (simp add: toByteArray_def Let_def l assms decode_tail_def nat_mult_distrib)
qed

lemma toByteArray_one:
  assumes "length p = 3 * q"
  shows "toByteArray (base64 (p @ [x])) = Inr (p @ [x])"
proof -
  let ?t = "[b64_digit (unat x div 4), b64_digit (unat x * 16 mod 64), pad, pad]"
  have p: "length p mod 3 = 0" and l: "length (base64 p) = 4 * q"
    using assms by (simp_all add: length_base64_groups)
  have d: "unat x div 4 < 64" "unat x * 16 mod 64 < 64"
    using unat_byte [of x] by simp_all
  have n: "3 * (int (length (base64 p)) + 2 + 2) div 4 - 2 = int (length p + 1)"
    unfolding l assms by presburger
  have s: "base64 (p @ [x]) = base64 p @ ?t"
    by (simp add: base64_append [OF p] take_sextets_one)
  have "decode_quads (base64 p @ ?t) (int (length (base64 p)) - 2) 0 0 (replicate (length p) 0 @ [0]) =
      (4 * q, length p, p @ [0])"
    using decode_quads_base64 [OF p, of 2 "[]" ?t "[]" "[0]"] by (simp add: l)
  then have "decode_quads (base64 p @ ?t) (if (2::int) > 0 then int (length (base64 p)) + 2 - 4
      else int (length (base64 p)) + 2) 0 0 (replicate (length p + 1) 0) = (4 * q, length p, p @ [0])"
    unfolding replicate_split by simp
  note toByteArray_decoded [OF getLens_one [OF p d] n this]
  moreover have "decode_tail (base64 p @ ?t) 2 (4 * q, length p, p @ [0]) = p @ [x]"
    using d a_at_append [of "base64 p" ?t 1] a_at_append0 [of "base64 p" ?t]
    by (intro decode_one) (simp_all add: l a_at_digit)
  ultimately show ?thesis unfolding s by simp
qed

lemma toByteArray_two:
  assumes "length p = 3 * q"
  shows "toByteArray (base64 (p @ [x, y])) = Inr (p @ [x, y])"
proof -
  let ?n = "unat x * 256 + unat y"
  let ?t = "[b64_digit (?n div 1024), b64_digit (?n div 16 mod 64), b64_digit (?n * 4 mod 64), pad]"
  have p: "length p mod 3 = 0" and l: "length (base64 p) = 4 * q"
    using assms by (simp_all add: length_base64_groups)
  have d: "?n div 1024 < 64" "?n div 16 mod 64 < 64" "?n * 4 mod 64 < 64"
    using unat_byte [of x] unat_byte [of y] by simp_all
  have n: "3 * (int (length (base64 p)) + 3 + 1) div 4 - 1 = int (length p + 2)"
    unfolding l assms by presburger
  have s: "base64 (p @ [x, y]) = base64 p @ ?t"
    by (simp add: base64_append [OF p] take_sextets_two)
  have "decode_quads (base64 p @ ?t) (int (length (base64 p)) - 1) 0 0 (replicate (length p) 0 @ [0, 0]) =
      (4 * q, length p, p @ [0, 0])"
    using decode_quads_base64 [OF p, of 1 "[]" ?t "[]" "[0, 0]"] by (simp add: l)
  then have "decode_quads (base64 p @ ?t) (if (1::int) > 0 then int (length (base64 p)) + 3 - 4
      else int (length (base64 p)) + 3) 0 0 (replicate (length p + 2) 0) = (4 * q, length p, p @ [0, 0])"
    unfolding replicate_split by simp
  note toByteArray_decoded [OF getLens_two [OF p d] n this]
  moreover have "decode_tail (base64 p @ ?t) 1 (4 * q, length p, p @ [0, 0]) = p @ [x, y]"
    using d a_at_append [of "base64 p" ?t 1] a_at_append [of "base64 p" ?t 2] a_at_append0 [of "base64 p" ?t]
    by (intro decode_two) (simp_all add: l a_at_digit)
  ultimately show ?thesis unfolding s by simp
qed

lemma toByteArray_base64: "toByteArray (base64 bs) = Inr bs"
  by (cases bs rule: groups_and_tail)
    (auto simp: mod_eq_0_iff_dvd intro: toByteArray_none toByteArray_one toByteArray_two)

section \<open>Outcomes of the decoder\<close>

lemma length_decode_quads: "decode_quads s L i j C = (i', j', C') \<Longrightarrow> length C' = length C"
proof (induction s L i j C rule: decode_quads.induct)
  case (1 s L i j C)
  then show ?case
    by (subst (asm) (2) decode_quads.simps) (auto simp: Let_def split: if_splits)
qed

lemma length_decode_tail: "length (decode_tail s x (i, j, C)) = length C"
  by (simp add: decode_tail_def Let_def)

lemma indexOf_bounds: "-1 \<le> indexOf s c \<and> indexOf s c < int (length s)"
  by (simp add: indexOf_def Let_def)

lemma indexOf_zero: "indexOf s c = 0 \<longleftrightarrow> take 1 s = [c]"
  by (cases s) (simp_all add: indexOf_def Let_def)

lemma getLens_length: "getLens s = Inl e \<longleftrightarrow> e = Error_length \<and> length s mod 4 \<noteq> 0"
proof -
  have "int (length s) mod 4 > 0 \<longleftrightarrow> length s mod 4 \<noteq> 0" by presburger
  then show ?thesis by (cases e) (auto simp: getLens_def Let_def)
qed

lemma getLens_negative:
  assumes "getLens s = Inr (w, x)"
  shows "3 * (w + x) div 4 - x < 0 \<longleftrightarrow> take 1 s = [pad]"
proof -
  define n where "n = int (length s)"
  have n: "n mod 4 = 0" "w = (if indexOf s pad = -1 then n else indexOf s pad)"
      "x = (if w = n then 0 else 4 - w mod 4)"
    using assms by (auto simp: getLens_def n_def Let_def split: if_split_asm)
  show ?thesis
  proof (cases "indexOf s pad = -1")
    case True
    then have "take 1 s \<noteq> [pad]" using indexOf_zero [of s pad] by auto
    moreover from True n have "w = n" "x = 0" by simp_all
    ultimately show ?thesis by (simp add: n_def)
  next
    case False
    with n indexOf_bounds [of s pad] have w: "0 \<le> w" "w = indexOf s pad" "x = 4 - w mod 4"
      by (auto simp: n_def)
    have "3 * (w + (4 - w mod 4)) div 4 - (4 - w mod 4) < 0 \<longleftrightarrow> w = 0"
      using w(1) by presburger
    with w indexOf_zero [of s pad] show ?thesis by simp
  qed
qed

lemma toByteArray_cases:
  "(toByteArray s = Inl Error_length \<longleftrightarrow> length s mod 4 \<noteq> 0) \<and>
   (toByteArray s = Inl RangeError \<longleftrightarrow> length s mod 4 = 0 \<and> take 1 s = [pad]) \<and>
   (\<forall>bs. toByteArray s = Inr bs \<longrightarrow> byteLength s = Inr (int (length bs)))"
proof (cases "getLens s")
  case (Inl e)
  with getLens_length [of s e] show ?thesis by (auto simp: toByteArray_def)
next
  case (Inr p)
  obtain w x where p: "p = (w, x)" by fastforce
  have m: "length s mod 4 = 0" using getLens_length [of s Error_length] Inr by auto
  show ?thesis
  proof (cases "3 * (w + x) div 4 - x < 0")
    case True
    then show ?thesis
      using Inr getLens_negative [of s w x] m by (simp add: toByteArray_def p Let_def)
  next
    case False
    then obtain n where n: "3 * (w + x) div 4 - x = int n" by (metis nonneg_int_cases not_le)
    obtain i j C where q: "decode_quads s (if 0 < x then w - 4 else w) 0 0 (replicate n 0) = (i, j, C)"
      by (metis prod_cases3)
    with Inr n have "toByteArray s = Inr (decode_tail s x (i, j, C))"
      by (intro toByteArray_decoded) (simp_all add: p)
    with Inr n False getLens_negative [of s w x] length_decode_quads [OF q] m show ?thesis
      by (simp add: byteLength_def p length_decode_tail)
  qed
qed

section \<open>Properties\<close>

lemma base64_chars: "set (base64 bs) \<subseteq> set alphabet \<union> {pad}"
proof (induction bs rule: base64.induct)
  case (1 x y z r)
  have "unat x * 65536 + unat y * 256 + unat z < 16777216"
    using unat_byte [of x] unat_byte [of y] unat_byte [of z] by simp
  with "1.IH" show ?case
    by (auto simp: sextets_def b64_digit_mem less_mult_imp_div_less)
next
  case (2 x y)
  have "(unat x * 256 + unat y) div 1024 < 64"
    using unat_byte [of x] unat_byte [of y] by simp
  then show ?case by (auto simp: take_sextets_two b64_digit_mem)
next
  case (3 x)
  have "unat x div 4 < 64" using unat_byte [of x] by simp
  then show ?case by (auto simp: take_sextets_one b64_digit_mem)
qed simp

text \<open>C39. The encoder, with its chunks of 16383 bytes and its 32-bit shifts, computes the base64
  encoding of RFC 4648; its output has four characters for every three bytes begun, all of the
  alphabet or the padding.\<close>

theorem fromByteArray_rfc4648:
  "fromByteArray s = base64 s \<and> length (fromByteArray s) = 4 * ((length s + 2) div 3) \<and>
   set (fromByteArray s) \<subseteq> set alphabet \<union> {pad}"
  using base64_chars [of s] by (simp add: fromByteArray_base64 length_base64)

text \<open>C40. Decoding what was encoded gives the bytes back.\<close>

theorem base64_roundtrip: "toByteArray (fromByteArray bs) = Inr bs"
  by (simp add: fromByteArray_base64 toByteArray_base64)

text \<open>All outcomes of the decoder: it throws exactly for a length that is not a multiple of
  four and for a string that starts with the padding; otherwise it returns as many bytes as
  \<open>byteLength\<close> announces.\<close>

theorem toByteArray_outcomes:
  "(toByteArray s = Inl Error_length \<longleftrightarrow> length s mod 4 \<noteq> 0) \<and>
   (toByteArray s = Inl RangeError \<longleftrightarrow> length s mod 4 = 0 \<and> take 1 s = [pad]) \<and>
   (\<forall>bs. toByteArray s = Inr bs \<longrightarrow> byteLength s = Inr (int (length bs)))"
  by (rule toByteArray_cases)

theorem toByteArray_outcomes_witness:
  "toByteArray (code_units ''===='') = Inl RangeError \<and> toByteArray (code_units ''YQ='') = Inl Error_length \<and>
   toByteArray (code_units ''YWI='') = Inr [97, 98] \<and> byteLength (code_units ''YWI='') = Inr 2"
proof -
  have d: "toByteArray (code_units ''YWI='') = Inr [97, 98]"
    using base64_roundtrip [of "[97, 98]"] by code_simp
  moreover have "byteLength (code_units ''YWI='') = Inr 2"
    using toByteArray_outcomes [of "code_units ''YWI=''"] d by auto
  moreover have "toByteArray (code_units ''===='') = Inl RangeError"
    using toByteArray_outcomes [of "code_units ''====''"] by (simp add: code_units_def pad_def)
  moreover have "toByteArray (code_units ''YQ='') = Inl Error_length"
    using toByteArray_outcomes [of "code_units ''YQ=''"] by (simp add: code_units_def)
  ultimately show ?thesis by simp
qed

end
