(* ===== verification/Spec2Isabelle.thy ===== *)
theory Spec2Isabelle
  imports GameTheorems SessionTheorems AccountTheorems TokenTheorems DatabaseTheorems HttpTheorems
    ResponseTypes ServerTheorems ProcessTheorems CliTheorems EarlServer Base64
begin

text \<open>
  \<^bold>\<open>A game server and its client\<close>

  The repository holds a server for turn-based games, written in Go: accounts, games, rosters
  of game members, bearer tokens and refresh-token sessions behind an HTTP interface, on top of
  one SQLite file. The program has these layers, each a group of theories; a definition bears
  the name of the Go function it models, with a prefix \<open>store_\<close> for the methods of Store and
  \<open>sql_\<close> for a single SQL statement.

  \<^item> \<^bold>\<open>Prelude, GoStrings\<close>: the shared collections and lemmas (the rules \<open>step_intros\<close> for
    programs in the state monad, lists with a key); strings are lists of bytes with the functions
    of \<open>strings\<close> and \<open>strconv\<close> the code uses.
  \<^item> \<^bold>\<open>GameRules\<close> (internal/gamerules, internal/cerrs): the patterns of codes and handles.
  \<^item> \<^bold>\<open>Schema\<close> (internal/database/migrations.go): the four tables as lists of rows in key order,
    their CHECK, UNIQUE, primary key and REFERENCES constraints \<open>db_ok\<close>, SQLite's GLOB.
  \<^item> \<^bold>\<open>World\<close>: what the code runs in. \<open>world\<close> holds the database, the clock, the random bytes,
    the count of bcrypt comparisons and of triggered shutdowns, and the \<^emph>\<open>schedule\<close>: every
    acquisition of a connection and every statement may fail (\<open>Fault\<close>), and between two
    acquisitions the rest of the server may change the database (\<open>Interfere\<close>). A theorem for all
    schedules holds under all failures and interleavings at that granularity. \<open>obeys r\<close> says that
    all steps of a program move along the preorder \<open>r\<close>.
  \<^item> \<^bold>\<open>StoreAccounts, StoreGames\<close> (internal/store): every method of Store, with its SQL statements
    as functions on the tables, its dynamic SQL builders and its transactions.
    \<^bold>\<open>StoreContract\<close> states what the handlers rely on as the locale \<open>store_contract\<close>;
    \<^bold>\<open>StoreInvariants\<close> interprets it for the schema invariant and for the preorders \<open>keep_inv\<close>
    and \<open>grows\<close>. \<^bold>\<open>StoreSpec, StoreSpecGames\<close> give every method its abstract meaning on a
    database seen as partial maps (\<open>account_of\<close>, \<open>game_of\<close>, \<open>member_of\<close>, \<open>token_of\<close>).
  \<^item> \<^bold>\<open>AuthTokens\<close> (internal/auth: jwt.go, claims.go, context.go, secret.go), \<^bold>\<open>Phrases\<close>
    (internal/phrases, generate.go): tokens, secrets, passphrases. The packages golang-jwt,
    bcrypt, semver and the Unicode tables are the record \<open>libs\<close>, with the documented behaviour as
    the hypotheses \<open>jwt_ok\<close>, \<open>bcrypt_ok\<close> and \<open>jwt_text_ok\<close>.
  \<^item> \<^bold>\<open>ApiTypes\<close> (internal/api), \<^bold>\<open>Handlers\<close> (server.go, sessions.go, accounts.go,
    impersonation.go), \<^bold>\<open>HandlersGames\<close> (games.go): every handler, every refusal, in the state
    monad over \<open>world\<close>. \<^bold>\<open>HandlersContract\<close> lifts the store contract to all handlers;
    \<^bold>\<open>AuthSpec, AuthProperties, GameSpec, GameProperties, Sessions\<close> compute what an undisturbed
    run does; \<^bold>\<open>Faults\<close> treats runs in which calls fail.
  \<^item> \<^bold>\<open>Http\<close> (middleware.go, wiring.go, handlers/auth.go, internal/httputil): the request log,
    request ids, the hidden route, the bearer gate, the strict handler and its error envelopes.
  \<^item> \<^bold>\<open>Migrations, DatabaseFiles\<close> (internal/database): the seven migration scripts on the tables of
    each version, and Create and Open on a file system. The SQLite driver and the migration
    runner are parameters (\<open>sqlite_ok\<close>, \<open>migrate_ok\<close>; \<open>run_migrations\<close> shows that the latter
    has exactly one solution on files of a known version). Beside a database p the driver may
    make, change and remove p-wal, p-shm and p-journal as it likes while a connection is open
    (\<open>aside\<close>); a database node is what SQLite reads at its path, log included.
  \<^item> \<^bold>\<open>Reaper\<close> (cli/reaper.go), \<^bold>\<open>Dotenv\<close> (internal/dotenv and the start of main).
  \<^item> \<^bold>\<open>ServerProcess\<close> (cli/server.go): \<open>resolveJWTSecret\<close>, the start of the server, and the running
    process as the step relation \<open>server_step\<close>, in which the main goroutine, the reaper, the
    listener and the request handlers interleave with signals and shutdown requests. Requests
    begin as long as clients may be connected (\<open>p_connected\<close>), which only \<open>srv.Shutdown\<close> ends.
  \<^item> \<^bold>\<open>CliDatabase\<close> (cli/account.go, game.go, cli.go): the offline verbs on a host, that is a file
    system, the world of the store, an environment and the standard output. \<^bold>\<open>CliContract\<close> carries
    the contract of the store over to the tables inside a database file.
  \<^item> \<^bold>\<open>Earl\<close> (cmd/earl/main.go): the command line client on a machine with files, standard
    streams and a network whose state is open. \<^bold>\<open>EarlServer\<close> puts the modelled server behind it.
  \<^item> \<^bold>\<open>Base64\<close>: the codec inside the vendored documentation bundle, the one JavaScript file of the
    repository, which the server embeds and serves. The bundle is minified; its first module,
    number 67526, is this codec and is modelled completely, the rest is third-party.

  \<^bold>\<open>How the parts interact.\<close> A request enters \<open>RequestLogger\<close>, passes the hidden route and the
  bearer gate into \<open>strictHandler\<close>, which dispatches to a handler; a handler calls methods of the
  store and of the token service; a method acquires a connection of the pool, runs its statements
  on the tables and releases it. The reaper and the handlers share the pool, which the server
  process closes when it stops. The offline verbs open the same file without a server. The client
  sees only the bytes of the exchange.

  \<^bold>\<open>What the theorems show.\<close>
  \<^item> This theory: the schema invariant and the history of the database over any sequence of
    requests under any schedule, and the sweep of the reaper.
  \<^item> GameTheorems: the life cycle of a game, standing, rosters, visibility. SessionTheorems: login,
    rotation of refresh tokens, detection of reuse, logout, change of password. AccountTheorems:
    impersonation, created accounts, inactive accounts. TokenTheorems: the round trip of a token
    through the signed text, failures during a refresh, the list of sessions, and the race of two
    refreshes with one token.
  \<^item> MigrationTheorems: the rebuild of 0006 keeps the data, and files of every version reach the
    schema. DatabaseTheorems: what Create makes and Open accepts.
  \<^item> HttpTheorems: no protected handler runs without a valid token, every answer can be traced,
    and the route that must stay hidden is. ResponseTypes: every answer has a declared status and a
    body of its type, under every schedule.
  \<^item> ProcessTheorems: the pool outlives its users, a stopped server returns, the length of the
    signing key. CliTheorems: no verb damages a file; creating an account offline and logging in
    to a server on that file.
  \<^item> EarlTheorems: the exchanges of one invocation and what happens to the tokens file.
    EarlServer: with a live refresh token, an expired access token does not stop a command.
  \<^item> Base64: agreement with RFC 4648 and the round trip.

  \<^bold>\<open>Bounds.\<close> Words drawn without repetition for a passphrase are drawn again without a bound in
  the code: a \<open>partial_function\<close>, whose missing result is the error \<open>ErrNoReturn\<close>. Random bytes,
  clock readings and schedules are finite lists in \<open>world\<close>; an exhausted list of random bytes is
  the failure of the reader, an exhausted schedule means no further disturbance. The migrations
  run at most seven scripts. After the context of the server process ends it takes at most nine
  steps of its own and one for every request in flight, request accepted and tick of the reaper
  (\<open>remaining\<close> in ProcessTheorems). One invocation of the client makes at most four calls of
  http.Client.Do; what such a call sends to follow redirects is part of the call. No fuel is used.

  \<^bold>\<open>Hypotheses on third-party code.\<close> \<open>jwt_ok\<close>, \<open>jwt_text_ok\<close> (golang-jwt), \<open>bcrypt_ok\<close> (bcrypt),
  \<open>sqlite_ok\<close>, \<open>sqlite_works\<close> (the SQLite driver), \<open>migrate_ok\<close> (the migration runner), \<open>godotenv_ok\<close>
  (godotenv), \<open>routes\<close>, \<open>tokens_codec\<close> (the generated router and encoding/json, between client
  and server). Each property that assumes one is applied at a concrete instance of it.

  \<^bold>\<open>Undisturbed runs.\<close> \<open>quiet w\<close> says that in \<open>w\<close> no call fails and nobody else writes; \<open>current\<close> that
  a database file is at version 7. Where a property is about runs with failures or interference
  it says so.

  \<^bold>\<open>Simplifications.\<close> Row ids and versions are integers without a bound, where the source has int64
  and int32. The scripts of the migrations act without foreign-key actions, so the option that
  turns foreign keys off during 0006 is built into its function and not read by the runner.

  \<^bold>\<open>Not modelled.\<close> The pages of the documentation and the OpenAPI document (docs.go, openapi.go),
  which serve embedded files; the parsing of flags, which a library does; the constant of
  internal/config; the generated router and decoder of openapi.gen.go, whose result is the input
  of \<open>RequestLogger\<close>; content types, header defaults and measured durations; \<open>readBody\<close> of the
  client, which nothing calls.
\<close>

section \<open>Every request, every schedule\<close>

text \<open>C1. Schema invariant. Whatever requests a server serves, and whatever failures and
  interference by others (themselves keeping the invariant) the schedule contains, the database
  satisfies all CHECK, UNIQUE, primary key and REFERENCES constraints afterwards.\<close>

theorem requests_keep_db_ok:
  assumes "db_ok (w_db w)" and "rely keep_inv w" and "run_state (serve_all L s qs) w = (x, w')"
  shows "db_ok (w_db w')"
  using obeysD [OF inv.obeys_serve_all assms(2,3)] assms(1) by (simp add: keep_inv_def)

lemma busy_world_rely: "rely keep_inv busy_world"
  by (auto simp: rely_def busy_world_def keep_inv_def)

definition busy_requests :: "(ctx \<times> request) list" where
  "busy_requests = [(None, Req_Login (Some \<lparr>lr_Username = ''pl@x'', lr_Password = ''plpassword''\<rparr>)),
     (sample_claims 1, Req_CreateGame (Some \<lparr>cgr_Code = ''GAMMA'', cgr_Name = ''G'', cgr_Description = None\<rparr>)),
     (sample_claims 2, Req_AddGameMember 1 (Some \<lparr>amr_AccountId = 1, amr_Handle = None, amr_IsGm = None\<rparr>)),
     (sample_claims 3, Req_Logout None)]"

theorem requests_keep_db_ok_witness:
  "db_ok (w_db (snd (run_state (serve_all sample_libs sample_server busy_requests) busy_world)))"
  by (rule requests_keep_db_ok [OF _ busy_world_rely prod.collapse [symmetric]])
    (simp add: busy_world_def)

text \<open>C2. History. No request ever removes an account, a game or a roster row or changes whom it
  identifies (id, email, code, member), and a game master stays a game master.\<close>

theorem requests_grow:
  assumes "rely grows w" and "run_state (serve_all L s qs) w = (x, w')"
  shows "grows (w_db w) (w_db w')"
  using assms by (rule obeysD [OF hist.obeys_serve_all])

lemma busy_world_rely_grows: "rely grows busy_world"
  by (auto simp: rely_def busy_world_def grows_def extends_refl row_rel_defs)

theorem requests_grow_witness:
  "grows sample_db (w_db (snd (run_state (serve_all sample_libs sample_server busy_requests) busy_world)))"
  using requests_grow [OF busy_world_rely_grows prod.collapse [symmetric]]
  by (simp add: busy_world_def)

fun game_request :: "request \<Rightarrow> bool" where
  "game_request (Req_CreateGame b) = True"
| "game_request (Req_UpdateGame g b) = True"
| "game_request (Req_AddGameMember g b) = True"
| "game_request (Req_UpdateGameMember g a b) = True"
| "game_request q = False"

lemma obeys_game_request:
  assumes "game_request q"
  shows "obeys (\<lambda>d d'. same_accounts d d' \<and> same_tokens d d') (serve L s ctx q)"
  using assms
  by (cases q) (simp_all add: run_handler_def games_only.res_bind games_only.res_ret
      games_only.obeys_CreateGame_handler games_only.obeys_UpdateGame_handler
      games_only.obeys_AddGameMember games_only.obeys_UpdateGameMember)

text \<open>Frame. A request that manages games or rosters touches neither the accounts (so no
  password or role flag) nor the sessions, under any schedule.\<close>

theorem game_requests_frame:
  assumes "game_request q" and "rely (\<lambda>d d'. same_accounts d d' \<and> same_tokens d d') w"
    and "run_state (serve L s ctx q) w = (x, w')"
  shows "accounts (w_db w') = accounts (w_db w) \<and> refresh_tokens (w_db w') = refresh_tokens (w_db w)"
  using obeysD [OF obeys_game_request [OF assms(1)] assms(2,3)]
  by (simp add: same_accounts_def same_tokens_def)

theorem game_requests_frame_witness:
  "accounts (w_db (snd (run_state (serve sample_libs sample_server (sample_claims 2) add_root)
     (sample_world sample_db)))) = accounts sample_db"
  using game_requests_frame [OF _ _ prod.collapse [symmetric], of add_root "sample_world sample_db"
      sample_libs sample_server "sample_claims 2"]
  by (simp add: add_root_def)

end
